(* ===== verification/Prelude.thy ===== *)
theory Prelude
  imports Main "HOL-Library.Word" "HOL-Library.AList"
begin

text \<open>
  Shared vocabulary of the development: instants and durations, the byte strings of Go and the
  functions of package \<open>strings\<close> and \<open>unicode/utf8\<close> the server uses, and generic facts about
  association lists. Nothing here is specific to the server; the components import it.
\<close>

named_theorems entity_defs \<open>definitions of the domain entities' methods\<close>
named_theorems frame_simps \<open>what an operation leaves unchanged\<close>

section \<open>Instants and durations\<close>

text \<open>
  A \<open>time.Time\<close> is an instant in nanoseconds since the Unix epoch, a \<open>time.Duration\<close> a signed
  number of nanoseconds. \<open>Unix()\<close> rounds towards minus infinity, as \<open>div\<close> does.
\<close>

type_synonym time = int
type_synonym duration = int

abbreviation Second :: duration where "Second \<equiv> 1000000000"
abbreviation Minute :: duration where "Minute \<equiv> 60000000000"
abbreviation Hour :: duration where "Hour \<equiv> 3600000000000"

definition unix :: "time \<Rightarrow> int" where
  "unix t = t div Second"

lemma unix_mono: "s \<le> t \<Longrightarrow> unix s \<le> unix t"
  by (simp add: unix_def zdiv_mono1)

lemma unix_add_seconds: "unix (t + n * Second) = unix t + n"
  by (simp add: unix_def)

lemma unix_le_iff_less: "unix t \<le> n \<longleftrightarrow> t < (n + 1) * Second"
  by (auto simp: unix_def div_less_iff_less_mult zle_add1_eq_le [symmetric] simp del: zle_add1_eq_le)

section \<open>Byte strings and runes\<close>

text \<open>
  A Go string is a sequence of bytes, here a \<^typ>\<open>string\<close> (a byte is a \<^typ>\<open>char\<close>).
  \<open>decode_rune\<close> is \<open>utf8.DecodeRuneInString\<close>: the code point at the front and its width, with
  \<open>RuneError\<close> (U+FFFD) and width 1 for an invalid encoding.
\<close>

abbreviation byte_of :: "char \<Rightarrow> nat" where "byte_of c \<equiv> of_char c"

abbreviation RuneError :: nat where "RuneError \<equiv> 65533"

definition cont_byte :: "char \<Rightarrow> bool" where
  "cont_byte c \<longleftrightarrow> 128 \<le> byte_of c \<and> byte_of c \<le> 191"

fun decode_rune :: "string \<Rightarrow> nat \<times> nat" where
  "decode_rune [] = (RuneError, 0)"
| "decode_rune (c # cs) =
     (let b = byte_of c in
      if b < 128 then (b, 1)
      else if 194 \<le> b \<and> b \<le> 223 then
        (case cs of
           c1 # _ \<Rightarrow> if cont_byte c1 then ((b mod 32) * 64 + byte_of c1 mod 64, 2) else (RuneError, 1)
         | [] \<Rightarrow> (RuneError, 1))
      else if 224 \<le> b \<and> b \<le> 239 then
        (case cs of
           c1 # c2 # _ \<Rightarrow>
             if cont_byte c1 \<and> (b = 224 \<longrightarrow> 160 \<le> byte_of c1) \<and> (b = 237 \<longrightarrow> byte_of c1 \<le> 159)
                \<and> cont_byte c2
             then ((b mod 16) * 4096 + (byte_of c1 mod 64) * 64 + byte_of c2 mod 64, 3)
             else (RuneError, 1)
         | _ \<Rightarrow> (RuneError, 1))
      else if 240 \<le> b \<and> b \<le> 244 then
        (case cs of
           c1 # c2 # c3 # _ \<Rightarrow>
             if cont_byte c1 \<and> (b = 240 \<longrightarrow> 144 \<le> byte_of c1) \<and> (b = 244 \<longrightarrow> byte_of c1 \<le> 143)
                \<and> cont_byte c2 \<and> cont_byte c3
             then ((b mod 8) * 262144 + (byte_of c1 mod 64) * 4096 + (byte_of c2 mod 64) * 64
                   + byte_of c3 mod 64, 4)
             else (RuneError, 1)
         | _ \<Rightarrow> (RuneError, 1))
      else (RuneError, 1))"

lemma decode_rune_width_pos: "decode_rune (c # cs) = (r, w) \<Longrightarrow> 0 < w"
  by (auto simp: Let_def split: if_splits list.splits)

lemma decode_rune_ascii: "byte_of c < 128 \<Longrightarrow> decode_rune (c # cs) = (byte_of c, 1)"
  by (simp add: Let_def)

declare decode_rune.simps(2) [simp del]

text \<open>The runes of a string: what \<open>for _, r := range s\<close> visits.\<close>

function runes :: "string \<Rightarrow> nat list" where
  "runes [] = []"
| "runes (c # cs) = (let (r, w) = decode_rune (c # cs) in r # runes (drop w (c # cs)))"
  by pat_completeness auto
termination
  by (relation "measure length") (auto dest!: sym [of "(_, _)"] decode_rune_width_pos)

definition RuneCount :: "string \<Rightarrow> nat" where
  "RuneCount s = length (runes s)"

text \<open>\<open>unicode.IsSpace\<close>: the Latin-1 cases and the \<open>White_Space\<close> table.\<close>

definition IsSpace :: "nat \<Rightarrow> bool" where
  "IsSpace r \<longleftrightarrow> r \<in> {9, 10, 11, 12, 13, 32, 133, 160, 5760, 8232, 8233, 8239, 8287, 12288}
     \<or> (8192 \<le> r \<and> r \<le> 8202)"

text \<open>\<open>strings.Fields\<close>: the maximal runs of non-space runes.\<close>

definition flush :: "string \<Rightarrow> string list \<Rightarrow> string list" where
  "flush cur rest = (if cur = [] then rest else cur # rest)"

function fields_from :: "string \<Rightarrow> string \<Rightarrow> string list" where
  "fields_from cur [] = flush cur []"
| "fields_from cur (c # cs) =
     (let (r, w) = decode_rune (c # cs) in
      if IsSpace r then flush cur (fields_from [] (drop w (c # cs)))
      else fields_from (cur @ take w (c # cs)) (drop w (c # cs)))"
  by pat_completeness auto
termination
  by (relation "measure (\<lambda>(cur, s). length s)") (auto dest!: sym [of "(_, _)"] decode_rune_width_pos)

definition Fields :: "string \<Rightarrow> string list" where
  "Fields s = fields_from [] s"

text \<open>\<open>strings.TrimSpace\<close>: leading runes are decoded forwards, trailing ones backwards.\<close>

function trim_left :: "string \<Rightarrow> string" where
  "trim_left [] = []"
| "trim_left (c # cs) =
     (let (r, w) = decode_rune (c # cs) in
      if IsSpace r then trim_left (drop w (c # cs)) else c # cs)"
  by pat_completeness auto
termination
  by (relation "measure length") (auto dest!: sym [of "(_, _)"] decode_rune_width_pos)

definition decode_last_rune :: "string \<Rightarrow> nat \<times> nat" where
  "decode_last_rune s =
     (let n = length s in
      if n = 0 then (RuneError, 0)
      else if byte_of (s ! (n - 1)) < 128 then (byte_of (s ! (n - 1)), 1)
      else case filter (\<lambda>j. j \<le> n \<and> \<not> cont_byte (s ! (n - j))) [2, 3, 4] of
          [] \<Rightarrow> (RuneError, 1)
        | j # _ \<Rightarrow> (case decode_rune (drop (n - j) s) of
              (r, w) \<Rightarrow> if w = j then (r, w) else (RuneError, 1)))"

lemma decode_last_rune_width_pos: "s \<noteq> [] \<Longrightarrow> decode_last_rune s = (r, w) \<Longrightarrow> 0 < w"
  by (auto simp: decode_last_rune_def Let_def filter_eq_Cons_iff
      split: if_splits list.splits prod.splits)

function trim_right :: "string \<Rightarrow> string" where
  "trim_right s =
     (if s = [] then []
      else let (r, w) = decode_last_rune s in
           if IsSpace r then trim_right (take (length s - w) s) else s)"
  by pat_completeness auto
termination
  by (relation "measure length")
    (auto intro!: diff_less decode_last_rune_width_pos dest!: sym [of "(_, _)"])

declare trim_left.simps(2) [simp del] trim_right.simps [simp del]

definition TrimSpace :: "string \<Rightarrow> string" where
  "TrimSpace s = trim_right (trim_left s)"

lemma TrimSpace_visible:
  assumes "s \<noteq> []" and "byte_of (hd s) < 128" and "\<not> IsSpace (byte_of (hd s))" and "byte_of (last s) < 128" and "\<not> IsSpace (byte_of (last s))"
  shows "TrimSpace s = s"
proof -
  have "trim_left s = s" using assms(1-3) by (cases s) (simp_all add: trim_left.simps decode_rune_ascii)
  moreover have "decode_last_rune s = (byte_of (last s), 1)"
    using assms(1,4) by (simp add: decode_last_rune_def last_conv_nth)
  ultimately show ?thesis using assms(1,5) by (simp add: TrimSpace_def trim_right.simps [of s])
qed

text \<open>\<open>strings.TrimRight(s, "/")\<close>.\<close>

definition TrimRightSlash :: "string \<Rightarrow> string" where
  "TrimRightSlash s = rev (dropWhile (\<lambda>c. c = CHR ''/'') (rev s))"

text \<open>\<open>strings.Split(s, sep)\<close> for a separator of one byte.\<close>

fun Split :: "string \<Rightarrow> char \<Rightarrow> string list" where
  "Split [] sep = [[]]"
| "Split (c # cs) sep =
     (if c = sep then [] # Split cs sep
      else case Split cs sep of [] \<Rightarrow> [[c]] | x # xs \<Rightarrow> (c # x) # xs)"

text \<open>\<open>strings.Join\<close>.\<close>

fun Join :: "string list \<Rightarrow> string \<Rightarrow> string" where
  "Join [] sep = []"
| "Join [x] sep = x"
| "Join (x # y # xs) sep = x @ sep @ Join (y # xs) sep"

text \<open>
  A word of visible ASCII bytes is one field, so joining such words with blanks and splitting the
  result gives them back.
\<close>

definition ascii_word :: "string \<Rightarrow> bool" where
  "ascii_word w \<longleftrightarrow> w \<noteq> [] \<and> (\<forall>c \<in> set w. 32 < byte_of c \<and> byte_of c < 128)"

lemma visible_not_space: "32 < n \<Longrightarrow> n < 128 \<Longrightarrow> \<not> IsSpace n"
  by (auto simp: IsSpace_def)

lemma fields_from_visible:
  "\<forall>c \<in> set w. 32 < byte_of c \<and> byte_of c < 128 \<Longrightarrow>
   fields_from cur (w @ s) = fields_from (cur @ w) s"
  by (induction w arbitrary: cur) (auto simp: decode_rune_ascii visible_not_space)

lemma fields_from_blank: "fields_from cur (CHR '' '' # s) = flush cur (fields_from [] s)"
  by (simp add: decode_rune_ascii IsSpace_def)

declare fields_from.simps(2) [simp del]

lemma fields_from_Join:
  "\<forall>w \<in> set ws. ascii_word w \<Longrightarrow> ws \<noteq> [] \<Longrightarrow> fields_from [] (Join ws '' '') = ws"
proof (induction ws rule: induct_list012)
  case (2 x)
  then show ?case
    using fields_from_visible [of x "[]" "[]"] by (simp add: ascii_word_def flush_def)
next
  case (3 x y xs)
  then have IH: "fields_from [] (Join (y # xs) '' '') = y # xs" by simp
  have "fields_from [] (Join (x # y # xs) '' '') = fields_from x (CHR '' '' # Join (y # xs) '' '')"
    using 3 fields_from_visible [of x "[]" "CHR '' '' # Join (y # xs) '' ''"]
    by (simp add: ascii_word_def)
  also have "\<dots> = x # y # xs"
    using 3 by (simp add: fields_from_blank IH flush_def ascii_word_def)
  finally show ?case .
qed simp

lemma Fields_Join: "\<forall>w \<in> set ws. ascii_word w \<Longrightarrow> Fields (Join ws '' '') = ws"
  by (cases "ws = []") (simp_all add: Fields_def fields_from_Join flush_def)

section \<open>Association lists as Go maps\<close>

text \<open>
  A Go map that is iterated over is an association list with distinct keys; a \<open>range\<close> loop visits
  it in list order, which stands for the unspecified order of the language.
\<close>

definition distinct_keys :: "('k \<times> 'v) list \<Rightarrow> bool" where
  "distinct_keys m \<longleftrightarrow> distinct (map fst m)"

lemma distinct_keys_update: "distinct_keys m \<Longrightarrow> distinct_keys (AList.update k v m)"
  by (simp add: distinct_keys_def distinct_update)

lemma map_of_AList_update: "map_of (AList.update k v m) = (map_of m)(k \<mapsto> v)"
  by (simp add: update_conv')

lemma map_of_map_values:
  "map_of (map (\<lambda>(k, v). (k, f k v)) m) k = map_option (f k) (map_of m k)"
  by (induction m) auto

lemma map_of_Some_in_set: "map_of m k = Some v \<Longrightarrow> (k, v) \<in> set m"
  by (rule map_of_SomeD)

end
