(* ===== verification/Encoding.thy ===== *)
theory Encoding
  imports Prelude
begin

text \<open>
  The encodings of the standard library the server relies on: \<open>hex.EncodeToString\<close> and base64 in
  the padded standard and the unpadded URL alphabet (\<open>encoding/hex\<close>, \<open>encoding/base64\<close>). Bytes are
  \<^typ>\<open>char\<close>s, so \<open>[]byte(s)\<close> is \<open>s\<close> itself. Decoding inverts encoding, so encoding is injective.
\<close>

section \<open>Hexadecimal\<close>

definition hex_digits :: string where
  "hex_digits = ''0123456789abcdef''"

definition hex_EncodeToString :: "string \<Rightarrow> string" where
  "hex_EncodeToString s =
     concat (map (\<lambda>c. [hex_digits ! (byte_of c div 16), hex_digits ! (byte_of c mod 16)]) s)"

lemma length_hex_EncodeToString: "length (hex_EncodeToString s) = 2 * length s"
  by (induction s) (simp_all add: hex_EncodeToString_def)

lemma hex_byte_inj:
  assumes "a < 256" and "b < 256" and "hex_digits ! (a div 16) = hex_digits ! (b div 16)"
    and "hex_digits ! (a mod 16) = hex_digits ! (b mod 16)"
  shows "a = (b :: nat)"
proof -
  have "distinct hex_digits" "length hex_digits = 16" by (simp_all add: hex_digits_def)
  then have "a div 16 = b div 16" "a mod 16 = b mod 16"
    using assms by (auto simp: nth_eq_iff_index_eq)
  then show ?thesis by (metis div_mult_mod_eq)
qed

lemma hex_inj: "hex_EncodeToString s = hex_EncodeToString t \<Longrightarrow> s = t"
proof (induction s arbitrary: t)
  case Nil
  then show ?case by (cases t) (simp_all add: hex_EncodeToString_def)
next
  case (Cons c s)
  then obtain d t' where t: "t = d # t'" by (cases t) (simp_all add: hex_EncodeToString_def)
  have "byte_of c = byte_of d"
    using Cons.prems t by (intro hex_byte_inj) (simp_all add: hex_EncodeToString_def)
  then have "c = d" by simp
  moreover have "hex_EncodeToString s = hex_EncodeToString t'" using Cons.prems t by (simp add: hex_EncodeToString_def)
  ultimately show ?case using Cons.IH t by simp
qed

section \<open>Base64\<close>

text \<open>Three bytes are four sextets; a last group of one or two bytes is zero-extended.\<close>

fun sextets :: "nat list \<Rightarrow> nat list" where
  "sextets [] = []"
| "sextets [a] = [a div 4, (a mod 4) * 16]"
| "sextets [a, b] = [a div 4, (a mod 4) * 16 + b div 16, (b mod 16) * 4]"
| "sextets (a # b # c # r) =
     [a div 4, (a mod 4) * 16 + b div 16, (b mod 16) * 4 + c div 64, c mod 64] @ sextets r"

fun unsextets :: "nat list \<Rightarrow> nat list" where
  "unsextets [] = []"
| "unsextets [x] = []"
| "unsextets [x, y] = [x * 4 + y div 16]"
| "unsextets [x, y, z] = [x * 4 + y div 16, (y mod 16) * 16 + z div 4]"
| "unsextets (x # y # z # w # r) =
     [x * 4 + y div 16, (y mod 16) * 16 + z div 4, (z mod 4) * 64 + w] @ unsextets r"

lemma unsextets_sextets: "\<forall>b \<in> set bs. b < 256 \<Longrightarrow> unsextets (sextets bs) = bs"
  by (induction bs rule: sextets.induct) auto

lemma length_sextets: "length (sextets bs) = (8 * length bs + 5) div 6"
  by (induction bs rule: sextets.induct) auto

lemma sextets_range: "\<forall>b \<in> set bs. b < 256 \<Longrightarrow> \<forall>x \<in> set (sextets bs). x < 64"
  by (induction bs rule: sextets.induct) auto

definition url_alphabet :: string where
  "url_alphabet = ''ABCDEFGHIJKLMNOPQRSTUVWXYZabcdefghijklmnopqrstuvwxyz0123456789-_''"

definition std_alphabet :: string where
  "std_alphabet = ''ABCDEFGHIJKLMNOPQRSTUVWXYZabcdefghijklmnopqrstuvwxyz0123456789+/''"

definition RawURLEncoding_EncodeToString :: "string \<Rightarrow> string" where
  "RawURLEncoding_EncodeToString s = map ((!) url_alphabet) (sextets (map byte_of s))"

lemma length_url_alphabet [simp]: "length url_alphabet = 64"
  by (simp add: url_alphabet_def)

lemma length_std_alphabet [simp]: "length std_alphabet = 64"
  by (simp add: std_alphabet_def)

lemma distinct_url_alphabet: "distinct url_alphabet"
  by (simp add: url_alphabet_def)

lemma distinct_std_alphabet: "distinct std_alphabet"
  by (simp add: std_alphabet_def)

lemma length_RawURLEncoding:
  "length (RawURLEncoding_EncodeToString s) = (8 * length s + 5) div 6"
  by (simp add: RawURLEncoding_EncodeToString_def length_sextets)

lemma bytes_of_range: "\<forall>b \<in> set (map byte_of s). b < 256"
  by auto

lemma map_nth_inj:
  assumes "distinct al" and "\<forall>x \<in> set xs. x < length al" and "\<forall>y \<in> set ys. y < length al"
    and "map ((!) al) xs = map ((!) al) ys"
  shows "xs = ys"
proof (rule map_inj_on [OF assms(4)])
  show "inj_on ((!) al) (set xs \<union> set ys)"
    using assms(1-3) by (auto intro!: inj_onI simp: nth_eq_iff_index_eq)
qed

lemma RawURLEncoding_inj:
  assumes "RawURLEncoding_EncodeToString s = RawURLEncoding_EncodeToString t"
  shows "s = t"
proof -
  have "sextets (map byte_of s) = sextets (map byte_of t)"
    using assms sextets_range [OF bytes_of_range] unfolding RawURLEncoding_EncodeToString_def
    by (intro map_nth_inj [OF distinct_url_alphabet]) auto
  then have "map byte_of s = map byte_of t"
    using unsextets_sextets [OF bytes_of_range] by metis
  then show ?thesis
    by (rule map_injective) (simp add: inj_def)
qed

text \<open>
  The padded standard encoding and its decoder, which skips line breaks, accepts padding only in
  the last group and ignores the surplus bits of that group (\<open>base64.StdEncoding\<close> is not strict).
\<close>

definition std_char :: "nat \<Rightarrow> char" where
  "std_char x = std_alphabet ! x"

fun std_encode :: "nat list \<Rightarrow> string" where
  "std_encode [] = []"
| "std_encode [a] = map std_char (sextets [a]) @ ''==''"
| "std_encode [a, b] = map std_char (sextets [a, b]) @ ''=''"
| "std_encode (a # b # c # r) = map std_char (sextets [a, b, c]) @ std_encode r"

definition StdEncoding_EncodeToString :: "string \<Rightarrow> string" where
  "StdEncoding_EncodeToString s = std_encode (map byte_of s)"

fun index_from :: "nat \<Rightarrow> char \<Rightarrow> string \<Rightarrow> nat option" where
  "index_from n c [] = None"
| "index_from n c (x # xs) = (if x = c then Some n else index_from (Suc n) c xs)"

definition std_index :: "char \<Rightarrow> nat option" where
  "std_index c = index_from 0 c std_alphabet"

fun std_decode :: "string \<Rightarrow> nat list option" where
  "std_decode [] = Some []"
| "std_decode (a # b # c # d # r) =
     (case (std_index a, std_index b) of
        (Some x, Some y) \<Rightarrow>
          (if c = CHR ''='' then
             (if d = CHR ''='' \<and> r = [] then Some (unsextets [x, y]) else None)
           else (case std_index c of
               None \<Rightarrow> None
             | Some z \<Rightarrow>
                 (if d = CHR ''='' then (if r = [] then Some (unsextets [x, y, z]) else None)
                  else (case std_index d of
                      None \<Rightarrow> None
                    | Some w \<Rightarrow> map_option ((@) (unsextets [x, y, z, w])) (std_decode r)))))
      | _ \<Rightarrow> None)"
| "std_decode _ = None"

definition StdEncoding_DecodeString :: "string \<Rightarrow> string option" where
  "StdEncoding_DecodeString s =
     map_option (map char_of) (std_decode (filter (\<lambda>c. c \<noteq> CHR 0x0A \<and> c \<noteq> CHR 0x0D) s))"

lemma index_from_nth: "distinct al \<Longrightarrow> i < length al \<Longrightarrow> index_from n (al ! i) al = Some (n + i)"
proof (induction al arbitrary: n i)
  case (Cons x xs)
  then show ?case by (cases i) auto
qed simp

lemma std_index_char: "x < 64 \<Longrightarrow> std_index (std_char x) = Some x"
  by (simp add: std_index_def std_char_def index_from_nth distinct_std_alphabet)

lemma std_char_alphabet: "x < 64 \<Longrightarrow> std_char x \<in> set std_alphabet"
  by (simp add: std_char_def)

lemma std_char_not_special:
  "x < 64 \<Longrightarrow> std_char x \<noteq> CHR ''='' \<and> std_char x \<noteq> CHR 0x0A \<and> std_char x \<noteq> CHR 0x0D"
  by (drule std_char_alphabet) (auto simp: std_alphabet_def)

lemma std_decode_encode: "\<forall>b \<in> set bs. b < 256 \<Longrightarrow> std_decode (std_encode bs) = Some bs"
  by (induction bs rule: std_encode.induct) (auto simp: std_index_char std_char_not_special)

lemma std_encode_no_break:
  "\<forall>b \<in> set bs. b < 256 \<Longrightarrow>
   filter (\<lambda>c. c \<noteq> CHR 0x0A \<and> c \<noteq> CHR 0x0D) (std_encode bs) = std_encode bs"
  by (induction bs rule: std_encode.induct) (auto simp: std_char_not_special)

lemma StdEncoding_round_trip: "StdEncoding_DecodeString (StdEncoding_EncodeToString s) = Some s"
  by (simp add: StdEncoding_DecodeString_def StdEncoding_EncodeToString_def
      std_encode_no_break std_decode_encode bytes_of_range comp_def)

text \<open>
  The decoder of the unpadded URL alphabet: line breaks are skipped, a last group of a single character is an error, surplus bits of the last
  group are ignored.
\<close>

definition url_index :: "char \<Rightarrow> nat option" where
  "url_index c = index_from 0 c url_alphabet"

fun url_decode :: "string \<Rightarrow> nat list option" where
  "url_decode [] = Some []"
| "url_decode [a] = None"
| "url_decode [a, b] = (case (url_index a, url_index b) of (Some x, Some y) \<Rightarrow> Some (unsextets [x, y]) | _ \<Rightarrow> None)"
| "url_decode [a, b, c] =
     (case (url_index a, url_index b, url_index c) of (Some x, Some y, Some z) \<Rightarrow> Some (unsextets [x, y, z]) | _ \<Rightarrow> None)"
| "url_decode (a # b # c # d # r) =
     (case (url_index a, url_index b, url_index c, url_index d) of
        (Some x, Some y, Some z, Some w) \<Rightarrow> map_option ((@) (unsextets [x, y, z, w])) (url_decode r)
      | _ \<Rightarrow> None)"

definition RawURLEncoding_DecodeString :: "string \<Rightarrow> string option" where
  "RawURLEncoding_DecodeString s =
     map_option (map char_of) (url_decode (filter (\<lambda>c. c \<noteq> CHR 0x0A \<and> c \<noteq> CHR 0x0D) s))"

lemma url_index_nth: "x < 64 \<Longrightarrow> url_index (url_alphabet ! x) = Some x"
  by (simp add: url_index_def index_from_nth distinct_url_alphabet)

lemma url_decode_sextets: "\<forall>b \<in> set bs. b < 256 \<Longrightarrow> url_decode (map ((!) url_alphabet) (sextets bs)) = Some bs"
  by (induction bs rule: sextets.induct) (auto simp: url_index_nth)

lemma url_char_not_break: "x < 64 \<Longrightarrow> url_alphabet ! x \<noteq> CHR 0x0A \<and> url_alphabet ! x \<noteq> CHR 0x0D"
proof -
  assume "x < 64"
  then have "url_alphabet ! x \<in> set url_alphabet" by simp
  then show ?thesis by (auto simp: url_alphabet_def)
qed

lemma RawURLEncoding_round_trip: "RawURLEncoding_DecodeString (RawURLEncoding_EncodeToString s) = Some s"
proof -
  have "\<forall>x \<in> set (sextets (map byte_of s)). x < 64" by (rule sextets_range [OF bytes_of_range])
  then have "filter (\<lambda>c. c \<noteq> CHR 0x0A \<and> c \<noteq> CHR 0x0D) (RawURLEncoding_EncodeToString s) = RawURLEncoding_EncodeToString s"
    unfolding RawURLEncoding_EncodeToString_def by (intro filter_True) (auto dest: url_char_not_break)
  then show ?thesis
    unfolding RawURLEncoding_DecodeString_def
    by (simp add: RawURLEncoding_EncodeToString_def url_decode_sextets [OF bytes_of_range] comp_def)
qed

end
