(* ===== verification/Errors.thy ===== *)
theory Errors
  imports Prelude
begin

text \<open>
  Errors as values: the sentinels and \<open>ErrorStruct\<close> of \<open>core/error\<close>, the wrappers of
  \<open>infrastructure/repository\<close>, the transport error of \<open>core/web/oauth2.go\<close>, and the error codes,
  constructors and HTTP/OAuth2 tables of \<open>modules/auth/errors\<close>.
\<close>

section \<open>Error values\<close>

type_synonym ErrCode = int

datatype go_error =
    ErrNotFound
  | ErrConflict
  | ErrText string                      \<comment> \<open>\<open>errors.New\<close>, \<open>fmt.Errorf\<close> without a wrapped cause\<close>
  | ErrPanic string                     \<comment> \<open>a panic, as \<open>Registry.Dispatch\<close> reports it\<close>
  | ErrorStruct ErrCode int go_error    \<comment> \<open>code, HTTP status (0: unset), cause\<close>
  | HTTPError ErrCode int go_error      \<comment> \<open>\<open>autherrors.HTTPError\<close>\<close>
  | OAuth2Err int string string         \<comment> \<open>\<open>web.oauth2Error\<close>: status, code, description\<close>
  | ErrWriteFailed go_error
  | ErrReadFailed go_error
  | ErrInitFailed go_error
  | ErrInvalidField go_error

definition NewErrorStruct :: "ErrCode \<Rightarrow> int \<Rightarrow> go_error \<Rightarrow> go_error" where
  "NewErrorStruct code httpStatus err = ErrorStruct code httpStatus err"

definition New :: "ErrCode \<Rightarrow> int \<Rightarrow> string \<Rightarrow> go_error" where
  "New code status msg = NewErrorStruct code status (ErrText msg)"

definition NewMsg :: "ErrCode \<Rightarrow> string \<Rightarrow> go_error" where
  "NewMsg code msg = ErrorStruct code 0 (ErrText msg)"

definition NewErr :: "ErrCode \<Rightarrow> go_error \<Rightarrow> go_error" where
  "NewErr code err = ErrorStruct code 0 err"

text \<open>\<open>Error()\<close>.\<close>

fun err_Error :: "go_error \<Rightarrow> string" where
  "err_Error ErrNotFound = ''not found''"
| "err_Error ErrConflict = ''conflict''"
| "err_Error (ErrText m) = m"
| "err_Error (ErrPanic m) = ''panic in registry: '' @ m"
| "err_Error (ErrorStruct c h e) = err_Error e"
| "err_Error (HTTPError c h e) = err_Error e"
| "err_Error (OAuth2Err s c d) = d"
| "err_Error (ErrWriteFailed e) = ''repository: write failed: '' @ err_Error e"
| "err_Error (ErrReadFailed e) = ''repository: read failed: '' @ err_Error e"
| "err_Error (ErrInitFailed e) = ''repository: init failed: '' @ err_Error e"
| "err_Error (ErrInvalidField e) = ''repository: invalid field: '' @ err_Error e"

text \<open>\<open>Unwrap()\<close>, and \<open>errors.Is\<close> against a sentinel: the chain of causes is searched.\<close>

fun err_Unwrap :: "go_error \<Rightarrow> go_error option" where
  "err_Unwrap (ErrorStruct c h e) = Some e"
| "err_Unwrap (HTTPError c h e) = Some e"
| "err_Unwrap (ErrWriteFailed e) = Some e"
| "err_Unwrap (ErrReadFailed e) = Some e"
| "err_Unwrap (ErrInitFailed e) = Some e"
| "err_Unwrap (ErrInvalidField e) = Some e"
| "err_Unwrap _ = None"

fun errors_Is :: "go_error \<Rightarrow> go_error \<Rightarrow> bool" where
  "errors_Is (ErrorStruct c h e) t = (ErrorStruct c h e = t \<or> errors_Is e t)"
| "errors_Is (HTTPError c h e) t = (HTTPError c h e = t \<or> errors_Is e t)"
| "errors_Is (ErrWriteFailed e) t = (ErrWriteFailed e = t \<or> errors_Is e t)"
| "errors_Is (ErrReadFailed e) t = (ErrReadFailed e = t \<or> errors_Is e t)"
| "errors_Is (ErrInitFailed e) t = (ErrInitFailed e = t \<or> errors_Is e t)"
| "errors_Is (ErrInvalidField e) t = (ErrInvalidField e = t \<or> errors_Is e t)"
| "errors_Is e t = (e = t)"

lemma errors_Is_refl [simp]: "errors_Is e e"
  by (cases e) auto

text \<open>\<open>Code()\<close>, where the dynamic type has one (\<open>coreerror.Error\<close>).\<close>

fun err_Code :: "go_error \<Rightarrow> ErrCode option" where
  "err_Code (ErrorStruct c h e) = Some c"
| "err_Code (HTTPError c h e) = Some c"
| "err_Code (OAuth2Err s c d) = Some (if s = 401 then 40001 else 40003)"
| "err_Code _ = None"

text \<open>\<open>HTTPStatus()\<close>, where the dynamic type has one.\<close>

fun err_HTTPStatus :: "go_error \<Rightarrow> int option" where
  "err_HTTPStatus (ErrorStruct c h e) = Some h"
| "err_HTTPStatus (HTTPError c h e) = Some h"
| "err_HTTPStatus (OAuth2Err s c d) = Some s"
| "err_HTTPStatus _ = None"

text \<open>\<open>errors.As(err, &e)\<close> for \<open>coreerror.Error\<close>: the first error of the chain with a code.\<close>

fun errors_As_Code :: "go_error \<Rightarrow> ErrCode option" where
  "errors_As_Code (ErrWriteFailed e) = errors_As_Code e"
| "errors_As_Code (ErrReadFailed e) = errors_As_Code e"
| "errors_As_Code (ErrInitFailed e) = errors_As_Code e"
| "errors_As_Code (ErrInvalidField e) = errors_As_Code e"
| "errors_As_Code e = err_Code e"

text \<open>The type assertion \<open>err.(*coreerror.ErrorStruct)\<close>.\<close>

fun is_ErrorStruct :: "go_error \<Rightarrow> bool" where
  "is_ErrorStruct (ErrorStruct c h e) = True"
| "is_ErrorStruct _ = False"

section \<open>Codes and constructors of the auth module\<close>

abbreviation Unauthorized :: ErrCode where "Unauthorized \<equiv> 40001"
abbreviation Forbidden :: ErrCode where "Forbidden \<equiv> 40002"
abbreviation BadRequest :: ErrCode where "BadRequest \<equiv> 40003"
abbreviation NotFound :: ErrCode where "NotFound \<equiv> 40004"
abbreviation Internal :: ErrCode where "Internal \<equiv> 50001"
abbreviation InvalidArguments :: ErrCode where "InvalidArguments \<equiv> 10001"
abbreviation InvalidToken :: ErrCode where "InvalidToken \<equiv> 10002"
abbreviation InvalidRefreshToken :: ErrCode where "InvalidRefreshToken \<equiv> 10003"
abbreviation GenRandFailed :: ErrCode where "GenRandFailed \<equiv> 10004"
abbreviation InvalidEmailOrPassword :: ErrCode where "InvalidEmailOrPassword \<equiv> 10005"
abbreviation GenTokenFailed :: ErrCode where "GenTokenFailed \<equiv> 10006"
abbreviation GenRefreshTokenFailed :: ErrCode where "GenRefreshTokenFailed \<equiv> 10007"
abbreviation UpdateProfileFailed :: ErrCode where "UpdateProfileFailed \<equiv> 10008"
abbreviation EmailDuplicated :: ErrCode where "EmailDuplicated \<equiv> 10009"
abbreviation CreateUserFailed :: ErrCode where "CreateUserFailed \<equiv> 10010"
abbreviation AuthCodeNotFound :: ErrCode where "AuthCodeNotFound \<equiv> 10012"
abbreviation UnsupportedResponseType :: ErrCode where "UnsupportedResponseType \<equiv> 10013"
abbreviation UnsupportedGrantType :: ErrCode where "UnsupportedGrantType \<equiv> 10014"
abbreviation PasswordResetTokenExpired :: ErrCode where "PasswordResetTokenExpired \<equiv> 10015"
abbreviation PasswordResetTokenNotFound :: ErrCode where "PasswordResetTokenNotFound \<equiv> 10016"
abbreviation WeakPassword :: ErrCode where "WeakPassword \<equiv> 10017"
abbreviation MaxLoginAttemptsExceeded :: ErrCode where "MaxLoginAttemptsExceeded \<equiv> 10018"
abbreviation AuthCodeCreateFailed :: ErrCode where "AuthCodeCreateFailed \<equiv> 10019"
abbreviation UnsupportedScope :: ErrCode where "UnsupportedScope \<equiv> 10020"
abbreviation InvalidAuthRequest :: ErrCode where "InvalidAuthRequest \<equiv> 10021"
abbreviation ResetPasswordFailed :: ErrCode where "ResetPasswordFailed \<equiv> 10022"
abbreviation InvalidClient :: ErrCode where "InvalidClient \<equiv> 10023"
abbreviation InvalidGrant :: ErrCode where "InvalidGrant \<equiv> 10024"

definition NewErrInvalidEmailOrPassword :: go_error where
  "NewErrInvalidEmailOrPassword = NewMsg InvalidEmailOrPassword ''invalid email or password''"
definition NewErrInvalidUserArguments :: "go_error \<Rightarrow> go_error" where
  "NewErrInvalidUserArguments err = NewErr InvalidArguments err"
definition NewErrInvalidToken :: go_error where
  "NewErrInvalidToken = NewMsg InvalidToken ''invalid token''"
definition NewErrInvalidRefreshToken :: go_error where
  "NewErrInvalidRefreshToken = NewMsg InvalidRefreshToken ''invalid refresh token''"
definition NewErrCreateUser :: "go_error \<Rightarrow> go_error" where
  "NewErrCreateUser err = NewMsg CreateUserFailed ''create user failed''"
definition NewErrEmailDuplicated :: go_error where
  "NewErrEmailDuplicated = NewMsg EmailDuplicated ''email already exists''"
definition NewErrUpdateProfile :: "go_error \<Rightarrow> go_error" where
  "NewErrUpdateProfile err = NewMsg UpdateProfileFailed ''update profile failed''"
definition NewErrUpdateProfileFindFailed :: "go_error \<Rightarrow> go_error" where
  "NewErrUpdateProfileFindFailed err = NewErr UpdateProfileFailed err"
definition NewErrAuthCodeNotFound :: go_error where
  "NewErrAuthCodeNotFound = NewMsg AuthCodeNotFound ''auth code not found''"
definition NewErrPasswordResetTokenExpired :: go_error where
  "NewErrPasswordResetTokenExpired = NewMsg PasswordResetTokenExpired ''password reset token has expired''"
definition NewErrPasswordResetTokenNotFound :: go_error where
  "NewErrPasswordResetTokenNotFound = NewMsg PasswordResetTokenNotFound ''password reset token not found''"
definition NewErrInvalidRedirectURI :: go_error where
  "NewErrInvalidRedirectURI = NewMsg InvalidArguments ''client redirect_uri not valid''"
definition NewErrInvalidSession :: go_error where
  "NewErrInvalidSession = NewMsg InvalidArguments ''invalid session''"
definition NewErrMaxLoginAttemptsExceeded :: go_error where
  "NewErrMaxLoginAttemptsExceeded = NewMsg MaxLoginAttemptsExceeded ''maximum login attempts exceeded''"
definition NewErrAuthCodeCreateFailed :: "go_error \<Rightarrow> go_error" where
  "NewErrAuthCodeCreateFailed err = NewMsg AuthCodeCreateFailed ''failed to create authorization code''"
definition NewErrInvalidGrant :: go_error where
  "NewErrInvalidGrant = NewMsg InvalidGrant ''invalid grant''"
definition NewErrInvalidClient :: go_error where
  "NewErrInvalidClient = NewMsg InvalidClient ''invalid_client''"
definition NewErrGenRefreshTokenFailed :: "go_error \<Rightarrow> go_error" where
  "NewErrGenRefreshTokenFailed err = NewErr GenRefreshTokenFailed err"
definition NewErrWeakPassword :: "go_error \<Rightarrow> go_error" where
  "NewErrWeakPassword err = NewErr WeakPassword err"
definition NewErrResetPasswordFailed :: "go_error \<Rightarrow> go_error" where
  "NewErrResetPasswordFailed err = NewMsg ResetPasswordFailed ''reset password failed''"

lemmas autherror_defs =
  NewMsg_def NewErr_def New_def NewErrorStruct_def
  NewErrInvalidEmailOrPassword_def NewErrInvalidUserArguments_def NewErrInvalidToken_def
  NewErrInvalidRefreshToken_def NewErrCreateUser_def NewErrEmailDuplicated_def
  NewErrUpdateProfile_def NewErrUpdateProfileFindFailed_def NewErrAuthCodeNotFound_def
  NewErrPasswordResetTokenExpired_def NewErrPasswordResetTokenNotFound_def
  NewErrInvalidRedirectURI_def NewErrInvalidSession_def NewErrMaxLoginAttemptsExceeded_def
  NewErrAuthCodeCreateFailed_def NewErrInvalidGrant_def NewErrInvalidClient_def
  NewErrGenRefreshTokenFailed_def NewErrWeakPassword_def NewErrResetPasswordFailed_def

section \<open>The code registry\<close>

abbreviation OAuth2InvalidRequest :: string where "OAuth2InvalidRequest \<equiv> ''invalid_request''"
abbreviation OAuth2InvalidClient :: string where "OAuth2InvalidClient \<equiv> ''invalid_client''"
abbreviation OAuth2InvalidGrant :: string where "OAuth2InvalidGrant \<equiv> ''invalid_grant''"
abbreviation OAuth2UnsupportedGrantType :: string where "OAuth2UnsupportedGrantType \<equiv> ''unsupported_grant_type''"
abbreviation OAuth2UnsupportedResponseType :: string where "OAuth2UnsupportedResponseType \<equiv> ''unsupported_response_type''"
abbreviation OAuth2InvalidScope :: string where "OAuth2InvalidScope \<equiv> ''invalid_scope''"
abbreviation OAuth2ServerError :: string where "OAuth2ServerError \<equiv> ''server_error''"

definition codeRegistry :: "(ErrCode \<times> int \<times> string) list" where
  "codeRegistry =
     [(InvalidArguments, 400, OAuth2InvalidRequest),
      (InvalidAuthRequest, 400, OAuth2InvalidRequest),
      (WeakPassword, 400, OAuth2InvalidRequest),
      (UnsupportedResponseType, 400, OAuth2UnsupportedResponseType),
      (UnsupportedGrantType, 400, OAuth2UnsupportedGrantType),
      (UnsupportedScope, 400, OAuth2InvalidScope),
      (MaxLoginAttemptsExceeded, 400, OAuth2InvalidGrant),
      (AuthCodeNotFound, 400, OAuth2InvalidGrant),
      (InvalidGrant, 400, OAuth2InvalidGrant),
      (InvalidToken, 401, OAuth2InvalidGrant),
      (InvalidRefreshToken, 401, OAuth2InvalidGrant),
      (InvalidEmailOrPassword, 401, OAuth2InvalidGrant),
      (InvalidClient, 401, OAuth2InvalidClient),
      (PasswordResetTokenExpired, 401, OAuth2InvalidGrant),
      (PasswordResetTokenNotFound, 404, OAuth2InvalidRequest),
      (EmailDuplicated, 409, OAuth2InvalidRequest)]"

definition serverErrorCodes :: "ErrCode list" where
  "serverErrorCodes =
     [GenRandFailed, GenTokenFailed, GenRefreshTokenFailed, AuthCodeCreateFailed,
      CreateUserFailed, UpdateProfileFailed, ResetPasswordFailed]"

definition HTTPStatusFor :: "ErrCode \<Rightarrow> int" where
  "HTTPStatusFor code =
     (case map_of codeRegistry code of Some (status, oauth2) \<Rightarrow> status | None \<Rightarrow> 500)"

definition OAuth2CodeFor :: "ErrCode \<Rightarrow> string" where
  "OAuth2CodeFor code =
     (case map_of codeRegistry code of
        Some (status, oauth2) \<Rightarrow>
          if oauth2 \<noteq> [] then oauth2
          else if code \<in> set serverErrorCodes then OAuth2ServerError else OAuth2InvalidRequest
      | None \<Rightarrow> if code \<in> set serverErrorCodes then OAuth2ServerError else OAuth2InvalidRequest)"

text \<open>\<open>Module.MapHTTPError\<close>: what the web layer receives for an error of a use case.\<close>

definition MapHTTPError :: "go_error option \<Rightarrow> go_error option" where
  "MapHTTPError err =
     (case err of
        None \<Rightarrow> None
      | Some e \<Rightarrow>
          (case errors_As_Code e of
             None \<Rightarrow> Some e
           | Some code \<Rightarrow>
               (case err_HTTPStatus e of
                  Some h \<Rightarrow> if h \<noteq> 0 then Some (HTTPError code h e)
                            else Some (HTTPError code (HTTPStatusFor code) e)
                | None \<Rightarrow> Some (HTTPError code (HTTPStatusFor code) e))))"

end
