(* ===== verification/Env.thy ===== *)
theory Env
  imports Encoding Errors
begin

text \<open>
  What the server reads from outside: the clock, fresh UUIDs, random bytes and the outcome of file
  writes, threaded as an explicit state \<open>env\<close>; and the third-party and cryptographic functions it
  calls, collected as the parameter record \<open>prims\<close>. \<open>core/random\<close> is modelled here.
\<close>

section \<open>Parameters: code outside the repository\<close>

text \<open>
  \<open>net/url\<close> enters through the parts of a URL the server inspects or rewrites. \<open>google/uuid\<close>,
  \<open>x/crypto/bcrypt\<close>, the validator's \<open>uuid\<close> tag, SHA-256, the Unicode tables and \<open>net/url\<close> are
  functions of \<open>prims\<close>; properties name what they need of them as hypotheses. \<open>p_rand k n\<close> is the
  \<open>k\<close>-th read of \<open>n\<close> bytes of \<open>crypto/rand\<close>, which never fails (Go 1.24 and later).
\<close>

record url =
  u_Scheme :: string
  u_Host :: string
  u_Rest :: string
  u_RawQuery :: string
  u_Fragment :: string

type_synonym url_values = "(string \<times> string list) list"

record prims =
  p_uuid :: "nat \<Rightarrow> string"
  p_valid_uuid :: "string \<Rightarrow> bool"
  p_rand :: "nat \<Rightarrow> nat \<Rightarrow> string"
  p_sha256 :: "string \<Rightarrow> string"
  p_bcrypt_Generate :: "nat \<Rightarrow> string \<Rightarrow> string \<Rightarrow> go_error + string"
  p_bcrypt_Compare :: "string \<Rightarrow> string \<Rightarrow> bool"
  p_bcrypt_Cost :: "string \<Rightarrow> nat option"
  p_IsUpper :: "nat \<Rightarrow> bool"
  p_IsLower :: "nat \<Rightarrow> bool"
  p_IsDigit :: "nat \<Rightarrow> bool"
  p_IsPunctOrSymbol :: "nat \<Rightarrow> bool"
  p_ToLower :: "string \<Rightarrow> string"
  p_url_Parse :: "string \<Rightarrow> url option"
  p_url_String :: "url \<Rightarrow> string"
  p_ParseQuery :: "string \<Rightarrow> url_values"
  p_QueryEncode :: "url_values \<Rightarrow> string"

section \<open>The environment\<close>

text \<open>
  \<open>ticks\<close> holds how far the clock advances at each coming reading (nothing once it is used up), so
  successive readings of \<open>time.Now()\<close> differ by arbitrary amounts and never go back. \<open>disk\<close> holds
  the outcomes of the coming file writes (success once it is used up).
\<close>

record env =
  clock :: time
  ticks :: "nat list"
  uuid_ctr :: nat
  rand_ctr :: nat
  disk :: "bool list"

definition now :: "env \<Rightarrow> time \<times> env" where
  "now e = (case ticks e of
       [] \<Rightarrow> (clock e, e)
     | d # ds \<Rightarrow> (clock e + int d, e\<lparr>clock := clock e + int d, ticks := ds\<rparr>))"

definition uuid_NewString :: "prims \<Rightarrow> env \<Rightarrow> string \<times> env" where
  "uuid_NewString p e = (p_uuid p (uuid_ctr e), e\<lparr>uuid_ctr := Suc (uuid_ctr e)\<rparr>)"

definition rand_Read :: "prims \<Rightarrow> nat \<Rightarrow> env \<Rightarrow> string \<times> env" where
  "rand_Read p n e = (p_rand p (rand_ctr e) n, e\<lparr>rand_ctr := Suc (rand_ctr e)\<rparr>)"

definition disk_write :: "env \<Rightarrow> bool \<times> env" where
  "disk_write e = (case disk e of [] \<Rightarrow> (True, e) | b # bs \<Rightarrow> (b, e\<lparr>disk := bs\<rparr>))"

text \<open>The environment only moves forward.\<close>

definition env_le :: "env \<Rightarrow> env \<Rightarrow> bool" where
  "env_le e e' \<longleftrightarrow> clock e \<le> clock e' \<and> uuid_ctr e \<le> uuid_ctr e' \<and> rand_ctr e \<le> rand_ctr e'"

lemma env_le_refl [simp, intro]: "env_le e e"
  by (simp add: env_le_def)

lemma env_le_trans [trans]: "env_le e e' \<Longrightarrow> env_le e' e'' \<Longrightarrow> env_le e e''"
  by (simp add: env_le_def)

lemma env_le_trans3: "env_le e e' \<Longrightarrow> env_le e' e'' \<Longrightarrow> env_le e'' e3 \<Longrightarrow> env_le e e3"
  by (simp add: env_le_def)

lemma nowD:
  "now e = (t, e') \<Longrightarrow> clock e \<le> t \<and> clock e' = t \<and> uuid_ctr e' = uuid_ctr e
     \<and> rand_ctr e' = rand_ctr e \<and> disk e' = disk e"
  by (auto simp: now_def split: list.splits)

lemma now_le: "now e = (t, e') \<Longrightarrow> env_le e e'"
  by (auto simp: env_le_def dest!: nowD)

lemma uuid_le: "uuid_NewString p e = (s, e') \<Longrightarrow> env_le e e'"
  by (auto simp: uuid_NewString_def env_le_def)

lemma rand_le: "rand_Read p n e = (s, e') \<Longrightarrow> env_le e e'"
  by (auto simp: rand_Read_def env_le_def)

lemma disk_le: "disk_write e = (b, e') \<Longrightarrow> env_le e e'"
  by (auto simp: disk_write_def env_le_def split: list.splits)

lemma disk_write_ok: "disk e = [] \<Longrightarrow> disk_write e = (True, e)"
  by (simp add: disk_write_def)

section \<open>Random tokens (\<open>core/random\<close>)\<close>

definition TokenBytes :: nat where
  "TokenBytes = 32"

definition random_Token :: "prims \<Rightarrow> env \<Rightarrow> (go_error + string) \<times> env" where
  "random_Token p e =
     (let (b, e1) = rand_Read p TokenBytes e
      in (Inr (RawURLEncoding_EncodeToString b), e1))"

lemma random_Token_le: "random_Token p e = (r, e') \<Longrightarrow> env_le e e'"
  by (auto simp: random_Token_def split: prod.splits dest: rand_le)

lemma random_Token_Inr:
  "random_Token p e = (Inr (RawURLEncoding_EncodeToString (p_rand p (rand_ctr e) TokenBytes)),
     e\<lparr>rand_ctr := Suc (rand_ctr e)\<rparr>)"
  by (simp add: random_Token_def rand_Read_def)

text \<open>Two tokens of the server coincide only if the random source repeats itself.\<close>

lemma random_Token_inj:
  assumes "random_Token p e = (Inr s, e1)" and "random_Token p e' = (Inr s, e1')"
  shows "p_rand p (rand_ctr e) TokenBytes = p_rand p (rand_ctr e') TokenBytes"
  using assms by (auto simp: random_Token_Inr dest: RawURLEncoding_inj)

text \<open>\<open>entity.Hash\<close>: the hexadecimal SHA-256 digest under which secrets are stored.\<close>

definition Hash :: "prims \<Rightarrow> string \<Rightarrow> string" where
  "Hash p raw = hex_EncodeToString (p_sha256 p raw)"

end
