(* ===== verification/Scope.thy ===== *)
theory Scope
  imports Env
begin

text \<open>
  Identifiers and scopes: \<open>modules/auth/domain/entity/ids.go\<close> and \<open>scope.go\<close>.
\<close>

type_synonym ClientID = string
type_synonym GrantID = string
type_synonym SessionID = string
type_synonym TenantID = string
type_synonym UserID = string

definition DefaultTenantID :: TenantID where
  "DefaultTenantID = ''default''"

definition NewClientID :: "string \<Rightarrow> go_error + ClientID" where
  "NewClientID i = (if i = [] then Inl (ErrText ''client_id must not be empty'') else Inr i)"

definition NewGrantID :: "prims \<Rightarrow> env \<Rightarrow> GrantID \<times> env" where
  "NewGrantID p e = uuid_NewString p e"

definition NewSessionID :: "prims \<Rightarrow> env \<Rightarrow> SessionID \<times> env" where
  "NewSessionID p e = uuid_NewString p e"

definition NewUserID :: "prims \<Rightarrow> env \<Rightarrow> UserID \<times> env" where
  "NewUserID p e = uuid_NewString p e"

abbreviation ScopeOpenID :: string where "ScopeOpenID \<equiv> ''openid''"

definition SupportedScopes :: "string list" where
  "SupportedScopes = [''openid'', ''email'', ''profile'', ''phone'']"

text \<open>A \<open>Scope\<close> is its list of values; the zero value is the empty list.\<close>

datatype scope = Scope (scope_values: "string list")

fun NewScope_loop :: "string list \<Rightarrow> go_error option" where
  "NewScope_loop [] = None"
| "NewScope_loop (s # ss) =
     (if s \<in> set SupportedScopes then NewScope_loop ss
      else Some (ErrText (''unsupported scope: '' @ s)))"

definition NewScope :: "string list \<Rightarrow> go_error + scope" where
  "NewScope values =
     (if values = [] then Inl (ErrText ''scope must not be empty'')
      else case NewScope_loop values of Some err \<Rightarrow> Inl err | None \<Rightarrow> Inr (Scope values))"

definition scope_String :: "scope \<Rightarrow> string" where
  "scope_String s = Join (scope_values s) '' ''"

definition scope_Contains :: "scope \<Rightarrow> string \<Rightarrow> bool" where
  "scope_Contains s v \<longleftrightarrow> v \<in> set (scope_values s)"

definition scope_IsEmpty :: "scope \<Rightarrow> bool" where
  "scope_IsEmpty s \<longleftrightarrow> scope_values s = []"

text \<open>
  The JSON form is the joined string; reading it back splits and revalidates it
  (\<open>MarshalJSON\<close>, \<open>UnmarshalJSON\<close>).
\<close>

definition scope_MarshalJSON :: "scope \<Rightarrow> string" where
  "scope_MarshalJSON s = scope_String s"

definition scope_UnmarshalJSON :: "string \<Rightarrow> go_error + scope" where
  "scope_UnmarshalJSON raw = NewScope (Fields raw)"

text \<open>A well-formed scope: what \<open>NewScope\<close> accepts.\<close>

definition scope_ok :: "scope \<Rightarrow> bool" where
  "scope_ok s \<longleftrightarrow> scope_values s \<noteq> [] \<and> set (scope_values s) \<subseteq> set SupportedScopes"

lemma NewScope_loop_None: "NewScope_loop vs = None \<longleftrightarrow> set vs \<subseteq> set SupportedScopes"
  by (induction vs) auto

lemma NewScope_Inr: "NewScope vs = Inr s \<longleftrightarrow> s = Scope vs \<and> scope_ok (Scope vs)"
  by (auto simp: NewScope_def scope_ok_def NewScope_loop_None [symmetric] split: option.splits)

lemma supported_ascii: "w \<in> set SupportedScopes \<Longrightarrow> ascii_word w"
  by (auto simp: SupportedScopes_def ascii_word_def)

lemma scope_String_fields: "scope_ok s \<Longrightarrow> Fields (scope_String s) = scope_values s"
  by (auto simp: scope_String_def scope_ok_def intro!: Fields_Join supported_ascii)

text \<open>Every scope the server accepts survives its textual form, in storage and in the cache.\<close>

lemma scope_round_trip: "scope_ok s \<Longrightarrow> NewScope (Fields (scope_String s)) = Inr s"
  by (simp add: scope_String_fields NewScope_Inr)

lemma scope_json_round_trip: "scope_ok s \<Longrightarrow> scope_UnmarshalJSON (scope_MarshalJSON s) = Inr s"
  by (simp add: scope_UnmarshalJSON_def scope_MarshalJSON_def scope_round_trip)

lemma scope_Unmarshal_ok: "scope_UnmarshalJSON raw = Inr s \<Longrightarrow> scope_ok s"
  by (simp add: scope_UnmarshalJSON_def NewScope_Inr)

end
