(* ===== verification/Authz.thy ===== *)
theory Authz
  imports Scope
begin

text \<open>
  The authorization request a browser session holds before sign-in and the authorization code it is
  exchanged for: \<open>modules/auth/domain/entity/auth_request.go\<close>, \<open>auth_code.go\<close>, and the
  \<open>redirect_uri\<close> tag of \<open>core/validator/validator.go\<close>.
\<close>

section \<open>Authorization requests\<close>

record authorize_request =
  AR_ID :: SessionID
  AR_CreatedAt :: time
  AR_CSRFToken :: string
  AR_ClientID :: ClientID
  AR_RedirectURI :: string
  AR_Scope :: scope
  AR_State :: "string option"
  AR_Nonce :: "string option"
  AR_CodeChallenge :: "string option"
  AR_CodeChallengeMethod :: "string option"
  AR_FailedAttempts :: int

record authorize_request_args =
  ARA_ClientID :: string
  ARA_RedirectURI :: string
  ARA_Scope :: string
  ARA_State :: "string option"
  ARA_Nonce :: "string option"
  ARA_CodeChallenge :: "string option"
  ARA_CodeChallengeMethod :: "string option"

definition AuthorizeRequestTTL :: duration where "AuthorizeRequestTTL = 10 * Minute"
abbreviation CodeChallengeMethodS256 :: string where "CodeChallengeMethodS256 \<equiv> ''S256''"
definition maxFailedAttempts :: int where "maxFailedAttempts = 3"

text \<open>The zero \<open>time.Time\<close>, midnight of 1 January of the year 1.\<close>

definition zero_time :: time where "zero_time = -62135596800 * Second"

definition redirectURIValidation :: "prims \<Rightarrow> string \<Rightarrow> bool" where
  "redirectURIValidation p raw =
     (case p_url_Parse p raw of
        None \<Rightarrow> False
      | Some u \<Rightarrow> u_Scheme u \<noteq> [] \<and> u_Host u \<noteq> [] \<and> u_Fragment u = [])"

text \<open>
  \<open>ValidateStruct\<close> on an authorization request, tag by tag in field order. On a pointer field
  \<open>omitempty\<close> skips nil and nothing else; \<open>len=43\<close> counts runes; \<open>required_with\<close> asks for the method
  when a challenge is given.
\<close>

definition authorize_request_tags :: "prims \<Rightarrow> authorize_request \<Rightarrow> bool" where
  "authorize_request_tags p s \<longleftrightarrow>
     AR_ID s \<noteq> [] \<and> p_valid_uuid p (AR_ID s)
     \<and> AR_CreatedAt s \<noteq> zero_time
     \<and> AR_CSRFToken s \<noteq> []
     \<and> AR_ClientID s \<noteq> []
     \<and> AR_RedirectURI s \<noteq> [] \<and> redirectURIValidation p (AR_RedirectURI s)
     \<and> (case AR_CodeChallenge s of None \<Rightarrow> True | Some c \<Rightarrow> RuneCount c = 43)
     \<and> (case AR_CodeChallengeMethod s of
          None \<Rightarrow> AR_CodeChallenge s = None
        | Some m \<Rightarrow> m = CodeChallengeMethodS256)"

definition authorize_request_Validate :: "prims \<Rightarrow> authorize_request \<Rightarrow> go_error option" where
  "authorize_request_Validate p s =
     (if scope_IsEmpty (AR_Scope s) then Some (ErrText ''scope is required'')
      else if \<not> scope_Contains (AR_Scope s) ScopeOpenID then Some (ErrText ''scope must include openid'')
      else if authorize_request_tags p s then None
      else Some (ErrText ''validation failed''))"

definition NewAuthorizeRequest ::
  "prims \<Rightarrow> authorize_request_args \<Rightarrow> env \<Rightarrow> (go_error + authorize_request) \<times> env" where
  "NewAuthorizeRequest p args e =
     (case NewClientID (ARA_ClientID args) of
        Inl err \<Rightarrow> (Inl err, e)
      | Inr clientID \<Rightarrow>
          (case NewScope (Fields (ARA_Scope args)) of
             Inl err \<Rightarrow> (Inl err, e)
           | Inr scope \<Rightarrow>
               (case random_Token p e of
                  (Inl err, e1) \<Rightarrow> (Inl err, e1)
                | (Inr csrfToken, e1) \<Rightarrow>
                    let (i, e2) = NewSessionID p e1;
                        (t, e3) = now e2;
                        s = \<lparr>AR_ID = i, AR_CreatedAt = t, AR_CSRFToken = csrfToken,
                             AR_ClientID = clientID, AR_RedirectURI = ARA_RedirectURI args,
                             AR_Scope = scope, AR_State = ARA_State args, AR_Nonce = ARA_Nonce args,
                             AR_CodeChallenge = ARA_CodeChallenge args,
                             AR_CodeChallengeMethod = ARA_CodeChallengeMethod args,
                             AR_FailedAttempts = 0\<rparr> in
                    (case authorize_request_Validate p s of
                       Some err \<Rightarrow> (Inl err, e3)
                     | None \<Rightarrow> (Inr s, e3)))))"

definition RequestFail :: "authorize_request \<Rightarrow> authorize_request" where
  "RequestFail s = s\<lparr>AR_FailedAttempts := AR_FailedAttempts s + 1\<rparr>"

definition request_IsLockedOut :: "authorize_request \<Rightarrow> bool" where
  "request_IsLockedOut s \<longleftrightarrow> AR_FailedAttempts s \<ge> maxFailedAttempts"

definition values_Set :: "string \<Rightarrow> string \<Rightarrow> url_values \<Rightarrow> url_values" where
  "values_Set k v q = AList.update k [v] q"

text \<open>
  \<open>BuildRedirectURI\<close> ignores the error of \<open>url.Parse\<close>; a request that passed validation has a URI
  that parses. A nil URL would panic.
\<close>

definition BuildRedirectURI :: "prims \<Rightarrow> authorize_request \<Rightarrow> string \<Rightarrow> go_error + string" where
  "BuildRedirectURI p s code =
     (case p_url_Parse p (AR_RedirectURI s) of
        None \<Rightarrow> Inl (ErrPanic ''nil pointer dereference'')
      | Some u \<Rightarrow>
          let q1 = values_Set ''code'' code (p_ParseQuery p (u_RawQuery u));
              q2 = (case AR_State s of None \<Rightarrow> q1 | Some st \<Rightarrow> values_Set ''state'' st q1) in
          Inr (p_url_String p (u\<lparr>u_RawQuery := p_QueryEncode p q2\<rparr>)))"

section \<open>Authorization codes\<close>

record auth_code =
  AC_Code :: string
  AC_UserID :: UserID
  AC_ClientID :: "ClientID option"
  AC_RedirectURI :: string
  AC_Scope :: scope
  AC_Nonce :: "string option"
  AC_CodeChallenge :: "string option"
  AC_CodeChallengeMethod :: "string option"
  AC_ExpiresAt :: time

record auth_code_args =
  ACA_UserID :: UserID
  ACA_ClientID :: ClientID
  ACA_RedirectURI :: string
  ACA_Scope :: scope
  ACA_Nonce :: "string option"
  ACA_CodeChallenge :: "string option"
  ACA_CodeChallengeMethod :: "string option"

definition AuthCodeTTL :: duration where "AuthCodeTTL = 5 * Minute"

text \<open>The struct carries no validation tags, so only the scope is checked.\<close>

definition auth_code_Validate :: "auth_code \<Rightarrow> go_error option" where
  "auth_code_Validate a =
     (if scope_IsEmpty (AC_Scope a) then Some (ErrText ''scope is required'') else None)"

definition NewAuthCode :: "prims \<Rightarrow> auth_code_args \<Rightarrow> env \<Rightarrow> (go_error + auth_code) \<times> env" where
  "NewAuthCode p args e =
     (case random_Token p e of
        (Inl err, e1) \<Rightarrow> (Inl err, e1)
      | (Inr code, e1) \<Rightarrow>
          let (t, e2) = now e1;
              a = \<lparr>AC_Code = code, AC_UserID = ACA_UserID args, AC_ClientID = Some (ACA_ClientID args),
                   AC_RedirectURI = ACA_RedirectURI args, AC_Scope = ACA_Scope args,
                   AC_Nonce = ACA_Nonce args, AC_CodeChallenge = ACA_CodeChallenge args,
                   AC_CodeChallengeMethod = ACA_CodeChallengeMethod args,
                   AC_ExpiresAt = t + AuthCodeTTL\<rparr> in
          (case auth_code_Validate a of Some err \<Rightarrow> (Inl err, e2) | None \<Rightarrow> (Inr a, e2)))"

definition auth_code_IsExpired :: "auth_code \<Rightarrow> env \<Rightarrow> bool \<times> env" where
  "auth_code_IsExpired a e = (let (t, e1) = now e in (t > AC_ExpiresAt a, e1))"

definition matchesClient :: "auth_code \<Rightarrow> string \<Rightarrow> go_error + bool" where
  "matchesClient a clientID =
     (case AC_ClientID a of
        None \<Rightarrow> Inl (ErrPanic ''nil pointer dereference'')
      | Some c \<Rightarrow> Inr (c = clientID))"

definition matchesRedirectURI :: "auth_code \<Rightarrow> string \<Rightarrow> bool" where
  "matchesRedirectURI a redirectURI \<longleftrightarrow> AC_RedirectURI a = redirectURI"

definition s256_challenge :: "prims \<Rightarrow> string \<Rightarrow> string" where
  "s256_challenge p verifier = RawURLEncoding_EncodeToString (p_sha256 p verifier)"

definition verifyCodeVerifier :: "prims \<Rightarrow> auth_code \<Rightarrow> string \<Rightarrow> go_error option" where
  "verifyCodeVerifier p a verifier =
     (case AC_CodeChallenge a of
        None \<Rightarrow> None
      | Some challenge \<Rightarrow>
          if verifier = [] then Some (ErrText ''code_verifier required'')
          else let method = (case AC_CodeChallengeMethod a of
                               None \<Rightarrow> CodeChallengeMethodS256 | Some m \<Rightarrow> m) in
            if method \<noteq> CodeChallengeMethodS256 then Some (ErrText ''unsupported code_challenge_method'')
            else if s256_challenge p verifier \<noteq> challenge then Some (ErrText ''code_verifier mismatch'')
            else None)"

text \<open>The conjunction is evaluated from the left and stops at the first failing part.\<close>

definition auth_code_IsValid ::
  "prims \<Rightarrow> auth_code \<Rightarrow> string \<Rightarrow> string \<Rightarrow> string \<Rightarrow> env \<Rightarrow> (go_error + bool) \<times> env" where
  "auth_code_IsValid p a clientID redirectURI verifier e =
     (let (expired, e1) = auth_code_IsExpired a e in
      if expired then (Inr False, e1)
      else case matchesClient a clientID of
          Inl err \<Rightarrow> (Inl err, e1)
        | Inr m \<Rightarrow> (Inr (m \<and> matchesRedirectURI a redirectURI
                         \<and> verifyCodeVerifier p a verifier = None), e1))"

section \<open>Facts about the entities\<close>

lemma NewAuthorizeRequest_Inr:
  assumes "NewAuthorizeRequest p args e = (Inr s, e')"
  shows "authorize_request_Validate p s = None" "AR_FailedAttempts s = 0"
    "AR_ClientID s = ARA_ClientID args" "AR_RedirectURI s = ARA_RedirectURI args"
    "scope_ok (AR_Scope s)" "scope_values (AR_Scope s) = Fields (ARA_Scope args)"
    "AR_CodeChallenge s = ARA_CodeChallenge args" "AR_State s = ARA_State args"
    "AR_CodeChallengeMethod s = ARA_CodeChallengeMethod args" "AR_Nonce s = ARA_Nonce args"
  using assms
  by (auto simp: NewAuthorizeRequest_def NewClientID_def NewScope_Inr Let_def
      split: sum.splits prod.splits option.splits if_splits)

lemma NewAuthCode_Inr:
  assumes "NewAuthCode p args e = (Inr a, e')"
  shows "AC_UserID a = ACA_UserID args" "AC_ClientID a = Some (ACA_ClientID args)"
    "AC_RedirectURI a = ACA_RedirectURI args" "AC_Scope a = ACA_Scope args"
    "AC_CodeChallenge a = ACA_CodeChallenge args" "AC_Nonce a = ACA_Nonce args"
    "AC_CodeChallengeMethod a = ACA_CodeChallengeMethod args"
    "AC_Code a = RawURLEncoding_EncodeToString (p_rand p (rand_ctr e) TokenBytes)"
    "auth_code_Validate a = None"
  using assms
  by (auto simp: NewAuthCode_def random_Token_Inr Let_def split: prod.splits option.splits)

text \<open>
  An accepted verifier hashes to the stored challenge, and conversely the verifier a client derived
  its challenge from is accepted: PKCE with S256.
\<close>

lemma verifyCodeVerifier_iff:
  assumes "AC_CodeChallenge a = Some challenge"
    and "AC_CodeChallengeMethod a = None \<or> AC_CodeChallengeMethod a = Some CodeChallengeMethodS256"
  shows "verifyCodeVerifier p a v = None \<longleftrightarrow> v \<noteq> [] \<and> s256_challenge p v = challenge"
  using assms by (auto simp: verifyCodeVerifier_def Let_def)

text \<open>An S256 challenge has exactly the length the authorization endpoint demands.\<close>

lemma length_s256_challenge:
  "length (p_sha256 p v) = 32 \<Longrightarrow> length (s256_challenge p v) = 43"
  by (simp add: s256_challenge_def length_RawURLEncoding)

end
