(* ===== verification/Cache.thy ===== *)
theory Cache
  imports Authz
begin

text \<open>
  The cache port (\<open>core/cache/cache.go\<close>) as a record of operations and a locale of laws, and the
  in-memory cache (\<open>infrastructure/cache/memory.go\<close>) that implements it. Every operation threads
  the environment because expiry is decided by the clock.
\<close>

section \<open>Cached values\<close>

text \<open>
  The server caches booleans (revocation markers), integers (counters, invalidation instants),
  authorization requests and authorization codes. A read marshals the value to JSON and unmarshals
  it into the destination's type: scopes travel as one string and are revalidated, all other fields
  come back as they were. The key families never mix types, so a value of another type is an error.
\<close>

datatype cval = CBool bool | CInt int | CSession authorize_request | CCode auth_code

datatype dest = DNil | DInt | DSession | DCode

fun json_decode :: "dest \<Rightarrow> cval \<Rightarrow> go_error + cval" where
  "json_decode DNil v = Inr v"
| "json_decode DInt (CInt n) = Inr (CInt n)"
| "json_decode DSession (CSession s) =
     (case scope_UnmarshalJSON (scope_MarshalJSON (AR_Scope s)) of
        Inl err \<Rightarrow> Inl err | Inr sc \<Rightarrow> Inr (CSession (s\<lparr>AR_Scope := sc\<rparr>)))"
| "json_decode DCode (CCode a) =
     (case scope_UnmarshalJSON (scope_MarshalJSON (AC_Scope a)) of
        Inl err \<Rightarrow> Inl err | Inr sc \<Rightarrow> Inr (CCode (a\<lparr>AC_Scope := sc\<rparr>)))"
| "json_decode d v = Inl (ErrText ''json: cannot unmarshal value'')"

lemma json_decode_session_ok: "scope_ok (AR_Scope s) \<Longrightarrow> json_decode DSession (CSession s) = Inr (CSession s)"
  by (simp add: scope_json_round_trip)

lemma json_decode_code_ok: "scope_ok (AC_Scope a) \<Longrightarrow> json_decode DCode (CCode a) = Inr (CCode a)"
  by (simp add: scope_json_round_trip)

lemma json_decode_DSession_Inr:
  "json_decode DSession v = Inr w \<Longrightarrow>
   \<exists>s sc. v = CSession s \<and> w = CSession (s\<lparr>AR_Scope := sc\<rparr>) \<and> scope_ok sc"
  by (cases v) (auto split: sum.splits dest: scope_Unmarshal_ok)

lemma json_decode_DCode_Inr:
  "json_decode DCode v = Inr w \<Longrightarrow>
   \<exists>a sc. v = CCode a \<and> w = CCode (a\<lparr>AC_Scope := sc\<rparr>) \<and> scope_ok sc"
  by (cases v) (auto split: sum.splits dest: scope_Unmarshal_ok)

section \<open>The port\<close>

record 'c cache_ops =
  k_Set :: "string \<Rightarrow> cval \<Rightarrow> duration option \<Rightarrow> 'c \<Rightarrow> env \<Rightarrow> go_error option \<times> 'c \<times> env"
  k_Get :: "string \<Rightarrow> dest \<Rightarrow> 'c \<Rightarrow> env \<Rightarrow> cval option \<times> 'c \<times> env"
  k_GetErr :: "string \<Rightarrow> dest \<Rightarrow> 'c \<Rightarrow> env \<Rightarrow> (go_error + cval option) \<times> 'c \<times> env"
  k_GetAndDelete :: "string \<Rightarrow> dest \<Rightarrow> 'c \<Rightarrow> env \<Rightarrow> cval option \<times> 'c \<times> env"
  k_Delete :: "string \<Rightarrow> 'c \<Rightarrow> env \<Rightarrow> 'c \<times> env"
  k_IncrWindow :: "string \<Rightarrow> duration \<Rightarrow> 'c \<Rightarrow> env \<Rightarrow> (go_error + int) \<times> 'c \<times> env"

text \<open>
  What a destination receives for a stored value, if there is one. \<open>live c t k\<close> below is the value
  a reader at instant \<open>t\<close> finds under \<open>k\<close>. The laws allow every read and write to fail.
\<close>

definition decoded :: "dest \<Rightarrow> cval option \<Rightarrow> go_error + cval option" where
  "decoded d v = (case v of
       None \<Rightarrow> Inr None
     | Some x \<Rightarrow> (case json_decode d x of Inl err \<Rightarrow> Inl err | Inr y \<Rightarrow> Inr (Some y)))"

lemma decoded_DNil [simp]: "decoded DNil v = Inr v"
  by (simp add: decoded_def split: option.splits)

locale ttl_cache =
  fixes K :: "'c cache_ops"
    and live :: "'c \<Rightarrow> time \<Rightarrow> string \<Rightarrow> cval option"
  assumes live_expires: "live c t' k = Some v \<Longrightarrow> t \<le> t' \<Longrightarrow> live c t k = Some v"
    and Set_ok: "k_Set K k v (Some dur) c e = (None, c', e') \<Longrightarrow> 0 < dur \<Longrightarrow>
        \<exists>T. clock e \<le> T \<and> T \<le> clock e' \<and> (\<forall>t. live c' t k = (if t \<le> T + dur then Some v else None))"
    and Set_min: "k_Set K k v (Some dur) c e = (None, c', e') \<Longrightarrow> t \<le> clock e + dur \<Longrightarrow> live c' t k = Some v"
    and Set_other: "k_Set K k v ttl c e = (rs, c', e') \<Longrightarrow> k' \<noteq> k \<Longrightarrow> live c' t k' = live c t k'"
    and Set_env: "k_Set K k v ttl c e = (rs, c', e') \<Longrightarrow> env_le e e'"
    and GetErr: "k_GetErr K k d c e = (rg, c', e') \<Longrightarrow>
        (\<exists>err. rg = Inl err) \<or> rg = decoded d (live c (clock e') k)"
    and GetErr_frame: "k_GetErr K k d c e = (rg, c', e') \<Longrightarrow> clock e' \<le> t \<Longrightarrow> live c' t k' = live c t k'"
    and GetErr_env: "k_GetErr K k d c e = (rg, c', e') \<Longrightarrow> env_le e e'"
    and GetAndDelete: "k_GetAndDelete K k d c e = (r, c', e') \<Longrightarrow>
        r = None \<or> decoded d (live c (clock e') k) = Inr r"
    and GetAndDelete_gone: "k_GetAndDelete K k d c e = (Some v, c', e') \<Longrightarrow> live c' t k = None"
    and GetAndDelete_other: "k_GetAndDelete K k d c e = (r, c', e') \<Longrightarrow> k' \<noteq> k \<Longrightarrow>
        live c' t k' = live c t k'"
    and GetAndDelete_mono: "k_GetAndDelete K k d c e = (r, c', e') \<Longrightarrow> live c' t k = Some v \<Longrightarrow>
        live c t k = Some v"
    and GetAndDelete_env: "k_GetAndDelete K k d c e = (r, c', e') \<Longrightarrow> env_le e e'"
    and Incr_ok: "k_IncrWindow K k win c e = (Inr n, c', e') \<Longrightarrow> 0 < win \<Longrightarrow>
        (case live c (clock e') k of
           None \<Rightarrow> n = 1 \<and> (\<forall>t. live c' t k = (if t \<le> clock e' + win then Some (CInt 1) else None))
         | Some v \<Rightarrow> v = CInt (n - 1) \<and>
             (\<forall>t \<le> clock e' + win. live c' t k = map_option (\<lambda>_. CInt n) (live c t k)))"
    and Incr_other: "k_IncrWindow K k win c e = (rn, c', e') \<Longrightarrow> k' \<noteq> k \<Longrightarrow> live c' t k' = live c t k'"
    and Incr_env: "k_IncrWindow K k win c e = (rn, c', e') \<Longrightarrow> env_le e e'"
begin

text \<open>
  One-time values: whoever obtains a value by \<open>GetAndDelete\<close> is the last to do so, until the key
  is written again.
\<close>

lemma consumed_once:
  assumes "k_GetAndDelete K k d c e = (Some v, c', e')"
    and "\<And>t. live c'' t k = None \<or> live c'' t k = live c' t k"
  shows "fst (k_GetAndDelete K k d c'' e'') = None"
proof -
  obtain r c3 e3 where second: "k_GetAndDelete K k d c'' e'' = (r, c3, e3)"
    by (cases "k_GetAndDelete K k d c'' e''")
  have "live c'' (clock e3) k = None"
    using assms(2) [of "clock e3"] GetAndDelete_gone [OF assms(1)] by auto
  then show ?thesis
    using GetAndDelete [OF second] second by (auto simp: decoded_def)
qed

text \<open>
  A marker stays readable until it expires: a later read of the key either fails or finds it, so a
  reader that treats a failing read as a hit is safe.
\<close>

lemma marker_read:
  assumes "\<forall>t \<le> until. live c t k = Some v"
    and "k_GetErr K k DNil c e = (r, c', e')" and "clock e' \<le> until"
  shows "(\<exists>err. r = Inl err) \<or> r = Inr (Some v)"
  using GetErr [OF assms(2)] assms(1,3) by auto

end

section \<open>The in-memory cache\<close>

record cacheItem =
  ci_value :: cval
  ci_expiresAt :: "time option"      \<comment> \<open>\<open>None\<close>: the zero time, no expiry\<close>

type_synonym MemoryCache = "string \<rightharpoonup> cacheItem"

definition NewMemoryCache :: MemoryCache where
  "NewMemoryCache = Map.empty"

definition mem_Set ::
  "string \<Rightarrow> cval \<Rightarrow> duration option \<Rightarrow> MemoryCache \<Rightarrow> env \<Rightarrow> go_error option \<times> MemoryCache \<times> env" where
  "mem_Set key v ttl c e =
     (case ttl of
        Some d \<Rightarrow>
          if d > 0 then
            let (t, e1) = now e in
            (None, c(key \<mapsto> \<lparr>ci_value = v, ci_expiresAt = Some (t + d)\<rparr>), e1)
          else (None, c(key \<mapsto> \<lparr>ci_value = v, ci_expiresAt = None\<rparr>), e)
      | None \<Rightarrow> (None, c(key \<mapsto> \<lparr>ci_value = v, ci_expiresAt = None\<rparr>), e))"

text \<open>
  The first check runs under the read lock; an entry that looks expired is looked at again, with a
  second reading of the clock, under the write lock.
\<close>

definition getLiveItem :: "string \<Rightarrow> MemoryCache \<Rightarrow> env \<Rightarrow> cacheItem option \<times> MemoryCache \<times> env" where
  "getLiveItem key c e =
     (case c key of
        None \<Rightarrow> (None, c, e)
      | Some item \<Rightarrow>
          (case ci_expiresAt item of
             None \<Rightarrow> (Some item, c, e)
           | Some x \<Rightarrow>
               let (t1, e1) = now e in
               if t1 < x then (Some item, c, e1)
               else let (t2, e2) = now e1 in
                 if t2 > x then (None, c(key := None), e2) else (Some item, c, e2)))"

definition mem_Get :: "string \<Rightarrow> dest \<Rightarrow> MemoryCache \<Rightarrow> env \<Rightarrow> cval option \<times> MemoryCache \<times> env" where
  "mem_Get key d c e =
     (let (item, c1, e1) = getLiveItem key c e in
      case item of
        None \<Rightarrow> (None, c1, e1)
      | Some it \<Rightarrow> (case json_decode d (ci_value it) of
            Inl err \<Rightarrow> (None, c1, e1) | Inr v \<Rightarrow> (Some v, c1, e1)))"

definition mem_GetErr ::
  "string \<Rightarrow> dest \<Rightarrow> MemoryCache \<Rightarrow> env \<Rightarrow> (go_error + cval option) \<times> MemoryCache \<times> env" where
  "mem_GetErr key d c e =
     (let (item, c1, e1) = getLiveItem key c e in
      case item of
        None \<Rightarrow> (Inr None, c1, e1)
      | Some it \<Rightarrow> (case json_decode d (ci_value it) of
            Inl err \<Rightarrow> (Inl err, c1, e1) | Inr v \<Rightarrow> (Inr (Some v), c1, e1)))"

definition mem_GetAndDelete ::
  "string \<Rightarrow> dest \<Rightarrow> MemoryCache \<Rightarrow> env \<Rightarrow> cval option \<times> MemoryCache \<times> env" where
  "mem_GetAndDelete key d c e =
     (case c key of
        None \<Rightarrow> (None, c, e)
      | Some item \<Rightarrow>
          let (expired, e1) = (case ci_expiresAt item of
                None \<Rightarrow> (False, e)
              | Some x \<Rightarrow> let (t, e0) = now e in (t > x, e0));
              c1 = c(key := None) in
          if expired then (None, c1, e1)
          else case json_decode d (ci_value item) of
              Inl err \<Rightarrow> (None, c1, e1) | Inr v \<Rightarrow> (Some v, c1, e1))"

definition mem_Delete :: "string \<Rightarrow> MemoryCache \<Rightarrow> env \<Rightarrow> MemoryCache \<times> env" where
  "mem_Delete key c e = (c(key := None), e)"

definition mem_IncrWindow ::
  "string \<Rightarrow> duration \<Rightarrow> MemoryCache \<Rightarrow> env \<Rightarrow> (go_error + int) \<times> MemoryCache \<times> env" where
  "mem_IncrWindow key window c e =
     (let (t, e1) = now e;
          bump = (\<lambda>val x. let val1 = val + 1;
                              x1 = (case x of None \<Rightarrow> t + window | Some y \<Rightarrow> y) in
             (Inr val1, c(key \<mapsto> \<lparr>ci_value = CInt val1, ci_expiresAt = Some x1\<rparr>), e1)) in
      case c key of
        None \<Rightarrow> bump 0 None
      | Some item \<Rightarrow>
          if (case ci_expiresAt item of None \<Rightarrow> False | Some x \<Rightarrow> t > x) then bump 0 None
          else (case ci_value item of
              CInt n \<Rightarrow> bump n (ci_expiresAt item)
            | _ \<Rightarrow> (Inl (ErrText ''WRONGTYPE operation against key holding non-integer value''), c, e1)))"

text \<open>The janitor's sweep, run once a minute by a goroutine of its own.\<close>

definition deleteExpired :: "time \<Rightarrow> MemoryCache \<Rightarrow> MemoryCache" where
  "deleteExpired t c = (\<lambda>key. case c key of
       None \<Rightarrow> None
     | Some item \<Rightarrow> if (case ci_expiresAt item of None \<Rightarrow> False | Some x \<Rightarrow> t > x) then None else Some item)"

definition memory_ops :: "MemoryCache cache_ops" where
  "memory_ops = \<lparr>k_Set = mem_Set, k_Get = mem_Get, k_GetErr = mem_GetErr,
     k_GetAndDelete = mem_GetAndDelete, k_Delete = mem_Delete, k_IncrWindow = mem_IncrWindow\<rparr>"

text \<open>The abstraction: an entry is visible up to and including its expiry instant.\<close>

definition mem_live :: "MemoryCache \<Rightarrow> time \<Rightarrow> string \<Rightarrow> cval option" where
  "mem_live c t key = (case c key of
       None \<Rightarrow> None
     | Some item \<Rightarrow> (case ci_expiresAt item of
           None \<Rightarrow> Some (ci_value item)
         | Some x \<Rightarrow> if t \<le> x then Some (ci_value item) else None))"

lemma getLiveItem_live:
  "getLiveItem key c e = (r, c', e') \<Longrightarrow> map_option ci_value r = mem_live c (clock e') key"
  by (cases "c key"; cases r)
    (auto simp: getLiveItem_def mem_live_def Let_def dest!: nowD
      split: option.split_asm option.split prod.splits if_splits)

lemma getLiveItem_frame:
  "getLiveItem key c e = (r, c', e') \<Longrightarrow> clock e' \<le> t \<Longrightarrow> mem_live c' t k = mem_live c t k"
  by (auto simp: getLiveItem_def mem_live_def Let_def dest!: nowD
      split: option.splits prod.splits if_splits)

lemma getLiveItem_env: "getLiveItem key c e = (r, c', e') \<Longrightarrow> env_le e e'"
  by (auto simp: getLiveItem_def env_le_def Let_def dest!: nowD
      split: option.splits prod.splits if_splits)

lemma mem_GetErr_eq:
  assumes "mem_GetErr key d c e = (r, c', e')"
  shows "r = decoded d (mem_live c (clock e') key)"
proof -
  obtain item c1 e1 where g: "getLiveItem key c e = (item, c1, e1)"
    by (cases "getLiveItem key c e")
  have "c1 = c' \<and> e1 = e'" using assms g
    by (auto simp: mem_GetErr_def split: option.splits sum.splits)
  then show ?thesis
    using assms g getLiveItem_live [OF g]
    by (auto simp: mem_GetErr_def decoded_def split: option.splits sum.splits)
qed

lemma mem_GetErr_state:
  "mem_GetErr key d c e = (r, c', e') \<Longrightarrow> \<exists>item. getLiveItem key c e = (item, c', e')"
  by (auto simp: mem_GetErr_def split: prod.splits option.splits sum.splits)

lemma mem_GetAndDelete_eq:
  "mem_GetAndDelete key d c e = (r, c', e') \<Longrightarrow>
   r = (case decoded d (mem_live c (clock e') key) of Inl err \<Rightarrow> None | Inr v \<Rightarrow> v)
   \<and> (\<forall>t. mem_live c' t key = None) \<and> (\<forall>t k. k \<noteq> key \<longrightarrow> mem_live c' t k = mem_live c t k)
   \<and> env_le e e'"
  by (auto simp: mem_GetAndDelete_def mem_live_def decoded_def env_le_def Let_def dest!: nowD
      split: option.splits prod.splits if_splits sum.splits)

lemma mem_Set_live:
  "mem_Set key v (Some d) c e = (r, c', e') \<Longrightarrow> 0 < d \<Longrightarrow>
   \<exists>T. clock e \<le> T \<and> T \<le> clock e' \<and> (\<forall>t. mem_live c' t key = (if t \<le> T + d then Some v else None))"
  by (auto simp: mem_Set_def mem_live_def Let_def dest!: nowD split: prod.splits
      intro!: exI [of _ "clock e'"])

lemma mem_Set_min:
  "mem_Set key v (Some d) c e = (r, c', e') \<Longrightarrow> t \<le> clock e + d \<Longrightarrow> mem_live c' t key = Some v"
  by (auto simp: mem_Set_def mem_live_def Let_def dest!: nowD split: prod.splits if_splits)

lemma mem_Incr_ok:
  assumes "mem_IncrWindow key win c e = (Inr n, c', e')" and "0 < win"
  shows "case mem_live c (clock e') key of
           None \<Rightarrow> n = 1 \<and> (\<forall>t. mem_live c' t key = (if t \<le> clock e' + win then Some (CInt 1) else None))
         | Some v \<Rightarrow> v = CInt (n - 1) \<and>
             (\<forall>t \<le> clock e' + win. mem_live c' t key = map_option (\<lambda>_. CInt n) (mem_live c t key))"
proof -
  obtain t e1 where t: "now e = (t, e1)" by (metis surj_pair)
  then have e1: "clock e1 = t" by (auto dest: nowD)
  show ?thesis
  proof (cases "c key")
    case None
    with assms t e1 show ?thesis by (auto simp: mem_IncrWindow_def mem_live_def)
  next
    case (Some item)
    show ?thesis
    proof (cases "ci_expiresAt item")
      case None
      with Some assms t e1 show ?thesis
        by (auto simp: mem_IncrWindow_def mem_live_def Let_def split: cval.splits)
    next
      case (Some x)
      with \<open>c key = Some item\<close> assms t e1 show ?thesis
        by (auto simp: mem_IncrWindow_def mem_live_def Let_def split: cval.splits if_splits)
    qed
  qed
qed

lemma mem_Incr_frame:
  "mem_IncrWindow key win c e = (r, c', e') \<Longrightarrow> env_le e e' \<and> (k \<noteq> key \<longrightarrow> mem_live c' t k = mem_live c t k)"
  by (auto simp: mem_IncrWindow_def mem_live_def env_le_def Let_def dest!: nowD
      split: prod.splits option.splits if_splits cval.splits)

lemma mem_Set_other:
  "mem_Set key v ttl c e = (r, c', e') \<Longrightarrow> k \<noteq> key \<Longrightarrow> mem_live c' t k = mem_live c t k"
  by (auto simp: mem_Set_def mem_live_def Let_def split: prod.splits option.splits if_splits)

lemma mem_Set_env: "mem_Set key v ttl c e = (r, c', e') \<Longrightarrow> r = None \<and> env_le e e'"
  by (auto simp: mem_Set_def env_le_def Let_def dest!: nowD split: prod.splits option.splits if_splits)

lemma mem_live_expires: "mem_live c t' k = Some v \<Longrightarrow> t \<le> t' \<Longrightarrow> mem_live c t k = Some v"
  by (auto simp: mem_live_def split: option.splits if_splits)

interpretation mem: ttl_cache memory_ops mem_live
proof (unfold_locales, goal_cases)
  case 1 then show ?case by (rule mem_live_expires)
next
  case 2 then show ?case by (simp add: memory_ops_def mem_Set_live)
next
  case 3 then show ?case by (simp add: memory_ops_def mem_Set_min)
next
  case 4 then show ?case by (simp add: memory_ops_def mem_Set_other)
next
  case 5 then show ?case by (simp add: memory_ops_def mem_Set_env)
next
  case 6 then show ?case by (simp add: memory_ops_def mem_GetErr_eq)
next
  case 7 then show ?case by (auto simp: memory_ops_def dest!: mem_GetErr_state getLiveItem_frame)
next
  case 8 then show ?case by (auto simp: memory_ops_def dest!: mem_GetErr_state getLiveItem_env)
next
  case 9 then show ?case by (auto simp: memory_ops_def dest!: mem_GetAndDelete_eq split: sum.splits)
next
  case 10 then show ?case by (auto simp: memory_ops_def dest!: mem_GetAndDelete_eq)
next
  case 11 then show ?case by (auto simp: memory_ops_def dest!: mem_GetAndDelete_eq)
next
  case 12 then show ?case by (auto simp: memory_ops_def dest!: mem_GetAndDelete_eq)
next
  case 13 then show ?case by (auto simp: memory_ops_def dest!: mem_GetAndDelete_eq)
next
  case 14 then show ?case by (simp add: memory_ops_def mem_Incr_ok)
next
  case (15 k win c e rn c' e' k' t) then show ?case by (simp add: memory_ops_def mem_Incr_frame)
next
  case 16 then show ?case by (simp add: memory_ops_def mem_Incr_frame)
qed

text \<open>The in-memory cache accepts every write.\<close>

locale reliable_ttl_cache = ttl_cache +
  assumes Set_reliable: "k_Set K k v ttl c e = (rs, c', e') \<Longrightarrow> rs = None \<and> disk e' = disk e"
    and GetErr_reliable: "k_GetErr K k d c e = (rg, c', e') \<Longrightarrow> rg = decoded d (live c (clock e') k) \<and> disk e' = disk e"
    and Incr_reliable: "k_IncrWindow K k win c e = (Inl er, c', e') \<Longrightarrow>
      \<exists>v. live c (clock e') k = Some v \<and> (\<forall>n. v \<noteq> CInt n)"

lemma getLiveItem_disk: "getLiveItem key c e = (r, c', e') \<Longrightarrow> disk e' = disk e"
  by (auto simp: getLiveItem_def Let_def dest!: nowD split: option.splits prod.splits if_splits)

interpretation mem: reliable_ttl_cache memory_ops mem_live
proof (unfold_locales, goal_cases)
  case 1
  then show ?case
    by (auto simp: memory_ops_def mem_Set_def Let_def split: prod.splits option.splits if_splits dest!: nowD)
next
  case 2
  then show ?case by (auto simp: memory_ops_def mem_GetErr_eq dest!: mem_GetErr_state getLiveItem_disk)
next
  case 3
  then show ?case
    by (auto simp: memory_ops_def mem_IncrWindow_def mem_live_def Let_def dest!: nowD
        split: prod.splits option.splits if_splits cval.splits)
qed

end
