(* ===== verification/Tokens.thy ===== *)
theory Tokens
  imports Scope
begin

text \<open>
  Grants and refresh tokens: \<open>modules/auth/domain/entity/grant.go\<close> and \<open>tokens.go\<close>. A grant is one
  authentication event; the refresh tokens of its rotation chain carry its identifier.
\<close>

section \<open>Grants\<close>

record grant =
  G_ID :: GrantID
  G_UserID :: UserID
  G_ClientID :: ClientID
  G_DeviceID :: string
  G_AuthenticatedAt :: time
  G_CreatedAt :: time
  G_ExpiresAt :: time
  G_RevokedAt :: "time option"

definition grantExpiryMargin :: duration where "grantExpiryMargin = Minute"
definition RefreshTokenTTL :: duration where "RefreshTokenTTL = 30 * 24 * Hour"

definition NewGrant :: "prims \<Rightarrow> UserID \<Rightarrow> ClientID \<Rightarrow> env \<Rightarrow> grant \<times> env" where
  "NewGrant p userID clientID e =
     (let (t, e1) = now e; (i, e2) = NewGrantID p e1 in
      (\<lparr>G_ID = i, G_UserID = userID, G_ClientID = clientID, G_DeviceID = [],
        G_AuthenticatedAt = t, G_CreatedAt = t,
        G_ExpiresAt = t + (RefreshTokenTTL + grantExpiryMargin), G_RevokedAt = None\<rparr>, e2))"

definition grant_IsValid :: "grant \<Rightarrow> env \<Rightarrow> bool \<times> env" where
  "grant_IsValid g e =
     (if G_RevokedAt g \<noteq> None then (False, e)
      else let (t, e1) = now e in (t < G_ExpiresAt g, e1))"

definition ExtendToCover :: "grant \<Rightarrow> time \<Rightarrow> grant" where
  "ExtendToCover g tokenExpiry = g\<lparr>G_ExpiresAt := tokenExpiry + grantExpiryMargin\<rparr>"

section \<open>Refresh tokens\<close>

record issued_tokens =
  IT_AccessToken :: string
  IT_RefreshToken :: string
  IT_IDToken :: string
  IT_Scope :: scope
  IT_GrantID :: GrantID
  IT_NewGrant :: "grant option"

record refresh_token =
  RT_ID :: string
  RT_UserID :: UserID
  RT_ClientID :: ClientID
  RT_GrantID :: GrantID
  RT_TokenHash :: string
  RT_Scope :: scope
  RT_DeviceID :: string
  RT_AuthenticatedAt :: time
  RT_CreatedAt :: time
  RT_ExpiresAt :: time
  RT_RevokedAt :: "time option"

definition NewRefreshToken ::
  "prims \<Rightarrow> UserID \<Rightarrow> ClientID \<Rightarrow> issued_tokens \<Rightarrow> env \<Rightarrow> refresh_token \<times> env" where
  "NewRefreshToken p userID clientID tokens e =
     (let (t, e1) = now e;
          (grantID, e2) = (if IT_GrantID tokens = [] then NewGrantID p e1 else (IT_GrantID tokens, e1));
          (i, e3) = uuid_NewString p e2 in
      (\<lparr>RT_ID = i, RT_UserID = userID, RT_ClientID = clientID, RT_GrantID = grantID,
        RT_TokenHash = Hash p (IT_RefreshToken tokens), RT_Scope = IT_Scope tokens, RT_DeviceID = [],
        RT_AuthenticatedAt = t, RT_CreatedAt = t, RT_ExpiresAt = t + RefreshTokenTTL,
        RT_RevokedAt = None\<rparr>, e3))"

definition Rotate :: "prims \<Rightarrow> refresh_token \<Rightarrow> UserID \<Rightarrow> issued_tokens \<Rightarrow> env \<Rightarrow> refresh_token \<times> env" where
  "Rotate p rt userID tokens e =
     (let (n, e1) = NewRefreshToken p userID (RT_ClientID rt) tokens e;
          n1 = n\<lparr>RT_AuthenticatedAt := RT_AuthenticatedAt rt, RT_DeviceID := RT_DeviceID rt\<rparr>;
          n2 = (if RT_GrantID rt \<noteq> [] then n1\<lparr>RT_GrantID := RT_GrantID rt\<rparr> else n1)
      in (n2, e1))"

definition IssuedTo :: "refresh_token \<Rightarrow> ClientID \<Rightarrow> bool" where
  "IssuedTo rt clientID \<longleftrightarrow> RT_ClientID rt = [] \<or> RT_ClientID rt = clientID"

definition rt_IsValid :: "refresh_token \<Rightarrow> env \<Rightarrow> bool \<times> env" where
  "rt_IsValid rt e =
     (if RT_RevokedAt rt \<noteq> None then (False, e)
      else let (t, e1) = now e in (t < RT_ExpiresAt rt, e1))"

section \<open>Facts about the entities\<close>

lemma NewGrant_fields:
  assumes "NewGrant p u c e = (g, e')"
  shows "G_UserID g = u" "G_ClientID g = c" "G_RevokedAt g = None" "G_ID g = p_uuid p (uuid_ctr e)"
    "env_le e e'" "uuid_ctr e' = Suc (uuid_ctr e)" "rand_ctr e' = rand_ctr e" "disk e' = disk e"
  using assms
  by (auto simp: NewGrant_def NewGrantID_def uuid_NewString_def env_le_def
      dest!: nowD split: prod.splits)

lemma NewRefreshToken_fields:
  assumes "NewRefreshToken p u c tk e = (rt, e')"
  shows "RT_UserID rt = u" "RT_ClientID rt = c" "RT_TokenHash rt = Hash p (IT_RefreshToken tk)"
    "RT_Scope rt = IT_Scope tk" "RT_RevokedAt rt = None" "RT_DeviceID rt = []"
    "IT_GrantID tk \<noteq> [] \<Longrightarrow> RT_GrantID rt = IT_GrantID tk"
    "RT_ExpiresAt rt = RT_CreatedAt rt + RefreshTokenTTL" "RT_AuthenticatedAt rt = RT_CreatedAt rt"
    "clock e \<le> RT_CreatedAt rt" "RT_CreatedAt rt \<le> clock e'" "env_le e e'"
    "rand_ctr e' = rand_ctr e" "disk e' = disk e"
  using assms
  by (auto simp: NewRefreshToken_def NewGrantID_def uuid_NewString_def env_le_def Let_def
      dest!: nowD split: prod.splits if_splits)

lemma NewRefreshToken_ID:
  "NewRefreshToken p u c tk e = (rt, e') \<Longrightarrow> IT_GrantID tk \<noteq> [] \<Longrightarrow>
   RT_ID rt = p_uuid p (uuid_ctr e) \<and> uuid_ctr e' = Suc (uuid_ctr e)"
  by (auto simp: NewRefreshToken_def uuid_NewString_def Let_def split: prod.splits if_splits
      dest!: nowD)

text \<open>Rotation keeps what belongs to the authentication event: client, time, device, grant.\<close>

lemma Rotate_fields:
  assumes "Rotate p rt u tk e = (n, e')"
  shows "RT_UserID n = u" "RT_ClientID n = RT_ClientID rt" "RT_DeviceID n = RT_DeviceID rt"
    "RT_AuthenticatedAt n = RT_AuthenticatedAt rt" "RT_TokenHash n = Hash p (IT_RefreshToken tk)"
    "RT_Scope n = IT_Scope tk" "RT_RevokedAt n = None"
    "RT_GrantID rt \<noteq> [] \<Longrightarrow> RT_GrantID n = RT_GrantID rt"
    "RT_GrantID rt = [] \<Longrightarrow> IT_GrantID tk \<noteq> [] \<Longrightarrow> RT_GrantID n = IT_GrantID tk"
    "RT_ExpiresAt n = RT_CreatedAt n + RefreshTokenTTL"
    "clock e \<le> RT_CreatedAt n" "RT_CreatedAt n \<le> clock e'" "env_le e e'"
    "rand_ctr e' = rand_ctr e" "disk e' = disk e"
  using assms
  by (auto simp: Rotate_def NewRefreshToken_def NewGrantID_def uuid_NewString_def env_le_def Let_def
      dest!: nowD split: prod.splits if_splits)

lemma grant_IsValid_revoked [simp]: "G_RevokedAt g = Some t \<Longrightarrow> grant_IsValid g e = (False, e)"
  by (simp add: grant_IsValid_def)

lemma rt_IsValid_revoked [simp]: "RT_RevokedAt rt = Some t \<Longrightarrow> rt_IsValid rt e = (False, e)"
  by (simp add: rt_IsValid_def)

end
