(* ===== verification/Users.thy ===== *)
theory Users
  imports Scope
begin

text \<open>
  The user entity (\<open>modules/auth/domain/entity/user.go\<close>): password policy, account lockout with
  exponential backoff, password-reset tokens and session invalidation. Methods that read the clock
  or draw randomness thread the environment; a pointer receiver that is mutated is returned updated.
\<close>

section \<open>State\<close>

record user =
  U_ID :: UserID
  U_TenantID :: TenantID
  U_Username :: string
  U_Nickname :: string
  U_Password :: string                        \<comment> \<open>bcrypt hash\<close>
  U_Email :: string
  U_EmailVerified :: bool
  U_PasswordResetTokenHash :: "string option"
  U_PasswordResetExpiresAt :: "time option"
  U_SessionsInvalidatedAt :: "time option"
  U_FailedLoginAttempts :: int
  U_LockedUntil :: "time option"
  U_CreatedAt :: time
  U_UpdatedAt :: time

record user_args =
  UA_TenantID :: TenantID
  UA_Username :: string
  UA_Nickname :: string
  UA_Password :: string
  UA_Email :: string
  UA_EmailVerified :: bool

definition PasswordResetTokenTTL :: duration where "PasswordResetTokenTTL = 15 * Minute"
definition passwordHashCost :: nat where "passwordHashCost = 12"
definition MaxFailedLoginAttempts :: int where "MaxFailedLoginAttempts = 5"
definition lockoutBaseDuration :: duration where "lockoutBaseDuration = 1 * Minute"
definition lockoutMaxDuration :: duration where "lockoutMaxDuration = 1 * Hour"

section \<open>Passwords\<close>

datatype rune_class = Upper | Lower | Digit | Special | Other

definition rune_class_of :: "prims \<Rightarrow> nat \<Rightarrow> rune_class" where
  "rune_class_of p r =
     (if p_IsUpper p r then Upper
      else if p_IsLower p r then Lower
      else if p_IsDigit p r then Digit
      else if p_IsPunctOrSymbol p r then Special
      else Other)"

definition validatePassword :: "prims \<Rightarrow> string \<Rightarrow> go_error option" where
  "validatePassword p pw =
     (if length pw < 8 then Some (ErrText ''password must be at least 8 characters'')
      else let cs = map (rune_class_of p) (runes pw) in
        if Upper \<notin> set cs then Some (ErrText ''password must contain at least one uppercase letter'')
        else if Lower \<notin> set cs then Some (ErrText ''password must contain at least one lowercase letter'')
        else if Digit \<notin> set cs then Some (ErrText ''password must contain at least one digit'')
        else if Special \<notin> set cs then Some (ErrText ''password must contain at least one special character'')
        else None)"

text \<open>\<open>hashPassword\<close> panics when bcrypt refuses the password (longer than 72 bytes).\<close>

definition hashPassword :: "prims \<Rightarrow> string \<Rightarrow> env \<Rightarrow> (go_error + string) \<times> env" where
  "hashPassword p pw e =
     (let (salt, e1) = rand_Read p 16 e in
      case p_bcrypt_Generate p passwordHashCost salt pw of
        Inl err \<Rightarrow> (Inl (ErrPanic (err_Error err)), e1)
      | Inr h \<Rightarrow> (Inr h, e1))"

definition NewUser :: "prims \<Rightarrow> user_args \<Rightarrow> env \<Rightarrow> (go_error + user) \<times> env" where
  "NewUser p args e =
     (case validatePassword p (UA_Password args) of
        Some err \<Rightarrow> (Inl err, e)
      | None \<Rightarrow>
          let tenantID = (if UA_TenantID args = [] then DefaultTenantID else UA_TenantID args);
              (i, e1) = NewUserID p e;
              (hashed, e2) = hashPassword p (UA_Password args) e1 in
          case hashed of
            Inl err \<Rightarrow> (Inl err, e2)
          | Inr h \<Rightarrow>
              let (t1, e3) = now e2; (t2, e4) = now e3 in
              (Inr \<lparr>U_ID = i, U_TenantID = tenantID, U_Username = UA_Username args,
                    U_Nickname = UA_Nickname args, U_Password = h, U_Email = UA_Email args,
                    U_EmailVerified = UA_EmailVerified args, U_PasswordResetTokenHash = None,
                    U_PasswordResetExpiresAt = None, U_SessionsInvalidatedAt = None,
                    U_FailedLoginAttempts = 0, U_LockedUntil = None,
                    U_CreatedAt = t1, U_UpdatedAt = t2\<rparr>, e4))"

definition ValidatePassword :: "prims \<Rightarrow> user \<Rightarrow> string \<Rightarrow> bool" where
  "ValidatePassword p u pw \<longleftrightarrow> p_bcrypt_Compare p (U_Password u) pw"

text \<open>The returned flag tells whether the hash was replaced; \<open>Inl\<close> is the panic of \<open>hashPassword\<close>.\<close>

definition RehashPasswordIfNeeded ::
  "prims \<Rightarrow> user \<Rightarrow> string \<Rightarrow> env \<Rightarrow> (go_error + bool \<times> user) \<times> env" where
  "RehashPasswordIfNeeded p u pw e =
     (case p_bcrypt_Cost p (U_Password u) of
        None \<Rightarrow> (Inr (False, u), e)
      | Some cost \<Rightarrow>
          if passwordHashCost \<le> cost then (Inr (False, u), e)
          else case hashPassword p pw e of
              (Inl err, e1) \<Rightarrow> (Inl err, e1)
            | (Inr h, e1) \<Rightarrow>
                let (t, e2) = now e1 in (Inr (True, u\<lparr>U_Password := h, U_UpdatedAt := t\<rparr>), e2))"

definition SetPassword :: "prims \<Rightarrow> user \<Rightarrow> string \<Rightarrow> env \<Rightarrow> (go_error + go_error option \<times> user) \<times> env" where
  "SetPassword p u pw e =
     (case validatePassword p pw of
        Some err \<Rightarrow> (Inr (Some err, u), e)
      | None \<Rightarrow>
          (case hashPassword p pw e of
             (Inl err, e1) \<Rightarrow> (Inl err, e1)
           | (Inr h, e1) \<Rightarrow>
               let (t, e2) = now e1 in (Inr (None, u\<lparr>U_Password := h, U_UpdatedAt := t\<rparr>), e2)))"

section \<open>Account lockout\<close>

definition user_IsLockedOut :: "user \<Rightarrow> env \<Rightarrow> bool \<times> env" where
  "user_IsLockedOut u e =
     (case U_LockedUntil u of
        None \<Rightarrow> (False, e)
      | Some l \<Rightarrow> let (t, e1) = now e in (t < l, e1))"

definition lockoutDuration :: "int \<Rightarrow> duration" where
  "lockoutDuration attemptsOverThreshold =
     (if attemptsOverThreshold > 6 then lockoutMaxDuration
      else min (push_bit (nat attemptsOverThreshold) lockoutBaseDuration) lockoutMaxDuration)"

definition RecordFailedLogin :: "user \<Rightarrow> env \<Rightarrow> user \<times> env" where
  "RecordFailedLogin u e =
     (let n = U_FailedLoginAttempts u + 1;
          u1 = u\<lparr>U_FailedLoginAttempts := n\<rparr>;
          (u2, e1) = (if n \<ge> MaxFailedLoginAttempts
             then let (t, e0) = now e in
                  (u1\<lparr>U_LockedUntil := Some (t + lockoutDuration (n - MaxFailedLoginAttempts))\<rparr>, e0)
             else (u1, e));
          (t2, e2) = now e1
      in (u2\<lparr>U_UpdatedAt := t2\<rparr>, e2))"

definition ResetFailedLogins :: "user \<Rightarrow> env \<Rightarrow> user \<times> env" where
  "ResetFailedLogins u e =
     (let (t, e1) = now e in
      (u\<lparr>U_FailedLoginAttempts := 0, U_LockedUntil := None, U_UpdatedAt := t\<rparr>, e1))"

section \<open>Profile and reset tokens\<close>

record update_profile_args =
  UP_Username :: "string option"
  UP_Nickname :: "string option"
  UP_Email :: "string option"

definition SetEmail :: "user \<Rightarrow> string \<Rightarrow> user" where
  "SetEmail u v = (if U_Email u = v then u else u\<lparr>U_Email := v, U_EmailVerified := False\<rparr>)"

definition user_UpdateProfile :: "user \<Rightarrow> update_profile_args \<Rightarrow> env \<Rightarrow> user \<times> env" where
  "user_UpdateProfile u args e =
     (let u1 = (case UP_Username args of None \<Rightarrow> u | Some v \<Rightarrow> u\<lparr>U_Username := v\<rparr>);
          u2 = (case UP_Nickname args of None \<Rightarrow> u1 | Some v \<Rightarrow> u1\<lparr>U_Nickname := v\<rparr>);
          u3 = (case UP_Email args of None \<Rightarrow> u2 | Some v \<Rightarrow> SetEmail u2 v);
          (t, e1) = now e
      in (u3\<lparr>U_UpdatedAt := t\<rparr>, e1))"

definition SetPasswordResetToken :: "prims \<Rightarrow> user \<Rightarrow> string \<Rightarrow> duration \<Rightarrow> env \<Rightarrow> user \<times> env" where
  "SetPasswordResetToken p u rawToken ttl e =
     (let (t1, e1) = now e; (t2, e2) = now e1 in
      (u\<lparr>U_PasswordResetTokenHash := Some (Hash p rawToken),
         U_PasswordResetExpiresAt := Some (t1 + ttl), U_UpdatedAt := t2\<rparr>, e2))"

definition IsResetTokenExpired :: "user \<Rightarrow> env \<Rightarrow> bool \<times> env" where
  "IsResetTokenExpired u e =
     (case U_PasswordResetExpiresAt u of
        None \<Rightarrow> (True, e)
      | Some x \<Rightarrow> let (t, e1) = now e in (t > x, e1))"

definition InvalidateSessions :: "user \<Rightarrow> env \<Rightarrow> user \<times> env" where
  "InvalidateSessions u e =
     (let (t, e1) = now e in (u\<lparr>U_SessionsInvalidatedAt := Some t, U_UpdatedAt := t\<rparr>, e1))"

definition ClearPasswordResetToken :: "user \<Rightarrow> env \<Rightarrow> user \<times> env" where
  "ClearPasswordResetToken u e =
     (let (t, e1) = now e in
      (u\<lparr>U_PasswordResetTokenHash := None, U_PasswordResetExpiresAt := None, U_UpdatedAt := t\<rparr>, e1))"

definition GeneratePasswordResetToken :: "prims \<Rightarrow> env \<Rightarrow> (go_error + string) \<times> env" where
  "GeneratePasswordResetToken p e = random_Token p e"

section \<open>Facts about the entity\<close>

lemma lockoutDuration_eq:
  assumes "0 \<le> k"
  shows "lockoutDuration k = min (Minute * 2 ^ nat k) Hour"
proof (cases "6 < k")
  case True
  then have "(2::int) ^ 6 \<le> 2 ^ nat k" by (intro power_increasing) auto
  moreover have "(60::int) \<le> 2 ^ 6" by simp
  ultimately have "60 \<le> (2::int) ^ nat k" by (rule order_trans [rotated])
  then have "Hour \<le> Minute * 2 ^ nat k" by linarith
  with True show ?thesis by (simp add: lockoutDuration_def lockoutMaxDuration_def)
next
  case False
  then show ?thesis
    by (simp only: lockoutDuration_def lockoutBaseDuration_def lockoutMaxDuration_def
        push_bit_eq_mult if_False mult_1)
qed

lemma lockoutDuration_bounds:
  assumes "0 \<le> k"
  shows "Minute \<le> lockoutDuration k \<and> lockoutDuration k \<le> Hour"
proof -
  have "(1::int) \<le> 2 ^ nat k" by (rule one_le_power) simp
  then have "Minute \<le> Minute * 2 ^ nat k" by linarith
  then show ?thesis unfolding lockoutDuration_eq [OF assms] by (auto simp only: min_def split: if_split)
qed

lemma lockoutDuration_mono:
  assumes "0 \<le> j" and "j \<le> k"
  shows "lockoutDuration j \<le> lockoutDuration k"
proof -
  have k: "0 \<le> k" using assms by simp
  show ?thesis unfolding lockoutDuration_eq [OF assms(1)] lockoutDuration_eq [OF k]
    using assms(2) by (intro min.mono mult_left_mono power_increasing nat_mono order_refl) simp_all
qed

text \<open>The methods a handler calls on a stored user change none of its identifying fields.\<close>

lemma RecordFailedLogin_fields:
  assumes "RecordFailedLogin u e = (u', e')"
  shows "U_ID u' = U_ID u" "U_Email u' = U_Email u" "U_TenantID u' = U_TenantID u"
    "U_PasswordResetTokenHash u' = U_PasswordResetTokenHash u" "U_Password u' = U_Password u"
    "U_FailedLoginAttempts u' = U_FailedLoginAttempts u + 1"
    "U_SessionsInvalidatedAt u' = U_SessionsInvalidatedAt u"
  using assms by (auto simp: RecordFailedLogin_def Let_def split: prod.splits if_splits)

lemma RecordFailedLogin_le: "RecordFailedLogin u e = (u', e') \<Longrightarrow> env_le e e'"
  by (auto simp: RecordFailedLogin_def Let_def env_le_def split: prod.splits if_splits
      dest!: nowD)

end
