(* ===== verification/Ports.thy ===== *)
theory Ports
  imports Tokens Users
begin

text \<open>
  The repository ports (\<open>modules/auth/port\<close>): each interface is a record of operations over an
  unspecified store, and its contract a locale. A contract describes the store through the map of
  entities it holds and allows every operation to fail with an error of its own.

  A port also has an \<open>alias\<close> operation where callers assign to fields of an object they found: it is
  the effect of the assignment on the store. A store that hands out its own objects (the file
  repository) changes with them, one that decodes a fresh object per query (MongoDB) does not.
\<close>

section \<open>Grants (\<open>port/grant_repository.go\<close>)\<close>

record 'g grant_ops =
  gr_Save :: "grant \<Rightarrow> 'g \<Rightarrow> env \<Rightarrow> go_error option \<times> 'g \<times> env"
  gr_FindByID :: "GrantID \<Rightarrow> 'g \<Rightarrow> env \<Rightarrow> (go_error + grant) \<times> 'g \<times> env"
  gr_Revoke :: "GrantID \<Rightarrow> time \<Rightarrow> 'g \<Rightarrow> env \<Rightarrow> go_error option \<times> 'g \<times> env"
  gr_alias :: "grant \<Rightarrow> 'g \<Rightarrow> 'g"

text \<open>What the interface comment calls its contract.\<close>

locale grant_repository =
  fixes G :: "'g grant_ops" and grants :: "'g \<Rightarrow> GrantID \<rightharpoonup> grant" and gok :: "'g \<Rightarrow> bool"
  assumes grant_Save: "gr_Save G g s e = (err, s', e') \<Longrightarrow> gok s \<Longrightarrow> gok s' \<and> env_le e e'
      \<and> (err = None \<and> grants s' = (grants s)(G_ID g \<mapsto> g) \<or> err \<noteq> None \<and> grants s' = grants s)"
    and grant_Find: "gr_FindByID G i s e = (res, s', e') \<Longrightarrow> gok s \<Longrightarrow> gok s' \<and> env_le e e' \<and> grants s' = grants s
      \<and> (case res of Inr g \<Rightarrow> grants s i = Some g \<and> G_ID g = i
         | Inl er \<Rightarrow> errors_Is er ErrNotFound \<longrightarrow> grants s i = None)"
    and grant_Revoke: "gr_Revoke G i at s e = (err, s', e') \<Longrightarrow> gok s \<Longrightarrow> gok s' \<and> env_le e e'
      \<and> (case err of
           None \<Rightarrow> (\<exists>g. grants s i = Some g \<and> G_RevokedAt g = None
                     \<and> grants s' = (grants s)(i \<mapsto> g\<lparr>G_RevokedAt := Some at\<rparr>))
         | Some er \<Rightarrow> grants s' = grants s
             \<and> (errors_Is er ErrNotFound \<longrightarrow> (\<forall>g. grants s i = Some g \<longrightarrow> G_RevokedAt g \<noteq> None)))"
    and grant_alias: "gok s \<Longrightarrow> grants s (G_ID g) = Some g0 \<Longrightarrow> gok (gr_alias G g s)
      \<and> (grants (gr_alias G g s) = grants s \<or> grants (gr_alias G g s) = (grants s)(G_ID g \<mapsto> g))"
begin

text \<open>
  A grant that was revoked stays revoked: no later \<open>Revoke\<close> moves its revocation time, and after
  any call that reports success or \<open>ErrNotFound\<close> the grant, if it exists, is revoked.
\<close>

lemma revoke_settles:
  assumes "gr_Revoke G i at s e = (err, s', e')" and "gok s"
    and "err = None \<or> (\<exists>er. err = Some er \<and> errors_Is er ErrNotFound)"
  shows "\<forall>g. grants s' i = Some g \<longrightarrow> G_RevokedAt g \<noteq> None"
  using grant_Revoke [OF assms(1,2)] assms(3) by (auto split: option.splits)

lemma revoke_other:
  assumes "gr_Revoke G i at s e = (err, s', e')" and "gok s" and "j \<noteq> i"
  shows "grants s' j = grants s j"
  using grant_Revoke [OF assms(1,2)] assms(3) by (auto split: option.splits)

end

text \<open>A store that does not fail while the storage underneath accepts writes.\<close>

locale reliable_grant_repository = grant_repository +
  assumes grant_Save_reliable: "gr_Save G g s e = (err, s', e') \<Longrightarrow> disk e = [] \<Longrightarrow> err = None \<and> disk e' = []"
    and grant_Find_reliable: "gr_FindByID G i s e = (res, s', e') \<Longrightarrow> gok s \<Longrightarrow> disk e = [] \<Longrightarrow>
      disk e' = [] \<and> (\<forall>er. res = Inl er \<longrightarrow> errors_Is er ErrNotFound)"
    and grant_Revoke_reliable: "gr_Revoke G i at s e = (err, s', e') \<Longrightarrow> gok s \<Longrightarrow> disk e = [] \<Longrightarrow>
      disk e' = [] \<and> (\<forall>er. err = Some er \<longrightarrow> errors_Is er ErrNotFound)"

section \<open>Refresh tokens (\<open>port/refresh_token_repository.go\<close>)\<close>

record 'r rt_ops =
  rt_Save :: "refresh_token \<Rightarrow> 'r \<Rightarrow> env \<Rightarrow> go_error option \<times> 'r \<times> env"
  rt_FindByTokenHash :: "string \<Rightarrow> 'r \<Rightarrow> env \<Rightarrow> (go_error + refresh_token) \<times> 'r \<times> env"
  rt_RevokeByTokenHash :: "string \<Rightarrow> 'r \<Rightarrow> env \<Rightarrow> go_error option \<times> 'r \<times> env"
  rt_RevokeAllForUser :: "UserID \<Rightarrow> 'r \<Rightarrow> env \<Rightarrow> go_error option \<times> 'r \<times> env"
  rt_RevokeAllForGrant :: "GrantID \<Rightarrow> 'r \<Rightarrow> env \<Rightarrow> go_error option \<times> 'r \<times> env"

text \<open>\<open>row_at m h rt\<close>: the store holds \<open>rt\<close>, and its hash is \<open>h\<close>.\<close>

definition row_at :: "(string \<rightharpoonup> refresh_token) \<Rightarrow> string \<Rightarrow> refresh_token \<Rightarrow> bool" where
  "row_at m h rt \<longleftrightarrow> m (RT_ID rt) = Some rt \<and> RT_TokenHash rt = h"

definition fresh_hash :: "refresh_token \<Rightarrow> (string \<rightharpoonup> refresh_token) \<Rightarrow> bool" where
  "fresh_hash rt m \<longleftrightarrow> (\<forall>i x. m i = Some x \<longrightarrow> RT_TokenHash x = RT_TokenHash rt \<longrightarrow> i = RT_ID rt)"

text \<open>A bulk revocation dates every live row it selects and leaves everything else alone.\<close>

definition revoked_as :: "bool \<Rightarrow> refresh_token \<Rightarrow> refresh_token \<Rightarrow> bool" where
  "revoked_as sel x y \<longleftrightarrow> (\<exists>r. y = x\<lparr>RT_RevokedAt := r\<rparr>
     \<and> (if sel \<and> RT_RevokedAt x = None then r \<noteq> None else r = RT_RevokedAt x))"

definition bulk_revoked ::
  "(refresh_token \<Rightarrow> bool) \<Rightarrow> (string \<rightharpoonup> refresh_token) \<Rightarrow> (string \<rightharpoonup> refresh_token) \<Rightarrow> bool" where
  "bulk_revoked sel m m' \<longleftrightarrow> (\<forall>i. rel_option (\<lambda>x y. revoked_as (sel x) x y) (m i) (m' i))"

lemma revoked_as_fields:
  assumes "revoked_as sel x y"
  shows "RT_ID y = RT_ID x" "RT_TokenHash y = RT_TokenHash x" "RT_GrantID y = RT_GrantID x"
    "RT_UserID y = RT_UserID x" "RT_RevokedAt x \<noteq> None \<Longrightarrow> RT_RevokedAt y = RT_RevokedAt x"
    "sel \<Longrightarrow> RT_RevokedAt y \<noteq> None" "\<not> sel \<Longrightarrow> y = x"
proof -
  obtain r where y: "y = x\<lparr>RT_RevokedAt := r\<rparr>"
    and r: "if sel \<and> RT_RevokedAt x = None then r \<noteq> None else r = RT_RevokedAt x"
    using assms by (auto simp: revoked_as_def)
  show "RT_ID y = RT_ID x" "RT_TokenHash y = RT_TokenHash x" "RT_GrantID y = RT_GrantID x"
    "RT_UserID y = RT_UserID x" by (simp_all add: y)
  show "RT_RevokedAt y = RT_RevokedAt x" if "RT_RevokedAt x \<noteq> None" using r that by (simp add: y)
  show "RT_RevokedAt y \<noteq> None" if sel using r that by (auto simp: y split: if_splits)
  show "y = x" if "\<not> sel" using r that by (simp add: y)
qed

lemma bulk_revokedD:
  assumes "bulk_revoked sel m m'" and "m' i = Some y"
  shows "\<exists>x. m i = Some x \<and> revoked_as (sel x) x y"
proof -
  have "rel_option (\<lambda>x y. revoked_as (sel x) x y) (m i) (Some y)"
    using assms by (metis bulk_revoked_def)
  then show ?thesis by (simp add: option_rel_Some2)
qed

lemma bulk_revoked_grant_dead:
  assumes "bulk_revoked (\<lambda>x. RT_GrantID x = g) m m'" and "m' i = Some y" and "RT_GrantID y = g"
  shows "RT_RevokedAt y \<noteq> None"
  using bulk_revokedD [OF assms(1,2)] assms(3) revoked_as_fields by metis

lemma bulk_revoked_user_dead:
  assumes "bulk_revoked (\<lambda>x. RT_UserID x = u) m m'" and "m' i = Some y" and "RT_UserID y = u"
  shows "RT_RevokedAt y \<noteq> None"
  using bulk_revokedD [OF assms(1,2)] assms(3) revoked_as_fields by metis

locale refresh_token_repository =
  fixes R :: "'r rt_ops" and rows :: "'r \<Rightarrow> string \<rightharpoonup> refresh_token" and rok :: "'r \<Rightarrow> bool"
  assumes rt_unique: "rok s \<Longrightarrow> row_at (rows s) h x \<Longrightarrow> row_at (rows s) h y \<Longrightarrow> x = y"
    and rt_keyed: "rok s \<Longrightarrow> rows s i = Some x \<Longrightarrow> RT_ID x = i"
    and rt_Save: "rt_Save R rt s e = (err, s', e') \<Longrightarrow> rok s \<Longrightarrow> fresh_hash rt (rows s) \<Longrightarrow> rok s' \<and> env_le e e'
      \<and> (err = None \<and> rows s' = (rows s)(RT_ID rt \<mapsto> rt) \<or> err \<noteq> None \<and> rows s' = rows s)"
    and rt_Find: "rt_FindByTokenHash R h s e = (res, s', e') \<Longrightarrow> rok s \<Longrightarrow> rok s' \<and> env_le e e' \<and> rows s' = rows s
      \<and> (case res of Inr rt \<Rightarrow> row_at (rows s) h rt
         | Inl er \<Rightarrow> errors_Is er ErrNotFound \<longrightarrow> (\<forall>rt. \<not> row_at (rows s) h rt))"
    and rt_Revoke: "rt_RevokeByTokenHash R h s e = (err, s', e') \<Longrightarrow> rok s \<Longrightarrow> rok s' \<and> env_le e e'
      \<and> (case err of
           None \<Rightarrow> (\<exists>rt t. row_at (rows s) h rt \<and> RT_RevokedAt rt = None \<and> clock e \<le> RT_ExpiresAt rt
               \<and> rows s' = (rows s)(RT_ID rt \<mapsto> rt\<lparr>RT_RevokedAt := Some t\<rparr>))
         | Some er \<Rightarrow> rows s' = rows s
             \<and> (errors_Is er ErrNotFound \<longrightarrow>
                 (\<forall>rt. row_at (rows s) h rt \<longrightarrow> RT_RevokedAt rt \<noteq> None \<or> RT_ExpiresAt rt < clock e')))"
    and rt_RevokeGrant: "rt_RevokeAllForGrant R g s e = (err, s', e') \<Longrightarrow> rok s \<Longrightarrow> rok s' \<and> env_le e e'
      \<and> (err = None \<and> bulk_revoked (\<lambda>x. RT_GrantID x = g) (rows s) (rows s')
         \<or> err \<noteq> None \<and> rows s' = rows s)"
    and rt_RevokeUser: "rt_RevokeAllForUser R u s e = (err, s', e') \<Longrightarrow> rok s \<Longrightarrow> rok s' \<and> env_le e e'
      \<and> (err = None \<and> bulk_revoked (\<lambda>x. RT_UserID x = u) (rows s) (rows s')
         \<or> err \<noteq> None \<and> rows s' = rows s)"
begin

text \<open>The compare-and-set at the heart of rotation: one token is revoked by at most one caller.\<close>

lemma revoke_once:
  assumes "rt_RevokeByTokenHash R h s e = (None, s1, e1)" and "rok s"
    and "rt_RevokeByTokenHash R h s1 e2 = (err, s2, e3)"
  shows "err \<noteq> None"
proof
  assume none: "err = None"
  obtain rt t where rt: "row_at (rows s) h rt" "rows s1 = (rows s)(RT_ID rt \<mapsto> rt\<lparr>RT_RevokedAt := Some t\<rparr>)"
    and ok: "rok s1"
    using rt_Revoke [OF assms(1,2)] by auto
  then have "row_at (rows s1) h (rt\<lparr>RT_RevokedAt := Some t\<rparr>)" by (simp add: row_at_def)
  moreover obtain rt' where "row_at (rows s1) h rt'" "RT_RevokedAt rt' = None"
    using rt_Revoke [OF assms(3) ok] none by auto
  ultimately show False using rt_unique [OF ok] by fastforce
qed

end

locale reliable_refresh_token_repository = refresh_token_repository +
  assumes rt_Save_reliable: "rt_Save R rt s e = (err, s', e') \<Longrightarrow> disk e = [] \<Longrightarrow> err = None \<and> disk e' = []"
    and rt_Find_reliable: "rt_FindByTokenHash R h s e = (res, s', e') \<Longrightarrow> rok s \<Longrightarrow> disk e = [] \<Longrightarrow>
      disk e' = [] \<and> (\<forall>er. res = Inl er \<longrightarrow> errors_Is er ErrNotFound)"
    and rt_Revoke_reliable: "rt_RevokeByTokenHash R h s e = (err, s', e') \<Longrightarrow> rok s \<Longrightarrow> disk e = [] \<Longrightarrow>
      disk e' = [] \<and> (\<forall>er. err = Some er \<longrightarrow> errors_Is er ErrNotFound)"
    and rt_RevokeGrant_reliable: "rt_RevokeAllForGrant R g s e = (err, s', e') \<Longrightarrow> disk e = [] \<Longrightarrow>
      err = None \<and> disk e' = []"
    and rt_RevokeUser_reliable: "rt_RevokeAllForUser R u s e = (err, s', e') \<Longrightarrow> disk e = [] \<Longrightarrow>
      err = None \<and> disk e' = []"

section \<open>Users (\<open>port/user_repository.go\<close>)\<close>

text \<open>
  \<open>UpdateByPasswordResetTokenHash\<close> returns only an error in Go, and its caller's closure records what
  it saw in captured variables; here the updated copy is returned instead.
\<close>

record 'u user_ops =
  ur_CreateUser :: "user \<Rightarrow> 'u \<Rightarrow> env \<Rightarrow> go_error option \<times> 'u \<times> env"
  ur_FindByEmail :: "TenantID \<Rightarrow> string \<Rightarrow> 'u \<Rightarrow> env \<Rightarrow> (go_error + user) \<times> 'u \<times> env"
  ur_FindByID :: "UserID \<Rightarrow> 'u \<Rightarrow> env \<Rightarrow> (go_error + user) \<times> 'u \<times> env"
  ur_FindByPasswordResetTokenHash :: "string \<Rightarrow> 'u \<Rightarrow> env \<Rightarrow> (go_error + user) \<times> 'u \<times> env"
  ur_Save :: "user \<Rightarrow> 'u \<Rightarrow> env \<Rightarrow> go_error option \<times> 'u \<times> env"
  ur_UpdateByPasswordResetTokenHash ::
    "string \<Rightarrow> (user \<Rightarrow> env \<Rightarrow> (go_error + user) \<times> env) \<Rightarrow> 'u \<Rightarrow> env \<Rightarrow> (go_error + user) \<times> 'u \<times> env"
  ur_alias :: "user \<Rightarrow> 'u \<Rightarrow> 'u"

text \<open>
  What a caller of \<open>Save\<close> owes the store: accounts belong to the one tenant of the deployment, and
  no other account has the same e-mail address or the same pending reset token.
\<close>

definition may_save_user :: "user \<Rightarrow> (UserID \<rightharpoonup> user) \<Rightarrow> bool" where
  "may_save_user u m \<longleftrightarrow> U_TenantID u = DefaultTenantID
     \<and> (\<forall>i x. m i = Some x \<longrightarrow> U_Email x = U_Email u \<longrightarrow> i = U_ID u)
     \<and> (\<forall>i x h. m i = Some x \<longrightarrow> U_PasswordResetTokenHash x = Some h \<longrightarrow>
          U_PasswordResetTokenHash u = Some h \<longrightarrow> i = U_ID u)"

definition same_identity :: "user \<Rightarrow> user \<Rightarrow> bool" where
  "same_identity u v \<longleftrightarrow> U_ID u = U_ID v \<and> U_Email u = U_Email v \<and> U_TenantID u = U_TenantID v
     \<and> U_PasswordResetTokenHash u = U_PasswordResetTokenHash v"

locale user_repository =
  fixes U :: "'u user_ops" and users :: "'u \<Rightarrow> UserID \<rightharpoonup> user" and uok :: "'u \<Rightarrow> bool"
  assumes user_keyed: "uok s \<Longrightarrow> users s i = Some u \<Longrightarrow> U_ID u = i \<and> may_save_user u (users s)"
    and user_Save: "ur_Save U u s e = (err, s', e') \<Longrightarrow> uok s \<Longrightarrow> may_save_user u (users s) \<Longrightarrow> uok s' \<and> env_le e e'
      \<and> (err = None \<and> users s' = (users s)(U_ID u \<mapsto> u) \<or> err \<noteq> None \<and> users s' = users s)"
    and user_FindByID: "ur_FindByID U i s e = (res, s', e') \<Longrightarrow> uok s \<Longrightarrow> uok s' \<and> env_le e e' \<and> users s' = users s
      \<and> (case res of Inr u \<Rightarrow> users s i = Some u \<and> U_ID u = i
         | Inl er \<Rightarrow> errors_Is er ErrNotFound \<longrightarrow> users s i = None)"
    and user_FindByEmail: "ur_FindByEmail U DefaultTenantID em s e = (res, s', e') \<Longrightarrow> uok s \<Longrightarrow>
      uok s' \<and> env_le e e' \<and> users s' = users s
      \<and> (case res of Inr u \<Rightarrow> users s (U_ID u) = Some u \<and> U_Email u = em
         | Inl er \<Rightarrow> errors_Is er ErrNotFound \<longrightarrow> (\<forall>i u. users s i = Some u \<longrightarrow> U_Email u \<noteq> em))"
    and user_Create: "ur_CreateUser U u s e = (err, s', e') \<Longrightarrow> uok s \<Longrightarrow> U_TenantID u = DefaultTenantID \<Longrightarrow>
      U_PasswordResetTokenHash u = None \<Longrightarrow> uok s' \<and> env_le e e'
      \<and> (case err of
           None \<Rightarrow> users s' = (users s)(U_ID u \<mapsto> u) \<and> (\<forall>i x. users s i = Some x \<longrightarrow> U_Email x \<noteq> U_Email u)
         | Some er \<Rightarrow> users s' = users s \<and>
             (errors_Is er ErrConflict \<longrightarrow> (\<exists>i x. users s i = Some x \<and> U_Email x = U_Email u)))"
    and user_Update: "ur_UpdateByPasswordResetTokenHash U h upd s e = (ru, s', e') \<Longrightarrow> uok s \<Longrightarrow>
      (\<forall>x e cp e1. upd x e = (Inr cp, e1) \<longrightarrow> U_ID cp = U_ID x \<and> U_Email cp = U_Email x
         \<and> U_TenantID cp = U_TenantID x \<and> U_PasswordResetTokenHash cp = None) \<Longrightarrow>
      (\<forall>x e. env_le e (snd (upd x e))) \<Longrightarrow> uok s' \<and> env_le e e'
      \<and> (case ru of
           Inr cp \<Rightarrow> (\<exists>x e1. users s (U_ID x) = Some x \<and> U_PasswordResetTokenHash x = Some h
              \<and> upd x e = (Inr cp, e1) \<and> env_le e1 e' \<and> users s' = (users s)(U_ID x \<mapsto> cp))
         | Inl er \<Rightarrow> users s' = users s)"
    and user_alias: "uok s \<Longrightarrow> users s (U_ID u) = Some u0 \<Longrightarrow> same_identity u u0 \<Longrightarrow> uok (ur_alias U u s)
      \<and> (users (ur_alias U u s) = users s \<or> users (ur_alias U u s) = (users s)(U_ID u \<mapsto> u))"
begin

text \<open>A user that was found, changed and saved reads back changed.\<close>

lemma saved_user_found:
  assumes "ur_Save U u s e = (None, s', e')" and "uok s" and "may_save_user u (users s)"
    and "ur_FindByID U (U_ID u) s' e1 = (Inr v, s'', e'')"
  shows "v = u"
proof -
  from user_Save [OF assms(1,2,3)] have ok: "uok s'" and u: "users s' (U_ID u) = Some u" by auto
  from user_FindByID [OF assms(4) ok] have "users s' (U_ID u) = Some v" by simp
  with u show ?thesis by simp
qed

lemma email_unique:
  assumes "uok s" and "users s i = Some u" and "users s j = Some v" and "U_Email u = U_Email v"
  shows "i = j"
  using user_keyed [OF assms(1,2)] user_keyed [OF assms(1,3)] assms(2-4) unfolding may_save_user_def by blast

text \<open>An account whose identifying fields did not change may be saved.\<close>

lemma may_save_same:
  assumes "uok s" and "users s (U_ID u0) = Some u0" and "same_identity u u0"
  shows "may_save_user u (users s)"
  using user_keyed [OF assms(1,2)] assms(3) by (simp add: may_save_user_def same_identity_def)

end

text \<open>Reads and writes that succeed while the storage underneath accepts writes.\<close>

locale reliable_user_repository = user_repository +
  assumes user_Save_reliable: "ur_Save U u s e = (err, s', e') \<Longrightarrow> disk e = [] \<Longrightarrow> err = None \<and> disk e' = []"
    and user_FindByID_reliable: "ur_FindByID U i s e = (res, s', e') \<Longrightarrow> uok s \<Longrightarrow> disk e = [] \<Longrightarrow>
      disk e' = [] \<and> (\<forall>er. res = Inl er \<longrightarrow> errors_Is er ErrNotFound)"
    and user_FindByEmail_reliable: "ur_FindByEmail U DefaultTenantID em s e = (res, s', e') \<Longrightarrow> uok s \<Longrightarrow> disk e = [] \<Longrightarrow>
      disk e' = [] \<and> (\<forall>er. res = Inl er \<longrightarrow> errors_Is er ErrNotFound)"
    and user_Update_reliable: "ur_UpdateByPasswordResetTokenHash U h upd s e = (ru, s', e') \<Longrightarrow> uok s \<Longrightarrow> disk e = [] \<Longrightarrow>
      (\<forall>x e. env_le e (snd (upd x e)) \<and> disk (snd (upd x e)) = disk e) \<Longrightarrow>
      users s i = Some x \<Longrightarrow> U_PasswordResetTokenHash x = Some h \<Longrightarrow>
      disk e' = [] \<and> ru = fst (upd x e)"

end
