(* ===== verification/Jwt.thy ===== *)
theory Jwt
  imports Env
begin

text \<open>
  Tokens on the wire: \<open>core/jwt/jwt.go\<close>, \<open>infrastructure/jwt/jwt_service.go\<close> and the adapter
  \<open>modules/auth/adapter/out/jwt_adapter.go\<close>. The library \<open>golang-jwt\<close> is the parameter \<open>jwt_lib\<close>:
  signing a claim map and parsing a token with a key function, which checks the signature and the
  registered time claims. Building the claim maps and every check on the parsed claims is modelled.
\<close>

section \<open>Claims\<close>

datatype json_val = JStr string | JNum int | JBool bool | JList "string list"

type_synonym map_claims = "(string \<times> json_val) list"

record claims =
  cl_Subject :: string
  cl_Scope :: string
  cl_Issuer :: string
  cl_Audience :: "string list"
  cl_ID :: string
  cl_ExpiresAt :: "time option"
  cl_IssuedAt :: "time option"
  cl_GrantID :: string

record id_token_claims =
  ic_Subject :: string
  ic_Email :: string
  ic_EmailVerified :: bool
  ic_Nonce :: string
  ic_ExpiresAt :: "time option"

record jwk =
  k_Kty :: string
  k_E :: string
  k_N :: string
  k_Alg :: string
  k_Use :: string
  k_Kid :: string

definition claims_IsExpired :: "claims \<Rightarrow> env \<Rightarrow> bool \<times> env" where
  "claims_IsExpired c e =
     (case cl_ExpiresAt c of
        None \<Rightarrow> (True, e)
      | Some x \<Rightarrow> let (t, e1) = now e in (t > x, e1))"

section \<open>The library\<close>

text \<open>
  \<open>jl_Sign kid claims\<close> is \<open>SignedString\<close> with the configured RS256 key. \<open>jl_Parse keyfunc s t\<close> is
  \<open>ParseWithClaims\<close> at time \<open>t\<close>: the key function sees the header's \<open>alg\<close> and may refuse it.
\<close>

record jwt_lib =
  jl_Sign :: "string \<Rightarrow> map_claims \<Rightarrow> go_error + string"
  jl_Parse :: "(string \<Rightarrow> go_error option) \<Rightarrow> string \<Rightarrow> time \<Rightarrow> go_error + map_claims"

record jwt_service =
  j_lib :: jwt_lib
  j_prims :: prims
  j_jwk :: jwk
  j_Issuer :: string
  j_kid :: string

definition accessTokenAudience :: string where "accessTokenAudience = ''APP_ID''"

definition signToken :: "jwt_service \<Rightarrow> map_claims \<Rightarrow> go_error + string" where
  "signToken j cs = jl_Sign (j_lib j) (j_kid j) cs"

definition verifyByKey :: "string \<Rightarrow> go_error option" where
  "verifyByKey alg =
     (if alg \<in> set [''RS256'', ''RS384'', ''RS512''] then None
      else Some (ErrText (''invalid signing method: '' @ alg)))"

section \<open>Generation\<close>

definition jwt_GenAccessToken ::
  "jwt_service \<Rightarrow> string \<Rightarrow> string \<Rightarrow> string \<Rightarrow> int \<Rightarrow> env \<Rightarrow> (go_error + string) \<times> env" where
  "jwt_GenAccessToken j userID sc grantID expireSecs e =
     (let (t, e1) = now e; (jti, e2) = uuid_NewString (j_prims j) e1;
          cs = [(''sub'', JStr userID), (''aud'', JStr accessTokenAudience), (''scope'', JStr sc),
                (''iat'', JNum (unix t)), (''exp'', JNum (unix (t + Second * expireSecs))),
                (''jti'', JStr jti), (''iss'', JStr (j_Issuer j)), (''token_use'', JStr ''access'')]
               @ (if grantID \<noteq> [] then [(''sid'', JStr grantID)] else [])
      in (signToken j cs, e2))"

definition jwt_GenRefreshToken :: "jwt_service \<Rightarrow> string \<Rightarrow> env \<Rightarrow> (go_error + string) \<times> env" where
  "jwt_GenRefreshToken j userID e =
     (case random_Token (j_prims j) e of
        (Inl err, e1) \<Rightarrow> (Inl (ErrText (''gen random bytes failed for user '' @ userID @ '': '' @ err_Error err)), e1)
      | (Inr tok, e1) \<Rightarrow> (Inr tok, e1))"

record id_token_args =
  ia_UserID :: string
  ia_ClientID :: string
  ia_Email :: string
  ia_Nonce :: string
  ia_GrantID :: string
  ia_EmailVerified :: bool
  ia_ExpireSecs :: int

definition jwt_GenIDToken :: "jwt_service \<Rightarrow> id_token_args \<Rightarrow> env \<Rightarrow> (go_error + string) \<times> env" where
  "jwt_GenIDToken j args e =
     (let (t, e1) = now e;
          cs = [(''iss'', JStr (j_Issuer j)), (''sub'', JStr (ia_UserID args)), (''aud'', JStr (ia_ClientID args)),
                (''iat'', JNum (unix t)), (''exp'', JNum (unix (t + Second * ia_ExpireSecs args))),
                (''email'', JStr (ia_Email args)), (''email_verified'', JBool (ia_EmailVerified args)),
                (''token_use'', JStr ''id'')]
               @ (if ia_Nonce args \<noteq> [] then [(''nonce'', JStr (ia_Nonce args))] else [])
               @ (if ia_GrantID args \<noteq> [] then [(''sid'', JStr (ia_GrantID args))] else [])
      in (signToken j cs, e1))"

section \<open>Parsing\<close>

text \<open>
  The claim structs as the JSON decoder fills them: a missing member is the zero value, a member
  of another type is an error. A numeric date is a whole second.
\<close>

definition json_err :: go_error where "json_err = ErrText ''json: cannot unmarshal''"

definition str_claim :: "map_claims \<Rightarrow> string \<Rightarrow> go_error + string" where
  "str_claim cs k = (case map_of cs k of None \<Rightarrow> Inr [] | Some (JStr s) \<Rightarrow> Inr s | Some _ \<Rightarrow> Inl json_err)"

definition bool_claim :: "map_claims \<Rightarrow> string \<Rightarrow> go_error + bool" where
  "bool_claim cs k = (case map_of cs k of None \<Rightarrow> Inr False | Some (JBool b) \<Rightarrow> Inr b | Some _ \<Rightarrow> Inl json_err)"

definition date_claim :: "map_claims \<Rightarrow> string \<Rightarrow> go_error + time option" where
  "date_claim cs k = (case map_of cs k of
       None \<Rightarrow> Inr None | Some (JNum n) \<Rightarrow> Inr (Some (n * Second)) | Some _ \<Rightarrow> Inl json_err)"

definition aud_claim :: "map_claims \<Rightarrow> go_error + string list" where
  "aud_claim cs = (case map_of cs ''aud'' of
       None \<Rightarrow> Inr [] | Some (JStr s) \<Rightarrow> Inr [s] | Some (JList l) \<Rightarrow> Inr l | Some _ \<Rightarrow> Inl json_err)"

definition jwt_ParseJWT :: "jwt_service \<Rightarrow> string \<Rightarrow> env \<Rightarrow> (go_error + claims) \<times> env" where
  "jwt_ParseJWT j tokenString e =
     (let (t, e1) = now e in
      (case jl_Parse (j_lib j) verifyByKey tokenString t of
         Inl err \<Rightarrow> Inl err
       | Inr cs \<Rightarrow>
           (case (str_claim cs ''iss'', str_claim cs ''sub'', aud_claim cs, date_claim cs ''exp'',
                  date_claim cs ''iat'', str_claim cs ''jti'', str_claim cs ''scope'',
                  str_claim cs ''token_use'', str_claim cs ''sid'') of
              (Inr iss, Inr sub, Inr aud, Inr ex, Inr ia, Inr jti, Inr sc, Inr tu, Inr sid) \<Rightarrow>
                if iss \<noteq> j_Issuer j then Inl (ErrText ''invalid issuer'')
                else if accessTokenAudience \<notin> set aud then Inl (ErrText ''invalid audience'')
                else if tu \<noteq> ''access'' then Inl (ErrText ''not an access token'')
                else Inr \<lparr>cl_Subject = sub, cl_Scope = sc, cl_Issuer = iss, cl_Audience = aud,
                          cl_ID = jti, cl_ExpiresAt = ex, cl_IssuedAt = ia, cl_GrantID = sid\<rparr>
            | _ \<Rightarrow> Inl json_err), e1))"

definition jwt_ParseIDToken :: "jwt_service \<Rightarrow> string \<Rightarrow> env \<Rightarrow> (go_error + id_token_claims) \<times> env" where
  "jwt_ParseIDToken j tokenString e =
     (let (t, e1) = now e in
      (case jl_Parse (j_lib j) verifyByKey tokenString t of
         Inl err \<Rightarrow> Inl err
       | Inr cs \<Rightarrow>
           (case (str_claim cs ''iss'', str_claim cs ''sub'', date_claim cs ''exp'', str_claim cs ''email'',
                  bool_claim cs ''email_verified'', str_claim cs ''nonce'', str_claim cs ''token_use'') of
              (Inr iss, Inr sub, Inr ex, Inr em, Inr ev, Inr nonce, Inr tu) \<Rightarrow>
                if iss \<noteq> j_Issuer j then Inl (ErrText ''invalid issuer'')
                else if tu \<noteq> ''id'' then Inl (ErrText ''not an ID token'')
                else Inr \<lparr>ic_Subject = sub, ic_Email = em, ic_EmailVerified = ev, ic_Nonce = nonce,
                          ic_ExpiresAt = ex\<rparr>
            | _ \<Rightarrow> Inl json_err), e1))"

definition jwt_GetJWKS :: "jwt_service \<Rightarrow> (string \<times> jwk list) list" where
  "jwt_GetJWKS j = [(''keys'', [j_jwk j])]"

section \<open>The token service port\<close>

record token_service =
  ts_GenAccessToken :: "string \<Rightarrow> string \<Rightarrow> string \<Rightarrow> int \<Rightarrow> env \<Rightarrow> (go_error + string) \<times> env"
  ts_GenRefreshToken :: "string \<Rightarrow> env \<Rightarrow> (go_error + string) \<times> env"
  ts_GenIDToken :: "id_token_args \<Rightarrow> env \<Rightarrow> (go_error + string) \<times> env"
  ts_ParseJWT :: "string \<Rightarrow> env \<Rightarrow> (go_error + claims) \<times> env"
  ts_ParseIDToken :: "string \<Rightarrow> env \<Rightarrow> (go_error + id_token_claims) \<times> env"
  ts_GetJWKS :: "(string \<times> jwk list) list"
  ts_GetIssuer :: string

definition jwt_adapter :: "jwt_service \<Rightarrow> token_service" where
  "jwt_adapter j = \<lparr>ts_GenAccessToken = jwt_GenAccessToken j, ts_GenRefreshToken = jwt_GenRefreshToken j,
     ts_GenIDToken = jwt_GenIDToken j, ts_ParseJWT = jwt_ParseJWT j, ts_ParseIDToken = jwt_ParseIDToken j,
     ts_GetJWKS = jwt_GetJWKS j, ts_GetIssuer = j_Issuer j\<rparr>"

text \<open>
  What clients of the port need of any implementation: the environment moves forward, and what is
  accepted as an access token carries the service's issuer and audience.
\<close>

locale token_port =
  fixes T :: token_service
  assumes GenAccess_env: "ts_GenAccessToken T u sc g n e = (r, e') \<Longrightarrow> env_le e e'"
    and GenRefresh_env: "ts_GenRefreshToken T u e = (r, e') \<Longrightarrow> env_le e e'"
    and GenID_env: "ts_GenIDToken T a e = (r, e') \<Longrightarrow> env_le e e'"
    and Parse_env: "ts_ParseJWT T s e = (rc, e') \<Longrightarrow> env_le e e'"
    and Parse_issuer: "ts_ParseJWT T s e = (Inr c, e') \<Longrightarrow> cl_Issuer c = ts_GetIssuer T"

interpretation jwt: token_port "jwt_adapter j" for j
proof (unfold_locales, goal_cases)
  case 1
  then show ?case by (auto simp: jwt_adapter_def jwt_GenAccessToken_def Let_def uuid_NewString_def env_le_def
      split: prod.splits dest!: nowD)
next
  case 2
  then show ?case by (auto simp: jwt_adapter_def jwt_GenRefreshToken_def random_Token_Inr env_le_def)
next
  case 3
  then show ?case by (auto simp: jwt_adapter_def jwt_GenIDToken_def Let_def env_le_def split: prod.splits dest!: nowD)
next
  case 4
  then show ?case by (auto simp: jwt_adapter_def jwt_ParseJWT_def Let_def env_le_def split: prod.splits dest!: nowD)
next
  case 5
  then show ?case by (auto simp: jwt_adapter_def jwt_ParseJWT_def Let_def split: prod.splits sum.splits if_splits)
qed

text \<open>An implementation whose refresh tokens are fresh draws of the random source, and that writes no file.\<close>

locale drawing_token_port = token_port +
  fixes p :: prims
  assumes GenRefresh_draw: "ts_GenRefreshToken T u e = (Inr s, e') \<Longrightarrow>
      s = RawURLEncoding_EncodeToString (p_rand p (rand_ctr e) TokenBytes) \<and> rand_ctr e < rand_ctr e'"
    and GenAccess_disk: "ts_GenAccessToken T u sc g n e = (r, e') \<Longrightarrow> disk e' = disk e"
    and GenRefresh_disk: "ts_GenRefreshToken T u e = (r, e') \<Longrightarrow> disk e' = disk e"
    and GenID_disk: "ts_GenIDToken T a e = (r, e') \<Longrightarrow> disk e' = disk e"
    and Parse_disk: "ts_ParseJWT T s e = (rc, e') \<Longrightarrow> disk e' = disk e"

interpretation jwt: drawing_token_port "jwt_adapter j" "j_prims j" for j
proof (unfold_locales, goal_cases)
  case 1
  then show ?case by (auto simp: jwt_adapter_def jwt_GenRefreshToken_def random_Token_Inr)
next
  case 2
  then show ?case by (auto simp: jwt_adapter_def jwt_GenAccessToken_def Let_def uuid_NewString_def split: prod.splits dest!: nowD)
next
  case 3
  then show ?case by (auto simp: jwt_adapter_def jwt_GenRefreshToken_def random_Token_Inr)
next
  case 4
  then show ?case by (auto simp: jwt_adapter_def jwt_GenIDToken_def Let_def split: prod.splits dest!: nowD)
next
  case 5
  then show ?case by (auto simp: jwt_adapter_def jwt_ParseJWT_def Let_def split: prod.splits dest!: nowD)
qed

text \<open>
  The documented behaviour of the library: a token it signed parses back to its claims while the
  key function accepts RS256 and the time claims hold, and no token parses outside those times.
\<close>

definition jwt_lib_sound :: "jwt_lib \<Rightarrow> bool" where
  "jwt_lib_sound L \<longleftrightarrow> (\<forall>kf s t cs n. jl_Parse L kf s t = Inr cs \<longrightarrow> map_of cs ''exp'' = Some (JNum n) \<longrightarrow>
      t < n * Second)"

definition jwt_lib_complete :: "jwt_lib \<Rightarrow> bool" where
  "jwt_lib_complete L \<longleftrightarrow> (\<forall>kid cs s kf t ia ex. jl_Sign L kid cs = Inr s \<longrightarrow> kf ''RS256'' = None \<longrightarrow>
      map_of cs ''iat'' = Some (JNum ia) \<longrightarrow> map_of cs ''exp'' = Some (JNum ex) \<longrightarrow>
      ia * Second \<le> t \<longrightarrow> t < ex * Second \<longrightarrow> jl_Parse L kf s t = Inr cs)"

lemmas claim_simps [simp] = str_claim_def date_claim_def aud_claim_def

text \<open>A freshly generated access token parses to the claims it was generated with until it expires.\<close>

lemma access_token_round_trip:
  assumes lib: "jwt_lib_complete (j_lib j)"
    and gen: "jwt_GenAccessToken j u sc g n e = (Inr s, e1)"
    and parse: "jwt_ParseJWT j s e2 = (r, e3)"
    and iat: "unix (clock e1) * Second \<le> clock e3" and ex: "clock e3 < unix (clock e1 + Second * n) * Second"
  shows "r = Inr \<lparr>cl_Subject = u, cl_Scope = sc, cl_Issuer = j_Issuer j, cl_Audience = [accessTokenAudience],
      cl_ID = p_uuid (j_prims j) (uuid_ctr e), cl_ExpiresAt = Some (unix (clock e1 + Second * n) * Second),
      cl_IssuedAt = Some (unix (clock e1) * Second), cl_GrantID = g\<rparr>"
proof -
  obtain t0 ea where t0: "now e = (t0, ea)" by (metis surj_pair)
  then have ck: "clock e1 = t0" and ctr: "uuid_ctr ea = uuid_ctr e"
    using gen by (auto simp: jwt_GenAccessToken_def uuid_NewString_def Let_def dest!: nowD)
  define cs where "cs = [(''sub'', JStr u), (''aud'', JStr accessTokenAudience), (''scope'', JStr sc),
                (''iat'', JNum (unix t0)), (''exp'', JNum (unix (t0 + Second * n))),
                (''jti'', JStr (p_uuid (j_prims j) (uuid_ctr e))), (''iss'', JStr (j_Issuer j)),
                (''token_use'', JStr ''access'')] @ (if g \<noteq> [] then [(''sid'', JStr g)] else [])"
  have sign: "jl_Sign (j_lib j) (j_kid j) cs = Inr s"
    using gen t0 ctr by (simp add: jwt_GenAccessToken_def uuid_NewString_def Let_def signToken_def cs_def)
  obtain t eb where t: "now e2 = (t, eb)" by (metis surj_pair)
  then have te: "e3 = eb" "clock e3 = t" using parse by (auto simp: jwt_ParseJWT_def dest!: nowD)
  have iat_c: "map_of cs ''iat'' = Some (JNum (unix t0))" and exp_c: "map_of cs ''exp'' = Some (JNum (unix (t0 + Second * n)))"
    by (simp_all add: cs_def)
  have "jl_Parse (j_lib j) verifyByKey s t = Inr cs"
    using lib sign iat_c exp_c iat ex te ck
    unfolding jwt_lib_complete_def by (auto simp: verifyByKey_def)
  then show ?thesis
    using parse t ck by (auto simp: jwt_ParseJWT_def cs_def)
qed

end
