(* ===== verification/Clients.thy ===== *)
theory Clients
  imports Scope
begin

text \<open>
  Registered OAuth clients (\<open>modules/auth/domain/entity/client.go\<close>) and the static registry that
  holds them (\<open>modules/auth/adapter/out/config_client_registry.go\<close>).
\<close>

section \<open>Authentication methods and grant types\<close>

text \<open>
  \<open>ClientAuthMethod\<close> and \<open>GrantType\<close> are string types in Go. A registered client's values come
  from the parsers below, but a struct literal may hold any string, hence the last constructor.
\<close>

datatype client_auth_method =
    ClientAuthNone | ClientAuthSecretBasic | ClientAuthSecretPost | ClientAuthOther string

definition ParseClientAuthMethod :: "string \<Rightarrow> go_error + client_auth_method" where
  "ParseClientAuthMethod raw =
     (if raw = ''none'' then Inr ClientAuthNone
      else if raw = ''client_secret_basic'' then Inr ClientAuthSecretBasic
      else if raw = ''client_secret_post'' then Inr ClientAuthSecretPost
      else Inl (ErrText (''unsupported token_endpoint_auth_method: '' @ raw)))"

datatype grant_type =
    GrantAuthorizationCode | GrantRefreshToken | GrantPassword | GrantClientCredentials

definition ParseGrantType :: "string \<Rightarrow> go_error + grant_type" where
  "ParseGrantType raw =
     (if raw = ''authorization_code'' then Inr GrantAuthorizationCode
      else if raw = ''refresh_token'' then Inr GrantRefreshToken
      else if raw = ''password'' then Inr GrantPassword
      else if raw = ''client_credentials'' then Inr GrantClientCredentials
      else Inl (ErrText (''unsupported grant type: '' @ raw)))"

section \<open>Clients\<close>

record client =
  C_ID :: ClientID
  C_TenantID :: TenantID
  C_AuthMethod :: client_auth_method
  C_SecretHash :: "string option"
  C_RedirectURIs :: "string list"
  C_AllowedGrants :: "grant_type list"

record client_args =
  CA_ID :: string
  CA_TenantID :: TenantID
  CA_AuthMethod :: client_auth_method
  CA_Secret :: string
  CA_RedirectURIs :: "string list"
  CA_AllowedGrants :: "grant_type list"

definition normalizeRedirectURI :: "prims \<Rightarrow> string \<Rightarrow> string" where
  "normalizeRedirectURI p raw =
     (case p_url_Parse p raw of None \<Rightarrow> raw | Some u \<Rightarrow> p_url_String p u)"

definition clientArgs_validate :: "client_args \<Rightarrow> go_error option" where
  "clientArgs_validate a =
     (if CA_RedirectURIs a = [] then Some (ErrText ''client must have at least one redirect URI'')
      else if CA_AllowedGrants a = [] then Some (ErrText ''client must allow at least one grant type'')
      else case CA_AuthMethod a of
          ClientAuthNone \<Rightarrow>
            if CA_Secret a \<noteq> [] then Some (ErrText ''public client (auth method none) must not have a secret'')
            else None
        | ClientAuthSecretBasic \<Rightarrow>
            if CA_Secret a = [] then Some (ErrText ''confidential client requires a secret'') else None
        | ClientAuthSecretPost \<Rightarrow>
            if CA_Secret a = [] then Some (ErrText ''confidential client requires a secret'') else None
        | ClientAuthOther m \<Rightarrow> Some (ErrText (''unsupported token_endpoint_auth_method: '' @ m)))"

definition bcrypt_DefaultCost :: nat where "bcrypt_DefaultCost = 10"

definition clientArgs_hashSecret :: "prims \<Rightarrow> client_args \<Rightarrow> env \<Rightarrow> (go_error + string option) \<times> env" where
  "clientArgs_hashSecret p a e =
     (if CA_AuthMethod a = ClientAuthNone then (Inr None, e)
      else let (salt, e1) = rand_Read p 16 e in
        case p_bcrypt_Generate p bcrypt_DefaultCost salt (CA_Secret a) of
          Inl err \<Rightarrow> (Inl err, e1)
        | Inr h \<Rightarrow> (Inr (Some h), e1))"

definition NewClient :: "prims \<Rightarrow> client_args \<Rightarrow> env \<Rightarrow> (go_error + client) \<times> env" where
  "NewClient p args e =
     (case NewClientID (CA_ID args) of
        Inl err \<Rightarrow> (Inl err, e)
      | Inr i \<Rightarrow>
          (case clientArgs_validate args of
             Some err \<Rightarrow> (Inl err, e)
           | None \<Rightarrow>
               (case clientArgs_hashSecret p args e of
                  (Inl err, e1) \<Rightarrow> (Inl err, e1)
                | (Inr secretHash, e1) \<Rightarrow>
                    (Inr \<lparr>C_ID = i,
                          C_TenantID = (if CA_TenantID args = [] then DefaultTenantID else CA_TenantID args),
                          C_AuthMethod = CA_AuthMethod args,
                          C_SecretHash = secretHash,
                          C_RedirectURIs = map (normalizeRedirectURI p) (CA_RedirectURIs args),
                          C_AllowedGrants = CA_AllowedGrants args\<rparr>, e1))))"

definition client_IsPublic :: "client \<Rightarrow> bool" where
  "client_IsPublic c \<longleftrightarrow> C_AuthMethod c = ClientAuthNone"

definition VerifySecret :: "prims \<Rightarrow> client \<Rightarrow> string \<Rightarrow> go_error option" where
  "VerifySecret p c secret =
     (case C_SecretHash c of
        None \<Rightarrow> Some (ErrText ''client has no secret'')
      | Some h \<Rightarrow> if p_bcrypt_Compare p h secret then None
                  else Some (ErrText ''crypto/bcrypt: hashedPassword is not the hash of the given password''))"

definition AllowsGrant :: "client \<Rightarrow> grant_type \<Rightarrow> bool" where
  "AllowsGrant c g \<longleftrightarrow> g \<in> set (C_AllowedGrants c)"

definition AllowsRedirectURI :: "prims \<Rightarrow> client \<Rightarrow> string \<Rightarrow> bool" where
  "AllowsRedirectURI p c uri \<longleftrightarrow> normalizeRedirectURI p uri \<in> set (C_RedirectURIs c)"

text \<open>
  Well-formed clients: a secret hash is stored exactly for the confidential ones, and there is
  something to redirect to and some grant to use. \<open>NewClient\<close> builds no others.
\<close>

definition client_ok :: "client \<Rightarrow> bool" where
  "client_ok c \<longleftrightarrow> C_ID c \<noteq> [] \<and> C_TenantID c \<noteq> [] \<and> C_RedirectURIs c \<noteq> [] \<and> C_AllowedGrants c \<noteq> []
     \<and> (\<forall>m. C_AuthMethod c \<noteq> ClientAuthOther m)
     \<and> (client_IsPublic c \<longleftrightarrow> C_SecretHash c = None)"

lemma NewClient_Inr:
  assumes "NewClient p args e = (Inr c, e')"
  shows "client_ok c" "C_ID c = CA_ID args" "C_AuthMethod c = CA_AuthMethod args"
    "C_AllowedGrants c = CA_AllowedGrants args"
    "C_RedirectURIs c = map (normalizeRedirectURI p) (CA_RedirectURIs args)"
  using assms
  by (auto simp: NewClient_def NewClientID_def clientArgs_validate_def clientArgs_hashSecret_def
      client_ok_def client_IsPublic_def DefaultTenantID_def Let_def
      split: if_splits option.splits sum.splits prod.splits client_auth_method.splits)

section \<open>The registry\<close>

type_synonym client_registry = "((TenantID \<times> ClientID) \<times> client) list"

definition NewConfigClientRegistry :: "client list \<Rightarrow> client_registry" where
  "NewConfigClientRegistry cs = fold (\<lambda>c m. AList.update (C_TenantID c, C_ID c) c m) cs []"

definition registry_FindByID :: "client_registry \<Rightarrow> TenantID \<Rightarrow> ClientID \<Rightarrow> go_error + client option" where
  "registry_FindByID r tenantID i = Inr (map_of r (tenantID, i))"

text \<open>Every entry is filed under its own key; of two clients with one key the later wins.\<close>

definition registry_ok :: "client_registry \<Rightarrow> bool" where
  "registry_ok r \<longleftrightarrow> (\<forall>k c. map_of r k = Some c \<longrightarrow> k = (C_TenantID c, C_ID c))"

lemma registry_ok_update:
  "registry_ok m \<Longrightarrow> registry_ok (AList.update (C_TenantID c, C_ID c) c m)"
  by (simp add: registry_ok_def map_of_AList_update)

lemma registry_fold_ok:
  "registry_ok m \<Longrightarrow> registry_ok (fold (\<lambda>c m. AList.update (C_TenantID c, C_ID c) c m) cs m)"
  by (induction cs arbitrary: m) (simp_all add: registry_ok_update)

lemma registry_ok_empty: "registry_ok []"
  by (simp add: registry_ok_def)

lemma NewConfigClientRegistry_ok: "registry_ok (NewConfigClientRegistry cs)"
  unfolding NewConfigClientRegistry_def by (rule registry_fold_ok [OF registry_ok_empty])

lemma registry_FindByID_ID:
  "registry_ok r \<Longrightarrow> registry_FindByID r t i = Inr (Some c) \<Longrightarrow> C_ID c = i \<and> C_TenantID c = t"
  by (auto simp: registry_ok_def registry_FindByID_def)

lemma registry_members:
  assumes "map_of (NewConfigClientRegistry cs) k = Some c"
  shows "c \<in> set cs"
proof -
  have "map_of (fold (\<lambda>c m. AList.update (C_TenantID c, C_ID c) c m) cs m) k = Some c \<Longrightarrow> c \<in> set cs \<or> map_of m k = Some c" for m
  proof (induction cs arbitrary: m)
    case (Cons a cs)
    from Cons.IH [OF Cons.prems [unfolded fold_simps]] show ?case by (auto simp: map_of_AList_update split: if_splits)
  qed simp
  from this [of "[]"] assms show ?thesis by (simp add: NewConfigClientRegistry_def)
qed

lemma registry_finds:
  assumes "c \<in> set cs"
  shows "map_of (NewConfigClientRegistry cs) (C_TenantID c, C_ID c) \<noteq> None"
proof -
  have "c \<in> set cs \<or> map_of m (C_TenantID c, C_ID c) \<noteq> None \<Longrightarrow>
      map_of (fold (\<lambda>c m. AList.update (C_TenantID c, C_ID c) c m) cs m) (C_TenantID c, C_ID c) \<noteq> None" for m
  proof (induction cs arbitrary: m)
    case (Cons a cs)
    from Cons.prems have "c \<in> set cs \<or> map_of (AList.update (C_TenantID a, C_ID a) a m) (C_TenantID c, C_ID c) \<noteq> None"
      by (auto simp: map_of_AList_update)
    from Cons.IH [OF this] show ?case by simp
  qed simp
  from this [of "[]"] assms show ?thesis by (simp add: NewConfigClientRegistry_def)
qed

end
