(* ===== verification/Services.thy ===== *)
theory Services
  imports Cache Ports Jwt Clients
begin

text \<open>
  The application layer's shared parts: dependencies and state of the use cases
  (\<open>application/define\<close>), the unit of work (\<open>core/uow\<close>), the expiry policy, the cache keys, client
  authentication, token issuance and the revocation markers (\<open>application/service\<close>).
\<close>

section \<open>State and dependencies\<close>

text \<open>
  The state the use cases share: the stores behind the ports, the cache, the environment, the
  three metrics and the e-mails sent. Log lines are not part of it.
\<close>

record ('u, 'r, 'g, 'c) world =
  w_users :: 'u
  w_rts :: 'r
  w_grants :: 'g
  w_cache :: 'c
  w_env :: env
  w_failed_logins :: nat
  w_tokens_issued :: nat
  w_revocations :: nat
  w_mail :: "(string \<times> string) list"

text \<open>
  \<open>define.Dependencies\<close>. The cache is always configured (\<open>cmd/auth/wire\<close> sets it), so it is not
  optional here. \<open>d_send\<close> is the outcome of handing a message to the mail transport.
\<close>

record ('u, 'r, 'g, 'c) deps =
  d_prims :: prims
  d_cache :: "'c cache_ops"
  d_uow :: "(('u, 'r, 'g, 'c) world \<Rightarrow> go_error option \<times> ('u, 'r, 'g, 'c) world)
     \<Rightarrow> ('u, 'r, 'g, 'c) world \<Rightarrow> go_error option \<times> ('u, 'r, 'g, 'c) world"
  d_tokens :: token_service
  d_users :: "'u user_ops"
  d_send :: "string \<Rightarrow> string \<Rightarrow> env \<Rightarrow> go_error option"
  d_rts :: "'r rt_ops"
  d_grants :: "'g grant_ops"
  d_registry :: client_registry
  d_PostLogoutRedirectAllowlist :: "string list"
  d_ScopeAllowlist :: "string list"

definition NoopUnitOfWork_Do ::
  "(('u, 'r, 'g, 'c) world \<Rightarrow> go_error option \<times> ('u, 'r, 'g, 'c) world)
     \<Rightarrow> ('u, 'r, 'g, 'c) world \<Rightarrow> go_error option \<times> ('u, 'r, 'g, 'c) world" where
  "NoopUnitOfWork_Do f w = f w"

text \<open>Running an operation of one component on the state.\<close>

definition on_users :: "('u \<Rightarrow> env \<Rightarrow> 'x \<times> 'u \<times> env) \<Rightarrow> ('u, 'r, 'g, 'c) world \<Rightarrow> 'x \<times> ('u, 'r, 'g, 'c) world" where
  "on_users f w = (let (x, s, e) = f (w_users w) (w_env w) in (x, w\<lparr>w_users := s, w_env := e\<rparr>))"

definition on_rts :: "('r \<Rightarrow> env \<Rightarrow> 'x \<times> 'r \<times> env) \<Rightarrow> ('u, 'r, 'g, 'c) world \<Rightarrow> 'x \<times> ('u, 'r, 'g, 'c) world" where
  "on_rts f w = (let (x, s, e) = f (w_rts w) (w_env w) in (x, w\<lparr>w_rts := s, w_env := e\<rparr>))"

definition on_grants :: "('g \<Rightarrow> env \<Rightarrow> 'x \<times> 'g \<times> env) \<Rightarrow> ('u, 'r, 'g, 'c) world \<Rightarrow> 'x \<times> ('u, 'r, 'g, 'c) world" where
  "on_grants f w = (let (x, s, e) = f (w_grants w) (w_env w) in (x, w\<lparr>w_grants := s, w_env := e\<rparr>))"

definition on_cache :: "('c \<Rightarrow> env \<Rightarrow> 'x \<times> 'c \<times> env) \<Rightarrow> ('u, 'r, 'g, 'c) world \<Rightarrow> 'x \<times> ('u, 'r, 'g, 'c) world" where
  "on_cache f w = (let (x, s, e) = f (w_cache w) (w_env w) in (x, w\<lparr>w_cache := s, w_env := e\<rparr>))"

definition on_env :: "(env \<Rightarrow> 'x \<times> env) \<Rightarrow> ('u, 'r, 'g, 'c) world \<Rightarrow> 'x \<times> ('u, 'r, 'g, 'c) world" where
  "on_env f w = (let (x, e) = f (w_env w) in (x, w\<lparr>w_env := e\<rparr>))"

lemma on_usersD:
  "on_users f w = (x, w') \<Longrightarrow> f (w_users w) (w_env w) = (x, w_users w', w_env w')
     \<and> w_rts w' = w_rts w \<and> w_grants w' = w_grants w \<and> w_cache w' = w_cache w \<and> w_failed_logins w' = w_failed_logins w
     \<and> w_tokens_issued w' = w_tokens_issued w \<and> w_revocations w' = w_revocations w \<and> w_mail w' = w_mail w"
  by (auto simp: on_users_def split: prod.splits)

lemma on_rtsD:
  "on_rts f w = (x, w') \<Longrightarrow> f (w_rts w) (w_env w) = (x, w_rts w', w_env w')
     \<and> w_users w' = w_users w \<and> w_grants w' = w_grants w \<and> w_cache w' = w_cache w \<and> w_failed_logins w' = w_failed_logins w
     \<and> w_tokens_issued w' = w_tokens_issued w \<and> w_revocations w' = w_revocations w \<and> w_mail w' = w_mail w"
  by (auto simp: on_rts_def split: prod.splits)

lemma on_grantsD:
  "on_grants f w = (x, w') \<Longrightarrow> f (w_grants w) (w_env w) = (x, w_grants w', w_env w')
     \<and> w_users w' = w_users w \<and> w_rts w' = w_rts w \<and> w_cache w' = w_cache w \<and> w_failed_logins w' = w_failed_logins w
     \<and> w_tokens_issued w' = w_tokens_issued w \<and> w_revocations w' = w_revocations w \<and> w_mail w' = w_mail w"
  by (auto simp: on_grants_def split: prod.splits)

lemma on_cacheD:
  "on_cache f w = (x, w') \<Longrightarrow> f (w_cache w) (w_env w) = (x, w_cache w', w_env w')
     \<and> w_users w' = w_users w \<and> w_rts w' = w_rts w \<and> w_grants w' = w_grants w \<and> w_failed_logins w' = w_failed_logins w
     \<and> w_tokens_issued w' = w_tokens_issued w \<and> w_revocations w' = w_revocations w \<and> w_mail w' = w_mail w"
  by (auto simp: on_cache_def split: prod.splits)

lemma on_envD:
  "on_env f w = (x, w') \<Longrightarrow> f (w_env w) = (x, w_env w')
     \<and> w_users w' = w_users w \<and> w_rts w' = w_rts w \<and> w_grants w' = w_grants w \<and> w_cache w' = w_cache w
     \<and> w_failed_logins w' = w_failed_logins w \<and> w_tokens_issued w' = w_tokens_issued w \<and> w_revocations w' = w_revocations w \<and> w_mail w' = w_mail w"
  by (auto simp: on_env_def split: prod.splits)

section \<open>Expiry policy and cache keys (\<open>application/define\<close>)\<close>

definition DefaultExpirySecs :: int where "DefaultExpirySecs = 900"
definition MaxTokenExpirySecs :: int where "MaxTokenExpirySecs = 86400"
definition RevokedGrantMarkerTTL :: duration where "RevokedGrantMarkerTTL = MaxTokenExpirySecs * Second"
definition SessionsInvalidationTTL :: duration where "SessionsInvalidationTTL = MaxTokenExpirySecs * Second"

definition ResolveExpirySecs :: "int option \<Rightarrow> int" where
  "ResolveExpirySecs requested =
     (case requested of
        None \<Rightarrow> DefaultExpirySecs
      | Some n \<Rightarrow> if n \<le> 0 then DefaultExpirySecs else min n MaxTokenExpirySecs)"

lemma ResolveExpirySecs_bounds: "0 < ResolveExpirySecs r \<and> ResolveExpirySecs r \<le> MaxTokenExpirySecs"
  by (auto simp: ResolveExpirySecs_def DefaultExpirySecs_def MaxTokenExpirySecs_def split: option.splits)

definition AuthorizeRequestKey :: "string \<Rightarrow> string" where "AuthorizeRequestKey i = ''auth:request:'' @ i"
definition AuthCodeKey :: "string \<Rightarrow> string" where "AuthCodeKey code = ''auth:code:'' @ code"
definition ForgotPasswordRateKey :: "string \<Rightarrow> string" where "ForgotPasswordRateKey h = ''pwreset:rl:'' @ h"
definition BlacklistKey :: "string \<Rightarrow> string" where "BlacklistKey jti = ''blacklist:'' @ jti"
definition RevokedGrantKey :: "GrantID \<Rightarrow> string" where "RevokedGrantKey g = ''revoked_grant:'' @ g"
definition SessionsInvalidatedKey :: "UserID \<Rightarrow> string" where
  "SessionsInvalidatedKey u = ''sessions_invalidated:'' @ u"

lemmas cache_key_defs = AuthorizeRequestKey_def AuthCodeKey_def ForgotPasswordRateKey_def BlacklistKey_def
  RevokedGrantKey_def SessionsInvalidatedKey_def

text \<open>The key families do not overlap, and each key belongs to one entity.\<close>

lemma cache_keys_inj:
  "AuthorizeRequestKey i = AuthorizeRequestKey j \<longleftrightarrow> i = j" "AuthCodeKey i = AuthCodeKey j \<longleftrightarrow> i = j"
  "ForgotPasswordRateKey i = ForgotPasswordRateKey j \<longleftrightarrow> i = j" "BlacklistKey i = BlacklistKey j \<longleftrightarrow> i = j"
  "RevokedGrantKey i = RevokedGrantKey j \<longleftrightarrow> i = j" "SessionsInvalidatedKey i = SessionsInvalidatedKey j \<longleftrightarrow> i = j"
  by (simp_all add: cache_key_defs)

lemma cache_keys_disjoint:
  "AuthorizeRequestKey i \<noteq> AuthCodeKey j" "AuthorizeRequestKey i \<noteq> BlacklistKey j"
  "AuthorizeRequestKey i \<noteq> RevokedGrantKey j" "AuthorizeRequestKey i \<noteq> SessionsInvalidatedKey j"
  "AuthCodeKey i \<noteq> BlacklistKey j" "AuthCodeKey i \<noteq> RevokedGrantKey j" "AuthCodeKey i \<noteq> SessionsInvalidatedKey j"
  "BlacklistKey i \<noteq> RevokedGrantKey j" "BlacklistKey i \<noteq> SessionsInvalidatedKey j"
  "RevokedGrantKey i \<noteq> SessionsInvalidatedKey j"
  by (simp_all add: cache_key_defs)

section \<open>Client authentication (\<open>service/client_authenticator.go\<close>)\<close>

record client_credentials =
  cc_ClientID :: string
  cc_FormSecret :: string
  cc_BasicClientID :: string
  cc_BasicSecret :: string

definition resolveCredentialChannel :: "client_credentials \<Rightarrow> go_error + string \<times> string \<times> bool" where
  "resolveCredentialChannel creds =
     (if cc_BasicClientID creds = [] then Inr (cc_ClientID creds, cc_FormSecret creds, False)
      else if cc_ClientID creds \<noteq> [] \<and> cc_ClientID creds \<noteq> cc_BasicClientID creds
      then Inl (ErrText ''client_id mismatch between Basic auth and request body'')
      else Inr (cc_BasicClientID creds, cc_BasicSecret creds, True))"

definition Authenticate :: "prims \<Rightarrow> client_registry \<Rightarrow> client_credentials \<Rightarrow> go_error + client" where
  "Authenticate p reg creds =
     (case resolveCredentialChannel creds of
        Inl err \<Rightarrow> Inl err
      | Inr (clientID, secret, viaBasic) \<Rightarrow>
          (case registry_FindByID reg DefaultTenantID clientID of
             Inl err \<Rightarrow> Inl err
           | Inr None \<Rightarrow> Inl (ErrText ''unknown client'')
           | Inr (Some client) \<Rightarrow>
               let verify = (case VerifySecret p client secret of
                     Some err \<Rightarrow> Inl (ErrText ''client authentication failed'')
                   | None \<Rightarrow> Inr client) in
               (case C_AuthMethod client of
                  ClientAuthNone \<Rightarrow>
                    if viaBasic \<or> secret \<noteq> [] then Inl (ErrText ''public client must not present credentials'')
                    else Inr client
                | ClientAuthSecretBasic \<Rightarrow>
                    if \<not> viaBasic then Inl (ErrText ''client must authenticate with client_secret_basic'')
                    else verify
                | ClientAuthSecretPost \<Rightarrow>
                    if viaBasic then Inl (ErrText ''client must authenticate with client_secret_post'')
                    else verify
                | ClientAuthOther _ \<Rightarrow> Inl (ErrText ''unsupported client auth method''))))"

section \<open>Token issuance (\<open>service/token_issuance.go\<close>)\<close>

record issue_args =
  is_User :: user
  is_ClientID :: ClientID
  is_Nonce :: string
  is_Scope :: scope
  is_ExpireSecs :: int
  is_ExistingGrantID :: GrantID

definition issue_grant :: "prims \<Rightarrow> issue_args \<Rightarrow> env \<Rightarrow> (GrantID \<times> grant option) \<times> env" where
  "issue_grant p req e =
     (if is_ExistingGrantID req = [] then
        let (g, e0) = NewGrant p (U_ID (is_User req)) (is_ClientID req) e in ((G_ID g, Some g), e0)
      else ((is_ExistingGrantID req, None), e))"

definition IssueTokens :: "prims \<Rightarrow> token_service \<Rightarrow> issue_args \<Rightarrow> env \<Rightarrow> (go_error + issued_tokens) \<times> env" where
  "IssueTokens p T req e =
     (let ((grantID, newGrant), e1) = issue_grant p req e in
      case ts_GenAccessToken T (U_ID (is_User req)) (scope_String (is_Scope req)) grantID (is_ExpireSecs req) e1 of
        (Inl err, e2) \<Rightarrow> (Inl (NewErr GenTokenFailed err), e2)
      | (Inr accessToken, e2) \<Rightarrow>
          (case ts_GenRefreshToken T (U_ID (is_User req)) e2 of
             (Inl err, e3) \<Rightarrow> (Inl (NewErr GenRefreshTokenFailed err), e3)
           | (Inr rawRefreshToken, e3) \<Rightarrow>
               let finish = (\<lambda>idToken e4.
                     (Inr \<lparr>IT_AccessToken = accessToken, IT_RefreshToken = rawRefreshToken, IT_IDToken = idToken,
                           IT_Scope = is_Scope req, IT_GrantID = grantID, IT_NewGrant = newGrant\<rparr>, e4)) in
               if scope_Contains (is_Scope req) ScopeOpenID then
                 (case ts_GenIDToken T \<lparr>ia_UserID = U_ID (is_User req), ia_ClientID = is_ClientID req,
                        ia_Email = U_Email (is_User req), ia_Nonce = is_Nonce req, ia_GrantID = grantID,
                        ia_EmailVerified = U_EmailVerified (is_User req), ia_ExpireSecs = is_ExpireSecs req\<rparr> e3 of
                    (Inl err, e4) \<Rightarrow> (Inl (NewErr GenTokenFailed err), e4)
                  | (Inr idToken, e4) \<Rightarrow> finish idToken e4)
               else finish [] e3))"

section \<open>Revocation markers (\<open>service/revocation_cache.go\<close>)\<close>

definition BlacklistJTI ::
  "'c cache_ops \<Rightarrow> string \<Rightarrow> time \<Rightarrow> 'c \<Rightarrow> env \<Rightarrow> go_error option \<times> 'c \<times> env" where
  "BlacklistJTI K jti expiresAt c e =
     (let (t, e1) = now e in k_Set K (BlacklistKey jti) (CBool True) (Some (expiresAt - t)) c e1)"

definition MarkGrantRevoked :: "'c cache_ops \<Rightarrow> GrantID \<Rightarrow> 'c \<Rightarrow> env \<Rightarrow> go_error option \<times> 'c \<times> env" where
  "MarkGrantRevoked K grantID c e = k_Set K (RevokedGrantKey grantID) (CBool True) (Some RevokedGrantMarkerTTL) c e"

definition MarkSessionsInvalidated ::
  "'c cache_ops \<Rightarrow> UserID \<Rightarrow> time \<Rightarrow> 'c \<Rightarrow> env \<Rightarrow> go_error option \<times> 'c \<times> env" where
  "MarkSessionsInvalidated K userID at c e =
     k_Set K (SessionsInvalidatedKey userID) (CInt (unix at)) (Some SessionsInvalidationTTL) c e"

section \<open>What the services guarantee\<close>

text \<open>
  A client that authenticates is registered, and it is public without credentials or proved its
  secret over the channel it registered.
\<close>

lemma Authenticate_Inr:
  assumes "Authenticate p reg creds = Inr c"
  shows "\<exists>cid secret viaBasic. resolveCredentialChannel creds = Inr (cid, secret, viaBasic)
    \<and> registry_FindByID reg DefaultTenantID cid = Inr (Some c)
    \<and> (case C_AuthMethod c of
         ClientAuthNone \<Rightarrow> \<not> viaBasic \<and> secret = []
       | ClientAuthSecretBasic \<Rightarrow> viaBasic \<and> VerifySecret p c secret = None
       | ClientAuthSecretPost \<Rightarrow> \<not> viaBasic \<and> VerifySecret p c secret = None
       | ClientAuthOther _ \<Rightarrow> False)"
  using assms
  by (auto simp: Authenticate_def Let_def split: sum.splits prod.splits option.splits
      client_auth_method.splits if_splits)

context token_port
begin

lemma IssueTokens_Inr:
  assumes "IssueTokens p T req e = (Inr tk, e')"
  shows "env_le e e' \<and> IT_Scope tk = is_Scope req
    \<and> (if is_ExistingGrantID req = []
       then \<exists>g e1. NewGrant p (U_ID (is_User req)) (is_ClientID req) e = (g, e1) \<and> IT_NewGrant tk = Some g
              \<and> IT_GrantID tk = G_ID g
       else IT_NewGrant tk = None \<and> IT_GrantID tk = is_ExistingGrantID req)"
proof -
  obtain grantID newGrant e1 where g: "issue_grant p req e = ((grantID, newGrant), e1)"
    by (metis surj_pair)
  have "env_le e1 e' \<and> IT_Scope tk = is_Scope req \<and> IT_GrantID tk = grantID \<and> IT_NewGrant tk = newGrant"
    using assms g by (auto simp: IssueTokens_def Let_def split: prod.splits sum.splits if_splits
        dest!: GenAccess_env GenRefresh_env GenID_env intro: env_le_trans)
  moreover have "env_le e e1" using g by (auto simp: issue_grant_def split: if_splits prod.splits dest: NewGrant_fields(5))
  ultimately show ?thesis
    using g by (auto simp: issue_grant_def split: if_splits prod.splits intro: env_le_trans)
qed

lemma IssueTokens_env:
  assumes "IssueTokens p T req e = (r, e')"
  shows "env_le e e'"
proof -
  obtain grantID newGrant e1 where g: "issue_grant p req e = ((grantID, newGrant), e1)"
    by (metis surj_pair)
  have "env_le e1 e'"
    using assms g by (auto simp: IssueTokens_def Let_def split: prod.splits sum.splits if_splits
        dest!: GenAccess_env GenRefresh_env GenID_env intro: env_le_trans)
  moreover have "env_le e e1" using g by (auto simp: issue_grant_def split: if_splits prod.splits dest: NewGrant_fields(5))
  ultimately show ?thesis by (rule env_le_trans [rotated])
qed

end

context ttl_cache
begin

text \<open>
  The marker of a revoked grant is readable for at least as long as any access token issued before
  the revocation could be valid.
\<close>

lemma MarkGrantRevoked_live:
  assumes "MarkGrantRevoked K g c e = (None, c', e')" and "t \<le> clock e + RevokedGrantMarkerTTL"
  shows "live c' t (RevokedGrantKey g) = Some (CBool True)"
proof -
  have "0 < RevokedGrantMarkerTTL" by (simp add: RevokedGrantMarkerTTL_def MaxTokenExpirySecs_def)
  from Set_ok [OF assms(1) [unfolded MarkGrantRevoked_def] this] assms(2) show ?thesis by auto
qed

end

end
