(* ===== verification/UC_Refresh.thy ===== *)
theory UC_Refresh
  imports Services
begin

text \<open>
  The refresh grant (\<open>application/command/refresh_token.go\<close>): rotation of a refresh token with reuse
  detection, and the contract of the application the use cases are proved against.
\<close>

section \<open>The use case\<close>

record refresh_cmd =
  rc_GrantType :: string
  rc_ClientID :: string
  rc_ClientSecret :: string
  rc_BasicClientID :: string
  rc_BasicClientSecret :: string
  rc_RefreshToken :: string
  rc_ExpireSecs :: "int option"

record token_response =
  tr_Scope :: string
  tr_TokenType :: string
  tr_AccessToken :: string
  tr_IDToken :: string
  tr_RefreshToken :: string
  tr_ExpiresIn :: int

definition TokenResponse_FromEntity :: "issued_tokens \<Rightarrow> int \<Rightarrow> token_response" where
  "TokenResponse_FromEntity tokens expireSecs =
     \<lparr>tr_Scope = scope_String (IT_Scope tokens), tr_TokenType = ''Bearer'',
      tr_AccessToken = IT_AccessToken tokens, tr_IDToken = IT_IDToken tokens,
      tr_RefreshToken = IT_RefreshToken tokens, tr_ExpiresIn = expireSecs\<rparr>"

abbreviation refresh_credentials :: "refresh_cmd \<Rightarrow> client_credentials" where
  "refresh_credentials c \<equiv> \<lparr>cc_ClientID = rc_ClientID c, cc_FormSecret = rc_ClientSecret c,
     cc_BasicClientID = rc_BasicClientID c, cc_BasicSecret = rc_BasicClientSecret c\<rparr>"

definition writeRevokedGrantMarker ::
  "('u, 'r, 'g, 'c) deps \<Rightarrow> GrantID \<Rightarrow> ('u, 'r, 'g, 'c) world \<Rightarrow> ('u, 'r, 'g, 'c) world" where
  "writeRevokedGrantMarker D grantID w =
     (let (_, w1) = on_cache (MarkGrantRevoked (d_cache D) grantID) w in w1)"

definition revokeGrant ::
  "('u, 'r, 'g, 'c) deps \<Rightarrow> GrantID \<Rightarrow> ('u, 'r, 'g, 'c) world \<Rightarrow> ('u, 'r, 'g, 'c) world" where
  "revokeGrant D grantID w =
     (let (t, w1) = on_env now w; (_, w2) = on_grants (gr_Revoke (d_grants D) grantID t) w1 in w2)"

text \<open>
  A revoked token presented again: the grant, the token family and the access tokens of the grant
  are revoked. Failures of the three steps are logged, and the request fails in any case.
\<close>

definition revokeFamily ::
  "('u, 'r, 'g, 'c) deps \<Rightarrow> refresh_token \<Rightarrow> ('u, 'r, 'g, 'c) world \<Rightarrow> ('u, 'r, 'g, 'c) world" where
  "revokeFamily D rt w =
     (if RT_GrantID rt \<noteq> [] then
        let w1 = revokeGrant D (RT_GrantID rt) w;
            (_, w2) = on_rts (rt_RevokeAllForGrant (d_rts D) (RT_GrantID rt)) w1
        in writeRevokedGrantMarker D (RT_GrantID rt) w2
      else let (_, w1) = on_rts (rt_RevokeAllForUser (d_rts D) (RT_UserID rt)) w in w1)"

definition findActiveRefreshToken ::
  "('u, 'r, 'g, 'c) deps \<Rightarrow> string \<Rightarrow> ('u, 'r, 'g, 'c) world \<Rightarrow> (go_error + refresh_token) \<times> ('u, 'r, 'g, 'c) world" where
  "findActiveRefreshToken D raw w =
     (case on_rts (rt_FindByTokenHash (d_rts D) (Hash (d_prims D) raw)) w of
        (Inl err, w1) \<Rightarrow> (Inl NewErrInvalidRefreshToken, w1)
      | (Inr rt, w1) \<Rightarrow>
          if RT_RevokedAt rt \<noteq> None then (Inl NewErrInvalidRefreshToken, revokeFamily D rt w1)
          else let (valid, w2) = on_env (rt_IsValid rt) w1 in
            if \<not> valid then (Inl NewErrInvalidRefreshToken, w2) else (Inr rt, w2))"

definition checkAndExtendGrant ::
  "('u, 'r, 'g, 'c) deps \<Rightarrow> GrantID \<Rightarrow> time \<Rightarrow> ('u, 'r, 'g, 'c) world \<Rightarrow> go_error option \<times> ('u, 'r, 'g, 'c) world" where
  "checkAndExtendGrant D grantID tokenExpiry w =
     (if grantID = [] then (None, w)
      else case on_grants (gr_FindByID (d_grants D) grantID) w of
          (Inl err, w1) \<Rightarrow>
            if errors_Is err ErrNotFound then (None, w1) else (Some (NewErrGenRefreshTokenFailed err), w1)
        | (Inr grant, w1) \<Rightarrow>
            let (valid, w2) = on_env (grant_IsValid grant) w1 in
            if \<not> valid then (Some NewErrInvalidRefreshToken, w2)
            else let grant' = ExtendToCover grant tokenExpiry;
                     w3 = w2\<lparr>w_grants := gr_alias (d_grants D) grant' (w_grants w2)\<rparr> in
              case on_grants (gr_Save (d_grants D) grant') w3 of
                (Some err, w4) \<Rightarrow> (Some (NewErrGenRefreshTokenFailed err), w4)
              | (None, w4) \<Rightarrow> (None, w4))"

definition rotate_txn ::
  "('u, 'r, 'g, 'c) deps \<Rightarrow> refresh_token \<Rightarrow> refresh_token \<Rightarrow> ('u, 'r, 'g, 'c) world
     \<Rightarrow> go_error option \<times> ('u, 'r, 'g, 'c) world" where
  "rotate_txn D oldRT newRT w =
     (case checkAndExtendGrant D (RT_GrantID oldRT) (RT_ExpiresAt newRT) w of
        (Some err, w1) \<Rightarrow> (Some err, w1)
      | (None, w1) \<Rightarrow>
          (case on_rts (rt_RevokeByTokenHash (d_rts D) (RT_TokenHash oldRT)) w1 of
             (Some err, w2) \<Rightarrow>
               if errors_Is err ErrNotFound then (Some NewErrInvalidRefreshToken, w2)
               else (Some (NewErrGenRefreshTokenFailed err), w2)
           | (None, w2) \<Rightarrow>
               (case on_rts (rt_Save (d_rts D) newRT) w2 of
                  (Some err, w3) \<Rightarrow> (Some (NewErrGenRefreshTokenFailed err), w3)
                | (None, w3) \<Rightarrow> (None, w3))))"

definition updateRefreshToken ::
  "('u, 'r, 'g, 'c) deps \<Rightarrow> refresh_token \<Rightarrow> refresh_token \<Rightarrow> ('u, 'r, 'g, 'c) world
     \<Rightarrow> go_error option \<times> ('u, 'r, 'g, 'c) world" where
  "updateRefreshToken D oldRT newRT w =
     (case d_uow D (rotate_txn D oldRT newRT) w of
        (None, w1) \<Rightarrow> (None, w1)
      | (Some err, w1) \<Rightarrow>
          if is_ErrorStruct err then (Some err, w1) else (Some (NewErrGenRefreshTokenFailed err), w1))"

definition RefreshToken_Execute ::
  "('u, 'r, 'g, 'c) deps \<Rightarrow> refresh_cmd \<Rightarrow> ('u, 'r, 'g, 'c) world
     \<Rightarrow> (go_error + token_response) \<times> ('u, 'r, 'g, 'c) world" where
  "RefreshToken_Execute D c w =
     (case Authenticate (d_prims D) (d_registry D)
             (refresh_credentials c) of
        Inl err \<Rightarrow> (Inl NewErrInvalidClient, w)
      | Inr client \<Rightarrow>
          if \<not> AllowsGrant client GrantRefreshToken then (Inl NewErrInvalidClient, w)
          else case findActiveRefreshToken D (rc_RefreshToken c) w of
              (Inl err, w1) \<Rightarrow> (Inl err, w1)
            | (Inr rt, w1) \<Rightarrow>
                if \<not> IssuedTo rt (C_ID client) then (Inl NewErrInvalidRefreshToken, w1)
                else case on_users (ur_FindByID (d_users D) (RT_UserID rt)) w1 of
                    (Inl err, w2) \<Rightarrow> (Inl NewErrInvalidRefreshToken, w2)
                  | (Inr user, w2) \<Rightarrow>
                      if (case U_SessionsInvalidatedAt user of
                            None \<Rightarrow> False | Some t \<Rightarrow> \<not> RT_AuthenticatedAt rt > t)
                      then (Inl NewErrInvalidRefreshToken, w2)
                      else let expireSecs = ResolveExpirySecs (rc_ExpireSecs c) in
                        case on_env (IssueTokens (d_prims D) (d_tokens D)
                               \<lparr>is_User = user, is_ClientID = C_ID client, is_Nonce = [], is_Scope = RT_Scope rt,
                                is_ExpireSecs = expireSecs, is_ExistingGrantID = RT_GrantID rt\<rparr>) w2 of
                          (Inl err, w3) \<Rightarrow> (Inl err, w3)
                        | (Inr tokens, w3) \<Rightarrow>
                            let (newRT, w4) = on_env (Rotate (d_prims D) rt (U_ID user) tokens) w3;
                                (saved, w5) = (case IT_NewGrant tokens of
                                    None \<Rightarrow> (None, w4)
                                  | Some g \<Rightarrow> on_grants (gr_Save (d_grants D) (ExtendToCover g (RT_ExpiresAt newRT))) w4) in
                            case saved of
                              Some err \<Rightarrow> (Inl (NewErrGenRefreshTokenFailed err), w5)
                            | None \<Rightarrow>
                                (case updateRefreshToken D rt newRT w5 of
                                   (Some err, w6) \<Rightarrow> (Inl err, w6)
                                 | (None, w6) \<Rightarrow> (Inr (TokenResponse_FromEntity tokens expireSecs), w6)))"

lemma Rotate_ID:
  "Rotate p rt u tk e = (n, e') \<Longrightarrow> \<exists>k \<ge> uuid_ctr e. RT_ID n = p_uuid p k"
  by (auto simp: Rotate_def NewRefreshToken_def NewGrantID_def uuid_NewString_def Let_def
      split: prod.splits if_splits dest!: nowD intro: exI [of _ "uuid_ctr e"] exI [of _ "Suc (uuid_ctr e)"])

lemma bulk_revoked_other:
  assumes "bulk_revoked (\<lambda>y. RT_GrantID y = g) m m'" and "m' i = Some y" and "RT_GrantID y \<noteq> g"
  shows "m i = Some y"
proof -
  obtain x where x: "m i = Some x" "revoked_as (RT_GrantID x = g) x y" using bulk_revokedD [OF assms(1,2)] by blast
  have "RT_GrantID x \<noteq> g" using revoked_as_fields(3) [OF x(2)] assms(3) by simp
  from revoked_as_fields(7) [OF x(2) this] x(1) show ?thesis by simp
qed

section \<open>The application contract\<close>

text \<open>
  A use case runs against stores that honour their ports and a unit of work without transactions,
  as in the file-backed deployment.
\<close>

locale auth_app =
  gr: reliable_grant_repository "d_grants D" grants gok +
  rt: reliable_refresh_token_repository "d_rts D" rows rok +
  us: reliable_user_repository "d_users D" users uok +
  ca: reliable_ttl_cache "d_cache D" live +
  tk: drawing_token_port "d_tokens D" "d_prims D"
  for D :: "('u, 'r, 'g, 'c) deps" and grants gok rows rok users uok live +
  assumes noop_uow: "d_uow D = NoopUnitOfWork_Do"
begin

definition wok :: "('u, 'r, 'g, 'c) world \<Rightarrow> bool" where
  "wok w \<longleftrightarrow> gok (w_grants w) \<and> rok (w_rts w) \<and> uok (w_users w)"

lemma revokeGrant_ok:
  assumes "revokeGrant D g w = w'" and "wok w"
  shows "wok w' \<and> env_le (w_env w) (w_env w') \<and> w_rts w' = w_rts w \<and> w_users w' = w_users w \<and> w_cache w' = w_cache w
    \<and> (\<forall>j. j \<noteq> g \<longrightarrow> grants (w_grants w') j = grants (w_grants w) j)
    \<and> (disk (w_env w) = [] \<longrightarrow> disk (w_env w') = [] \<and>
        (\<forall>x. grants (w_grants w') g = Some x \<longrightarrow> G_RevokedAt x \<noteq> None))"
proof -
  obtain t w1 err where a: "on_env now w = (t, w1)" and b: "on_grants (gr_Revoke (d_grants D) g t) w1 = (err, w')"
    using assms(1) by (auto simp: revokeGrant_def split: prod.splits)
  from on_envD [OF a] have w1: "now (w_env w) = (t, w_env w1)" "w_grants w1 = w_grants w" "w_rts w1 = w_rts w"
    "w_users w1 = w_users w" "w_cache w1 = w_cache w" by simp_all
  from on_grantsD [OF b] have w': "gr_Revoke (d_grants D) g t (w_grants w1) (w_env w1) = (err, w_grants w', w_env w')"
    "w_rts w' = w_rts w1" "w_users w' = w_users w1" "w_cache w' = w_cache w1" by simp_all
  have ok: "gok (w_grants w1)" using assms(2) w1 by (simp add: wok_def)
  note r = gr.grant_Revoke [OF w'(1) ok]
  have le: "env_le (w_env w) (w_env w')" using now_le [OF w1(1)] r by (auto intro: env_le_trans)
  have "(\<forall>x. grants (w_grants w') g = Some x \<longrightarrow> G_RevokedAt x \<noteq> None) \<and> disk (w_env w') = []" if "disk (w_env w) = []"
  proof -
    have "disk (w_env w1) = []" using that nowD [OF w1(1)] by simp
    from gr.grant_Revoke_reliable [OF w'(1) ok this] gr.revoke_settles [OF w'(1) ok]
    show ?thesis by (cases err) auto
  qed
  with le r w1 w' assms(2) gr.revoke_other [OF w'(1) ok] show ?thesis by (auto simp: wok_def)
qed

lemma writeRevokedGrantMarker_ok:
  assumes "writeRevokedGrantMarker D g w = w'" and "wok w"
  shows "wok w' \<and> env_le (w_env w) (w_env w') \<and> w_rts w' = w_rts w \<and> w_users w' = w_users w \<and> w_grants w' = w_grants w
    \<and> disk (w_env w') = disk (w_env w)
    \<and> (\<forall>t \<le> clock (w_env w) + RevokedGrantMarkerTTL. live (w_cache w') t (RevokedGrantKey g) = Some (CBool True))"
proof -
  obtain err where "on_cache (MarkGrantRevoked (d_cache D) g) w = (err, w')"
    using assms(1) by (cases "on_cache (MarkGrantRevoked (d_cache D) g) w") (simp add: writeRevokedGrantMarker_def)
  from on_cacheD [OF this]
  have c: "MarkGrantRevoked (d_cache D) g (w_cache w) (w_env w) = (err, w_cache w', w_env w')"
    "w_rts w' = w_rts w" "w_users w' = w_users w" "w_grants w' = w_grants w" by simp_all
  have r: "err = None" "disk (w_env w') = disk (w_env w)"
    using ca.Set_reliable [OF c(1) [unfolded MarkGrantRevoked_def]] by simp_all
  with c assms(2) ca.Set_env [OF c(1) [unfolded MarkGrantRevoked_def]] ca.MarkGrantRevoked_live [of g] show ?thesis
    by (auto simp: wok_def)
qed

text \<open>
  The consequences of a replay, when storage works: the grant is revoked, every token of its chain
  is revoked, and the marker that denies its access tokens is set for their whole possible life.
\<close>

definition family_dead :: "GrantID \<Rightarrow> ('u, 'r, 'g, 'c) world \<Rightarrow> time \<Rightarrow> bool" where
  "family_dead g w until \<longleftrightarrow>
     (\<forall>x. grants (w_grants w) g = Some x \<longrightarrow> G_RevokedAt x \<noteq> None)
     \<and> (\<forall>i x. rows (w_rts w) i = Some x \<longrightarrow> RT_GrantID x = g \<longrightarrow> RT_RevokedAt x \<noteq> None)
     \<and> (\<forall>t \<le> until. live (w_cache w) t (RevokedGrantKey g) = Some (CBool True))"

lemma revokeFamily_dead:
  assumes fam: "revokeFamily D rt w = w'" and ok: "wok w" and disk: "disk (w_env w) = []" and g: "RT_GrantID rt \<noteq> []"
  shows "wok w' \<and> w_users w' = w_users w \<and> env_le (w_env w) (w_env w')
    \<and> family_dead (RT_GrantID rt) w' (clock (w_env w) + RevokedGrantMarkerTTL)
    \<and> bulk_revoked (\<lambda>x. RT_GrantID x = RT_GrantID rt) (rows (w_rts w)) (rows (w_rts w'))
    \<and> (\<forall>j. j \<noteq> RT_GrantID rt \<longrightarrow> grants (w_grants w') j = grants (w_grants w) j)"
proof -
  let ?g = "RT_GrantID rt"
  obtain w1 err w2 where a: "revokeGrant D ?g w = w1"
    and b: "on_rts (rt_RevokeAllForGrant (d_rts D) ?g) w1 = (err, w2)"
    and c: "writeRevokedGrantMarker D ?g w2 = w'"
    using fam g by (auto simp: revokeFamily_def Let_def split: prod.splits)
  note A = revokeGrant_ok [OF a ok]
  from on_rtsD [OF b] have B: "rt_RevokeAllForGrant (d_rts D) ?g (w_rts w1) (w_env w1) = (err, w_rts w2, w_env w2)"
    "w_grants w2 = w_grants w1" "w_users w2 = w_users w1" "w_cache w2 = w_cache w1" by simp_all
  have rok1: "rok (w_rts w1)" using A ok by (simp add: wok_def)
  have "err = None" "disk (w_env w2) = []" using rt.rt_RevokeGrant_reliable [OF B(1)] A disk by simp_all
  with rt.rt_RevokeGrant [OF B(1) rok1]
  have R: "rok (w_rts w2)" "env_le (w_env w1) (w_env w2)"
    "bulk_revoked (\<lambda>x. RT_GrantID x = ?g) (rows (w_rts w1)) (rows (w_rts w2))" by simp_all
  have ok2: "wok w2" using A B R ok by (simp add: wok_def)
  note C = writeRevokedGrantMarker_ok [OF c ok2]
  have ck: "clock (w_env w) \<le> clock (w_env w2)" using A R by (auto simp: env_le_def)
  have "w_grants w' = w_grants w1" "w_rts w' = w_rts w2" "w_users w' = w_users w" using A B C by simp_all
  note eqs = this
  have dead_g: "\<forall>x. grants (w_grants w') ?g = Some x \<longrightarrow> G_RevokedAt x \<noteq> None"
    unfolding eqs using A disk by blast
  have dead_r: "\<forall>i x. rows (w_rts w') i = Some x \<longrightarrow> RT_GrantID x = ?g \<longrightarrow> RT_RevokedAt x \<noteq> None"
    unfolding eqs using bulk_revoked_grant_dead [OF R(3)] by blast
  have mark: "\<forall>t \<le> clock (w_env w) + RevokedGrantMarkerTTL. live (w_cache w') t (RevokedGrantKey ?g) = Some (CBool True)"
    using C ck by (meson add_right_mono order_trans)
  have "env_le (w_env w) (w_env w')"
    by (rule env_le_trans3 [of _ "w_env w1" "w_env w2"]) (use A R C in simp_all)
  moreover have "bulk_revoked (\<lambda>x. RT_GrantID x = ?g) (rows (w_rts w)) (rows (w_rts w'))"
    unfolding eqs using R(3) A by simp
  moreover have "\<forall>j. j \<noteq> ?g \<longrightarrow> grants (w_grants w') j = grants (w_grants w) j"
    unfolding eqs using A by blast
  ultimately show ?thesis
    unfolding family_dead_def using dead_g dead_r mark eqs C by blast
qed

lemma findActive_Inr:
  assumes "findActiveRefreshToken D raw w = (Inr x, w')" and "wok w"
  shows "wok w' \<and> env_le (w_env w) (w_env w') \<and> w_grants w' = w_grants w \<and> w_users w' = w_users w
    \<and> w_cache w' = w_cache w \<and> rows (w_rts w') = rows (w_rts w)
    \<and> row_at (rows (w_rts w)) (Hash (d_prims D) raw) x \<and> RT_RevokedAt x = None \<and> clock (w_env w') < RT_ExpiresAt x"
proof -
  obtain w1 where a: "on_rts (rt_FindByTokenHash (d_rts D) (Hash (d_prims D) raw)) w = (Inr x, w1)"
    and live: "RT_RevokedAt x = None" and b: "on_env (rt_IsValid x) w1 = (True, w')"
    using assms(1) by (auto simp: findActiveRefreshToken_def split: prod.splits sum.splits if_splits)
  from on_rtsD [OF a] on_envD [OF b]
  have f: "rt_FindByTokenHash (d_rts D) (Hash (d_prims D) raw) (w_rts w) (w_env w) = (Inr x, w_rts w1, w_env w1)"
    "rt_IsValid x (w_env w1) = (True, w_env w')" "w_rts w' = w_rts w1" "w_grants w' = w_grants w"
    "w_users w' = w_users w" "w_cache w' = w_cache w" by simp_all
  have rokw: "rok (w_rts w)" using assms(2) by (simp add: wok_def)
  from f(2) live have v: "env_le (w_env w1) (w_env w') \<and> clock (w_env w') < RT_ExpiresAt x"
    by (auto simp: rt_IsValid_def env_le_def split: prod.splits dest!: nowD)
  note F = rt.rt_Find [OF f(1) rokw]
  have "env_le (w_env w) (w_env w')" by (rule env_le_trans [of _ "w_env w1"]) (use F v in simp_all)
  with F v f live assms(2) show ?thesis by (simp add: wok_def)
qed

lemma checkAndExtend_None:
  assumes chk: "checkAndExtendGrant D g ex w = (None, w')" and ok: "wok w"
  shows "wok w' \<and> env_le (w_env w) (w_env w') \<and> w_rts w' = w_rts w \<and> w_users w' = w_users w \<and> w_cache w' = w_cache w
    \<and> (if g = [] \<or> grants (w_grants w) g = None then grants (w_grants w') = grants (w_grants w)
       else \<exists>x. grants (w_grants w) g = Some x \<and> G_RevokedAt x = None \<and> clock (w_env w) < G_ExpiresAt x
         \<and> grants (w_grants w') = (grants (w_grants w))(g \<mapsto> ExtendToCover x ex))"
proof (cases "g = []")
  case True
  with chk ok show ?thesis by (auto simp: checkAndExtendGrant_def)
next
  case False
  obtain res w1 where a: "on_grants (gr_FindByID (d_grants D) g) w = (res, w1)" by (metis surj_pair)
  from on_grantsD [OF a] have f: "gr_FindByID (d_grants D) g (w_grants w) (w_env w) = (res, w_grants w1, w_env w1)"
    "w_rts w1 = w_rts w" "w_users w1 = w_users w" "w_cache w1 = w_cache w" by simp_all
  have gokw: "gok (w_grants w)" using ok by (simp add: wok_def)
  note F = gr.grant_Find [OF f(1) gokw]
  show ?thesis
  proof (cases res)
    case (Inl er)
    with chk False a F f ok show ?thesis
      by (auto simp: checkAndExtendGrant_def wok_def split: if_splits)
  next
    case (Inr x)
    let ?x = "ExtendToCover x ex"
    obtain w2 w3 where b: "on_env (grant_IsValid x) w1 = (True, w2)"
      and c: "w3 = w2\<lparr>w_grants := gr_alias (d_grants D) ?x (w_grants w2)\<rparr>"
      and d: "on_grants (gr_Save (d_grants D) ?x) w3 = (None, w')"
      using chk False a Inr by (auto simp: checkAndExtendGrant_def Let_def split: prod.splits if_splits option.splits)
    from on_envD [OF b] have e: "grant_IsValid x (w_env w1) = (True, w_env w2)" "w_grants w2 = w_grants w1"
      "w_rts w2 = w_rts w1" "w_users w2 = w_users w1" "w_cache w2 = w_cache w1" by simp_all
    then have v: "G_RevokedAt x = None" "clock (w_env w1) < G_ExpiresAt x" "env_le (w_env w1) (w_env w2)"
      by (auto simp: grant_IsValid_def env_le_def split: prod.splits if_splits dest!: nowD)
    have x: "grants (w_grants w) g = Some x" "G_ID x = g" "gok (w_grants w2)" "grants (w_grants w2) = grants (w_grants w)"
      using F Inr e by simp_all
    then have "G_ID ?x = g" "grants (w_grants w2) (G_ID ?x) = Some x" by (simp_all add: ExtendToCover_def)
    note al = gr.grant_alias [OF x(3) this(2)]
    from on_grantsD [OF d] have s: "gr_Save (d_grants D) ?x (w_grants w3) (w_env w3) = (None, w_grants w', w_env w')"
      "w_rts w' = w_rts w3" "w_users w' = w_users w3" "w_cache w' = w_cache w3" by simp_all
    have "gok (w_grants w3)" using al by (simp add: c)
    note S = gr.grant_Save [OF s(1) this]
    have "grants (w_grants w') = (grants (w_grants w))(g \<mapsto> ?x)"
      using S al x \<open>G_ID ?x = g\<close> by (auto simp: c)
    moreover have "env_le (w_env w) (w_env w')"
      by (rule env_le_trans3 [of _ "w_env w1" "w_env w2"]) (use F v S in \<open>simp_all add: c\<close>)
    moreover have "clock (w_env w) < G_ExpiresAt x" using F v(2) by (auto simp: env_le_def)
    ultimately show ?thesis
      using False x v S s e f ok by (simp add: wok_def c)
  qed
qed

text \<open>
  A rotation that commits: the presented row is dated, the new row is stored and the grant, where
  one is recorded, was live and now outlives the new token.
\<close>

lemma rotate_txn_None:
  assumes txn: "rotate_txn D old new w = (None, w')" and ok: "wok w"
    and row: "row_at (rows (w_rts w)) (RT_TokenHash old) old" "RT_RevokedAt old = None"
    and fresh: "\<forall>i x. rows (w_rts w) i = Some x \<longrightarrow> RT_TokenHash x \<noteq> RT_TokenHash new"
  shows "wok w' \<and> env_le (w_env w) (w_env w') \<and> w_users w' = w_users w \<and> w_cache w' = w_cache w
    \<and> (\<exists>t. rows (w_rts w') = (rows (w_rts w))(RT_ID old \<mapsto> old\<lparr>RT_RevokedAt := Some t\<rparr>, RT_ID new \<mapsto> new))
    \<and> (if RT_GrantID old = [] \<or> grants (w_grants w) (RT_GrantID old) = None
       then grants (w_grants w') = grants (w_grants w)
       else \<exists>x. grants (w_grants w) (RT_GrantID old) = Some x \<and> G_RevokedAt x = None
         \<and> clock (w_env w) < G_ExpiresAt x
         \<and> grants (w_grants w') = (grants (w_grants w))(RT_GrantID old \<mapsto> ExtendToCover x (RT_ExpiresAt new)))"
proof -
  obtain w1 w2 where a: "checkAndExtendGrant D (RT_GrantID old) (RT_ExpiresAt new) w = (None, w1)"
    and b: "on_rts (rt_RevokeByTokenHash (d_rts D) (RT_TokenHash old)) w1 = (None, w2)"
    and c: "on_rts (rt_Save (d_rts D) new) w2 = (None, w')"
    using txn by (auto simp: rotate_txn_def split: prod.splits option.splits if_splits)
  note A = checkAndExtend_None [OF a ok]
  from on_rtsD [OF b] have B: "rt_RevokeByTokenHash (d_rts D) (RT_TokenHash old) (w_rts w1) (w_env w1) = (None, w_rts w2, w_env w2)"
    "w_grants w2 = w_grants w1" "w_users w2 = w_users w1" "w_cache w2 = w_cache w1" by simp_all
  have same: "w_rts w1 = w_rts w" using A by blast
  have rok1: "rok (w_rts w1)" using A by (auto simp only: wok_def)
  obtain x t where x: "row_at (rows (w_rts w)) (RT_TokenHash old) x"
    and r2: "rows (w_rts w2) = (rows (w_rts w))(RT_ID x \<mapsto> x\<lparr>RT_RevokedAt := Some t\<rparr>)"
    and R: "rok (w_rts w2)" "env_le (w_env w1) (w_env w2)"
    using rt.rt_Revoke [OF B(1) rok1] same by auto
  have "x = old" using rt.rt_unique [OF rok1] x row(1) same by metis
  from on_rtsD [OF c] have C: "rt_Save (d_rts D) new (w_rts w2) (w_env w2) = (None, w_rts w', w_env w')"
    "w_grants w' = w_grants w2" "w_users w' = w_users w2" "w_cache w' = w_cache w2" by simp_all
  have "fresh_hash new (rows (w_rts w2))"
    using fresh x unfolding fresh_hash_def r2 row_at_def by (auto split: if_splits)
  note S = rt.rt_Save [OF C(1) R(1) this]
  have "env_le (w_env w) (w_env w')"
    by (rule env_le_trans3 [of _ "w_env w1" "w_env w2"]) (use A R S in simp_all)
  moreover have "rows (w_rts w') = (rows (w_rts w))(RT_ID old \<mapsto> old\<lparr>RT_RevokedAt := Some t\<rparr>, RT_ID new \<mapsto> new)"
    using S r2 \<open>x = old\<close> by simp
  moreover have "wok w'" using A B C S ok by (simp add: wok_def)
  ultimately show ?thesis using A B C by auto
qed

text \<open>The stages of a refresh request that succeeds.\<close>

lemma refresh_stages:
  assumes "RefreshToken_Execute D c w = (Inr res, w')"
  obtains client old w1 user w2 tokens w3 new w4 w5 where
    "Authenticate (d_prims D) (d_registry D)
       (refresh_credentials c) = Inr client"
    "AllowsGrant client GrantRefreshToken"
    "findActiveRefreshToken D (rc_RefreshToken c) w = (Inr old, w1)" "IssuedTo old (C_ID client)"
    "on_users (ur_FindByID (d_users D) (RT_UserID old)) w1 = (Inr user, w2)"
    "\<And>t. U_SessionsInvalidatedAt user = Some t \<Longrightarrow> t < RT_AuthenticatedAt old"
    "on_env (IssueTokens (d_prims D) (d_tokens D)
       \<lparr>is_User = user, is_ClientID = C_ID client, is_Nonce = [], is_Scope = RT_Scope old,
        is_ExpireSecs = ResolveExpirySecs (rc_ExpireSecs c), is_ExistingGrantID = RT_GrantID old\<rparr>) w2 = (Inr tokens, w3)"
    "on_env (Rotate (d_prims D) old (U_ID user) tokens) w3 = (new, w4)"
    "(case IT_NewGrant tokens of None \<Rightarrow> (None, w4)
      | Some g \<Rightarrow> on_grants (gr_Save (d_grants D) (ExtendToCover g (RT_ExpiresAt new))) w4) = (None, w5)"
    "rotate_txn D old new w5 = (None, w')"
    "res = TokenResponse_FromEntity tokens (ResolveExpirySecs (rc_ExpireSecs c))"
proof -
  from assms obtain client old w1 user w2 tokens w3 new w4 w5 where
    1: "Authenticate (d_prims D) (d_registry D)
       (refresh_credentials c) = Inr client"
    "AllowsGrant client GrantRefreshToken"
    "findActiveRefreshToken D (rc_RefreshToken c) w = (Inr old, w1)" "IssuedTo old (C_ID client)"
    "on_users (ur_FindByID (d_users D) (RT_UserID old)) w1 = (Inr user, w2)"
    "\<not> (case U_SessionsInvalidatedAt user of None \<Rightarrow> False | Some t \<Rightarrow> \<not> RT_AuthenticatedAt old > t)"
    "on_env (IssueTokens (d_prims D) (d_tokens D)
       \<lparr>is_User = user, is_ClientID = C_ID client, is_Nonce = [], is_Scope = RT_Scope old,
        is_ExpireSecs = ResolveExpirySecs (rc_ExpireSecs c), is_ExistingGrantID = RT_GrantID old\<rparr>) w2 = (Inr tokens, w3)"
    "on_env (Rotate (d_prims D) old (U_ID user) tokens) w3 = (new, w4)"
    "(case IT_NewGrant tokens of None \<Rightarrow> (None, w4)
      | Some g \<Rightarrow> on_grants (gr_Save (d_grants D) (ExtendToCover g (RT_ExpiresAt new))) w4) = (None, w5)"
    "updateRefreshToken D old new w5 = (None, w')"
    "res = TokenResponse_FromEntity tokens (ResolveExpirySecs (rc_ExpireSecs c))"
    unfolding RefreshToken_Execute_def Let_def
    by (auto split: sum.split_asm prod.split_asm if_split_asm option.split_asm)
  have "rotate_txn D old new w5 = (None, w')"
    using 1(10) by (auto simp: updateRefreshToken_def noop_uow NoopUnitOfWork_Do_def
        split: prod.splits option.splits if_splits)
  moreover have "\<And>t. U_SessionsInvalidatedAt user = Some t \<Longrightarrow> t < RT_AuthenticatedAt old"
    using 1(6) by auto
  ultimately show ?thesis using 1 that by blast
qed

lemma grant_saved:
  assumes "(case ng of None \<Rightarrow> (None, w) | Some g \<Rightarrow> on_grants (gr_Save (d_grants D) (ExtendToCover g ex)) w) = (None, w')"
    and "wok w"
  shows "wok w' \<and> env_le (w_env w) (w_env w') \<and> w_rts w' = w_rts w \<and> w_users w' = w_users w \<and> w_cache w' = w_cache w
    \<and> grants (w_grants w') = (case ng of None \<Rightarrow> grants (w_grants w)
        | Some g \<Rightarrow> (grants (w_grants w))(G_ID g \<mapsto> ExtendToCover g ex))"
proof (cases ng)
  case None
  with assms show ?thesis by simp
next
  case (Some g)
  then have a: "on_grants (gr_Save (d_grants D) (ExtendToCover g ex)) w = (None, w')" using assms(1) by simp
  from on_grantsD [OF a] have b: "gr_Save (d_grants D) (ExtendToCover g ex) (w_grants w) (w_env w) = (None, w_grants w', w_env w')"
    "w_rts w' = w_rts w" "w_users w' = w_users w" "w_cache w' = w_cache w" by simp_all
  have ok: "gok (w_grants w)" using assms(2) by (simp add: wok_def)
  from gr.grant_Save [OF b(1) ok] b assms(2) Some show ?thesis
    by (simp add: wok_def ExtendToCover_def)
qed

text \<open>What a successful refresh did, in terms of the stored entities.\<close>

definition rotated :: "refresh_cmd \<Rightarrow> token_response \<Rightarrow> client \<Rightarrow> refresh_token \<Rightarrow> refresh_token
    \<Rightarrow> ('u, 'r, 'g, 'c) world \<Rightarrow> ('u, 'r, 'g, 'c) world \<Rightarrow> bool" where
  "rotated c res client old new w w' \<longleftrightarrow>
     row_at (rows (w_rts w)) (Hash (d_prims D) (rc_RefreshToken c)) old
     \<and> RT_RevokedAt old = None \<and> clock (w_env w) < RT_ExpiresAt old \<and> IssuedTo old (C_ID client)
     \<and> (\<exists>u. users (w_users w) (RT_UserID old) = Some u \<and>
          (\<forall>t. U_SessionsInvalidatedAt u = Some t \<longrightarrow> t < RT_AuthenticatedAt old))
     \<and> (\<exists>t. rows (w_rts w') = (rows (w_rts w))(RT_ID old \<mapsto> old\<lparr>RT_RevokedAt := Some t\<rparr>, RT_ID new \<mapsto> new))
     \<and> (\<exists>n \<ge> uuid_ctr (w_env w). RT_ID new = p_uuid (d_prims D) n)
     \<and> RT_TokenHash new = Hash (d_prims D) (tr_RefreshToken res) \<and> RT_RevokedAt new = None
     \<and> RT_UserID new = RT_UserID old \<and> RT_ClientID new = RT_ClientID old \<and> RT_Scope new = RT_Scope old
     \<and> RT_AuthenticatedAt new = RT_AuthenticatedAt old \<and> RT_DeviceID new = RT_DeviceID old
     \<and> (RT_GrantID old \<noteq> [] \<longrightarrow> RT_GrantID new = RT_GrantID old)
     \<and> RT_ExpiresAt new = RT_CreatedAt new + RefreshTokenTTL \<and> clock (w_env w) \<le> RT_CreatedAt new
     \<and> (RT_GrantID old \<noteq> [] \<and> grants (w_grants w) (RT_GrantID old) = None
        \<or> (\<exists>g. grants (w_grants w') (RT_GrantID new) = Some g \<and> G_RevokedAt g = None
              \<and> G_ExpiresAt g = RT_ExpiresAt new + grantExpiryMargin))
     \<and> (\<forall>g. RT_GrantID old \<noteq> [] \<longrightarrow> grants (w_grants w) (RT_GrantID old) = Some g \<longrightarrow>
          G_RevokedAt g = None \<and> clock (w_env w) < G_ExpiresAt g)"

lemma refresh_success:
  assumes run: "RefreshToken_Execute D c w = (Inr res, w')" and ok: "wok w"
    and fresh: "\<forall>i x. rows (w_rts w) i = Some x \<longrightarrow> RT_TokenHash x \<noteq> Hash (d_prims D) (tr_RefreshToken res)"
    and uuid: "\<forall>n. p_uuid (d_prims D) n \<noteq> []"
  shows "wok w' \<and> (\<exists>client old new. AllowsGrant client GrantRefreshToken
    \<and> Authenticate (d_prims D) (d_registry D)
       (refresh_credentials c) = Inr client
    \<and> rotated c res client old new w w')"
  using run
proof (rule refresh_stages, goal_cases)
  case (1 client old w1 user w2 tokens w3 new w4 w5)
  note S1 = findActive_Inr [OF 1(3) ok]
  from on_usersD [OF 1(5)] have u: "ur_FindByID (d_users D) (RT_UserID old) (w_users w1) (w_env w1) = (Inr user, w_users w2, w_env w2)"
    "w_rts w2 = w_rts w1" "w_grants w2 = w_grants w1" "w_cache w2 = w_cache w1" by simp_all
  have uokw: "uok (w_users w1)" using S1 ok by (simp add: wok_def)
  note U = us.user_FindByID [OF u(1) uokw]
  have ok2: "wok w2" using S1 U u ok by (simp add: wok_def)
  from on_envD [OF 1(7)] have i: "IssueTokens (d_prims D) (d_tokens D)
       \<lparr>is_User = user, is_ClientID = C_ID client, is_Nonce = [], is_Scope = RT_Scope old,
        is_ExpireSecs = ResolveExpirySecs (rc_ExpireSecs c), is_ExistingGrantID = RT_GrantID old\<rparr> (w_env w2) = (Inr tokens, w_env w3)"
    "w_rts w3 = w_rts w2" "w_grants w3 = w_grants w2" "w_users w3 = w_users w2" by simp_all
  note I = tk.IssueTokens_Inr [OF i(1)]
  from on_envD [OF 1(8)] have r: "Rotate (d_prims D) old (U_ID user) tokens (w_env w3) = (new, w_env w4)"
    "w_rts w4 = w_rts w3" "w_grants w4 = w_grants w3" "w_users w4 = w_users w3" by simp_all
  note N = Rotate_fields [OF r(1)]
  have ok4: "wok w4" using ok2 i r by (simp add: wok_def)
  note G = grant_saved [OF 1(9) ok4]
  have rows5: "rows (w_rts w5) = rows (w_rts w)" using G r i u S1 by simp
  have hash: "RT_TokenHash new = Hash (d_prims D) (tr_RefreshToken res)"
    using N(5) 1(11) by (simp add: TokenResponse_FromEntity_def)
  have fresh5: "\<forall>i x. rows (w_rts w5) i = Some x \<longrightarrow> RT_TokenHash x \<noteq> RT_TokenHash new"
    using fresh hash rows5 by simp
  have oldrow: "row_at (rows (w_rts w5)) (RT_TokenHash old) old" "RT_RevokedAt old = None"
    using S1 rows5 by (auto simp: row_at_def)
  have ok5: "wok w5" using G by blast
  note T = rotate_txn_None [OF 1(10) ok5 oldrow fresh5]
  have le1: "clock (w_env w) \<le> clock (w_env w1)" "clock (w_env w1) \<le> clock (w_env w3)" "clock (w_env w3) \<le> clock (w_env w5)"
    using S1 U I N(13) G by (simp_all add: env_le_def)
  have ctr: "uuid_ctr (w_env w) \<le> uuid_ctr (w_env w3)" using S1 U I by (simp add: env_le_def)
  have id_new: "\<exists>n \<ge> uuid_ctr (w_env w). RT_ID new = p_uuid (d_prims D) n"
    using Rotate_ID [OF r(1)] ctr by (meson order_trans)
  have grants4: "grants (w_grants w4) = grants (w_grants w)" using r i u S1 by simp
  have old_live: "G_RevokedAt g = None \<and> clock (w_env w) < G_ExpiresAt g"
    if "RT_GrantID old \<noteq> []" "grants (w_grants w) (RT_GrantID old) = Some g" for g
    using that T G I grants4 le1 by (auto split: if_splits)
  have covered: "RT_GrantID old \<noteq> [] \<and> grants (w_grants w) (RT_GrantID old) = None
        \<or> (\<exists>g. grants (w_grants w') (RT_GrantID new) = Some g \<and> G_RevokedAt g = None
              \<and> G_ExpiresAt g = RT_ExpiresAt new + grantExpiryMargin)"
  proof (cases "RT_GrantID old = []")
    case True
    then obtain g e0 where g: "NewGrant (d_prims D) (U_ID user) (C_ID client) (w_env w2) = (g, e0)"
      "IT_NewGrant tokens = Some g" "IT_GrantID tokens = G_ID g" using I by auto
    note gf = NewGrant_fields [OF g(1)]
    have "RT_GrantID new = G_ID g" using N(9) True g gf(4) uuid by simp
    then show ?thesis using T G True g gf(3) by (simp add: ExtendToCover_def)
  next
    case False
    then show ?thesis
      using T G I N(8) grants4 by (auto simp: ExtendToCover_def split: if_splits)
  qed
  have "rotated c res client old new w w'"
    unfolding rotated_def
    using S1 1(4) U 1(6) T rows5 hash N I old_live covered le1 id_new by auto
  with T 1(1,2) show ?case by blast
qed

text \<open>Presenting a token that was already rotated ends the whole chain, whoever presents it.\<close>

lemma refresh_replay:
  assumes ok: "wok w" and disk: "disk (w_env w) = []"
    and auth: "Authenticate (d_prims D) (d_registry D)
       (refresh_credentials c) = Inr client"
      "AllowsGrant client GrantRefreshToken"
    and row: "row_at (rows (w_rts w)) (Hash (d_prims D) (rc_RefreshToken c)) x" "RT_RevokedAt x \<noteq> None"
      "RT_GrantID x \<noteq> []"
  shows "\<exists>w'. RefreshToken_Execute D c w = (Inl NewErrInvalidRefreshToken, w') \<and> wok w'
    \<and> family_dead (RT_GrantID x) w' (clock (w_env w) + RevokedGrantMarkerTTL)
    \<and> bulk_revoked (\<lambda>y. RT_GrantID y = RT_GrantID x) (rows (w_rts w)) (rows (w_rts w'))
    \<and> (\<forall>j. j \<noteq> RT_GrantID x \<longrightarrow> grants (w_grants w') j = grants (w_grants w) j)"
proof -
  let ?h = "Hash (d_prims D) (rc_RefreshToken c)"
  obtain res w1 where a: "on_rts (rt_FindByTokenHash (d_rts D) ?h) w = (res, w1)" by (metis surj_pair)
  from on_rtsD [OF a] have f: "rt_FindByTokenHash (d_rts D) ?h (w_rts w) (w_env w) = (res, w_rts w1, w_env w1)"
    "w_grants w1 = w_grants w" "w_users w1 = w_users w" by simp_all
  have rokw: "rok (w_rts w)" using ok by (simp add: wok_def)
  note F = rt.rt_Find [OF f(1) rokw]
  note Fr = rt.rt_Find_reliable [OF f(1) rokw disk]
  have res: "res = Inr x"
    using F Fr row(1) rt.rt_unique [OF rokw] by (cases res) auto
  have ok1: "wok w1" using ok f F by (simp add: wok_def)
  define w' where "w' = revokeFamily D x w1"
  have run: "RefreshToken_Execute D c w = (Inl NewErrInvalidRefreshToken, w')"
    using auth a res row(2) by (simp add: RefreshToken_Execute_def findActiveRefreshToken_def w'_def)
  note D = revokeFamily_dead [OF w'_def [symmetric] ok1 _ row(3)]
  have disk1: "disk (w_env w1) = []" using Fr by blast
  have ck: "clock (w_env w) \<le> clock (w_env w1)" using F by (simp add: env_le_def)
  have "family_dead (RT_GrantID x) w' (clock (w_env w) + RevokedGrantMarkerTTL)"
    using D [OF disk1] ck unfolding family_dead_def by (meson add_right_mono order_trans)
  with run D [OF disk1] f F show ?thesis by auto
qed

end

end
