(* ===== verification/UC_Code.thy ===== *)
theory UC_Code
  imports UC_Refresh
begin

text \<open>
  The authorization-code flow: the authorization endpoint (\<open>application/query/authorize.go\<close>), the
  sign-in page (\<open>get_sign_in.go\<close>), sign-in (\<open>application/command/create_auth_code.go\<close>) and the
  exchange of the code for tokens (\<open>exchange_code.go\<close>).
\<close>

section \<open>The authorization endpoint\<close>

record authorize_query =
  aq_ResponseType :: string
  aq_ClientID :: string
  aq_RedirectURI :: string
  aq_Scope :: string
  aq_State :: "string option"
  aq_Nonce :: "string option"
  aq_CodeChallenge :: "string option"
  aq_CodeChallengeMethod :: "string option"

text \<open>What the endpoint answers: an error sent back to the client, or a session to sign in with.\<close>

datatype authorize_result =
    AuthorizeErrorRedirect (aer_redirectURI: string) (aer_errCode: string) (aer_state: "string option")
  | GetAuthorizeResponse (gar_SessionID: string)

definition AuthorizeErrorRedirect_URL :: "prims \<Rightarrow> string \<Rightarrow> string \<Rightarrow> string option \<Rightarrow> string" where
  "AuthorizeErrorRedirect_URL p redirectURI errCode state =
     (case p_url_Parse p redirectURI of
        None \<Rightarrow> redirectURI
      | Some u \<Rightarrow>
          let q1 = values_Set ''error'' errCode (p_ParseQuery p (u_RawQuery u));
              q2 = (case state of None \<Rightarrow> q1 | Some s \<Rightarrow> values_Set ''state'' s q1) in
          p_url_String p (u\<lparr>u_RawQuery := p_QueryEncode p q2\<rparr>))"

definition codeChallengeLength :: nat where "codeChallengeLength = 43"
definition maxStateNonceLen :: nat where "maxStateNonceLen = 1024"

definition validPKCE :: "authorize_query \<Rightarrow> bool" where
  "validPKCE q \<longleftrightarrow>
     (case aq_CodeChallenge q of
        None \<Rightarrow> aq_CodeChallengeMethod q = None
      | Some ch \<Rightarrow> length ch = codeChallengeLength \<and> aq_CodeChallengeMethod q = Some CodeChallengeMethodS256)"

definition tooLong :: "string option \<Rightarrow> bool" where
  "tooLong s \<longleftrightarrow> (case s of None \<Rightarrow> False | Some v \<Rightarrow> length v > maxStateNonceLen)"

definition protocolError :: "authorize_query \<Rightarrow> client \<Rightarrow> string" where
  "protocolError q client =
     (if aq_ResponseType q = [] then OAuth2InvalidRequest
      else if aq_ResponseType q \<noteq> ''code'' then OAuth2UnsupportedResponseType
      else if (case NewScope (Fields (aq_Scope q)) of
                 Inl err \<Rightarrow> True | Inr sc \<Rightarrow> \<not> scope_Contains sc ScopeOpenID) then OAuth2InvalidScope
      else if \<not> validPKCE q \<or> (client_IsPublic client \<and> aq_CodeChallenge q = None) then OAuth2InvalidRequest
      else if tooLong (aq_State q) \<or> tooLong (aq_Nonce q) then OAuth2InvalidRequest
      else [])"

definition GetAuthorize_Execute ::
  "('u, 'r, 'g, 'c) deps \<Rightarrow> authorize_query \<Rightarrow> ('u, 'r, 'g, 'c) world
     \<Rightarrow> (go_error + authorize_result) \<times> ('u, 'r, 'g, 'c) world" where
  "GetAuthorize_Execute D q w =
     (case registry_FindByID (d_registry D) DefaultTenantID (aq_ClientID q) of
        Inl err \<Rightarrow> (Inl err, w)
      | Inr None \<Rightarrow> (Inl NewErrInvalidRedirectURI, w)
      | Inr (Some client) \<Rightarrow>
          if \<not> AllowsRedirectURI (d_prims D) client (aq_RedirectURI q) then (Inl NewErrInvalidRedirectURI, w)
          else let errCode = protocolError q client in
            if errCode \<noteq> [] then (Inr (AuthorizeErrorRedirect (aq_RedirectURI q) errCode (aq_State q)), w)
            else case on_env (NewAuthorizeRequest (d_prims D)
                   \<lparr>ARA_ClientID = aq_ClientID q, ARA_RedirectURI = aq_RedirectURI q, ARA_Scope = aq_Scope q,
                    ARA_State = aq_State q, ARA_Nonce = aq_Nonce q, ARA_CodeChallenge = aq_CodeChallenge q,
                    ARA_CodeChallengeMethod = aq_CodeChallengeMethod q\<rparr>) w of
                (Inl err, w1) \<Rightarrow>
                  (Inr (AuthorizeErrorRedirect (aq_RedirectURI q) OAuth2InvalidRequest (aq_State q)), w1)
              | (Inr session, w1) \<Rightarrow>
                  (case on_cache (k_Set (d_cache D) (AuthorizeRequestKey (AR_ID session)) (CSession session)
                          (Some AuthorizeRequestTTL)) w1 of
                     (Some err, w2) \<Rightarrow> (Inl err, w2)
                   | (None, w2) \<Rightarrow> (Inr (GetAuthorizeResponse (AR_ID session)), w2)))"

section \<open>The sign-in page\<close>

definition GetSignIn_Execute ::
  "('u, 'r, 'g, 'c) deps \<Rightarrow> SessionID \<Rightarrow> ('u, 'r, 'g, 'c) world \<Rightarrow> (go_error + string) \<times> ('u, 'r, 'g, 'c) world" where
  "GetSignIn_Execute D sessionID w =
     (case on_cache (k_GetErr (d_cache D) (AuthorizeRequestKey sessionID) DSession) w of
        (Inl err, w1) \<Rightarrow> (Inl err, w1)
      | (Inr (Some (CSession session)), w1) \<Rightarrow>
          (case authorize_request_Validate (d_prims D) session of
             Some err \<Rightarrow> (Inl NewErrInvalidSession, w1)
           | None \<Rightarrow> (Inr (AR_CSRFToken session), w1))
      | (Inr _, w1) \<Rightarrow> (Inl NewErrInvalidSession, w1))"

section \<open>Sign-in\<close>

record auth_code_cmd =
  cac_Email :: string
  cac_Password :: string
  cac_CSRFToken :: string
  cac_SessionID :: SessionID

text \<open>
  A user the handler found and changed: the change shows in the store at once if the store hands
  out its own objects.
\<close>

definition mutate_user :: "('u, 'r, 'g, 'c) deps \<Rightarrow> user \<Rightarrow> ('u, 'r, 'g, 'c) world \<Rightarrow> ('u, 'r, 'g, 'c) world" where
  "mutate_user D u w = w\<lparr>w_users := ur_alias (d_users D) u (w_users w)\<rparr>"

definition save_user :: "('u, 'r, 'g, 'c) deps \<Rightarrow> user \<Rightarrow> ('u, 'r, 'g, 'c) world \<Rightarrow> ('u, 'r, 'g, 'c) world" where
  "save_user D u w = (let (_, w1) = on_users (ur_Save (d_users D) u) w in w1)"

definition recordAccountFailure ::
  "('u, 'r, 'g, 'c) deps \<Rightarrow> user option \<Rightarrow> ('u, 'r, 'g, 'c) world \<Rightarrow> ('u, 'r, 'g, 'c) world" where
  "recordAccountFailure D user w =
     (case user of
        None \<Rightarrow> w
      | Some u \<Rightarrow> let (u1, w1) = on_env (RecordFailedLogin u) w in save_user D u1 (mutate_user D u1 w1))"

definition resetAccountFailures ::
  "('u, 'r, 'g, 'c) deps \<Rightarrow> user \<Rightarrow> bool \<Rightarrow> ('u, 'r, 'g, 'c) world \<Rightarrow> ('u, 'r, 'g, 'c) world" where
  "resetAccountFailures D u dirty w =
     (let hasFailures = (U_FailedLoginAttempts u \<noteq> 0 \<or> U_LockedUntil u \<noteq> None) in
      if \<not> hasFailures \<and> \<not> dirty then w
      else let (u1, w1) = (if hasFailures
               then let (v, w0) = on_env (ResetFailedLogins u) w in (v, mutate_user D v w0)
               else (u, w)) in
        save_user D u1 w1)"

definition signInFailed ::
  "('u, 'r, 'g, 'c) deps \<Rightarrow> authorize_request \<Rightarrow> user option \<Rightarrow> ('u, 'r, 'g, 'c) world
     \<Rightarrow> (go_error + UserID) \<times> ('u, 'r, 'g, 'c) world" where
  "signInFailed D session user w =
     (let w1 = recordAccountFailure D user w; session1 = RequestFail session in
      if request_IsLockedOut session1 then (Inl NewErrMaxLoginAttemptsExceeded, w1)
      else let (_, w2) = on_cache (k_Set (d_cache D) (AuthorizeRequestKey (AR_ID session)) (CSession session1)
                 (Some AuthorizeRequestTTL)) w1 in
        (Inl NewErrInvalidEmailOrPassword, w2))"

text \<open>
  "Not found" is no error when looking for the user of an e-mail address, and the account's lock is
  decided before the password is looked at.
\<close>

definition verifyCredentials ::
  "('u, 'r, 'g, 'c) deps \<Rightarrow> authorize_request \<Rightarrow> string \<Rightarrow> string \<Rightarrow> ('u, 'r, 'g, 'c) world
     \<Rightarrow> (go_error + UserID) \<times> ('u, 'r, 'g, 'c) world" where
  "verifyCredentials D session email password w =
     (case on_users (ur_FindByEmail (d_users D) DefaultTenantID email) w of
        (Inl err, w1) \<Rightarrow>
          if \<not> errors_Is err ErrNotFound then (Inl err, w1) else signInFailed D session None w1
      | (Inr user, w1) \<Rightarrow>
          let (locked, w2) = on_env (user_IsLockedOut user) w1 in
          if locked then (Inl NewErrInvalidEmailOrPassword, w2)
          else if \<not> ValidatePassword (d_prims D) user password then signInFailed D session (Some user) w2
          else case on_env (RehashPasswordIfNeeded (d_prims D) user password) w2 of
              (Inl panic, w3) \<Rightarrow> (Inl panic, w3)
            | (Inr (rehashed, u1), w3) \<Rightarrow>
                (Inr (U_ID u1), resetAccountFailures D u1 rehashed (mutate_user D u1 w3)))"

definition CreateAuthCode_Execute ::
  "('u, 'r, 'g, 'c) deps \<Rightarrow> auth_code_cmd \<Rightarrow> ('u, 'r, 'g, 'c) world \<Rightarrow> (go_error + string) \<times> ('u, 'r, 'g, 'c) world" where
  "CreateAuthCode_Execute D c w =
     (case on_cache (k_GetAndDelete (d_cache D) (AuthorizeRequestKey (cac_SessionID c)) DSession) w of
        (Some (CSession session), w1) \<Rightarrow>
          (case authorize_request_Validate (d_prims D) session of
             Some err \<Rightarrow> (Inl NewErrInvalidSession, w1)
           | None \<Rightarrow>
               if cac_CSRFToken c \<noteq> AR_CSRFToken session then (Inl NewErrInvalidSession, w1)
               else case verifyCredentials D session (cac_Email c) (cac_Password c) w1 of
                   (Inl err, w2) \<Rightarrow> (Inl err, w2)
                 | (Inr userID, w2) \<Rightarrow>
                     (case on_env (NewAuthCode (d_prims D)
                             \<lparr>ACA_UserID = userID, ACA_ClientID = AR_ClientID session,
                              ACA_RedirectURI = AR_RedirectURI session, ACA_Scope = AR_Scope session,
                              ACA_Nonce = AR_Nonce session, ACA_CodeChallenge = AR_CodeChallenge session,
                              ACA_CodeChallengeMethod = AR_CodeChallengeMethod session\<rparr>) w2 of
                        (Inl err, w3) \<Rightarrow> (Inl (NewErrAuthCodeCreateFailed err), w3)
                      | (Inr authCode, w3) \<Rightarrow>
                          (case on_cache (k_Set (d_cache D) (AuthCodeKey (AC_Code authCode)) (CCode authCode)
                                  (Some AuthCodeTTL)) w3 of
                             (Some err, w4) \<Rightarrow> (Inl err, w4)
                           | (None, w4) \<Rightarrow> (BuildRedirectURI (d_prims D) session (AC_Code authCode), w4))))
      | (_, w1) \<Rightarrow> (Inl NewErrInvalidSession, w1))"

section \<open>Code exchange\<close>

record exchange_cmd =
  ec_Code :: string
  ec_ClientID :: string
  ec_ClientSecret :: string
  ec_BasicClientID :: string
  ec_BasicClientSecret :: string
  ec_RedirectURI :: string
  ec_ExpireSecs :: "int option"
  ec_CodeVerifier :: string

abbreviation exchange_credentials :: "exchange_cmd \<Rightarrow> client_credentials" where
  "exchange_credentials c \<equiv> \<lparr>cc_ClientID = ec_ClientID c, cc_FormSecret = ec_ClientSecret c,
     cc_BasicClientID = ec_BasicClientID c, cc_BasicSecret = ec_BasicClientSecret c\<rparr>"

definition consumeAuthCode ::
  "('u, 'r, 'g, 'c) deps \<Rightarrow> string \<Rightarrow> ('u, 'r, 'g, 'c) world \<Rightarrow> (go_error + auth_code) \<times> ('u, 'r, 'g, 'c) world" where
  "consumeAuthCode D code w =
     (case on_cache (k_GetAndDelete (d_cache D) (AuthCodeKey code) DCode) w of
        (Some (CCode ac), w1) \<Rightarrow>
          (case auth_code_Validate ac of
             Some err \<Rightarrow> (Inl (ErrText ''auth code not found''), w1)
           | None \<Rightarrow> (Inr ac, w1))
      | (_, w1) \<Rightarrow> (Inl (ErrText ''auth code not found''), w1))"

definition exchange_issueTokens ::
  "('u, 'r, 'g, 'c) deps \<Rightarrow> ClientID \<Rightarrow> int \<Rightarrow> auth_code \<Rightarrow> user \<Rightarrow> ('u, 'r, 'g, 'c) world
     \<Rightarrow> (go_error + issued_tokens) \<times> ('u, 'r, 'g, 'c) world" where
  "exchange_issueTokens D clientID expireSecs authCode user w =
     (let nonce = (case AC_Nonce authCode of None \<Rightarrow> [] | Some n \<Rightarrow> n) in
      on_env (IssueTokens (d_prims D) (d_tokens D)
        \<lparr>is_User = user, is_ClientID = clientID, is_Nonce = nonce, is_Scope = AC_Scope authCode,
         is_ExpireSecs = expireSecs, is_ExistingGrantID = []\<rparr>) w)"

definition saveRefreshToken ::
  "('u, 'r, 'g, 'c) deps \<Rightarrow> UserID \<Rightarrow> ClientID \<Rightarrow> issued_tokens \<Rightarrow> ('u, 'r, 'g, 'c) world
     \<Rightarrow> go_error option \<times> ('u, 'r, 'g, 'c) world" where
  "saveRefreshToken D userID clientID tokens w =
     (let (rt, w1) = on_env (NewRefreshToken (d_prims D) userID clientID tokens) w;
          (saved, w2) = (case IT_NewGrant tokens of
              None \<Rightarrow> (None, w1)
            | Some g \<Rightarrow> on_grants (gr_Save (d_grants D) (ExtendToCover g (RT_ExpiresAt rt))) w1) in
      case saved of Some err \<Rightarrow> (Some err, w2) | None \<Rightarrow> on_rts (rt_Save (d_rts D) rt) w2)"

definition ExchangeCode_Execute ::
  "('u, 'r, 'g, 'c) deps \<Rightarrow> exchange_cmd \<Rightarrow> ('u, 'r, 'g, 'c) world
     \<Rightarrow> (go_error + token_response) \<times> ('u, 'r, 'g, 'c) world" where
  "ExchangeCode_Execute D c w =
     (case Authenticate (d_prims D) (d_registry D)
             (exchange_credentials c) of
        Inl err \<Rightarrow> (Inl NewErrInvalidClient, w)
      | Inr client \<Rightarrow>
          if \<not> AllowsGrant client GrantAuthorizationCode then (Inl NewErrInvalidClient, w)
          else case consumeAuthCode D (ec_Code c) w of
              (Inl err, w1) \<Rightarrow> (Inl NewErrAuthCodeNotFound, w1)
            | (Inr authCode, w1) \<Rightarrow>
                if client_IsPublic client \<and> AC_CodeChallenge authCode = None then (Inl NewErrInvalidGrant, w1)
                else case on_env (auth_code_IsValid (d_prims D) authCode (C_ID client) (ec_RedirectURI c)
                            (ec_CodeVerifier c)) w1 of
                    (Inl panic, w2) \<Rightarrow> (Inl panic, w2)
                  | (Inr valid, w2) \<Rightarrow>
                      if \<not> valid then (Inl NewErrInvalidGrant, w2)
                      else case on_users (ur_FindByID (d_users D) (AC_UserID authCode)) w2 of
                          (Inl err, w3) \<Rightarrow> (Inl err, w3)
                        | (Inr user, w3) \<Rightarrow>
                            let expireSecs = ResolveExpirySecs (ec_ExpireSecs c) in
                            (case exchange_issueTokens D (C_ID client) expireSecs authCode user w3 of
                               (Inl err, w4) \<Rightarrow> (Inl err, w4)
                             | (Inr tokens, w4) \<Rightarrow>
                                 (case saveRefreshToken D (U_ID user) (C_ID client) tokens w4 of
                                    (Some err, w5) \<Rightarrow> (Inl err, w5)
                                  | (None, w5) \<Rightarrow> (Inr (TokenResponse_FromEntity tokens expireSecs), w5))))"

section \<open>What the flow guarantees\<close>

lemma verifyCodeVerifier_challenge:
  "verifyCodeVerifier p a v = None \<Longrightarrow> AC_CodeChallenge a = Some ch \<Longrightarrow> v \<noteq> [] \<and> s256_challenge p v = ch"
  by (auto simp: verifyCodeVerifier_def Let_def split: if_splits)

lemma auth_code_IsValid_True:
  assumes "auth_code_IsValid p a cid uri v e = (Inr True, e')"
  shows "AC_ClientID a = Some cid \<and> AC_RedirectURI a = uri \<and> verifyCodeVerifier p a v = None
    \<and> clock e \<le> AC_ExpiresAt a \<and> env_le e e'"
  using assms
  by (auto simp: auth_code_IsValid_def auth_code_IsExpired_def matchesClient_def matchesRedirectURI_def env_le_def
      split: prod.splits if_splits option.splits sum.splits dest!: nowD)

text \<open>
  A request is redirected back, with an error or to sign in, only to a registered URI of a
  registered client; a session is opened only for a well-formed request.
\<close>

lemma protocolError_none:
  assumes "protocolError q client = []"
  shows "aq_ResponseType q = ''code''" "\<exists>sc. NewScope (Fields (aq_Scope q)) = Inr sc \<and> scope_Contains sc ScopeOpenID"
    "validPKCE q" "client_IsPublic client \<Longrightarrow> aq_CodeChallenge q \<noteq> None"
    "\<not> tooLong (aq_State q)" "\<not> tooLong (aq_Nonce q)"
  using assms by (auto simp: protocolError_def split: if_splits sum.splits)

lemma authorize_redirects_registered:
  assumes "GetAuthorize_Execute D q w = (Inr res, w')"
  shows "\<exists>client. registry_FindByID (d_registry D) DefaultTenantID (aq_ClientID q) = Inr (Some client)
    \<and> AllowsRedirectURI (d_prims D) client (aq_RedirectURI q)
    \<and> (case res of
         AuthorizeErrorRedirect uri code st \<Rightarrow> uri = aq_RedirectURI q \<and> st = aq_State q \<and> code \<noteq> []
       | GetAuthorizeResponse sid \<Rightarrow> protocolError q client = [])"
  using assms unfolding GetAuthorize_Execute_def Let_def
  by (auto split: sum.split_asm option.split_asm if_split_asm prod.split_asm)

context token_port
begin

lemma issue_new_grant_ctr:
  assumes "IssueTokens p T req e = (Inr tk, e')" and "is_ExistingGrantID req = []"
  shows "uuid_ctr e < uuid_ctr e'"
proof -
  obtain gid ng e1 where g: "issue_grant p req e = ((gid, ng), e1)" by (metis surj_pair)
  have "env_le e1 e'"
    using assms(1) g by (auto simp: IssueTokens_def Let_def split: prod.splits sum.splits if_splits
        dest!: GenAccess_env GenRefresh_env GenID_env intro: env_le_trans)
  moreover have "uuid_ctr e1 = Suc (uuid_ctr e)"
    using g assms(2) by (auto simp: issue_grant_def split: prod.splits dest: NewGrant_fields(6))
  ultimately show ?thesis by (simp add: env_le_def)
qed

end

context auth_app
begin

lemma consume_code:
  assumes "consumeAuthCode D code w = (Inr ac, w')"
  shows "\<exists>a. live (w_cache w) (clock (w_env w')) (AuthCodeKey code) = Some (CCode a) \<and> ac = a\<lparr>AC_Scope := AC_Scope ac\<rparr>
      \<and> scope_ok (AC_Scope ac)"
    and "live (w_cache w') t (AuthCodeKey code) = None"
    and "env_le (w_env w) (w_env w') \<and> w_users w' = w_users w \<and> w_rts w' = w_rts w \<and> w_grants w' = w_grants w"
    and "k \<noteq> AuthCodeKey code \<Longrightarrow> live (w_cache w') t k = live (w_cache w) t k"
proof -
  have a: "on_cache (k_GetAndDelete (d_cache D) (AuthCodeKey code) DCode) w = (Some (CCode ac), w')"
    using assms by (auto simp: consumeAuthCode_def split: prod.splits option.splits cval.splits)
  from on_cacheD [OF a]
  have b: "k_GetAndDelete (d_cache D) (AuthCodeKey code) DCode (w_cache w) (w_env w) = (Some (CCode ac), w_cache w', w_env w')"
    "w_users w' = w_users w" "w_rts w' = w_rts w" "w_grants w' = w_grants w" by simp_all
  have "decoded DCode (live (w_cache w) (clock (w_env w')) (AuthCodeKey code)) = Inr (Some (CCode ac))"
    using ca.GetAndDelete [OF b(1)] by simp
  then obtain v where v: "live (w_cache w) (clock (w_env w')) (AuthCodeKey code) = Some v"
    "json_decode DCode v = Inr (CCode ac)"
    by (auto simp: decoded_def split: option.splits sum.splits)
  from json_decode_DCode_Inr [OF v(2)] v(1)
  show "\<exists>a. live (w_cache w) (clock (w_env w')) (AuthCodeKey code) = Some (CCode a) \<and> ac = a\<lparr>AC_Scope := AC_Scope ac\<rparr>
      \<and> scope_ok (AC_Scope ac)" by auto
  show "live (w_cache w') t (AuthCodeKey code) = None" by (rule ca.GetAndDelete_gone [OF b(1)])
  show "env_le (w_env w) (w_env w') \<and> w_users w' = w_users w \<and> w_rts w' = w_rts w \<and> w_grants w' = w_grants w"
    using b ca.GetAndDelete_env [OF b(1)] by simp
  show "k \<noteq> AuthCodeKey code \<Longrightarrow> live (w_cache w') t k = live (w_cache w) t k"
    by (rule ca.GetAndDelete_other [OF b(1)])
qed

text \<open>Storing the tokens of a new sign-in: the grant first, then the first token of its chain.\<close>

lemma saveRefreshToken_None:
  assumes run: "saveRefreshToken D u cid tk w = (None, w')" and ok: "wok w" and ng: "IT_NewGrant tk = Some g"
    "IT_GrantID tk = G_ID g" "G_ID g \<noteq> []"
    and fresh: "\<forall>i x. rows (w_rts w) i = Some x \<longrightarrow> RT_TokenHash x \<noteq> Hash (d_prims D) (IT_RefreshToken tk)"
  shows "wok w' \<and> w_users w' = w_users w \<and> w_cache w' = w_cache w \<and> env_le (w_env w) (w_env w')
    \<and> (\<exists>rt. rows (w_rts w') = (rows (w_rts w))(RT_ID rt \<mapsto> rt) \<and> RT_ID rt = p_uuid (d_prims D) (uuid_ctr (w_env w))
        \<and> uuid_ctr (w_env w) < uuid_ctr (w_env w')
        \<and> RT_GrantID rt = G_ID g \<and> RT_UserID rt = u \<and> RT_ClientID rt = cid \<and> RT_RevokedAt rt = None
        \<and> RT_TokenHash rt = Hash (d_prims D) (IT_RefreshToken tk) \<and> RT_Scope rt = IT_Scope tk
        \<and> grants (w_grants w') = (grants (w_grants w))(G_ID g \<mapsto> ExtendToCover g (RT_ExpiresAt rt)))"
proof -
  obtain rt w1 w2 where a: "on_env (NewRefreshToken (d_prims D) u cid tk) w = (rt, w1)"
    and b: "(case IT_NewGrant tk of None \<Rightarrow> (None, w1)
      | Some g \<Rightarrow> on_grants (gr_Save (d_grants D) (ExtendToCover g (RT_ExpiresAt rt))) w1) = (None, w2)"
    and c: "on_rts (rt_Save (d_rts D) rt) w2 = (None, w')"
    using run unfolding saveRefreshToken_def Let_def by (auto split: prod.split_asm option.split_asm)
  from on_envD [OF a] have n: "NewRefreshToken (d_prims D) u cid tk (w_env w) = (rt, w_env w1)"
    "w_rts w1 = w_rts w" "w_grants w1 = w_grants w" "w_users w1 = w_users w" "w_cache w1 = w_cache w" by simp_all
  note N = NewRefreshToken_fields [OF n(1)]
  have ID: "RT_ID rt = p_uuid (d_prims D) (uuid_ctr (w_env w))" "uuid_ctr (w_env w1) = Suc (uuid_ctr (w_env w))"
    using NewRefreshToken_ID [OF n(1)] ng by simp_all
  have ok1: "wok w1" using ok n by (simp add: wok_def)
  note G = grant_saved [OF b ok1]
  from on_rtsD [OF c] have s: "rt_Save (d_rts D) rt (w_rts w2) (w_env w2) = (None, w_rts w', w_env w')"
    "w_grants w' = w_grants w2" "w_users w' = w_users w2" "w_cache w' = w_cache w2" by simp_all
  have rok2: "rok (w_rts w2)" using G ok n by (simp add: wok_def)
  have "fresh_hash rt (rows (w_rts w2))" using fresh N(3) G n by (simp add: fresh_hash_def)
  note S = rt.rt_Save [OF s(1) rok2 this]
  have le: "env_le (w_env w) (w_env w')"
    by (rule env_le_trans3 [of _ "w_env w1" "w_env w2"]) (use N G S in simp_all)
  have lt: "uuid_ctr (w_env w) < uuid_ctr (w_env w')"
    using ID G S by (simp add: env_le_def)
  have "rows (w_rts w') = (rows (w_rts w))(RT_ID rt \<mapsto> rt)" using S G n by simp
  moreover have "wok w'" using S G s ok1 by (simp add: wok_def)
  moreover have "grants (w_grants w') = (grants (w_grants w))(G_ID g \<mapsto> ExtendToCover g (RT_ExpiresAt rt))"
    using G s n ng by simp
  moreover have "w_users w' = w_users w \<and> w_cache w' = w_cache w" using G s n by simp
  ultimately show ?thesis using le lt ID(1) N(1-5) N(7) ng by (intro conjI exI [of _ rt]) simp_all
qed

lemma exchange_stages:
  assumes "ExchangeCode_Execute D c w = (Inr res, w')"
  obtains client ac w1 w2 user w3 tokens w4 where
    "Authenticate (d_prims D) (d_registry D)
       (exchange_credentials c) = Inr client"
    "AllowsGrant client GrantAuthorizationCode"
    "consumeAuthCode D (ec_Code c) w = (Inr ac, w1)" "client_IsPublic client \<Longrightarrow> AC_CodeChallenge ac \<noteq> None"
    "on_env (auth_code_IsValid (d_prims D) ac (C_ID client) (ec_RedirectURI c) (ec_CodeVerifier c)) w1 = (Inr True, w2)"
    "on_users (ur_FindByID (d_users D) (AC_UserID ac)) w2 = (Inr user, w3)"
    "exchange_issueTokens D (C_ID client) (ResolveExpirySecs (ec_ExpireSecs c)) ac user w3 = (Inr tokens, w4)"
    "saveRefreshToken D (U_ID user) (C_ID client) tokens w4 = (None, w')"
    "res = TokenResponse_FromEntity tokens (ResolveExpirySecs (ec_ExpireSecs c))"
proof -
  from assms obtain client ac w1 w2 user w3 tokens w4 where
    1: "Authenticate (d_prims D) (d_registry D)
       (exchange_credentials c) = Inr client"
    "AllowsGrant client GrantAuthorizationCode"
    "consumeAuthCode D (ec_Code c) w = (Inr ac, w1)" "\<not> (client_IsPublic client \<and> AC_CodeChallenge ac = None)"
    "on_env (auth_code_IsValid (d_prims D) ac (C_ID client) (ec_RedirectURI c) (ec_CodeVerifier c)) w1 = (Inr True, w2)"
    "on_users (ur_FindByID (d_users D) (AC_UserID ac)) w2 = (Inr user, w3)"
    "exchange_issueTokens D (C_ID client) (ResolveExpirySecs (ec_ExpireSecs c)) ac user w3 = (Inr tokens, w4)"
    "saveRefreshToken D (U_ID user) (C_ID client) tokens w4 = (None, w')"
    "res = TokenResponse_FromEntity tokens (ResolveExpirySecs (ec_ExpireSecs c))"
    unfolding ExchangeCode_Execute_def Let_def
    by (auto split: sum.split_asm prod.split_asm if_split_asm option.split_asm)
  then show ?thesis using that by blast
qed

text \<open>
  A successful exchange: the code was in the cache, bound to this client and redirect URI and not
  expired, its challenge (mandatory for public clients) is the hash of the verifier; the code is
  gone; a new grant and the first refresh token of its chain are stored for its user.
\<close>

definition exchanged :: "exchange_cmd \<Rightarrow> token_response \<Rightarrow> client \<Rightarrow> auth_code \<Rightarrow> grant \<Rightarrow> refresh_token
    \<Rightarrow> ('u, 'r, 'g, 'c) world \<Rightarrow> ('u, 'r, 'g, 'c) world \<Rightarrow> bool" where
  "exchanged c res client ac g new w w' \<longleftrightarrow>
     live (w_cache w) (clock (w_env w)) (AuthCodeKey (ec_Code c)) = Some (CCode ac)
     \<and> AC_ClientID ac = Some (C_ID client) \<and> AC_RedirectURI ac = ec_RedirectURI c \<and> clock (w_env w) \<le> AC_ExpiresAt ac
     \<and> (client_IsPublic client \<longrightarrow> AC_CodeChallenge ac \<noteq> None)
     \<and> (\<forall>ch. AC_CodeChallenge ac = Some ch \<longrightarrow>
          ec_CodeVerifier c \<noteq> [] \<and> s256_challenge (d_prims D) (ec_CodeVerifier c) = ch)
     \<and> (\<forall>t. live (w_cache w') t (AuthCodeKey (ec_Code c)) = None)
     \<and> (\<exists>u. users (w_users w) (AC_UserID ac) = Some u)
     \<and> G_UserID g = AC_UserID ac \<and> G_ClientID g = C_ID client \<and> G_RevokedAt g = None
     \<and> (\<exists>n \<ge> uuid_ctr (w_env w). G_ID g = p_uuid (d_prims D) n \<and>
          (\<exists>m > n. RT_ID new = p_uuid (d_prims D) m \<and> m < uuid_ctr (w_env w')))
     \<and> grants (w_grants w') = (grants (w_grants w))(G_ID g \<mapsto> ExtendToCover g (RT_ExpiresAt new))
     \<and> rows (w_rts w') = (rows (w_rts w))(RT_ID new \<mapsto> new)
     \<and> RT_UserID new = AC_UserID ac \<and> RT_ClientID new = C_ID client \<and> RT_GrantID new = G_ID g
     \<and> RT_RevokedAt new = None \<and> RT_TokenHash new = Hash (d_prims D) (tr_RefreshToken res)"

lemma exchange_success:
  assumes run: "ExchangeCode_Execute D c w = (Inr res, w')" and ok: "wok w"
    and fresh: "\<forall>i x. rows (w_rts w) i = Some x \<longrightarrow> RT_TokenHash x \<noteq> Hash (d_prims D) (tr_RefreshToken res)"
    and uuid: "\<forall>n. p_uuid (d_prims D) n \<noteq> []"
  shows "wok w' \<and> (\<exists>client ac g new. AllowsGrant client GrantAuthorizationCode
    \<and> Authenticate (d_prims D) (d_registry D)
       (exchange_credentials c) = Inr client
    \<and> exchanged c res client ac g new w w')"
  using run
proof (rule exchange_stages, goal_cases)
  case (1 client ac w1 w2 user w3 tokens w4)
  obtain a where a: "live (w_cache w) (clock (w_env w1)) (AuthCodeKey (ec_Code c)) = Some (CCode a)"
    "ac = a\<lparr>AC_Scope := AC_Scope ac\<rparr>" using consume_code(1) [OF 1(3)] by blast
  have fields: "AC_ClientID ac = AC_ClientID a" "AC_RedirectURI ac = AC_RedirectURI a" "AC_ExpiresAt ac = AC_ExpiresAt a"
    "AC_CodeChallenge ac = AC_CodeChallenge a" "AC_UserID ac = AC_UserID a" by (subst a(2), simp)+
  note C3 = consume_code(3) [OF 1(3)]
  have live0: "live (w_cache w) (clock (w_env w)) (AuthCodeKey (ec_Code c)) = Some (CCode a)"
    using ca.live_expires [OF a(1)] C3 by (simp add: env_le_def)
  from on_envD [OF 1(5)] have v: "auth_code_IsValid (d_prims D) ac (C_ID client) (ec_RedirectURI c) (ec_CodeVerifier c)
      (w_env w1) = (Inr True, w_env w2)" "w_users w2 = w_users w1" "w_rts w2 = w_rts w1" "w_grants w2 = w_grants w1"
    "w_cache w2 = w_cache w1" by simp_all
  note V = auth_code_IsValid_True [OF v(1)]
  from on_usersD [OF 1(6)] have u: "ur_FindByID (d_users D) (AC_UserID ac) (w_users w2) (w_env w2) = (Inr user, w_users w3, w_env w3)"
    "w_rts w3 = w_rts w2" "w_grants w3 = w_grants w2" "w_cache w3 = w_cache w2" by simp_all
  have uokw: "uok (w_users w2)" using C3 v ok by (simp add: wok_def)
  note U = us.user_FindByID [OF u(1) uokw]
  from on_envD [OF 1(7) [unfolded exchange_issueTokens_def Let_def]]
  have i: "w_rts w4 = w_rts w3" "w_grants w4 = w_grants w3" "w_users w4 = w_users w3" "w_cache w4 = w_cache w3"
    by simp_all
  have i0: "IssueTokens (d_prims D) (d_tokens D)
      \<lparr>is_User = user, is_ClientID = C_ID client, is_Nonce = (case AC_Nonce ac of None \<Rightarrow> [] | Some n \<Rightarrow> n),
       is_Scope = AC_Scope ac, is_ExpireSecs = ResolveExpirySecs (ec_ExpireSecs c), is_ExistingGrantID = []\<rparr> (w_env w3)
      = (Inr tokens, w_env w4)"
    using on_envD [OF 1(7) [unfolded exchange_issueTokens_def Let_def]] by simp
  from tk.IssueTokens_Inr [OF i0] obtain g e0 where g: "NewGrant (d_prims D) (U_ID user) (C_ID client) (w_env w3) = (g, e0)"
    "IT_NewGrant tokens = Some g" "IT_GrantID tokens = G_ID g" "env_le (w_env w3) (w_env w4)" by auto
  note gf = NewGrant_fields [OF g(1)]
  have ctr4: "uuid_ctr (w_env w3) < uuid_ctr (w_env w4)"
    using tk.issue_new_grant_ctr [OF i0] by simp
  have ok4: "wok w4" using ok C3 v u U i by (simp add: wok_def)
  have rows4: "rows (w_rts w4) = rows (w_rts w)" "grants (w_grants w4) = grants (w_grants w)"
    using i u v C3 by simp_all
  have hash: "tr_RefreshToken res = IT_RefreshToken tokens" using 1(9) by (simp add: TokenResponse_FromEntity_def)
  have gid: "G_ID g \<noteq> []" using gf(4) uuid by simp
  have fresh4: "\<forall>i x. rows (w_rts w4) i = Some x \<longrightarrow> RT_TokenHash x \<noteq> Hash (d_prims D) (IT_RefreshToken tokens)"
    using fresh rows4 hash by simp
  obtain new where new: "rows (w_rts w') = (rows (w_rts w))(RT_ID new \<mapsto> new)"
      "RT_ID new = p_uuid (d_prims D) (uuid_ctr (w_env w4))" "uuid_ctr (w_env w4) < uuid_ctr (w_env w')"
      "RT_GrantID new = G_ID g" "RT_UserID new = U_ID user" "RT_ClientID new = C_ID client" "RT_RevokedAt new = None"
      "RT_TokenHash new = Hash (d_prims D) (tr_RefreshToken res)"
      "grants (w_grants w') = (grants (w_grants w))(G_ID g \<mapsto> ExtendToCover g (RT_ExpiresAt new))"
      "wok w'" "w_cache w' = w_cache w4"
    using saveRefreshToken_None [OF 1(8) ok4 g(2,3) gid fresh4] rows4 hash by auto
  have ck: "clock (w_env w) \<le> clock (w_env w1)" "uuid_ctr (w_env w) \<le> uuid_ctr (w_env w3)"
    using C3 V U by (simp_all add: env_le_def)
  have gone: "\<forall>t. live (w_cache w') t (AuthCodeKey (ec_Code c)) = None"
    using consume_code(2) [OF 1(3)] new(11) i u v by simp
  have uid: "U_ID user = AC_UserID a" "\<exists>u. users (w_users w) (AC_UserID a) = Some u" using U fields C3 v by auto
  have "exchanged c res client a g new w w'"
    unfolding exchanged_def
    using live0 V fields ck gone new uid gf(1,2,3,4) ctr4 1(4) verifyCodeVerifier_challenge [of "d_prims D" ac "ec_CodeVerifier c"]
    by auto
  with new 1(1,2) show ?case by blast
qed

end

end
