(* ===== verification/UC_Revoke.thy ===== *)
theory UC_Revoke
  imports UC_Refresh
begin

text \<open>
  Ending sessions: token revocation (\<open>application/command/revoke_token.go\<close>, RFC 7009) and logout
  (\<open>logout.go\<close>).
\<close>

section \<open>Token revocation\<close>

record revoke_cmd =
  rv_CallerID :: string
  rv_ClientID :: string
  rv_ClientSecret :: string
  rv_BasicClientID :: string
  rv_BasicClientSecret :: string
  rv_Token :: string
  rv_TokenTypeHint :: "string option"

abbreviation revoke_credentials :: "revoke_cmd \<Rightarrow> client_credentials" where
  "revoke_credentials c \<equiv> \<lparr>cc_ClientID = rv_ClientID c, cc_FormSecret = rv_ClientSecret c,
     cc_BasicClientID = rv_BasicClientID c, cc_BasicSecret = rv_BasicClientSecret c\<rparr>"

definition count_revocation :: "('u, 'r, 'g, 'c) world \<Rightarrow> ('u, 'r, 'g, 'c) world" where
  "count_revocation w = w\<lparr>w_revocations := Suc (w_revocations w)\<rparr>"

text \<open>
  The cascade over the grant of a revoked token: the grant, its tokens, the marker for its access
  tokens. A grant that is not on record or already revoked does not stop it, any other error does.
\<close>

definition revoke_cascade ::
  "('u, 'r, 'g, 'c) deps \<Rightarrow> GrantID \<Rightarrow> ('u, 'r, 'g, 'c) world \<Rightarrow> go_error option \<times> ('u, 'r, 'g, 'c) world" where
  "revoke_cascade D grantID w =
     (let (t, w1) = on_env now w; (revoked, w2) = on_grants (gr_Revoke (d_grants D) grantID t) w1 in
      if (case revoked of None \<Rightarrow> False | Some err \<Rightarrow> \<not> errors_Is err ErrNotFound) then (revoked, w2)
      else case on_rts (rt_RevokeAllForGrant (d_rts D) grantID) w2 of
          (Some err, w3) \<Rightarrow> (Some err, w3)
        | (None, w3) \<Rightarrow> on_cache (MarkGrantRevoked (d_cache D) grantID) w3)"

definition revokeConfirmedRefreshToken ::
  "('u, 'r, 'g, 'c) deps \<Rightarrow> refresh_token \<Rightarrow> ('u, 'r, 'g, 'c) world \<Rightarrow> go_error option \<times> ('u, 'r, 'g, 'c) world" where
  "revokeConfirmedRefreshToken D rt w =
     (let (revoked, w1) = on_rts (rt_RevokeByTokenHash (d_rts D) (RT_TokenHash rt)) w;
          finish = (\<lambda>w2.
            if RT_GrantID rt = [] then (None, count_revocation w2)
            else case revoke_cascade D (RT_GrantID rt) w2 of
                (Some err, w3) \<Rightarrow> (Some err, w3)
              | (None, w3) \<Rightarrow> (None, count_revocation w3)) in
      case revoked of
        None \<Rightarrow> finish w1
      | Some err \<Rightarrow>
          if \<not> errors_Is err ErrNotFound then (Some err, w1)
          else if RT_RevokedAt rt = None then
            let (valid, w2) = on_env (rt_IsValid rt) w1 in if \<not> valid then (None, w2) else finish w2
          else finish w1)"

definition revoke_blacklistAccessToken ::
  "('u, 'r, 'g, 'c) deps \<Rightarrow> string \<Rightarrow> string \<Rightarrow> ('u, 'r, 'g, 'c) world
     \<Rightarrow> (go_error + bool) \<times> ('u, 'r, 'g, 'c) world" where
  "revoke_blacklistAccessToken D token callerID w =
     (case on_env (ts_ParseJWT (d_tokens D) token) w of
        (Inl err, w1) \<Rightarrow> (Inr False, w1)
      | (Inr claims, w1) \<Rightarrow>
          if cl_ID claims = [] then (Inr False, w1)
          else if callerID \<noteq> [] \<and> cl_Subject claims \<noteq> callerID then (Inr False, w1)
          else let (expired, w2) = on_env (claims_IsExpired claims) w1 in
            if expired then (Inr False, w2)
            else case on_cache (BlacklistJTI (d_cache D) (cl_ID claims) (the (cl_ExpiresAt claims))) w2 of
                (Some err, w3) \<Rightarrow> (Inl err, w3)
              | (None, w3) \<Rightarrow> (Inr True, count_revocation w3))"

text \<open>The caller is a bearer, or a client that authenticates.\<close>

definition revoke_caller_ok :: "('u, 'r, 'g, 'c) deps \<Rightarrow> revoke_cmd \<Rightarrow> bool" where
  "revoke_caller_ok D c \<longleftrightarrow> rv_CallerID c \<noteq> [] \<or>
     (\<not> (rv_ClientID c = [] \<and> rv_BasicClientID c = [])
      \<and> (case Authenticate (d_prims D) (d_registry D) (revoke_credentials c) of Inl err \<Rightarrow> False | Inr _ \<Rightarrow> True))"

definition RevokeToken_Execute ::
  "('u, 'r, 'g, 'c) deps \<Rightarrow> revoke_cmd \<Rightarrow> ('u, 'r, 'g, 'c) world \<Rightarrow> go_error option \<times> ('u, 'r, 'g, 'c) world" where
  "RevokeToken_Execute D c w =
     (if \<not> revoke_caller_ok D c then (Some NewErrInvalidClient, w)
      else
        let isAccessTokenHint = (rv_TokenTypeHint c = Some ''access_token'');
            lookup = on_rts (rt_FindByTokenHash (d_rts D) (Hash (d_prims D) (rv_Token c)));
            blacklist = revoke_blacklistAccessToken D (rv_Token c) (rv_CallerID c);
            found = (\<lambda>rt w1.
              if rv_CallerID c \<noteq> [] \<and> RT_UserID rt \<noteq> rv_CallerID c then (None, w1)
              else revokeConfirmedRefreshToken D rt w1) in
        if isAccessTokenHint then
          (case blacklist w of
             (Inl err, w1) \<Rightarrow> (Some err, w1)
           | (Inr revoked, w1) \<Rightarrow>
               if revoked then (None, w1)
               else case lookup w1 of
                   (Inr rt, w2) \<Rightarrow> found rt w2
                 | (Inl lookupErr, w2) \<Rightarrow>
                     if \<not> errors_Is lookupErr ErrNotFound then (Some lookupErr, w2) else (None, w2))
        else
          (case lookup w of
             (Inr rt, w1) \<Rightarrow> found rt w1
           | (Inl lookupErr, w1) \<Rightarrow>
               if errors_Is lookupErr ErrNotFound then
                 (case blacklist w1 of (Inl err, w2) \<Rightarrow> (Some err, w2) | (Inr _, w2) \<Rightarrow> (None, w2))
               else
                 (case blacklist w1 of
                    (Inl err, w2) \<Rightarrow> (Some err, w2)
                  | (Inr revoked, w2) \<Rightarrow> if \<not> revoked then (Some lookupErr, w2) else (None, w2))))"

section \<open>Logout\<close>

record logout_cmd =
  lc_AccessToken :: "string option"
  lc_PostLogoutRedirectURI :: "string option"

definition logout_revokeGrant ::
  "('u, 'r, 'g, 'c) deps \<Rightarrow> GrantID \<Rightarrow> ('u, 'r, 'g, 'c) world \<Rightarrow> ('u, 'r, 'g, 'c) world" where
  "logout_revokeGrant D grantID w =
     (let (t, w1) = on_env now w; (_, w2) = on_grants (gr_Revoke (d_grants D) grantID t) w1 in w2)"

definition revokeGrantTokens ::
  "('u, 'r, 'g, 'c) deps \<Rightarrow> claims \<Rightarrow> ('u, 'r, 'g, 'c) world \<Rightarrow> ('u, 'r, 'g, 'c) world" where
  "revokeGrantTokens D claims w =
     (if cl_GrantID claims \<noteq> [] then
        let w1 = logout_revokeGrant D (cl_GrantID claims) w;
            (_, w2) = on_rts (rt_RevokeAllForGrant (d_rts D) (cl_GrantID claims)) w1;
            (_, w3) = on_cache (MarkGrantRevoked (d_cache D) (cl_GrantID claims)) w2 in w3
      else if cl_Subject claims \<noteq> [] then
        let (_, w1) = on_rts (rt_RevokeAllForUser (d_rts D) (cl_Subject claims)) w in w1
      else w)"

definition logout_blacklistAccessToken ::
  "('u, 'r, 'g, 'c) deps \<Rightarrow> claims \<Rightarrow> ('u, 'r, 'g, 'c) world \<Rightarrow> ('u, 'r, 'g, 'c) world" where
  "logout_blacklistAccessToken D claims w =
     (if cl_ID claims = [] then w
      else let (expired, w1) = on_env (claims_IsExpired claims) w in
        if expired then w1
        else let (_, w2) = on_cache (BlacklistJTI (d_cache D) (cl_ID claims) (the (cl_ExpiresAt claims))) w1 in w2)"

definition revokeIfAuthenticated ::
  "('u, 'r, 'g, 'c) deps \<Rightarrow> string option \<Rightarrow> ('u, 'r, 'g, 'c) world \<Rightarrow> ('u, 'r, 'g, 'c) world" where
  "revokeIfAuthenticated D accessToken w =
     (case accessToken of
        None \<Rightarrow> w
      | Some token \<Rightarrow>
          (case on_env (ts_ParseJWT (d_tokens D) token) w of
             (Inl err, w1) \<Rightarrow> w1
           | (Inr claims, w1) \<Rightarrow> revokeGrantTokens D claims (logout_blacklistAccessToken D claims w1)))"

text \<open>The answer is the redirect URI, empty unless it is on the allow list.\<close>

definition Logout_Execute ::
  "('u, 'r, 'g, 'c) deps \<Rightarrow> logout_cmd \<Rightarrow> ('u, 'r, 'g, 'c) world \<Rightarrow> string \<times> ('u, 'r, 'g, 'c) world" where
  "Logout_Execute D c w =
     (let w1 = revokeIfAuthenticated D (lc_AccessToken c) w in
      ((case lc_PostLogoutRedirectURI c of
          Some uri \<Rightarrow> if uri \<in> set (d_PostLogoutRedirectAllowlist D) then uri else []
        | None \<Rightarrow> []), w1))"

section \<open>What revocation guarantees\<close>

lemma claims_not_expired:
  "claims_IsExpired c e = (False, e') \<Longrightarrow>
   \<exists>x. cl_ExpiresAt c = Some x \<and> clock e' \<le> x \<and> env_le e e' \<and> disk e' = disk e"
  by (auto simp: claims_IsExpired_def env_le_def split: option.splits prod.splits dest!: nowD)

lemma claims_expired:
  "claims_IsExpired c e = (b, e') \<Longrightarrow> env_le e e' \<and> disk e' = disk e"
  by (auto simp: claims_IsExpired_def env_le_def split: option.splits prod.splits dest!: nowD)

context reliable_ttl_cache
begin

text \<open>A blacklisted token identifier is readable until the token expires.\<close>

lemma BlacklistJTI_live:
  assumes "BlacklistJTI K jti x c e = (err, c', e')"
  shows "err = None \<and> disk e' = disk e \<and> env_le e e'
    \<and> (\<forall>t \<le> x. live c' t (BlacklistKey jti) = Some (CBool True))
    \<and> (\<forall>k t. k \<noteq> BlacklistKey jti \<longrightarrow> live c' t k = live c t k)"
proof -
  obtain t0 e1 where n: "now e = (t0, e1)" by (metis surj_pair)
  then have s: "k_Set K (BlacklistKey jti) (CBool True) (Some (x - t0)) c e1 = (err, c', e')"
    using assms by (simp add: BlacklistJTI_def)
  note r = Set_reliable [OF s]
  have ck: "clock e1 = t0" "disk e1 = disk e" using nowD [OF n] by simp_all
  have "live c' t (BlacklistKey jti) = Some (CBool True)" if "t \<le> x" for t
    using Set_min [of _ _ "x - t0" c e1 c' e' t] s r ck that by simp
  moreover have "env_le e e'" using now_le [OF n] Set_env [OF s] by (rule env_le_trans)
  moreover have "live c' t k = live c t k" if "k \<noteq> BlacklistKey jti" for k t by (rule Set_other [OF s that])
  ultimately show ?thesis using r ck by simp
qed

end

context auth_app
begin

text \<open>
  The three cascades (reuse detection, revocation, logout) do the same to the stores when storage
  works; they differ in what they do on failure.
\<close>

lemma revoke_cascade_family:
  assumes ok: "wok w" and disk: "disk (w_env w) = []" and g: "RT_GrantID rt \<noteq> []"
  shows "revoke_cascade D (RT_GrantID rt) w = (None, revokeFamily D rt w)"
proof -
  let ?g = "RT_GrantID rt"
  obtain t w1 e1 w2 e2 w3 e3 w4 where a: "on_env now w = (t, w1)"
    and b: "on_grants (gr_Revoke (d_grants D) ?g t) w1 = (e1, w2)"
    and c: "on_rts (rt_RevokeAllForGrant (d_rts D) ?g) w2 = (e2, w3)"
    and d: "on_cache (MarkGrantRevoked (d_cache D) ?g) w3 = (e3, w4)" by (metis surj_pair)
  have n: "now (w_env w) = (t, w_env w1)" "gok (w_grants w1)" using on_envD [OF a] ok by (simp_all add: wok_def)
  have d1: "disk (w_env w1) = []" using nowD [OF n(1)] disk by simp
  from on_grantsD [OF b] have r: "gr_Revoke (d_grants D) ?g t (w_grants w1) (w_env w1) = (e1, w_grants w2, w_env w2)" by simp
  note R = gr.grant_Revoke_reliable [OF r n(2) d1]
  from on_rtsD [OF c] have s: "rt_RevokeAllForGrant (d_rts D) ?g (w_rts w2) (w_env w2) = (e2, w_rts w3, w_env w3)" by simp
  have "e2 = None" using rt.rt_RevokeGrant_reliable [OF s] R by simp
  moreover have "e3 = None"
    using on_cacheD [OF d] ca.Set_reliable unfolding MarkGrantRevoked_def by blast
  moreover have "\<not> (case e1 of None \<Rightarrow> False | Some err \<Rightarrow> \<not> errors_Is err ErrNotFound)"
    using R by (auto split: option.splits)
  ultimately show ?thesis
    using a b c d g by (simp add: revoke_cascade_def revokeFamily_def revokeGrant_def writeRevokedGrantMarker_def)
qed

lemma revokeGrantTokens_family:
  assumes "cl_GrantID cl \<noteq> []" and "RT_GrantID rt = cl_GrantID cl"
  shows "revokeGrantTokens D cl w = revokeFamily D rt w"
  using assms by (simp add: revokeGrantTokens_def revokeFamily_def logout_revokeGrant_def revokeGrant_def
      writeRevokedGrantMarker_def Let_def split: prod.splits)

lemma revokeFamily_cache:
  assumes "RT_GrantID rt \<noteq> []" and "k \<noteq> RevokedGrantKey (RT_GrantID rt)"
  shows "live (w_cache (revokeFamily D rt w)) t k = live (w_cache w) t k"
proof -
  let ?g = "RT_GrantID rt"
  obtain u w1 e1 w2 e2 w3 e3 w4 where a: "on_env now w = (u, w1)"
    and b: "on_grants (gr_Revoke (d_grants D) ?g u) w1 = (e1, w2)"
    and c: "on_rts (rt_RevokeAllForGrant (d_rts D) ?g) w2 = (e2, w3)"
    and d: "on_cache (MarkGrantRevoked (d_cache D) ?g) w3 = (e3, w4)" by (metis surj_pair)
  have "w_cache w3 = w_cache w" using on_envD [OF a] on_grantsD [OF b] on_rtsD [OF c] by simp
  moreover have "live (w_cache w4) t k = live (w_cache w3) t k"
    using on_cacheD [OF d] ca.Set_other [OF _ assms(2)] unfolding MarkGrantRevoked_def by blast
  ultimately show ?thesis
    using a b c d assms(1) by (simp add: revokeFamily_def revokeGrant_def writeRevokedGrantMarker_def)
qed

text \<open>
  A session is over: its grant and tokens are revoked, its access tokens are denied, and nothing of
  another session changed.
\<close>

definition session_ended :: "GrantID \<Rightarrow> ('u, 'r, 'g, 'c) world \<Rightarrow> ('u, 'r, 'g, 'c) world \<Rightarrow> bool" where
  "session_ended g w w' \<longleftrightarrow> wok w' \<and> w_users w' = w_users w
     \<and> family_dead g w' (clock (w_env w) + RevokedGrantMarkerTTL)
     \<and> (\<forall>i y. rows (w_rts w') i = Some y \<longrightarrow> RT_GrantID y \<noteq> g \<longrightarrow> rows (w_rts w) i = Some y)
     \<and> (\<forall>j. j \<noteq> g \<longrightarrow> grants (w_grants w') j = grants (w_grants w) j)"

lemma revokeFamily_ended:
  assumes "wok w" and "disk (w_env w) = []" and "RT_GrantID rt \<noteq> []"
  shows "session_ended (RT_GrantID rt) w (revokeFamily D rt w)"
proof -
  note f = revokeFamily_dead [OF refl assms]
  have b: "bulk_revoked (\<lambda>x. RT_GrantID x = RT_GrantID rt) (rows (w_rts w)) (rows (w_rts (revokeFamily D rt w)))"
    using f by blast
  have "rows (w_rts w) i = Some y"
    if "rows (w_rts (revokeFamily D rt w)) i = Some y" "RT_GrantID y \<noteq> RT_GrantID rt" for i y
    using bulk_revoked_other [OF b that] .
  with f show ?thesis unfolding session_ended_def by blast
qed

text \<open>Ending a session from a state in which one of its own rows was already dated.\<close>

lemma session_ended_from:
  assumes "session_ended g w1 w'" and "w_users w1 = w_users w" and "grants (w_grants w1) = grants (w_grants w)"
    and "clock (w_env w) \<le> clock (w_env w1)"
    and "rows (w_rts w1) = rows (w_rts w)
      \<or> (\<exists>x t. RT_GrantID x = g \<and> rows (w_rts w1) = (rows (w_rts w))(RT_ID x \<mapsto> x\<lparr>RT_RevokedAt := t\<rparr>))"
  shows "session_ended g w w'"
proof -
  have "family_dead g w' (clock (w_env w) + RevokedGrantMarkerTTL)"
    using assms(1,4) unfolding session_ended_def family_dead_def by (meson add_right_mono order_trans)
  moreover have "rows (w_rts w) i = Some y" if y: "rows (w_rts w') i = Some y" "RT_GrantID y \<noteq> g" for i y
  proof -
    have r1: "rows (w_rts w1) i = Some y" using assms(1) y unfolding session_ended_def by blast
    from assms(5) show ?thesis
    proof (elim disjE exE conjE)
      fix x t assume "RT_GrantID x = g" "rows (w_rts w1) = (rows (w_rts w))(RT_ID x \<mapsto> x\<lparr>RT_RevokedAt := t\<rparr>)"
      with r1 y(2) show ?thesis by (auto split: if_splits)
    qed (use r1 in simp)
  qed
  ultimately show ?thesis using assms(1-3) unfolding session_ended_def by simp
qed

lemma revokeConfirmed_ends:
  assumes run: "revokeConfirmedRefreshToken D x w = (err, w')" and ok: "wok w" and disk: "disk (w_env w) = []"
    and row: "row_at (rows (w_rts w)) (RT_TokenHash x) x" "RT_GrantID x \<noteq> []"
  shows "err = None \<and> (session_ended (RT_GrantID x) w w' \<and> w_revocations w' = Suc (w_revocations w)
    \<or> RT_RevokedAt x = None \<and> RT_ExpiresAt x \<le> clock (w_env w') \<and> rows (w_rts w') = rows (w_rts w)
      \<and> w_grants w' = w_grants w \<and> w_cache w' = w_cache w)"
proof -
  obtain rv w1 where a: "on_rts (rt_RevokeByTokenHash (d_rts D) (RT_TokenHash x)) w = (rv, w1)" by (metis surj_pair)
  from on_rtsD [OF a] have r: "rt_RevokeByTokenHash (d_rts D) (RT_TokenHash x) (w_rts w) (w_env w) = (rv, w_rts w1, w_env w1)"
    "w_users w1 = w_users w" "w_grants w1 = w_grants w" "w_cache w1 = w_cache w" "w_revocations w1 = w_revocations w" by simp_all
  have rokw: "rok (w_rts w)" using ok by (simp add: wok_def)
  note R = rt.rt_Revoke [OF r(1) rokw] and Rr = rt.rt_Revoke_reliable [OF r(1) rokw disk]
  have ok1: "wok w1" using R r ok by (simp add: wok_def)
  have d1: "disk (w_env w1) = []" using Rr by blast
  have finish: "session_ended (RT_GrantID x) w w' \<and> w_revocations w' = Suc (w_revocations w) \<and> err = None"
    if w2: "wok w2" "disk (w_env w2) = []" "w_users w2 = w_users w" "grants (w_grants w2) = grants (w_grants w)"
      "w_revocations w2 = w_revocations w" "clock (w_env w) \<le> clock (w_env w2)"
      and rows2: "rows (w_rts w2) = rows (w_rts w)
        \<or> (\<exists>y t. RT_GrantID y = RT_GrantID x \<and> rows (w_rts w2) = (rows (w_rts w))(RT_ID y \<mapsto> y\<lparr>RT_RevokedAt := t\<rparr>))"
      and ret: "(err, w') = (None, count_revocation (revokeFamily D x w2))" for w2
  proof -
    have "w_revocations (revokeFamily D x w2) = w_revocations w2"
      using row(2) by (auto simp: revokeFamily_def revokeGrant_def writeRevokedGrantMarker_def Let_def
          split: prod.splits dest!: on_envD on_grantsD on_rtsD on_cacheD)
    moreover have "session_ended (RT_GrantID x) w (revokeFamily D x w2)"
      by (rule session_ended_from [OF revokeFamily_ended [OF w2(1,2) row(2)] w2(3,4,6) rows2])
    ultimately show ?thesis
      using ret w2(5) ok by (simp add: session_ended_def family_dead_def count_revocation_def wok_def)
  qed
  have ck1: "clock (w_env w) \<le> clock (w_env w1)" using R by (simp add: env_le_def)
  show ?thesis
  proof (cases rv)
    case None
    obtain y t where y: "row_at (rows (w_rts w)) (RT_TokenHash x) y"
      "rows (w_rts w1) = (rows (w_rts w))(RT_ID y \<mapsto> y\<lparr>RT_RevokedAt := Some t\<rparr>)" using R None by auto
    have "y = x" by (rule rt.rt_unique [OF rokw y(1) row(1)])
    have "(err, w') = (None, count_revocation (revokeFamily D x w1))"
      using run a None row(2) revoke_cascade_family [OF ok1 d1 row(2)] by (simp add: revokeConfirmedRefreshToken_def)
    from finish [OF ok1 d1 r(2) _ r(5) ck1 _ this] r y \<open>y = x\<close> show ?thesis by auto
  next
    case (Some er)
    then have nf: "errors_Is er ErrNotFound" using Rr by blast
    have same: "rows (w_rts w1) = rows (w_rts w)" using R Some by simp
    show ?thesis
    proof (cases "RT_RevokedAt x = None")
      case False
      then have "(err, w') = (None, count_revocation (revokeFamily D x w1))"
        using run a Some nf row(2) revoke_cascade_family [OF ok1 d1 row(2)] by (auto simp: revokeConfirmedRefreshToken_def)
      from finish [OF ok1 d1 r(2) _ r(5) ck1 _ this] r same show ?thesis by simp
    next
      case True
      obtain valid w2 where b: "on_env (rt_IsValid x) w1 = (valid, w2)" by (metis surj_pair)
      note B = on_envD [OF b]
      have "RT_RevokedAt x \<noteq> None \<or> RT_ExpiresAt x < clock (w_env w1)" using R Some nf row(1) by auto
      then have ex: "RT_ExpiresAt x < clock (w_env w1)" using True by simp
      have v: "\<not> valid" "clock (w_env w1) \<le> clock (w_env w2)"
        using B True ex by (auto simp: rt_IsValid_def split: prod.splits dest!: nowD)
      have "err = None" "w' = w2" using run a Some nf True b v by (simp_all add: revokeConfirmedRefreshToken_def)
      with True ex v B r same show ?thesis by simp
    qed
  qed
qed

text \<open>The lookup both hint orders share.\<close>

lemma lookup_row:
  assumes "wok w" and "disk (w_env w) = []" and "row_at (rows (w_rts w)) h x"
  shows "\<exists>w1. on_rts (rt_FindByTokenHash (d_rts D) h) w = (Inr x, w1) \<and> wok w1 \<and> disk (w_env w1) = []
    \<and> rows (w_rts w1) = rows (w_rts w) \<and> w_grants w1 = w_grants w \<and> w_users w1 = w_users w \<and> w_cache w1 = w_cache w
    \<and> w_revocations w1 = w_revocations w \<and> env_le (w_env w) (w_env w1)"
proof -
  obtain res w1 where a: "on_rts (rt_FindByTokenHash (d_rts D) h) w = (res, w1)" by (metis surj_pair)
  note A = on_rtsD [OF a]
  have rokw: "rok (w_rts w)" using assms(1) by (simp add: wok_def)
  have f: "rt_FindByTokenHash (d_rts D) h (w_rts w) (w_env w) = (res, w_rts w1, w_env w1)" using A by simp
  note F = rt.rt_Find [OF f rokw] and Fr = rt.rt_Find_reliable [OF f rokw assms(2)]
  have "res = Inr x" using F Fr assms(3) rt.rt_unique [OF rokw] by (cases res) auto
  with a A F Fr assms(1) show ?thesis by (auto simp: wok_def)
qed

lemma revoke_token_ends_session:
  assumes auth: "revoke_caller_ok D c" and owner: "rv_CallerID c = [] \<or> RT_UserID x = rv_CallerID c"
    and hint: "rv_TokenTypeHint c \<noteq> Some ''access_token''"
    and ok: "wok w" and disk: "disk (w_env w) = []"
    and row: "row_at (rows (w_rts w)) (Hash (d_prims D) (rv_Token c)) x" "RT_GrantID x \<noteq> []"
  shows "\<exists>w'. RevokeToken_Execute D c w = (None, w')
    \<and> (session_ended (RT_GrantID x) w w' \<and> w_revocations w' = Suc (w_revocations w)
       \<or> RT_RevokedAt x = None \<and> RT_ExpiresAt x \<le> clock (w_env w') \<and> rows (w_rts w') = rows (w_rts w)
         \<and> w_grants w' = w_grants w \<and> w_cache w' = w_cache w)"
proof -
  obtain w1 where l: "on_rts (rt_FindByTokenHash (d_rts D) (Hash (d_prims D) (rv_Token c))) w = (Inr x, w1)"
    and w1: "wok w1" "disk (w_env w1) = []" "rows (w_rts w1) = rows (w_rts w)" "w_grants w1 = w_grants w"
      "w_users w1 = w_users w" "w_cache w1 = w_cache w" "w_revocations w1 = w_revocations w" "env_le (w_env w) (w_env w1)"
    using lookup_row [OF ok disk row(1)] by blast
  obtain err w' where r: "revokeConfirmedRefreshToken D x w1 = (err, w')" by (metis surj_pair)
  have row1: "row_at (rows (w_rts w1)) (RT_TokenHash x) x" using row(1) w1(3) by (simp add: row_at_def)
  note C = revokeConfirmed_ends [OF r w1(1,2) row1 row(2)]
  have ck: "clock (w_env w) \<le> clock (w_env w1)" using w1(8) by (simp add: env_le_def)
  have "session_ended (RT_GrantID x) w w'" if "session_ended (RT_GrantID x) w1 w'"
    by (rule session_ended_from [OF that w1(5) _ ck]) (simp_all add: w1)
  moreover have "RevokeToken_Execute D c w = (err, w')"
    using auth hint l owner r by (auto simp: RevokeToken_Execute_def Let_def)
  ultimately show ?thesis using C w1 by auto
qed

text \<open>A bearer cannot revoke the token of another user: the request succeeds and changes nothing.\<close>

lemma revoke_foreign_token:
  assumes auth: "rv_CallerID c \<noteq> []" "RT_UserID x \<noteq> rv_CallerID c"
    and hint: "rv_TokenTypeHint c \<noteq> Some ''access_token''"
    and ok: "wok w" and disk: "disk (w_env w) = []"
    and row: "row_at (rows (w_rts w)) (Hash (d_prims D) (rv_Token c)) x"
  shows "\<exists>w'. RevokeToken_Execute D c w = (None, w') \<and> rows (w_rts w') = rows (w_rts w) \<and> w_grants w' = w_grants w
    \<and> w_users w' = w_users w \<and> w_cache w' = w_cache w \<and> w_revocations w' = w_revocations w"
proof -
  obtain w1 where l: "on_rts (rt_FindByTokenHash (d_rts D) (Hash (d_prims D) (rv_Token c))) w = (Inr x, w1)"
    and w1: "rows (w_rts w1) = rows (w_rts w)" "w_grants w1 = w_grants w"
      "w_users w1 = w_users w" "w_cache w1 = w_cache w" "w_revocations w1 = w_revocations w"
    using lookup_row [OF ok disk row(1)] by blast
  have "RevokeToken_Execute D c w = (None, w1)"
    using auth hint l by (simp add: RevokeToken_Execute_def Let_def revoke_caller_ok_def)
  with w1 show ?thesis by simp
qed

text \<open>What the blacklist step may do, in every branch.\<close>

lemma blacklist_cases:
  assumes "revoke_blacklistAccessToken D tok caller w = (r, w')"
  shows "w_users w' = w_users w \<and> w_rts w' = w_rts w \<and> w_grants w' = w_grants w \<and> env_le (w_env w) (w_env w')
    \<and> (r = Inr False \<and> w_cache w' = w_cache w \<and> w_revocations w' = w_revocations w
       \<or> (\<exists>cl e1. r = Inr True \<and> ts_ParseJWT (d_tokens D) tok (w_env w) = (Inr cl, e1) \<and> cl_ID cl \<noteq> []
           \<and> (caller = [] \<or> cl_Subject cl = caller) \<and> w_revocations w' = Suc (w_revocations w)
           \<and> (\<exists>x. cl_ExpiresAt cl = Some x \<and> (\<forall>t \<le> x. live (w_cache w') t (BlacklistKey (cl_ID cl)) = Some (CBool True)))
           \<and> (\<forall>k t. k \<noteq> BlacklistKey (cl_ID cl) \<longrightarrow> live (w_cache w') t k = live (w_cache w) t k)))"
proof -
  obtain pr w1 where a: "on_env (ts_ParseJWT (d_tokens D) tok) w = (pr, w1)" by (metis surj_pair)
  note A = on_envD [OF a]
  have le1: "env_le (w_env w) (w_env w1)" using A tk.Parse_env by blast
  show ?thesis
  proof (cases "\<exists>cl. pr = Inr cl \<and> cl_ID cl \<noteq> [] \<and> (caller = [] \<or> cl_Subject cl = caller)")
    case False
    then have "r = Inr False \<and> w' = w1"
      using assms a by (auto simp: revoke_blacklistAccessToken_def split: sum.splits if_splits)
    with A le1 show ?thesis by simp
  next
    case True
    then obtain cl where cl: "pr = Inr cl" "cl_ID cl \<noteq> []" "caller = [] \<or> cl_Subject cl = caller" by blast
    obtain ex w2 where b: "on_env (claims_IsExpired cl) w1 = (ex, w2)" by (metis surj_pair)
    note B = on_envD [OF b]
    have le2: "env_le (w_env w1) (w_env w2)" using B claims_expired by blast
    show ?thesis
    proof (cases ex)
      case True
      then have "r = Inr False \<and> w' = w2"
        using assms a b cl by (auto simp: revoke_blacklistAccessToken_def)
      with A B env_le_trans [OF le1 le2] show ?thesis by simp
    next
      case False
      then obtain x where x: "cl_ExpiresAt cl = Some x" using B claims_not_expired [of cl "w_env w1" "w_env w2"] by auto
      obtain er w3 where d: "on_cache (BlacklistJTI (d_cache D) (cl_ID cl) x) w2 = (er, w3)" by (metis surj_pair)
      note C = on_cacheD [OF d]
      have j: "BlacklistJTI (d_cache D) (cl_ID cl) x (w_cache w2) (w_env w2) = (er, w_cache w3, w_env w3)" using C by simp
      note J = ca.BlacklistJTI_live [OF j]
      have res: "r = Inr True \<and> w' = count_revocation w3"
        using assms a b cl False d x J by (auto simp: revoke_blacklistAccessToken_def)
      have "env_le (w_env w) (w_env w3)"
        by (rule env_le_trans3 [OF le1 le2]) (use J in simp)
      with res A B C J x cl show ?thesis by (auto simp: count_revocation_def)
    qed
  qed
qed

text \<open>An access token that parses, belongs to the caller and has not expired is blacklisted until it does.\<close>

lemma revoke_access_token:
  assumes auth: "revoke_caller_ok D c" and hint: "rv_TokenTypeHint c = Some ''access_token''"
    and parse: "ts_ParseJWT (d_tokens D) (rv_Token c) (w_env w) = (Inr cl, e1)" "cl_ID cl \<noteq> []"
    and owner: "rv_CallerID c = [] \<or> cl_Subject cl = rv_CallerID c"
    and live_tok: "cl_ExpiresAt cl = Some x" "fst (now e1) \<le> x"
  shows "\<exists>w'. RevokeToken_Execute D c w = (None, w') \<and> w_revocations w' = Suc (w_revocations w)
    \<and> w_users w' = w_users w \<and> w_rts w' = w_rts w \<and> w_grants w' = w_grants w
    \<and> (\<forall>t \<le> x. live (w_cache w') t (BlacklistKey (cl_ID cl)) = Some (CBool True))
    \<and> (\<forall>k t. k \<noteq> BlacklistKey (cl_ID cl) \<longrightarrow> live (w_cache w') t k = live (w_cache w) t k)"
proof -
  obtain r w' where b: "revoke_blacklistAccessToken D (rv_Token c) (rv_CallerID c) w = (r, w')" by (metis surj_pair)
  have "r \<noteq> Inr False"
    using b parse owner live_tok
    by (auto simp: revoke_blacklistAccessToken_def on_env_def claims_IsExpired_def split: prod.splits option.splits)
  with blacklist_cases [OF b] parse(1) live_tok(1)
  have "r = Inr True" "w_revocations w' = Suc (w_revocations w)" "w_users w' = w_users w" "w_rts w' = w_rts w"
    "w_grants w' = w_grants w" "\<forall>t \<le> x. live (w_cache w') t (BlacklistKey (cl_ID cl)) = Some (CBool True)"
    "\<forall>k t. k \<noteq> BlacklistKey (cl_ID cl) \<longrightarrow> live (w_cache w') t k = live (w_cache w) t k" by auto
  moreover from this(1) b auth hint have "RevokeToken_Execute D c w = (None, w')"
    by (simp add: RevokeToken_Execute_def Let_def)
  ultimately show ?thesis by blast
qed

section \<open>What logout guarantees\<close>

text \<open>Without a bearer token that parses, logout changes nothing but the clock.\<close>

lemma logout_unauthenticated:
  assumes "Logout_Execute D c w = (uri, w')"
    and "\<And>tok cl e. lc_AccessToken c = Some tok \<Longrightarrow> ts_ParseJWT (d_tokens D) tok (w_env w) \<noteq> (Inr cl, e)"
  shows "w_users w' = w_users w \<and> w_rts w' = w_rts w \<and> w_grants w' = w_grants w \<and> w_cache w' = w_cache w"
  using assms by (auto simp: Logout_Execute_def revokeIfAuthenticated_def split: option.splits prod.splits sum.splits
      dest!: on_envD)

lemma logout_blacklist_ok:
  assumes "logout_blacklistAccessToken D cl w = w'" and "wok w"
  shows "wok w' \<and> w_users w' = w_users w \<and> w_rts w' = w_rts w \<and> w_grants w' = w_grants w
    \<and> disk (w_env w') = disk (w_env w) \<and> env_le (w_env w) (w_env w')
    \<and> (\<forall>x. cl_ID cl \<noteq> [] \<longrightarrow> cl_ExpiresAt cl = Some x \<longrightarrow> fst (now (w_env w)) \<le> x \<longrightarrow>
         (\<forall>t \<le> x. live (w_cache w') t (BlacklistKey (cl_ID cl)) = Some (CBool True)))"
proof (cases "cl_ID cl = []")
  case True
  with assms show ?thesis by (auto simp: logout_blacklistAccessToken_def)
next
  case False
  obtain ex w1 where b: "on_env (claims_IsExpired cl) w = (ex, w1)" by (metis surj_pair)
  note B = on_envD [OF b]
  have e1: "env_le (w_env w) (w_env w1)" "disk (w_env w1) = disk (w_env w)" using B claims_expired by blast+
  show ?thesis
  proof (cases ex)
    case True
    then have "w' = w1" using assms(1) b False by (simp add: logout_blacklistAccessToken_def)
    moreover have "\<not> fst (now (w_env w)) \<le> x" if "cl_ExpiresAt cl = Some x" for x
      using B True that by (auto simp: claims_IsExpired_def split: prod.splits)
    ultimately show ?thesis using B e1 assms(2) by (auto simp: wok_def)
  next
    case not_ex: False
    then obtain x where x: "cl_ExpiresAt cl = Some x" using B claims_not_expired [of cl "w_env w" "w_env w1"] by auto
    obtain er w2 where d: "on_cache (BlacklistJTI (d_cache D) (cl_ID cl) x) w1 = (er, w2)" by (metis surj_pair)
    note C = on_cacheD [OF d]
    have j: "BlacklistJTI (d_cache D) (cl_ID cl) x (w_cache w1) (w_env w1) = (er, w_cache w2, w_env w2)" using C by simp
    note J = ca.BlacklistJTI_live [OF j]
    have "w' = w2" using assms(1) b False not_ex d x by (simp add: logout_blacklistAccessToken_def)
    moreover have "env_le (w_env w) (w_env w2)" by (rule env_le_trans [OF e1(1)]) (use J in simp)
    ultimately show ?thesis using B C J e1 x assms(2) by (auto simp: wok_def)
  qed
qed

lemma logout_ends_session:
  assumes "lc_AccessToken c = Some tok" and parse: "ts_ParseJWT (d_tokens D) tok (w_env w) = (Inr cl, e1)"
    and g: "cl_GrantID cl \<noteq> []" and ok: "wok w" and disk: "disk (w_env w) = []"
  shows "\<exists>uri w'. Logout_Execute D c w = (uri, w') \<and> session_ended (cl_GrantID cl) w w'
    \<and> (\<forall>x. cl_ID cl \<noteq> [] \<longrightarrow> cl_ExpiresAt cl = Some x \<longrightarrow> fst (now e1) \<le> x \<longrightarrow>
         (\<forall>t \<le> x. live (w_cache w') t (BlacklistKey (cl_ID cl)) = Some (CBool True)))"
proof -
  define w1 where "w1 = w\<lparr>w_env := e1\<rparr>"
  define w2 where "w2 = logout_blacklistAccessToken D cl w1"
  have le1: "env_le (w_env w) e1" using tk.Parse_env [OF parse] .
  have ok1: "wok w1" using ok by (simp add: w1_def wok_def)
  note B = logout_blacklist_ok [OF w2_def [symmetric] ok1]
  have ok2: "wok w2" and d2: "disk (w_env w2) = []" using B disk tk.Parse_disk [OF parse] by (simp_all add: w1_def)
  obtain rt :: refresh_token where rt: "RT_GrantID rt = cl_GrantID cl" by (metis refresh_token.select_convs(4))
  define w' where "w' = revokeFamily D rt w2"
  have gt: "revokeGrantTokens D cl w2 = w'" using revokeGrantTokens_family [OF g rt] by (simp add: w'_def)
  have "on_env (ts_ParseJWT (d_tokens D) tok) w = (Inr cl, w1)" using parse by (simp add: on_env_def w1_def)
  then have run: "snd (Logout_Execute D c w) = w'"
    using assms(1) gt by (simp add: Logout_Execute_def revokeIfAuthenticated_def w2_def Let_def)
  have gr: "RT_GrantID rt \<noteq> []" using g rt by simp
  have ended: "session_ended (cl_GrantID cl) w2 w'"
    using revokeFamily_ended [OF ok2 d2 gr] rt by (simp add: w'_def)
  have "clock (w_env w) \<le> clock (w_env w2)" using B le1 by (simp add: w1_def env_le_def)
  then have "session_ended (cl_GrantID cl) w w'"
    using B by (intro session_ended_from [OF ended]) (simp_all add: w1_def)
  moreover have "live (w_cache w') t (BlacklistKey (cl_ID cl)) = live (w_cache w2) t (BlacklistKey (cl_ID cl))" for t
    unfolding w'_def by (rule revokeFamily_cache [OF gr cache_keys_disjoint(8)])
  ultimately show ?thesis using run B by (metis (no_types, lifting) prod.collapse w1_def world.select_convs(5) world.surjective world.update_convs(5))
qed

end

end
