(* ===== verification/UC_Account.thy ===== *)
theory UC_Account
  imports UC_Code UC_Revoke
begin

text \<open>
  Accounts: registration (\<open>application/command/create_user.go\<close>), profile (\<open>update_profile.go\<close>,
  \<open>application/query/get_profile.go\<close>), password recovery (\<open>forgot_password.go\<close>,
  \<open>reset_password.go\<close>) and the password grant (\<open>application/query/get_token.go\<close>).
\<close>

section \<open>Registration\<close>

record create_user_cmd =
  cu_Username :: string
  cu_Nickname :: string
  cu_Email :: string
  cu_Password :: string

record create_user_response =
  cur_Username :: string
  cur_Nickname :: string
  cur_Email :: string

definition CreateUserResponse_FromEntity :: "user \<Rightarrow> create_user_response" where
  "CreateUserResponse_FromEntity u = \<lparr>cur_Username = U_Username u, cur_Nickname = U_Nickname u, cur_Email = U_Email u\<rparr>"

text \<open>A panic is not an error the handler sees: it goes straight to the dispatcher.\<close>

definition on_error :: "(go_error \<Rightarrow> go_error) \<Rightarrow> go_error \<Rightarrow> go_error" where
  "on_error f err = (case err of ErrPanic m \<Rightarrow> ErrPanic m | _ \<Rightarrow> f err)"

definition CreateUser_Execute ::
  "('u, 'r, 'g, 'c) deps \<Rightarrow> create_user_cmd \<Rightarrow> ('u, 'r, 'g, 'c) world
     \<Rightarrow> (go_error + create_user_response) \<times> ('u, 'r, 'g, 'c) world" where
  "CreateUser_Execute D c w =
     (case on_env (NewUser (d_prims D)
             \<lparr>UA_TenantID = [], UA_Username = cu_Username c, UA_Nickname = cu_Nickname c,
              UA_Password = cu_Password c, UA_Email = cu_Email c, UA_EmailVerified = False\<rparr>) w of
        (Inl err, w1) \<Rightarrow> (Inl (on_error NewErrInvalidUserArguments err), w1)
      | (Inr user, w1) \<Rightarrow>
          (case on_users (ur_CreateUser (d_users D) user) w1 of
             (Some err, w2) \<Rightarrow>
               if errors_Is err ErrConflict then (Inl NewErrEmailDuplicated, w2) else (Inl (NewErrCreateUser err), w2)
           | (None, w2) \<Rightarrow> (Inr (CreateUserResponse_FromEntity user), w2)))"

section \<open>Profile\<close>

record update_profile_cmd =
  up_UserID :: string
  up_Username :: "string option"
  up_Nickname :: "string option"
  up_Email :: "string option"

record update_profile_response =
  upr_UpdatedAt :: time
  upr_UserID :: string
  upr_Email :: string
  upr_Username :: string
  upr_Nickname :: string
  upr_EmailVerified :: bool

definition checkEmailAvailable ::
  "('u, 'r, 'g, 'c) deps \<Rightarrow> TenantID \<Rightarrow> string \<Rightarrow> UserID \<Rightarrow> ('u, 'r, 'g, 'c) world
     \<Rightarrow> go_error option \<times> ('u, 'r, 'g, 'c) world" where
  "checkEmailAvailable D tenantID email excludeID w =
     (case on_users (ur_FindByEmail (d_users D) tenantID email) w of
        (Inl err, w1) \<Rightarrow> if \<not> errors_Is err ErrNotFound then (Some err, w1) else (None, w1)
      | (Inr userExists, w1) \<Rightarrow>
          if U_ID userExists \<noteq> excludeID then (Some NewErrEmailDuplicated, w1) else (None, w1))"

text \<open>The handler changes a copy of the user it found, so nothing shows before \<open>Save\<close>.\<close>

definition UpdateProfile_Execute ::
  "('u, 'r, 'g, 'c) deps \<Rightarrow> update_profile_cmd \<Rightarrow> ('u, 'r, 'g, 'c) world
     \<Rightarrow> (go_error + update_profile_response) \<times> ('u, 'r, 'g, 'c) world" where
  "UpdateProfile_Execute D c w =
     (case on_users (ur_FindByID (d_users D) (up_UserID c)) w of
        (Inl err, w1) \<Rightarrow>
          if errors_Is err ErrNotFound then (Inl NewErrInvalidToken, w1)
          else (Inl (NewErrUpdateProfileFindFailed err), w1)
      | (Inr user, w1) \<Rightarrow>
          (case (case up_Email c of
                   None \<Rightarrow> (None, w1)
                 | Some email \<Rightarrow> checkEmailAvailable D (U_TenantID user) email (up_UserID c) w1) of
             (Some err, w2) \<Rightarrow> (Inl err, w2)
           | (None, w2) \<Rightarrow>
               let (updated, w3) = on_env (user_UpdateProfile user
                     \<lparr>UP_Username = up_Username c, UP_Nickname = up_Nickname c, UP_Email = up_Email c\<rparr>) w2 in
               (case on_users (ur_Save (d_users D) updated) w3 of
                  (Some err, w4) \<Rightarrow> (Inl (NewErrUpdateProfile err), w4)
                | (None, w4) \<Rightarrow>
                    (Inr \<lparr>upr_UpdatedAt = U_UpdatedAt updated, upr_UserID = U_ID updated, upr_Email = U_Email updated,
                          upr_Username = U_Username updated, upr_Nickname = U_Nickname updated,
                          upr_EmailVerified = U_EmailVerified updated\<rparr>, w4))))"

record get_profile_response =
  gp_Sub :: string
  gp_PreferredUsername :: string
  gp_Nickname :: string
  gp_Email :: string
  gp_EmailVerified :: bool
  gp_UpdatedAt :: int

definition GetProfile_Execute ::
  "('u, 'r, 'g, 'c) deps \<Rightarrow> string \<Rightarrow> ('u, 'r, 'g, 'c) world
     \<Rightarrow> (go_error + get_profile_response) \<times> ('u, 'r, 'g, 'c) world" where
  "GetProfile_Execute D userID w =
     (case on_users (ur_FindByID (d_users D) userID) w of
        (Inl err, w1) \<Rightarrow> if errors_Is err ErrNotFound then (Inl NewErrInvalidToken, w1) else (Inl err, w1)
      | (Inr user, w1) \<Rightarrow>
          (Inr \<lparr>gp_Sub = U_ID user, gp_PreferredUsername = U_Username user, gp_Nickname = U_Nickname user,
                gp_Email = U_Email user, gp_EmailVerified = U_EmailVerified user,
                gp_UpdatedAt = unix (U_UpdatedAt user)\<rparr>, w1))"

section \<open>Password recovery\<close>

definition forgotPasswordMaxPerWindow :: int where "forgotPasswordMaxPerWindow = 3"
definition forgotPasswordWindow :: duration where "forgotPasswordWindow = Hour"

definition forgotPasswordRateKey :: "prims \<Rightarrow> string \<Rightarrow> string" where
  "forgotPasswordRateKey p email =
     ForgotPasswordRateKey (hex_EncodeToString (p_sha256 p (p_ToLower p (TrimSpace email))))"

definition rateLimited ::
  "('u, 'r, 'g, 'c) deps \<Rightarrow> string \<Rightarrow> ('u, 'r, 'g, 'c) world \<Rightarrow> bool \<times> ('u, 'r, 'g, 'c) world" where
  "rateLimited D email w =
     (case on_cache (k_IncrWindow (d_cache D) (forgotPasswordRateKey (d_prims D) email) forgotPasswordWindow) w of
        (Inl err, w1) \<Rightarrow> (False, w1)
      | (Inr count, w1) \<Rightarrow> (count > forgotPasswordMaxPerWindow, w1))"

text \<open>
  The answer never tells what happened. \<open>w_mail\<close> lists the messages handed to the mail sender,
  whether or not it delivered them.
\<close>

definition ForgotPassword_Execute ::
  "('u, 'r, 'g, 'c) deps \<Rightarrow> string \<Rightarrow> ('u, 'r, 'g, 'c) world \<Rightarrow> go_error option \<times> ('u, 'r, 'g, 'c) world" where
  "ForgotPassword_Execute D email w =
     (let (limited, w1) = rateLimited D email w in
      if limited then (None, w1)
      else case on_users (ur_FindByEmail (d_users D) DefaultTenantID email) w1 of
          (Inl _, w2) \<Rightarrow> (None, w2)
        | (Inr user, w2) \<Rightarrow>
            (case on_env (GeneratePasswordResetToken (d_prims D)) w2 of
               (Inl err, w3) \<Rightarrow> (None, w3)
             | (Inr token, w3) \<Rightarrow>
                 let (updated, w4) = on_env (SetPasswordResetToken (d_prims D) user token PasswordResetTokenTTL) w3 in
                 (case on_users (ur_Save (d_users D) updated) w4 of
                    (Some err, w5) \<Rightarrow> (None, w5)
                  | (None, w5) \<Rightarrow>
                      let sent = d_send D (U_Email updated) token (w_env w5);
                          w6 = w5\<lparr>w_mail := w_mail w5 @ [(U_Email updated, token)]\<rparr> in
                      (case sent of Some err \<Rightarrow> (None, w6) | None \<Rightarrow> (None, w6)))))"

record reset_password_cmd =
  rp_Token :: string
  rp_Password :: string

definition reset_update :: "prims \<Rightarrow> string \<Rightarrow> user \<Rightarrow> env \<Rightarrow> (go_error + user) \<times> env" where
  "reset_update p password u e =
     (let (expired, e1) = IsResetTokenExpired u e in
      if expired then (Inl NewErrPasswordResetTokenExpired, e1)
      else case SetPassword p u password e1 of
          (Inl panic, e2) \<Rightarrow> (Inl panic, e2)
        | (Inr (Some err, u1), e2) \<Rightarrow> (Inl (NewErrWeakPassword err), e2)
        | (Inr (None, u1), e2) \<Rightarrow>
            let (u2, e3) = InvalidateSessions u1 e2; (u3, e4) = ClearPasswordResetToken u2 e3 in (Inr u3, e4))"

text \<open>
  The body of the transaction. The closure leaves the user's identifier and the instant of the
  invalidation in captured variables; the handler below reads them off the updated user the body
  produced, which a unit of work that runs its body once, as the one without transactions does,
  ran on the state it was called in.
\<close>

definition reset_txn ::
  "('u, 'r, 'g, 'c) deps \<Rightarrow> reset_password_cmd \<Rightarrow> ('u, 'r, 'g, 'c) world
     \<Rightarrow> (go_error + user) \<times> ('u, 'r, 'g, 'c) world" where
  "reset_txn D c w =
     on_users (ur_UpdateByPasswordResetTokenHash (d_users D) (Hash (d_prims D) (rp_Token c))
       (reset_update (d_prims D) (rp_Password c))) w"

definition ResetPassword_Execute ::
  "('u, 'r, 'g, 'c) deps \<Rightarrow> reset_password_cmd \<Rightarrow> ('u, 'r, 'g, 'c) world \<Rightarrow> go_error option \<times> ('u, 'r, 'g, 'c) world" where
  "ResetPassword_Execute D c w =
     (let run = (\<lambda>w0. case reset_txn D c w0 of (Inl err, w1) \<Rightarrow> (Some err, w1) | (Inr u, w1) \<Rightarrow> (None, w1)) in
      case d_uow D run w of
        (Some err, w1) \<Rightarrow>
          (Some (on_error (\<lambda>err.
             if errors_Is err ErrNotFound then NewErrPasswordResetTokenNotFound
             else if is_ErrorStruct err then err
             else NewErrResetPasswordFailed err) err), w1)
      | (None, w1) \<Rightarrow>
          (case fst (reset_txn D c w) of
             Inl err \<Rightarrow> (Some err, w1)
           | Inr u \<Rightarrow>
               let (_, w2) = on_rts (rt_RevokeAllForUser (d_rts D) (U_ID u)) w1;
                   (_, w3) = on_cache (MarkSessionsInvalidated (d_cache D) (U_ID u) (the (U_SessionsInvalidatedAt u))) w2
               in (None, w3)))"

section \<open>The password grant\<close>

record get_token_query =
  gt_Email :: string
  gt_Password :: string
  gt_Scope :: "string option"
  gt_ExpireSecs :: "int option"

primrec scope_check :: "string list \<Rightarrow> string list \<Rightarrow> go_error option" where
  "scope_check allow [] = None"
| "scope_check allow (s # ss) =
     (if s \<notin> set allow then Some (NewErr InvalidArguments (ErrText (''invalid scope: '' @ s))) else scope_check allow ss)"

definition resolveScope :: "string list \<Rightarrow> string option \<Rightarrow> go_error + scope" where
  "resolveScope allowlist requested =
     (case requested of
        None \<Rightarrow> Inr (case NewScope allowlist of Inl err \<Rightarrow> Scope [] | Inr s \<Rightarrow> s)
      | Some r \<Rightarrow>
          if r = [] then Inr (case NewScope allowlist of Inl err \<Rightarrow> Scope [] | Inr s \<Rightarrow> s)
          else case scope_check allowlist (Fields r) of
              Some err \<Rightarrow> Inl err
            | None \<Rightarrow> NewScope (Fields r))"

definition token_settleAccount ::
  "('u, 'r, 'g, 'c) deps \<Rightarrow> user \<Rightarrow> bool \<Rightarrow> ('u, 'r, 'g, 'c) world \<Rightarrow> user \<times> ('u, 'r, 'g, 'c) world" where
  "token_settleAccount D user rehashed w =
     (let hadFailures = (U_FailedLoginAttempts user > 0 \<or> U_LockedUntil user \<noteq> None);
          (user1, w1) = (if hadFailures
             then let (v, w0) = on_env (ResetFailedLogins user) w in (v, mutate_user D v w0)
             else (user, w)) in
      (user1, if hadFailures \<or> rehashed then save_user D user1 w1 else w1))"

definition token_store ::
  "('u, 'r, 'g, 'c) deps \<Rightarrow> user \<Rightarrow> issued_tokens \<Rightarrow> ('u, 'r, 'g, 'c) world
     \<Rightarrow> go_error option \<times> ('u, 'r, 'g, 'c) world" where
  "token_store D user tokens w =
     (let (rt, w1) = on_env (NewRefreshToken (d_prims D) (U_ID user) [] tokens) w;
          (saved, w2) = (case IT_NewGrant tokens of
              None \<Rightarrow> (None, w1)
            | Some g \<Rightarrow> on_grants (gr_Save (d_grants D) (ExtendToCover g (RT_ExpiresAt rt))) w1) in
      case saved of
        Some err \<Rightarrow> (Some (NewErr GenTokenFailed err), w2)
      | None \<Rightarrow>
          (case on_rts (rt_Save (d_rts D) rt) w2 of
             (Some err, w3) \<Rightarrow> (Some (NewErr GenTokenFailed err), w3)
           | (None, w3) \<Rightarrow> (None, w3)))"

definition GetToken_Execute ::
  "('u, 'r, 'g, 'c) deps \<Rightarrow> get_token_query \<Rightarrow> ('u, 'r, 'g, 'c) world
     \<Rightarrow> (go_error + token_response) \<times> ('u, 'r, 'g, 'c) world" where
  "GetToken_Execute D q w =
     (case on_users (ur_FindByEmail (d_users D) DefaultTenantID (gt_Email q)) w of
        (Inl err, w1) \<Rightarrow> (Inl NewErrInvalidEmailOrPassword, w1)
      | (Inr user, w1) \<Rightarrow>
          let (locked, w2) = on_env (user_IsLockedOut user) w1 in
          if locked then (Inl NewErrInvalidEmailOrPassword, w2)
          else if \<not> ValidatePassword (d_prims D) user (gt_Password q) then
            let (user1, w3) = on_env (RecordFailedLogin user) w2 in
            (Inl NewErrInvalidEmailOrPassword, save_user D user1 (mutate_user D user1 w3))
          else case on_env (RehashPasswordIfNeeded (d_prims D) user (gt_Password q)) w2 of
              (Inl panic, w3) \<Rightarrow> (Inl panic, w3)
            | (Inr (rehashed, user1), w3) \<Rightarrow>
                let (user2, w4) = token_settleAccount D user1 rehashed (mutate_user D user1 w3) in
                (case resolveScope (d_ScopeAllowlist D) (gt_Scope q) of
                   Inl err \<Rightarrow> (Inl err, w4)
                 | Inr sc \<Rightarrow>
                     let expireSecs = ResolveExpirySecs (gt_ExpireSecs q) in
                     (case on_env (IssueTokens (d_prims D) (d_tokens D)
                             \<lparr>is_User = user2, is_ClientID = [], is_Nonce = [], is_Scope = sc,
                              is_ExpireSecs = expireSecs, is_ExistingGrantID = []\<rparr>) w4 of
                        (Inl err, w5) \<Rightarrow> (Inl err, w5)
                      | (Inr tokens, w5) \<Rightarrow>
                          (case token_store D user2 tokens w5 of
                             (Some err, w6) \<Rightarrow> (Inl err, w6)
                           | (None, w6) \<Rightarrow> (Inr (TokenResponse_FromEntity tokens expireSecs), w6)))))"

section \<open>What the account operations guarantee\<close>

lemma hashPassword_env: "hashPassword p pw e = (r, e') \<Longrightarrow> env_le e e' \<and> disk e' = disk e"
  by (auto simp: hashPassword_def rand_Read_def env_le_def Let_def split: sum.splits)

lemma hashPassword_Inr: "hashPassword p pw e = (Inr h, e') \<Longrightarrow> \<exists>salt. p_bcrypt_Generate p passwordHashCost salt pw = Inr h"
  by (auto simp: hashPassword_def Let_def split: sum.splits prod.splits)

lemma SetPassword_env: "SetPassword p u pw e = (r, e') \<Longrightarrow> env_le e e' \<and> disk e' = disk e"
  by (auto simp: SetPassword_def env_le_def split: option.splits prod.splits sum.splits dest!: hashPassword_env nowD)

lemma SetPassword_Inr:
  assumes "SetPassword p u pw e = (Inr (None, u'), e')"
  shows "validatePassword p pw = None" "\<exists>salt. p_bcrypt_Generate p passwordHashCost salt pw = Inr (U_Password u')"
    "same_identity u' u" "env_le e e'"
  using assms SetPassword_env [OF assms]
  by (auto simp: SetPassword_def same_identity_def split: option.splits prod.splits sum.splits dest!: hashPassword_Inr)

lemma IsResetTokenExpired_env: "IsResetTokenExpired u e = (b, e') \<Longrightarrow> env_le e e' \<and> disk e' = disk e
   \<and> (\<not> b \<longrightarrow> (\<exists>x. U_PasswordResetExpiresAt u = Some x \<and> clock e \<le> x))"
  by (auto simp: IsResetTokenExpired_def env_le_def split: option.splits prod.splits dest!: nowD)

lemma reset_update_env: "env_le e (snd (reset_update p pw u e)) \<and> disk (snd (reset_update p pw u e)) = disk e"
proof -
  obtain ex e1 where a: "IsResetTokenExpired u e = (ex, e1)" by (metis surj_pair)
  obtain r e2 where b: "SetPassword p u pw e1 = (r, e2)" by (metis surj_pair)
  note A = IsResetTokenExpired_env [OF a] and B = SetPassword_env [OF b]
  show ?thesis
    using A B unfolding reset_update_def a Let_def prod.case b
    by (auto simp: env_le_def InvalidateSessions_def ClearPasswordResetToken_def
        split: sum.splits option.splits prod.splits dest!: nowD)
qed

text \<open>
  A reset that the callback allows: the token had not expired, the new password satisfies the
  policy and is stored as its bcrypt hash, sessions are invalidated as of now, the token is spent.
\<close>

lemma reset_update_Inr:
  assumes "reset_update p pw u e = (Inr u', e')"
  shows "(\<exists>x. U_PasswordResetExpiresAt u = Some x \<and> clock e \<le> x) \<and> validatePassword p pw = None
    \<and> (\<exists>salt. p_bcrypt_Generate p passwordHashCost salt pw = Inr (U_Password u'))
    \<and> U_ID u' = U_ID u \<and> U_Email u' = U_Email u \<and> U_TenantID u' = U_TenantID u \<and> U_PasswordResetTokenHash u' = None
    \<and> (\<exists>t. U_SessionsInvalidatedAt u' = Some t \<and> clock e \<le> t \<and> t \<le> clock e')"
proof -
  obtain e1 where a: "IsResetTokenExpired u e = (False, e1)"
    using assms by (cases "IsResetTokenExpired u e") (auto simp: reset_update_def split: if_splits)
  obtain r e2 where b: "SetPassword p u pw e1 = (r, e2)" by (metis surj_pair)
  obtain u1 where r: "r = Inr (None, u1)"
    and rest: "(Inr u', e') = (let (u2, e3) = InvalidateSessions u1 e2; (u3, e4) = ClearPasswordResetToken u2 e3 in (Inr u3, e4))"
    using assms a b by (auto simp: reset_update_def split: sum.splits prod.splits option.splits)
  note S = SetPassword_Inr [OF b [unfolded r]] and A = IsResetTokenExpired_env [OF a]
  have "\<exists>t. U_SessionsInvalidatedAt u' = Some t \<and> clock e2 \<le> t \<and> t \<le> clock e'" "U_Password u' = U_Password u1"
    "U_ID u' = U_ID u1" "U_Email u' = U_Email u1" "U_TenantID u' = U_TenantID u1" "U_PasswordResetTokenHash u' = None"
    using rest by (auto simp: InvalidateSessions_def ClearPasswordResetToken_def split: prod.splits dest!: nowD)
  moreover have "clock e \<le> clock e2" using A S(4) by (simp add: env_le_def)
  ultimately show ?thesis using S A by (auto simp: same_identity_def)
qed

context ttl_cache
begin

lemma MarkSessionsInvalidated_live:
  assumes "MarkSessionsInvalidated K u at c e = (None, c', e')" and "t \<le> clock e + SessionsInvalidationTTL"
  shows "live c' t (SessionsInvalidatedKey u) = Some (CInt (unix at))"
  using Set_min assms unfolding MarkSessionsInvalidated_def by blast

end

context auth_app
begin

subsection \<open>Password reset\<close>

lemma reset_txn_cases:
  assumes "reset_txn D c w = (r, w1)" and "wok w"
  shows "wok w1 \<and> env_le (w_env w) (w_env w1) \<and> w_rts w1 = w_rts w \<and> w_grants w1 = w_grants w \<and> w_cache w1 = w_cache w
    \<and> (case r of
         Inl er \<Rightarrow> users (w_users w1) = users (w_users w)
       | Inr u' \<Rightarrow> (\<exists>u e1. users (w_users w) (U_ID u) = Some u \<and> U_PasswordResetTokenHash u = Some (Hash (d_prims D) (rp_Token c))
            \<and> reset_update (d_prims D) (rp_Password c) u (w_env w) = (Inr u', e1) \<and> env_le e1 (w_env w1)
            \<and> users (w_users w1) = (users (w_users w))(U_ID u \<mapsto> u')))"
proof -
  note A = on_usersD [OF assms(1) [unfolded reset_txn_def]]
  have upd: "ur_UpdateByPasswordResetTokenHash (d_users D) (Hash (d_prims D) (rp_Token c))
      (reset_update (d_prims D) (rp_Password c)) (w_users w) (w_env w) = (r, w_users w1, w_env w1)" using A by simp
  have uokw: "uok (w_users w)" using assms(2) by (simp add: wok_def)
  have "uok (w_users w1) \<and> env_le (w_env w) (w_env w1) \<and> (case r of
         Inl er \<Rightarrow> users (w_users w1) = users (w_users w)
       | Inr u' \<Rightarrow> (\<exists>u e1. users (w_users w) (U_ID u) = Some u \<and> U_PasswordResetTokenHash u = Some (Hash (d_prims D) (rp_Token c))
            \<and> reset_update (d_prims D) (rp_Password c) u (w_env w) = (Inr u', e1) \<and> env_le e1 (w_env w1)
            \<and> users (w_users w1) = (users (w_users w))(U_ID u \<mapsto> u')))"
    using us.user_Update [OF upd uokw] reset_update_env reset_update_Inr by (auto split: sum.splits)
  with A assms(2) show ?thesis by (simp add: wok_def)
qed

text \<open>What a completed reset leaves behind, when storage works for the sweep of refresh tokens.\<close>

definition reset_done :: "reset_password_cmd \<Rightarrow> user \<Rightarrow> user \<Rightarrow> time \<Rightarrow> ('u, 'r, 'g, 'c) world \<Rightarrow> ('u, 'r, 'g, 'c) world \<Rightarrow> bool" where
  "reset_done c u u' t w w' \<longleftrightarrow>
     users (w_users w) (U_ID u) = Some u \<and> U_PasswordResetTokenHash u = Some (Hash (d_prims D) (rp_Token c))
     \<and> (\<exists>x. U_PasswordResetExpiresAt u = Some x \<and> clock (w_env w) \<le> x)
     \<and> users (w_users w') = (users (w_users w))(U_ID u \<mapsto> u')
     \<and> validatePassword (d_prims D) (rp_Password c) = None
     \<and> (\<exists>salt. p_bcrypt_Generate (d_prims D) passwordHashCost salt (rp_Password c) = Inr (U_Password u'))
     \<and> U_PasswordResetTokenHash u' = None \<and> U_Email u' = U_Email u
     \<and> U_SessionsInvalidatedAt u' = Some t \<and> clock (w_env w) \<le> t
     \<and> (\<forall>s \<le> t + SessionsInvalidationTTL. live (w_cache w') s (SessionsInvalidatedKey (U_ID u)) = Some (CInt (unix t)))
     \<and> w_grants w' = w_grants w
     \<and> (bulk_revoked (\<lambda>x. RT_UserID x = U_ID u) (rows (w_rts w)) (rows (w_rts w')) \<or> rows (w_rts w') = rows (w_rts w))
     \<and> (disk (w_env w) = [] \<longrightarrow> bulk_revoked (\<lambda>x. RT_UserID x = U_ID u) (rows (w_rts w)) (rows (w_rts w')))"

lemma reset_success:
  assumes run: "ResetPassword_Execute D c w = (None, w')" and ok: "wok w"
  shows "wok w' \<and> (\<exists>u u' t. reset_done c u u' t w w')"
proof -
  obtain r w1 where a: "reset_txn D c w = (r, w1)" by (metis surj_pair)
  obtain u' where r: "r = Inr u'"
    using run a by (cases r) (simp_all add: ResetPassword_Execute_def noop_uow NoopUnitOfWork_Do_def)
  obtain e2 w2 e3 w3 where b: "on_rts (rt_RevokeAllForUser (d_rts D) (U_ID u')) w1 = (e2, w2)"
    and c: "on_cache (MarkSessionsInvalidated (d_cache D) (U_ID u') (the (U_SessionsInvalidatedAt u'))) w2 = (e3, w3)"
    by (metis surj_pair)
  have w3: "w3 = w'"
    using run a r b c by (simp add: ResetPassword_Execute_def noop_uow NoopUnitOfWork_Do_def)
  obtain u e1 where u: "users (w_users w) (U_ID u) = Some u" "U_PasswordResetTokenHash u = Some (Hash (d_prims D) (rp_Token c))"
      "reset_update (d_prims D) (rp_Password c) u (w_env w) = (Inr u', e1)" "env_le e1 (w_env w1)"
      "users (w_users w1) = (users (w_users w))(U_ID u \<mapsto> u')"
    and T: "wok w1" "w_rts w1 = w_rts w" "w_grants w1 = w_grants w"
    using reset_txn_cases [OF a ok] r by auto
  obtain t where t: "U_SessionsInvalidatedAt u' = Some t" "clock (w_env w) \<le> t" "t \<le> clock e1"
    and P: "\<exists>x. U_PasswordResetExpiresAt u = Some x \<and> clock (w_env w) \<le> x" "validatePassword (d_prims D) (rp_Password c) = None"
      "\<exists>salt. p_bcrypt_Generate (d_prims D) passwordHashCost salt (rp_Password c) = Inr (U_Password u')"
      "U_ID u' = U_ID u" "U_PasswordResetTokenHash u' = None" "U_Email u' = U_Email u"
    using reset_update_Inr [OF u(3)] by auto
  note B = on_rtsD [OF b] and C = on_cacheD [OF c]
  have rv: "rt_RevokeAllForUser (d_rts D) (U_ID u') (w_rts w1) (w_env w1) = (e2, w_rts w2, w_env w2)" using B by simp
  have rok1: "rok (w_rts w1)" using T by (simp add: wok_def)
  note R = rt.rt_RevokeUser [OF rv rok1]
  have st: "MarkSessionsInvalidated (d_cache D) (U_ID u) t (w_cache w2) (w_env w2) = (e3, w_cache w3, w_env w3)"
    using C t P by simp
  have e3: "e3 = None" using ca.Set_reliable [OF st [unfolded MarkSessionsInvalidated_def]] by simp
  have ck: "t \<le> clock (w_env w2)" using t(3) u(4) R by (simp add: env_le_def)
  have mark: "\<forall>s \<le> t + SessionsInvalidationTTL. live (w_cache w') s (SessionsInvalidatedKey (U_ID u)) = Some (CInt (unix t))"
    using ca.MarkSessionsInvalidated_live [OF st [unfolded e3]] ck w3 by simp
  have rows': "bulk_revoked (\<lambda>x. RT_UserID x = U_ID u) (rows (w_rts w)) (rows (w_rts w')) \<or> rows (w_rts w') = rows (w_rts w)"
    using R C T P w3 by auto
  have "bulk_revoked (\<lambda>x. RT_UserID x = U_ID u) (rows (w_rts w)) (rows (w_rts w'))" if "disk (w_env w) = []"
  proof -
    have d: "\<forall>x e. env_le e (snd (reset_update (d_prims D) (rp_Password c) x e))
        \<and> disk (snd (reset_update (d_prims D) (rp_Password c) x e)) = disk e" using reset_update_env by blast
    have "ur_UpdateByPasswordResetTokenHash (d_users D) (Hash (d_prims D) (rp_Token c))
      (reset_update (d_prims D) (rp_Password c)) (w_users w) (w_env w) = (r, w_users w1, w_env w1)"
      using on_usersD [OF a [unfolded reset_txn_def]] by simp
    from us.user_Update_reliable [OF this _ that d u(1,2)] ok have "disk (w_env w1) = []" by (simp add: wok_def)
    from rt.rt_RevokeUser_reliable [OF rv this] R C T P w3 show ?thesis by simp
  qed
  moreover have "wok w'" using T R B C w3 by (simp add: wok_def)
  moreover have "w_grants w' = w_grants w" "w_users w' = w_users w1" using T B C w3 by simp_all
  ultimately show ?thesis
    using u t P mark rows' unfolding reset_done_def by auto
qed

text \<open>A reset that fails changes no account.\<close>

lemma reset_failure:
  assumes run: "ResetPassword_Execute D c w = (Some err, w')" and ok: "wok w"
  shows "wok w' \<and> users (w_users w') = users (w_users w) \<and> w_rts w' = w_rts w \<and> w_grants w' = w_grants w \<and> w_cache w' = w_cache w"
proof -
  obtain r w1 where a: "reset_txn D c w = (r, w1)" by (metis surj_pair)
  obtain er where r: "r = Inl er" "w' = w1"
    using run a by (cases r) (auto simp: ResetPassword_Execute_def noop_uow NoopUnitOfWork_Do_def split: prod.splits)
  with reset_txn_cases [OF a ok] show ?thesis by simp
qed

lemma reset_needs_token:
  assumes ok: "wok w" and none: "\<forall>i u. users (w_users w) i = Some u \<longrightarrow> U_PasswordResetTokenHash u \<noteq> Some (Hash (d_prims D) (rp_Token c))"
  shows "fst (ResetPassword_Execute D c w) \<noteq> None"
proof
  assume s: "fst (ResetPassword_Execute D c w) = None"
  obtain w' where "ResetPassword_Execute D c w = (None, w')" using s by (metis prod.collapse)
  from reset_success [OF this ok] none show False unfolding reset_done_def by auto
qed

subsection \<open>Registration and profile\<close>

lemma NewUser_Inr:
  assumes "NewUser p args e = (Inr u, e')"
  shows "validatePassword p (UA_Password args) = None \<and> U_ID u = p_uuid p (uuid_ctr e) \<and> uuid_ctr e < uuid_ctr e'
    \<and> env_le e e' \<and> U_Email u = UA_Email args \<and> U_PasswordResetTokenHash u = None \<and> U_SessionsInvalidatedAt u = None
    \<and> U_EmailVerified u = UA_EmailVerified args \<and> U_FailedLoginAttempts u = 0 \<and> U_LockedUntil u = None
    \<and> (UA_TenantID args = [] \<longrightarrow> U_TenantID u = DefaultTenantID)
    \<and> (\<exists>salt. p_bcrypt_Generate p passwordHashCost salt (UA_Password args) = Inr (U_Password u))"
  using assms
  by (auto simp: NewUser_def NewUserID_def uuid_NewString_def hashPassword_def rand_Read_def env_le_def Let_def
      split: option.splits sum.splits prod.splits dest!: nowD)

lemma NewUser_env: "NewUser p args e = (r, e') \<Longrightarrow> env_le e e'"
  by (auto simp: NewUser_def NewUserID_def uuid_NewString_def hashPassword_def rand_Read_def env_le_def Let_def
      split: option.splits sum.splits prod.splits dest!: nowD)

lemma create_user_success:
  assumes run: "CreateUser_Execute D c w = (Inr res, w')" and ok: "wok w"
  shows "wok w' \<and> (\<exists>u. users (w_users w') = (users (w_users w))(U_ID u \<mapsto> u) \<and> U_Email u = cu_Email c
    \<and> (\<forall>i x. users (w_users w) i = Some x \<longrightarrow> U_Email x \<noteq> cu_Email c)
    \<and> validatePassword (d_prims D) (cu_Password c) = None \<and> \<not> U_EmailVerified u
    \<and> (\<exists>salt. p_bcrypt_Generate (d_prims D) passwordHashCost salt (cu_Password c) = Inr (U_Password u))
    \<and> (\<exists>n \<ge> uuid_ctr (w_env w). U_ID u = p_uuid (d_prims D) n \<and> n < uuid_ctr (w_env w')))
    \<and> w_rts w' = w_rts w \<and> w_grants w' = w_grants w \<and> w_cache w' = w_cache w"
proof -
  let ?a = "\<lparr>UA_TenantID = [], UA_Username = cu_Username c, UA_Nickname = cu_Nickname c,
              UA_Password = cu_Password c, UA_Email = cu_Email c, UA_EmailVerified = False\<rparr>"
  obtain u w1 where a: "on_env (NewUser (d_prims D) ?a) w = (Inr u, w1)"
    and b: "on_users (ur_CreateUser (d_users D) u) w1 = (None, w')"
    using run by (auto simp: CreateUser_Execute_def split: prod.splits sum.splits option.splits if_splits)
  note A = on_envD [OF a] and B = on_usersD [OF b]
  have n: "NewUser (d_prims D) ?a (w_env w) = (Inr u, w_env w1)" using A by simp
  note N = NewUser_Inr [OF n]
  have cr: "ur_CreateUser (d_users D) u (w_users w1) (w_env w1) = (None, w_users w', w_env w')" using B by simp
  have "uok (w_users w1)" using A ok by (simp add: wok_def)
  from us.user_Create [OF cr this] N A B ok show ?thesis
    by (auto simp: wok_def env_le_def intro!: exI [of _ u] exI [of _ "uuid_ctr (w_env w)"])
qed

lemma create_user_duplicate:
  assumes ok: "wok w" and dup: "users (w_users w) i = Some x" "U_Email x = cu_Email c"
  shows "\<exists>err. fst (CreateUser_Execute D c w) = Inl err"
proof -
  obtain r w' where run: "CreateUser_Execute D c w = (r, w')" by (metis surj_pair)
  show ?thesis
  proof (cases r)
    case (Inr res)
    from create_user_success [OF run [unfolded Inr] ok] dup show ?thesis by blast
  qed (simp add: run)
qed

lemma UpdateProfile_fields:
  assumes "user_UpdateProfile u args e = (u', e')"
  shows "U_ID u' = U_ID u" "U_TenantID u' = U_TenantID u" "U_PasswordResetTokenHash u' = U_PasswordResetTokenHash u"
    "U_Password u' = U_Password u" "U_Email u' = (case UP_Email args of None \<Rightarrow> U_Email u | Some v \<Rightarrow> v)"
    "U_EmailVerified u' \<longrightarrow> U_Email u' = U_Email u \<and> U_EmailVerified u" "env_le e e'"
  using assms by (auto simp: user_UpdateProfile_def SetEmail_def Let_def env_le_def split: option.splits prod.splits if_splits dest!: nowD)

text \<open>The address a user may take is its own or nobody's.\<close>

lemma checkEmail_None:
  assumes "checkEmailAvailable D tn em i w = (None, w')" and "wok w" and "tn = DefaultTenantID"
  shows "wok w' \<and> env_le (w_env w) (w_env w') \<and> users (w_users w') = users (w_users w) \<and> w_rts w' = w_rts w
    \<and> w_grants w' = w_grants w \<and> w_cache w' = w_cache w
    \<and> (\<forall>j x. users (w_users w) j = Some x \<longrightarrow> U_Email x = em \<longrightarrow> j = i)"
proof -
  obtain r where a: "on_users (ur_FindByEmail (d_users D) tn em) w = (r, w')"
    using assms(1) by (auto simp: checkEmailAvailable_def split: prod.splits sum.splits if_splits)
  note A = on_usersD [OF a]
  have uokw: "uok (w_users w)" using assms(2) by (simp add: wok_def)
  have f: "ur_FindByEmail (d_users D) DefaultTenantID em (w_users w) (w_env w) = (r, w_users w', w_env w')"
    using A assms(3) by simp
  note F = us.user_FindByEmail [OF f uokw]
  have "j = i" if x: "users (w_users w) j = Some x" "U_Email x = em" for j x
  proof (cases r)
    case (Inl er)
    with assms(1) a F x show ?thesis by (auto simp: checkEmailAvailable_def split: if_splits)
  next
    case (Inr y)
    then have "users (w_users w) (U_ID y) = Some y" "U_Email y = em" "U_ID y = i"
      using assms(1) a F by (auto simp: checkEmailAvailable_def split: if_splits)
    with us.email_unique [OF uokw x(1) this(1)] x show ?thesis by simp
  qed
  with A F assms(2) show ?thesis by (auto simp: wok_def)
qed

text \<open>Up to the write: the changed copy may be stored, whatever the store then answers.\<close>

lemma profile_checked:
  assumes a: "on_users (ur_FindByID (d_users D) i) w = (Inr u, w1)"
    and b: "(case UP_Email args of None \<Rightarrow> (None, w1) | Some email \<Rightarrow> checkEmailAvailable D (U_TenantID u) email i w1) = (None, w2)"
    and d: "on_env (user_UpdateProfile u args) w2 = (u', w3)" and ok: "wok w"
  shows "users (w_users w) i = Some u \<and> U_ID u' = i \<and> users (w_users w3) = users (w_users w) \<and> wok w3
    \<and> may_save_user u' (users (w_users w3))
    \<and> (\<forall>j x. users (w_users w) j = Some x \<longrightarrow> U_Email x = U_Email u' \<longrightarrow> j = i)"
proof -
  note A = on_usersD [OF a]
  have uokw: "uok (w_users w)" using ok by (simp add: wok_def)
  have f: "ur_FindByID (d_users D) i (w_users w) (w_env w) = (Inr u, w_users w1, w_env w1)" using A by simp
  note F = us.user_FindByID [OF f uokw]
  have row: "users (w_users w) i = Some u" using F by simp
  have u: "U_ID u = i" "may_save_user u (users (w_users w))" using us.user_keyed [OF uokw row] by simp_all
  have tn: "U_TenantID u = DefaultTenantID" using u(2) by (simp add: may_save_user_def)
  have ok1: "wok w1" using A F ok by (simp add: wok_def)
  have w2: "wok w2 \<and> users (w_users w2) = users (w_users w)
      \<and> (\<forall>em. UP_Email args = Some em \<longrightarrow> (\<forall>j x. users (w_users w) j = Some x \<longrightarrow> U_Email x = em \<longrightarrow> j = i))"
  proof (cases "UP_Email args")
    case None
    with b ok1 A F show ?thesis by simp
  next
    case (Some em)
    then have "checkEmailAvailable D (U_TenantID u) em i w1 = (None, w2)" using b by simp
    from checkEmail_None [OF this ok1 tn] A F Some show ?thesis by simp
  qed
  note D = on_envD [OF d]
  have up: "user_UpdateProfile u args (w_env w2) = (u', w_env w3)" using D by simp
  note P = UpdateProfile_fields [OF up]
  have free: "\<forall>j x. users (w_users w) j = Some x \<longrightarrow> U_Email x = U_Email u' \<longrightarrow> j = i"
  proof (cases "UP_Email args")
    case None
    then have "U_Email u' = U_Email u" using P(5) by simp
    then show ?thesis using u unfolding may_save_user_def by auto
  next
    case (Some em)
    then have "U_Email u' = em" using P(5) by simp
    then show ?thesis using w2 Some by simp
  qed
  have us3: "users (w_users w3) = users (w_users w)" "wok w3" using D w2 by (simp_all add: wok_def)
  moreover have "may_save_user u' (users (w_users w3))" using free u P(1-3) unfolding may_save_user_def us3(1) by auto
  ultimately show ?thesis using row u(1) P(1) free by simp
qed

lemma update_profile_success:
  assumes run: "UpdateProfile_Execute D c w = (Inr res, w')" and ok: "wok w"
  shows "wok w' \<and> (\<exists>u u'. users (w_users w) (up_UserID c) = Some u
    \<and> users (w_users w') = (users (w_users w))(up_UserID c \<mapsto> u') \<and> U_ID u' = up_UserID c
    \<and> U_Password u' = U_Password u \<and> U_PasswordResetTokenHash u' = U_PasswordResetTokenHash u
    \<and> U_Email u' = (case up_Email c of None \<Rightarrow> U_Email u | Some v \<Rightarrow> v)
    \<and> (U_EmailVerified u' \<longrightarrow> U_Email u' = U_Email u \<and> U_EmailVerified u)
    \<and> (\<forall>j x. users (w_users w) j = Some x \<longrightarrow> U_Email x = U_Email u' \<longrightarrow> j = up_UserID c))"
proof -
  let ?args = "\<lparr>UP_Username = up_Username c, UP_Nickname = up_Nickname c, UP_Email = up_Email c\<rparr>"
  obtain u w1 w2 u' w3 where a: "on_users (ur_FindByID (d_users D) (up_UserID c)) w = (Inr u, w1)"
    and b: "(case UP_Email ?args of None \<Rightarrow> (None, w1)
              | Some email \<Rightarrow> checkEmailAvailable D (U_TenantID u) email (up_UserID c) w1) = (None, w2)"
    and d: "on_env (user_UpdateProfile u ?args) w2 = (u', w3)"
    and s: "on_users (ur_Save (d_users D) u') w3 = (None, w')"
    using run unfolding UpdateProfile_Execute_def Let_def
    by (auto split: sum.split_asm prod.split_asm if_split_asm option.split_asm)
  note C = profile_checked [OF a b d ok] and S = on_usersD [OF s]
  have "user_UpdateProfile u ?args (w_env w2) = (u', w_env w3)" using on_envD [OF d] by simp
  note P = UpdateProfile_fields [OF this]
  have sv: "ur_Save (d_users D) u' (w_users w3) (w_env w3) = (None, w_users w', w_env w')" using S by simp
  have "uok (w_users w3)" using C by (simp add: wok_def)
  moreover have "may_save_user u' (users (w_users w3))" using C by blast
  ultimately have V: "uok (w_users w')" "users (w_users w') = (users (w_users w3))(U_ID u' \<mapsto> u')"
    using us.user_Save [OF sv] by simp_all
  have "wok w'" using V C S by (simp add: wok_def)
  moreover have "users (w_users w') = (users (w_users w))(up_UserID c \<mapsto> u')" using V C by simp
  moreover have "U_Email u' = (case up_Email c of None \<Rightarrow> U_Email u | Some v \<Rightarrow> v)" using P(5) by simp
  ultimately show ?thesis using C P(3,4,6) by blast
qed

subsection \<open>Recovery mail\<close>

lemma rateLimited_frame:
  assumes "rateLimited D em w = (b, w')"
  shows "w_users w' = w_users w \<and> w_rts w' = w_rts w \<and> w_grants w' = w_grants w \<and> w_mail w' = w_mail w
    \<and> env_le (w_env w) (w_env w')"
  using assms by (auto simp: rateLimited_def split: prod.splits sum.splits dest!: on_cacheD ca.Incr_env)

text \<open>An address that had its three requests in the window gets no further mail, and no token changes.\<close>

lemma rateLimited_count:
  assumes rl: "rateLimited D em w = (b, w')" and until: "until \<le> clock (w_env w) + forgotPasswordWindow"
    and time: "clock (w_env w') \<le> until"
    and cnt: "\<forall>t \<le> until. live (w_cache w) t (forgotPasswordRateKey (d_prims D) em) = Some (CInt n)"
  shows "b = (forgotPasswordMaxPerWindow \<le> n)"
    "\<forall>t \<le> until. live (w_cache w') t (forgotPasswordRateKey (d_prims D) em) = Some (CInt (n + 1))"
proof -
  let ?k = "forgotPasswordRateKey (d_prims D) em"
  obtain rc where a: "on_cache (k_IncrWindow (d_cache D) ?k forgotPasswordWindow) w = (rc, w')"
    using rl by (auto simp: rateLimited_def split: prod.splits sum.splits)
  have i: "k_IncrWindow (d_cache D) ?k forgotPasswordWindow (w_cache w) (w_env w) = (rc, w_cache w', w_env w')"
    using on_cacheD [OF a] by simp
  have win: "0 < forgotPasswordWindow" by (simp add: forgotPasswordWindow_def)
  have lv: "live (w_cache w) (clock (w_env w')) ?k = Some (CInt n)" using cnt time by simp
  obtain m where m: "rc = Inr m" using ca.Incr_reliable i lv by (cases rc) fastforce+
  note I = ca.Incr_ok [OF i [unfolded m] win, unfolded lv]
  then have mn: "m = n + 1" by simp
  then show "b = (forgotPasswordMaxPerWindow \<le> n)" using rl a m by (auto simp: rateLimited_def)
  have "clock (w_env w) \<le> clock (w_env w')" using ca.Incr_env [OF i] by (simp add: env_le_def)
  then show "\<forall>t \<le> until. live (w_cache w') t ?k = Some (CInt (n + 1))"
    using I cnt until mn by auto
qed

lemma rateLimited_first:
  assumes rl: "rateLimited D em w = (b, w')"
    and none: "live (w_cache w) (clock (w_env w')) (forgotPasswordRateKey (d_prims D) em) = None"
  shows "\<not> b" "\<forall>t \<le> clock (w_env w') + forgotPasswordWindow.
     live (w_cache w') t (forgotPasswordRateKey (d_prims D) em) = Some (CInt 1)"
proof -
  let ?k = "forgotPasswordRateKey (d_prims D) em"
  obtain rc where a: "on_cache (k_IncrWindow (d_cache D) ?k forgotPasswordWindow) w = (rc, w')"
    using rl by (auto simp: rateLimited_def split: prod.splits sum.splits)
  have i: "k_IncrWindow (d_cache D) ?k forgotPasswordWindow (w_cache w) (w_env w) = (rc, w_cache w', w_env w')"
    using on_cacheD [OF a] by simp
  have win: "0 < forgotPasswordWindow" by (simp add: forgotPasswordWindow_def)
  obtain m where m: "rc = Inr m" using ca.Incr_reliable i none by (cases rc) fastforce+
  note I = ca.Incr_ok [OF i [unfolded m] win, unfolded none]
  then show "\<not> b" using rl a m by (auto simp: rateLimited_def forgotPasswordMaxPerWindow_def)
  show "\<forall>t \<le> clock (w_env w') + forgotPasswordWindow. live (w_cache w') t ?k = Some (CInt 1)" using I by simp
qed

lemma SetPasswordResetToken_fields:
  assumes "SetPasswordResetToken p u tok ttl e = (u', e')"
  shows "U_ID u' = U_ID u" "U_Email u' = U_Email u" "U_TenantID u' = U_TenantID u" "U_PasswordResetTokenHash u' = Some (Hash p tok)"
    "U_Password u' = U_Password u" "\<exists>t. U_PasswordResetExpiresAt u' = Some (t + ttl) \<and> clock e \<le> t" "env_le e e'"
    "rand_ctr e' = rand_ctr e"
  using assms by (auto simp: SetPasswordResetToken_def Let_def env_le_def split: prod.splits dest!: nowD)

text \<open>One request: the answer is always the same; it sends at most one mail and leaves the counter to the check.\<close>

lemma forgot_step:
  assumes run: "ForgotPassword_Execute D em w = (r, w')" and rl: "rateLimited D em w = (b, w1)"
  shows "r = None \<and> w_cache w' = w_cache w1 \<and> w_rts w' = w_rts w \<and> w_grants w' = w_grants w
    \<and> (b \<longrightarrow> w' = w1) \<and> length (w_mail w') \<le> length (w_mail w) + 1"
  using run rateLimited_frame [OF rl] unfolding ForgotPassword_Execute_def rl Let_def prod.case
  by (auto split: if_split_asm sum.split_asm prod.split_asm option.split_asm dest!: on_usersD on_envD)

end

text \<open>A series of recovery requests, one after the other.\<close>

primrec forgot_run :: "('u, 'r, 'g, 'c) deps \<Rightarrow> string list \<Rightarrow> ('u, 'r, 'g, 'c) world \<Rightarrow> ('u, 'r, 'g, 'c) world" where
  "forgot_run D [] w = w"
| "forgot_run D (em # ems) w = forgot_run D ems (snd (ForgotPassword_Execute D em w))"

end
