(* ===== verification/UC_Verify.thy ===== *)
theory UC_Verify
  imports UC_Revoke
begin

text \<open>
  Who accepts an access token: the revocation checker (\<open>adapter/in/revocation_checker.go\<close>), the
  bearer middleware (\<open>handler/web/middleware/auth.go\<close>) and introspection
  (\<open>application/query/introspect_token.go\<close>); discovery and the key set (\<open>get_discovery.go\<close>,
  \<open>get_jwks.go\<close>).
\<close>

section \<open>The revocation checker\<close>

definition sessions_check ::
  "('u, 'r, 'g, 'c) deps \<Rightarrow> claims \<Rightarrow> ('u, 'r, 'g, 'c) world \<Rightarrow> (go_error + bool) \<times> ('u, 'r, 'g, 'c) world" where
  "sessions_check D claims w =
     (case cl_IssuedAt claims of
        None \<Rightarrow> (Inr False, w)
      | Some issuedAt \<Rightarrow>
          (case on_cache (k_GetErr (d_cache D) (SessionsInvalidatedKey (cl_Subject claims)) DInt) w of
             (Inl err, w1) \<Rightarrow> (Inl err, w1)
           | (Inr (Some (CInt invalidatedAt)), w1) \<Rightarrow> (Inr (unix issuedAt \<le> invalidatedAt), w1)
           | (Inr _, w1) \<Rightarrow> (Inr False, w1)))"

definition grant_check ::
  "('u, 'r, 'g, 'c) deps \<Rightarrow> claims \<Rightarrow> ('u, 'r, 'g, 'c) world \<Rightarrow> (go_error + bool) \<times> ('u, 'r, 'g, 'c) world" where
  "grant_check D claims w =
     (if cl_GrantID claims = [] then (Inr False, w)
      else case on_cache (k_GetErr (d_cache D) (RevokedGrantKey (cl_GrantID claims)) DNil) w of
          (Inl err, w1) \<Rightarrow> (Inl err, w1)
        | (Inr found, w1) \<Rightarrow> (Inr (found \<noteq> None), w1))"

definition IsRevoked ::
  "('u, 'r, 'g, 'c) deps \<Rightarrow> claims \<Rightarrow> ('u, 'r, 'g, 'c) world \<Rightarrow> (go_error + bool) \<times> ('u, 'r, 'g, 'c) world" where
  "IsRevoked D claims w =
     (case on_cache (k_GetErr (d_cache D) (BlacklistKey (cl_ID claims)) DNil) w of
        (Inl err, w1) \<Rightarrow> (Inl err, w1)
      | (Inr found, w1) \<Rightarrow>
          if found \<noteq> None then (Inr True, w1)
          else case grant_check D claims w1 of
              (Inl err, w2) \<Rightarrow> (Inl err, w2)
            | (Inr grantRevoked, w2) \<Rightarrow> if grantRevoked then (Inr True, w2) else sessions_check D claims w2)"

section \<open>The bearer middleware\<close>

text \<open>\<open>strings.EqualFold\<close> with an ASCII pattern none of whose letters folds to a rune outside ASCII.\<close>

definition ascii_lower :: "char \<Rightarrow> char" where
  "ascii_lower c = (if 65 \<le> byte_of c \<and> byte_of c \<le> 90 then char_of (byte_of c + 32 :: nat) else c)"

definition extractBearerToken :: "string \<Rightarrow> string option" where
  "extractBearerToken header =
     (if length header \<le> 7 \<or> map ascii_lower (take 7 header) \<noteq> ''bearer '' then None
      else let token = TrimSpace (drop 7 header) in if token = [] then None else Some token)"

definition verifyBearer ::
  "('u, 'r, 'g, 'c) deps \<Rightarrow> string \<Rightarrow> ('u, 'r, 'g, 'c) world \<Rightarrow> (claims \<times> string) option \<times> ('u, 'r, 'g, 'c) world" where
  "verifyBearer D header w =
     (case extractBearerToken header of
        None \<Rightarrow> (None, w)
      | Some accessToken \<Rightarrow>
          (case on_env (ts_ParseJWT (d_tokens D) accessToken) w of
             (Inl err, w1) \<Rightarrow> (None, w1)
           | (Inr claims, w1) \<Rightarrow>
               if cl_ID claims = [] then (None, w1)
               else case IsRevoked D claims w1 of
                   (Inl err, w2) \<Rightarrow> (None, w2)
                 | (Inr revoked, w2) \<Rightarrow> if revoked then (None, w2) else (Some (claims, accessToken), w2)))"

text \<open>What a request carries once the middleware let it through.\<close>

record bearer_identity =
  bi_access_token :: string
  bi_issuer :: string
  bi_user_id :: string
  bi_grant_id :: string

definition setBearerIdentity :: "claims \<Rightarrow> string \<Rightarrow> bearer_identity" where
  "setBearerIdentity claims token =
     \<lparr>bi_access_token = token, bi_issuer = cl_Issuer claims, bi_user_id = cl_Subject claims, bi_grant_id = cl_GrantID claims\<rparr>"

definition mw_Authenticate ::
  "('u, 'r, 'g, 'c) deps \<Rightarrow> string \<Rightarrow> ('u, 'r, 'g, 'c) world \<Rightarrow> (go_error + bearer_identity) \<times> ('u, 'r, 'g, 'c) world" where
  "mw_Authenticate D header w =
     (case verifyBearer D header w of
        (None, w1) \<Rightarrow> (Inl (New Unauthorized 401 ''invalid token''), w1)
      | (Some (claims, token), w1) \<Rightarrow> (Inr (setBearerIdentity claims token), w1))"

definition mw_AuthenticateOptional ::
  "('u, 'r, 'g, 'c) deps \<Rightarrow> string \<Rightarrow> ('u, 'r, 'g, 'c) world \<Rightarrow> bearer_identity option \<times> ('u, 'r, 'g, 'c) world" where
  "mw_AuthenticateOptional D header w =
     (case verifyBearer D header w of
        (None, w1) \<Rightarrow> (None, w1)
      | (Some (claims, token), w1) \<Rightarrow> (Some (setBearerIdentity claims token), w1))"

section \<open>Introspection\<close>

record introspect_query =
  iq_ClientID :: string
  iq_ClientSecret :: string
  iq_BasicClientID :: string
  iq_BasicClientSecret :: string
  iq_Token :: string
  iq_TokenTypeHint :: "string option"

record introspect_response =
  ir_Active :: bool
  ir_Sub :: string
  ir_Issuer :: string
  ir_Audience :: "string list"
  ir_Scope :: string
  ir_ExpiresAt :: int
  ir_IssuedAt :: int
  ir_JWTID :: string
  ir_TokenType :: string

definition inactive_response :: introspect_response where
  "inactive_response = \<lparr>ir_Active = False, ir_Sub = [], ir_Issuer = [], ir_Audience = [], ir_Scope = [],
     ir_ExpiresAt = 0, ir_IssuedAt = 0, ir_JWTID = [], ir_TokenType = []\<rparr>"

definition active_response :: "claims \<Rightarrow> introspect_response" where
  "active_response claims = \<lparr>ir_Active = True, ir_Sub = cl_Subject claims, ir_Issuer = cl_Issuer claims,
     ir_Audience = cl_Audience claims, ir_Scope = cl_Scope claims,
     ir_ExpiresAt = (case cl_ExpiresAt claims of None \<Rightarrow> 0 | Some t \<Rightarrow> unix t),
     ir_IssuedAt = (case cl_IssuedAt claims of None \<Rightarrow> 0 | Some t \<Rightarrow> unix t),
     ir_JWTID = cl_ID claims, ir_TokenType = ''Bearer''\<rparr>"

definition authorizeCaller :: "('u, 'r, 'g, 'c) deps \<Rightarrow> introspect_query \<Rightarrow> go_error option" where
  "authorizeCaller D q =
     (if iq_ClientID q = [] \<and> iq_BasicClientID q = [] then Some NewErrInvalidClient
      else case Authenticate (d_prims D) (d_registry D)
             \<lparr>cc_ClientID = iq_ClientID q, cc_FormSecret = iq_ClientSecret q,
              cc_BasicClientID = iq_BasicClientID q, cc_BasicSecret = iq_BasicClientSecret q\<rparr> of
          Inl err \<Rightarrow> Some NewErrInvalidClient
        | Inr client \<Rightarrow> if client_IsPublic client then Some NewErrInvalidClient else None)"

text \<open>The three checks: blacklist, grant, invalidated sessions. A failing read denies.\<close>

definition introspect_active ::
  "('u, 'r, 'g, 'c) deps \<Rightarrow> claims \<Rightarrow> ('u, 'r, 'g, 'c) world \<Rightarrow> bool \<times> ('u, 'r, 'g, 'c) world" where
  "introspect_active D claims w =
     (let (ok1, w1) =
        (if cl_ID claims \<noteq> [] then
           case on_cache (k_GetErr (d_cache D) (BlacklistKey (cl_ID claims)) DNil) w of
             (Inl err, v) \<Rightarrow> (False, v) | (Inr revoked, v) \<Rightarrow> (revoked = None, v)
         else (True, w)) in
      if \<not> ok1 then (False, w1)
      else let (ok2, w2) =
        (if cl_GrantID claims \<noteq> [] then
           case on_cache (k_GetErr (d_cache D) (RevokedGrantKey (cl_GrantID claims)) DNil) w1 of
             (Inl err, v) \<Rightarrow> (False, v) | (Inr grantRevoked, v) \<Rightarrow> (grantRevoked = None, v)
         else (True, w1)) in
      if \<not> ok2 then (False, w2)
      else case cl_IssuedAt claims of
          None \<Rightarrow> (True, w2)
        | Some issuedAt \<Rightarrow>
            (case on_cache (k_GetErr (d_cache D) (SessionsInvalidatedKey (cl_Subject claims)) DInt) w2 of
               (Inl err, w3) \<Rightarrow> (False, w3)
             | (Inr (Some (CInt invalidatedAt)), w3) \<Rightarrow> (\<not> unix issuedAt \<le> invalidatedAt, w3)
             | (Inr _, w3) \<Rightarrow> (True, w3)))"

definition IntrospectToken_Execute ::
  "('u, 'r, 'g, 'c) deps \<Rightarrow> introspect_query \<Rightarrow> ('u, 'r, 'g, 'c) world
     \<Rightarrow> (go_error + introspect_response) \<times> ('u, 'r, 'g, 'c) world" where
  "IntrospectToken_Execute D q w =
     (case authorizeCaller D q of
        Some err \<Rightarrow> (Inl err, w)
      | None \<Rightarrow>
          (case on_env (ts_ParseJWT (d_tokens D) (iq_Token q)) w of
             (Inl err, w1) \<Rightarrow> (Inr inactive_response, w1)
           | (Inr claims, w1) \<Rightarrow>
               let (active, w2) = introspect_active D claims w1 in
               (Inr (if active then active_response claims else inactive_response), w2)))"

section \<open>Discovery and keys\<close>

record discovery_response =
  dr_Issuer :: string
  dr_AuthorizationEndpoint :: string
  dr_TokenEndpoint :: string
  dr_UserinfoEndpoint :: string
  dr_JWKSURI :: string
  dr_RevocationEndpoint :: string
  dr_EndSessionEndpoint :: string
  dr_IntrospectionEndpoint :: string
  dr_ResponseTypesSupported :: "string list"
  dr_SubjectTypesSupported :: "string list"
  dr_IDTokenSigningAlgValuesSupported :: "string list"
  dr_ScopesSupported :: "string list"
  dr_GrantTypesSupported :: "string list"
  dr_TokenEndpointAuthMethods :: "string list"
  dr_CodeChallengeMethodsSupported :: "string list"
  dr_ClaimsSupported :: "string list"

definition GetDiscovery_Execute :: "('u, 'r, 'g, 'c) deps \<Rightarrow> discovery_response" where
  "GetDiscovery_Execute D =
     (let issuer = ts_GetIssuer (d_tokens D); endpointURL = TrimRightSlash issuer in
      \<lparr>dr_Issuer = issuer, dr_AuthorizationEndpoint = endpointURL @ ''/authorize'',
       dr_TokenEndpoint = endpointURL @ ''/token'', dr_UserinfoEndpoint = endpointURL @ ''/userinfo'',
       dr_JWKSURI = endpointURL @ ''/.well-known/jwks.json'', dr_RevocationEndpoint = endpointURL @ ''/oidc/revoke'',
       dr_EndSessionEndpoint = endpointURL @ ''/oidc/logout'', dr_IntrospectionEndpoint = endpointURL @ ''/oidc/introspect'',
       dr_ResponseTypesSupported = [''code''], dr_SubjectTypesSupported = [''public''],
       dr_IDTokenSigningAlgValuesSupported = [''RS256''], dr_ScopesSupported = SupportedScopes,
       dr_GrantTypesSupported = [''authorization_code'', ''password'', ''refresh_token''],
       dr_TokenEndpointAuthMethods = [''none'', ''client_secret_basic'', ''client_secret_post''],
       dr_CodeChallengeMethodsSupported = [CodeChallengeMethodS256],
       dr_ClaimsSupported = [''sub'', ''email'', ''email_verified'', ''preferred_username'', ''nickname'', ''updated_at'']\<rparr>)"

definition GetJWKS_Execute :: "('u, 'r, 'g, 'c) deps \<Rightarrow> (string \<times> jwk list) list" where
  "GetJWKS_Execute D = ts_GetJWKS (d_tokens D)"

section \<open>What verification guarantees\<close>

text \<open>Introspection and the middleware decide alike on every token that has an identifier.\<close>

lemma introspect_active_IsRevoked:
  assumes "cl_ID cl \<noteq> []"
  shows "introspect_active D cl w = (case IsRevoked D cl w of (r, w1) \<Rightarrow> (r = Inr False, w1))"
proof -
  let ?get = "\<lambda>k d. on_cache (k_GetErr (d_cache D) k d)"
  have sessions: "(case cl_IssuedAt cl of
      None \<Rightarrow> (True, v)
    | Some issuedAt \<Rightarrow>
        (case ?get (SessionsInvalidatedKey (cl_Subject cl)) DInt v of
           (Inl err, w3) \<Rightarrow> (False, w3)
         | (Inr (Some (CInt invalidatedAt)), w3) \<Rightarrow> (\<not> unix issuedAt \<le> invalidatedAt, w3)
         | (Inr _, w3) \<Rightarrow> (True, w3)))
    = (case sessions_check D cl v of (r, w1) \<Rightarrow> (r = Inr False, w1))" for v
    by (simp add: sessions_check_def split: option.split prod.split sum.split cval.split)
  obtain r1 v1 where a: "?get (BlacklistKey (cl_ID cl)) DNil w = (r1, v1)" by (metis surj_pair)
  obtain r2 v2 where b: "?get (RevokedGrantKey (cl_GrantID cl)) DNil v1 = (r2, v2)" by (metis surj_pair)
  show ?thesis
    unfolding introspect_active_def IsRevoked_def grant_check_def a b sessions Let_def
    using assms by (cases r1; cases r2) (simp_all split: prod.split sum.split)
qed

context auth_app
begin

text \<open>A read of a marker denies while the marker is set, whether or not it fails.\<close>

lemma marker_denies:
  assumes "on_cache (k_GetErr (d_cache D) k DNil) w = (r, w1)"
    and "\<forall>t \<le> until. live (w_cache w) t k = Some v" and "clock (w_env w1) \<le> until"
  shows "r \<noteq> Inr None"
  using ca.marker_read [of until "w_cache w" k v "w_env w" r "w_cache w1" "w_env w1"] on_cacheD [OF assms(1)] assms(2,3)
  by auto

lemma GetErr_step:
  assumes "on_cache (k_GetErr (d_cache D) k d) w = (r, w1)"
  shows "env_le (w_env w) (w_env w1) \<and> (\<forall>k' t. clock (w_env w1) \<le> t \<longrightarrow> live (w_cache w1) t k' = live (w_cache w) t k')
    \<and> w_users w1 = w_users w \<and> w_rts w1 = w_rts w \<and> w_grants w1 = w_grants w"
proof -
  note A = on_cacheD [OF assms]
  then have g: "k_GetErr (d_cache D) k d (w_cache w) (w_env w) = (r, w_cache w1, w_env w1)" by simp
  show ?thesis using A ca.GetErr_env [OF g] ca.GetErr_frame [OF g] by simp
qed

text \<open>
  A blacklisted token is refused, and so is every token of a revoked grant, until the marker
  expires: no verdict \<open>Inr False\<close> is possible.
\<close>

lemma blacklisted_refused:
  assumes "IsRevoked D cl w = (r, w1)" and "\<forall>t \<le> until. live (w_cache w) t (BlacklistKey (cl_ID cl)) = Some (CBool True)"
    and "clock (w_env w1) \<le> until"
  shows "r \<noteq> Inr False"
proof
  assume no: "r = Inr False"
  obtain f w0 where a: "on_cache (k_GetErr (d_cache D) (BlacklistKey (cl_ID cl)) DNil) w = (f, w0)" by (metis surj_pair)
  have none: "f = Inr None" and rest: "case grant_check D cl w0 of (Inl err, w2) \<Rightarrow> False
      | (Inr g, w2) \<Rightarrow> \<not> g \<and> sessions_check D cl w2 = (Inr False, w1)"
    using assms(1) no a by (auto simp: IsRevoked_def split: sum.splits prod.splits if_splits)
  have "env_le (w_env w0) (w_env w1)"
    using rest by (auto simp: grant_check_def sessions_check_def
        split: prod.splits sum.splits if_splits option.splits cval.splits dest!: GetErr_step intro: env_le_trans)
  with assms(3) have "clock (w_env w0) \<le> until" by (simp add: env_le_def)
  from marker_denies [OF a assms(2) this] none show False by simp
qed

lemma revoked_grant_refused:
  assumes run: "IsRevoked D cl w = (r, w1)" and g: "cl_GrantID cl \<noteq> []"
    and mark: "\<forall>t. clock (w_env w) \<le> t \<longrightarrow> t \<le> until \<longrightarrow> live (w_cache w) t (RevokedGrantKey (cl_GrantID cl)) = Some (CBool True)"
    and time: "clock (w_env w1) \<le> until"
  shows "r \<noteq> Inr False"
proof
  assume no: "r = Inr False"
  obtain f w0 where a: "on_cache (k_GetErr (d_cache D) (BlacklistKey (cl_ID cl)) DNil) w = (f, w0)" by (metis surj_pair)
  obtain h w2 where b: "on_cache (k_GetErr (d_cache D) (RevokedGrantKey (cl_GrantID cl)) DNil) w0 = (h, w2)" by (metis surj_pair)
  have none: "h = Inr None" and rest: "sessions_check D cl w2 = (Inr False, w1)"
    using run no a b g by (auto simp: IsRevoked_def grant_check_def split: sum.splits prod.splits if_splits)
  note A = GetErr_step [OF a] and B = GetErr_step [OF b]
  have "env_le (w_env w2) (w_env w1)"
    using rest by (auto simp: sessions_check_def
        split: prod.splits sum.splits option.splits cval.splits dest!: GetErr_step)
  then have t2: "clock (w_env w2) \<le> until" using time by (simp add: env_le_def)
  have ck: "clock (w_env w) \<le> clock (w_env w2)" "clock (w_env w0) \<le> clock (w_env w2)" using A B by (simp_all add: env_le_def)
  have "live (w_cache w0) (clock (w_env w2)) (RevokedGrantKey (cl_GrantID cl)) = Some (CBool True)"
    using A ck mark t2 by simp
  moreover have "k_GetErr (d_cache D) (RevokedGrantKey (cl_GrantID cl)) DNil (w_cache w0) (w_env w0) = (h, w_cache w2, w_env w2)"
    using on_cacheD [OF b] by simp
  ultimately show False using ca.GetErr_reliable none by fastforce
qed

text \<open>
  A token issued no later than the second in which its user's sessions were invalidated is refused
  while the invalidation marker lives.
\<close>

lemma invalidated_session_refused:
  assumes run: "IsRevoked D cl w = (r, w1)" and iat: "cl_IssuedAt cl = Some ia" "unix ia \<le> n"
    and mark: "\<forall>t. clock (w_env w) \<le> t \<longrightarrow> t \<le> until \<longrightarrow> live (w_cache w) t (SessionsInvalidatedKey (cl_Subject cl)) = Some (CInt n)"
    and time: "clock (w_env w1) \<le> until"
  shows "r \<noteq> Inr False"
proof
  assume no: "r = Inr False"
  obtain f w0 where a: "on_cache (k_GetErr (d_cache D) (BlacklistKey (cl_ID cl)) DNil) w = (f, w0)" by (metis surj_pair)
  obtain w2 where b: "grant_check D cl w0 = (Inr False, w2)" and c: "sessions_check D cl w2 = (Inr False, w1)"
    using run no a by (auto simp: IsRevoked_def split: sum.splits prod.splits if_splits)
  have B: "env_le (w_env w0) (w_env w2)
      \<and> (\<forall>k' t. clock (w_env w2) \<le> t \<longrightarrow> live (w_cache w2) t k' = live (w_cache w0) t k')"
    using b by (auto simp: grant_check_def split: if_splits sum.splits prod.splits dest!: GetErr_step)
  obtain h where d: "on_cache (k_GetErr (d_cache D) (SessionsInvalidatedKey (cl_Subject cl)) DInt) w2 = (h, w1)"
    and h: "h \<noteq> Inr (Some (CInt n))"
    using c iat by (auto simp: sessions_check_def split: prod.splits sum.splits option.splits cval.splits)
  note A = GetErr_step [OF a] and C = GetErr_step [OF d]
  have ck: "clock (w_env w0) \<le> clock (w_env w1)" "clock (w_env w2) \<le> clock (w_env w1)" "clock (w_env w) \<le> clock (w_env w1)"
    using A B C by (simp_all add: env_le_def)
  have lv: "live (w_cache w2) (clock (w_env w1)) (SessionsInvalidatedKey (cl_Subject cl)) = Some (CInt n)"
    using A B ck mark time by simp
  have g: "k_GetErr (d_cache D) (SessionsInvalidatedKey (cl_Subject cl)) DInt (w_cache w2) (w_env w2) = (h, w_cache w1, w_env w1)"
    using on_cacheD [OF d] by simp
  have "h = Inr (Some (CInt n))" using ca.GetErr_reliable [OF g] lv by (simp add: decoded_def)
  with h show False ..
qed

end

end
