(* ===== verification/Invariant.thy ===== *)
theory Invariant
  imports UC_Account UC_Verify
begin

text \<open>
  The state invariant of the server and the order in which its state evolves, with one lemma per
  operation of the ports and one per use case. Both are relative to a random source that does not
  repeat itself.
\<close>

section \<open>Order of states\<close>

definition token_hash :: "prims \<Rightarrow> nat \<Rightarrow> string" where
  "token_hash p k = Hash p (RawURLEncoding_EncodeToString (p_rand p k TokenBytes))"

definition fresh_source :: "prims \<Rightarrow> bool" where
  "fresh_source p \<longleftrightarrow> inj (p_uuid p) \<and> (\<forall>n. p_uuid p n \<noteq> []) \<and> inj (token_hash p)"

text \<open>A stored token never changes except that it is revoked, once; a grant may also be extended.\<close>

definition row_later :: "refresh_token \<Rightarrow> refresh_token \<Rightarrow> bool" where
  "row_later x y \<longleftrightarrow> (\<exists>t. y = x\<lparr>RT_RevokedAt := t\<rparr>) \<and> (RT_RevokedAt x \<noteq> None \<longrightarrow> RT_RevokedAt y = RT_RevokedAt x)"

definition grant_later :: "grant \<Rightarrow> grant \<Rightarrow> bool" where
  "grant_later g g' \<longleftrightarrow> G_ID g' = G_ID g \<and> G_UserID g' = G_UserID g \<and> G_ClientID g' = G_ClientID g
     \<and> (G_RevokedAt g \<noteq> None \<longrightarrow> G_RevokedAt g' = G_RevokedAt g)"

definition user_later :: "user \<Rightarrow> user \<Rightarrow> bool" where
  "user_later u u' \<longleftrightarrow> U_ID u' = U_ID u"

definition later :: "('a \<Rightarrow> 'a \<Rightarrow> bool) \<Rightarrow> (string \<rightharpoonup> 'a) \<Rightarrow> (string \<rightharpoonup> 'a) \<Rightarrow> bool" where
  "later R m m' \<longleftrightarrow> (\<forall>i x. m i = Some x \<longrightarrow> (\<exists>y. m' i = Some y \<and> R x y))"

lemma row_later_upd: "(RT_RevokedAt x \<noteq> None \<Longrightarrow> t = RT_RevokedAt x) \<Longrightarrow> row_later x (x\<lparr>RT_RevokedAt := t\<rparr>)"
  by (auto simp: row_later_def)

lemma row_later_refl [simp]: "row_later x x"
  using row_later_upd [of x "RT_RevokedAt x"] by simp

lemma row_later_trans: "row_later x y \<Longrightarrow> row_later y z \<Longrightarrow> row_later x z"
  by (clarsimp simp: row_later_def) auto

lemma grant_later_refl [simp]: "grant_later g g" by (simp add: grant_later_def)

lemma grant_later_trans: "grant_later x y \<Longrightarrow> grant_later y z \<Longrightarrow> grant_later x z"
  by (auto simp: grant_later_def)

lemma user_later_refl [simp]: "user_later u u" by (simp add: user_later_def)

lemma user_later_trans: "user_later x y \<Longrightarrow> user_later y z \<Longrightarrow> user_later x z"
  by (auto simp: user_later_def)

lemma later_refl: "(\<And>x. R x x) \<Longrightarrow> later R m m" by (simp add: later_def)

lemma later_trans:
  assumes "\<And>x y z. R x y \<Longrightarrow> R y z \<Longrightarrow> R x z" and "later R a b" and "later R b c"
  shows "later R a c"
  using assms unfolding later_def by metis

lemma later_upd: "(\<And>x. R x x) \<Longrightarrow> (\<And>x. m i = Some x \<Longrightarrow> R x y) \<Longrightarrow> later R m (m(i \<mapsto> y))"
  by (simp add: later_def)

lemma row_later_fields:
  assumes "row_later x y"
  shows "RT_ID y = RT_ID x" "RT_TokenHash y = RT_TokenHash x" "RT_GrantID y = RT_GrantID x" "RT_UserID y = RT_UserID x"
    "RT_AuthenticatedAt y = RT_AuthenticatedAt x" "RT_RevokedAt y = None \<Longrightarrow> RT_RevokedAt x = None"
  using assms by (auto simp: row_later_def)

lemma revoked_as_later: "revoked_as sel x y \<Longrightarrow> row_later x y"
  by (auto simp: revoked_as_def intro: row_later_upd split: if_splits)

lemma below_mono: "\<exists>n < a. P n \<Longrightarrow> (a :: nat) \<le> b \<Longrightarrow> \<exists>n < b. P n"
  by (meson less_le_trans)

lemma bulk_revoked_later: "bulk_revoked sel m m' \<Longrightarrow> rel_option row_later (m i) (m' i)"
  unfolding bulk_revoked_def by (metis (no_types, lifting) option.rel_mono_strong revoked_as_later)

section \<open>The invariant\<close>

context auth_app
begin

text \<open>
  What every stored token satisfies: its hash is that of an earlier draw, its grant and its
  identifier are earlier UUIDs, its grant is on record (the grant is stored first) and so is its
  user, and the sign-in it descends from is in the past.
\<close>

definition row_ok :: "('u, 'r, 'g, 'c) world \<Rightarrow> refresh_token \<Rightarrow> bool" where
  "row_ok w x \<longleftrightarrow> (\<exists>k < rand_ctr (w_env w). RT_TokenHash x = token_hash (d_prims D) k)
     \<and> (\<exists>n < uuid_ctr (w_env w). RT_GrantID x = p_uuid (d_prims D) n)
     \<and> (\<exists>n < uuid_ctr (w_env w). RT_ID x = p_uuid (d_prims D) n)
     \<and> (\<exists>g. grants (w_grants w) (RT_GrantID x) = Some g)
     \<and> (\<exists>u. users (w_users w) (RT_UserID x) = Some u)
     \<and> RT_AuthenticatedAt x \<le> clock (w_env w)"

definition sys_inv :: "('u, 'r, 'g, 'c) world \<Rightarrow> bool" where
  "sys_inv w \<longleftrightarrow> wok w
     \<and> (\<forall>i x. rows (w_rts w) i = Some x \<longrightarrow> row_ok w x)
     \<and> (\<forall>i g. grants (w_grants w) i = Some g \<longrightarrow> (\<exists>n < uuid_ctr (w_env w). i = p_uuid (d_prims D) n))
     \<and> (\<forall>i u h. users (w_users w) i = Some u \<longrightarrow> U_PasswordResetTokenHash u = Some h \<longrightarrow>
          (\<exists>k < rand_ctr (w_env w). h = token_hash (d_prims D) k))
     \<and> (\<forall>i j x y. rows (w_rts w) i = Some x \<longrightarrow> rows (w_rts w) j = Some y \<longrightarrow> RT_RevokedAt x = None \<longrightarrow>
          RT_RevokedAt y = None \<longrightarrow> RT_GrantID x = RT_GrantID y \<longrightarrow> i = j)"

definition evolves :: "('u, 'r, 'g, 'c) world \<Rightarrow> ('u, 'r, 'g, 'c) world \<Rightarrow> bool" where
  "evolves w w' \<longleftrightarrow> env_le (w_env w) (w_env w')
     \<and> later row_later (rows (w_rts w)) (rows (w_rts w'))
     \<and> later grant_later (grants (w_grants w)) (grants (w_grants w'))
     \<and> later user_later (users (w_users w)) (users (w_users w'))"

text \<open>\<open>good w0 w\<close>: a request that started in \<open>w0\<close> has reached \<open>w\<close>.\<close>

definition good :: "('u, 'r, 'g, 'c) world \<Rightarrow> ('u, 'r, 'g, 'c) world \<Rightarrow> bool" where
  "good w0 w \<longleftrightarrow> sys_inv w \<and> evolves w0 w"

lemma evolves_refl: "evolves w w"
  by (simp add: evolves_def later_refl)

lemma evolves_trans: "evolves a b \<Longrightarrow> evolves b c \<Longrightarrow> evolves a c"
  unfolding evolves_def
  by (auto intro: env_le_trans later_trans [OF row_later_trans] later_trans [OF grant_later_trans] later_trans [OF user_later_trans])

lemma good_wok: "good w0 w \<Longrightarrow> wok w"
  by (simp add: good_def sys_inv_def)

lemma row_ok_mono:
  assumes "row_ok w x" and "evolves w w'"
  shows "row_ok w' x"
proof -
  have ctr: "rand_ctr (w_env w) \<le> rand_ctr (w_env w')" "uuid_ctr (w_env w) \<le> uuid_ctr (w_env w')"
    "clock (w_env w) \<le> clock (w_env w')" using assms(2) by (auto simp: evolves_def env_le_def)
  have "\<exists>g. grants (w_grants w') (RT_GrantID x) = Some g" "\<exists>u. users (w_users w') (RT_UserID x) = Some u"
    using assms unfolding row_ok_def evolves_def later_def by blast+
  moreover have "RT_AuthenticatedAt x \<le> clock (w_env w')" using assms(1) ctr(3) by (simp add: row_ok_def)
  moreover note below_mono [OF _ ctr(1), of "\<lambda>k. RT_TokenHash x = token_hash (d_prims D) k"]
    below_mono [OF _ ctr(2), of "\<lambda>n. RT_GrantID x = p_uuid (d_prims D) n"]
    below_mono [OF _ ctr(2), of "\<lambda>n. RT_ID x = p_uuid (d_prims D) n"]
  ultimately show ?thesis using assms(1) unfolding row_ok_def by simp
qed

text \<open>The general step: no new token; existing ones may be revoked.\<close>

lemma good_core:
  assumes g: "good w0 w" and ok: "wok w'" and le: "env_le (w_env w) (w_env w')"
    and rows': "\<And>i. rel_option row_later (rows (w_rts w) i) (rows (w_rts w') i)"
    and grants': "later grant_later (grants (w_grants w)) (grants (w_grants w'))"
    and newg: "\<And>i x. grants (w_grants w') i = Some x \<Longrightarrow> grants (w_grants w) i = None \<Longrightarrow>
        \<exists>n < uuid_ctr (w_env w'). i = p_uuid (d_prims D) n"
    and users': "later user_later (users (w_users w)) (users (w_users w'))"
    and hash: "\<And>i u h. users (w_users w') i = Some u \<Longrightarrow> U_PasswordResetTokenHash u = Some h \<Longrightarrow>
        (\<exists>k < rand_ctr (w_env w'). h = token_hash (d_prims D) k) \<or> (\<exists>j v. users (w_users w) j = Some v \<and> U_PasswordResetTokenHash v = Some h)"
  shows "good w0 w'"
proof -
  have fwd: "\<exists>y. rows (w_rts w') i = Some y \<and> row_later x y" if "rows (w_rts w) i = Some x" for i x
    using rows' [of i] that by (auto simp: option_rel_Some1)
  have bwd: "\<exists>x. rows (w_rts w) i = Some x \<and> row_later x y" if "rows (w_rts w') i = Some y" for i y
    using rows' [of i] that by (auto simp: option_rel_Some2)
  have ev: "evolves w w'" unfolding evolves_def using le grants' users' fwd by (auto simp: later_def)
  have inv: "sys_inv w" using g by (simp add: good_def)
  have ctr: "rand_ctr (w_env w) \<le> rand_ctr (w_env w')" "uuid_ctr (w_env w) \<le> uuid_ctr (w_env w')"
    using le by (auto simp: env_le_def)
  have R: "row_ok w' y" if y: "rows (w_rts w') i = Some y" for i y
  proof -
    obtain x where x: "rows (w_rts w) i = Some x" "row_later x y" using bwd [OF y] by blast
    then have "row_ok w x" using inv by (simp add: sys_inv_def)
    from row_ok_mono [OF this ev] row_later_fields [OF x(2)] show ?thesis by (simp add: row_ok_def)
  qed
  have G: "\<exists>n < uuid_ctr (w_env w'). i = p_uuid (d_prims D) n" if "grants (w_grants w') i = Some x" for i x
  proof (cases "grants (w_grants w) i")
    case None
    with newg that show ?thesis by blast
  next
    case (Some z)
    then have "\<exists>n < uuid_ctr (w_env w). i = p_uuid (d_prims D) n" using inv by (simp add: sys_inv_def)
    from below_mono [OF this ctr(2)] show ?thesis .
  qed
  have H: "\<exists>k < rand_ctr (w_env w'). h = token_hash (d_prims D) k"
    if "users (w_users w') i = Some u" "U_PasswordResetTokenHash u = Some h" for i u h
  proof -
    have "\<exists>k < rand_ctr (w_env w). h = token_hash (d_prims D) k" if "users (w_users w) j = Some v" "U_PasswordResetTokenHash v = Some h" for j v
      using inv that by (simp add: sys_inv_def)
    with hash [OF that] below_mono [OF _ ctr(1), of "\<lambda>k. h = token_hash (d_prims D) k"] show ?thesis by auto
  qed
  have L: "i = j" if "rows (w_rts w') i = Some x" "rows (w_rts w') j = Some y" "RT_RevokedAt x = None" "RT_RevokedAt y = None"
    "RT_GrantID x = RT_GrantID y" for i j x y
  proof -
    from bwd [OF that(1)] bwd [OF that(2)] obtain x0 y0 where
      0: "rows (w_rts w) i = Some x0" "row_later x0 x" "rows (w_rts w) j = Some y0" "row_later y0 y" by blast
    have "RT_RevokedAt x0 = None" "RT_RevokedAt y0 = None" "RT_GrantID x0 = RT_GrantID y0"
      using row_later_fields [OF 0(2)] row_later_fields [OF 0(4)] that by auto
    with 0 inv show ?thesis unfolding sys_inv_def by blast
  qed
  have "sys_inv w'" unfolding sys_inv_def using ok R G H L by blast
  moreover have "evolves w0 w'" using g ev evolves_trans by (auto simp: good_def)
  ultimately show ?thesis by (simp add: good_def)
qed

lemma good_frame:
  assumes "good w0 w" and "env_le (w_env w) (w_env w')" and "wok w'" and "rows (w_rts w') = rows (w_rts w)"
    and "grants (w_grants w') = grants (w_grants w)" and "users (w_users w') = users (w_users w)"
  shows "good w0 w'"
  by (rule good_core [OF assms(1,3,2)]) (auto simp: assms later_refl option.rel_refl)

lemma good_start: "sys_inv w \<Longrightarrow> good w w"
  by (simp add: good_def evolves_refl)

section \<open>One lemma per operation\<close>

lemma g_env:
  assumes "on_env f w = (x, w')" and "good w0 w" and "\<And>e x e'. f e = (x, e') \<Longrightarrow> env_le e e'"
  shows "good w0 w'"
  using on_envD [OF assms(1)] good_wok [OF assms(2)] assms(3)
  by (intro good_frame [OF assms(2)]) (auto simp: wok_def)

lemma g_cache:
  assumes "on_cache f w = (x, w')" and "good w0 w" and "\<And>c e x c' e'. f c e = (x, c', e') \<Longrightarrow> env_le e e'"
  shows "good w0 w'"
  using on_cacheD [OF assms(1)] good_wok [OF assms(2)] assms(3)
  by (intro good_frame [OF assms(2)]) (auto simp: wok_def)

lemma g_Set: "on_cache (k_Set (d_cache D) k v ttl) w = (x, w') \<Longrightarrow> good w0 w \<Longrightarrow> good w0 w'"
  by (rule g_cache) (auto dest: ca.Set_env)

lemma g_GetErr: "on_cache (k_GetErr (d_cache D) k d) w = (x, w') \<Longrightarrow> good w0 w \<Longrightarrow> good w0 w'"
  by (rule g_cache) (auto dest: ca.GetErr_env)

lemma g_GetAndDelete: "on_cache (k_GetAndDelete (d_cache D) k d) w = (x, w') \<Longrightarrow> good w0 w \<Longrightarrow> good w0 w'"
  by (rule g_cache) (auto dest: ca.GetAndDelete_env)

lemma g_MarkGrant: "on_cache (MarkGrantRevoked (d_cache D) g) w = (x, w') \<Longrightarrow> good w0 w \<Longrightarrow> good w0 w'"
  unfolding MarkGrantRevoked_def by (rule g_Set)

lemma g_MarkSessions: "on_cache (MarkSessionsInvalidated (d_cache D) u t) w = (x, w') \<Longrightarrow> good w0 w \<Longrightarrow> good w0 w'"
  unfolding MarkSessionsInvalidated_def by (rule g_Set)

lemma g_Blacklist: "on_cache (BlacklistJTI (d_cache D) j t) w = (x, w') \<Longrightarrow> good w0 w \<Longrightarrow> good w0 w'"
  by (rule g_cache) (auto dest: ca.BlacklistJTI_live)

lemma g_now: "on_env now w = (x, w') \<Longrightarrow> good w0 w \<Longrightarrow> good w0 w'"
  by (rule g_env) (auto dest: now_le)

lemma g_Parse: "on_env (ts_ParseJWT (d_tokens D) tok) w = (x, w') \<Longrightarrow> good w0 w \<Longrightarrow> good w0 w'"
  by (rule g_env) (auto dest: tk.Parse_env)

lemma g_Issue: "on_env (IssueTokens (d_prims D) (d_tokens D) a) w = (x, w') \<Longrightarrow> good w0 w \<Longrightarrow> good w0 w'"
  by (rule g_env) (auto dest: tk.IssueTokens_env)

lemma g_rt_IsValid: "on_env (rt_IsValid y) w = (x, w') \<Longrightarrow> good w0 w \<Longrightarrow> good w0 w'"
  by (rule g_env) (auto simp: rt_IsValid_def split: if_splits prod.splits dest: now_le)

lemma g_grant_IsValid: "on_env (grant_IsValid y) w = (x, w') \<Longrightarrow> good w0 w \<Longrightarrow> good w0 w'"
  by (rule g_env) (auto simp: grant_IsValid_def split: if_splits prod.splits dest: now_le)

lemma g_expired: "on_env (claims_IsExpired y) w = (x, w') \<Longrightarrow> good w0 w \<Longrightarrow> good w0 w'"
  by (rule g_env) (auto dest: claims_expired)

lemma g_locked: "on_env (user_IsLockedOut y) w = (x, w') \<Longrightarrow> good w0 w \<Longrightarrow> good w0 w'"
  by (rule g_env) (auto simp: user_IsLockedOut_def split: option.splits prod.splits dest: now_le)

lemma g_rehash: "on_env (RehashPasswordIfNeeded p y pw) w = (x, w') \<Longrightarrow> good w0 w \<Longrightarrow> good w0 w'"
  by (rule g_env) (auto simp: RehashPasswordIfNeeded_def env_le_def split: option.splits prod.splits sum.splits if_splits
      dest!: hashPassword_env nowD)

lemma g_failed: "on_env (RecordFailedLogin y) w = (x, w') \<Longrightarrow> good w0 w \<Longrightarrow> good w0 w'"
  by (rule g_env) (auto dest: RecordFailedLogin_le)

lemma g_reset: "on_env (ResetFailedLogins y) w = (x, w') \<Longrightarrow> good w0 w \<Longrightarrow> good w0 w'"
  by (rule g_env) (auto simp: ResetFailedLogins_def split: prod.splits dest: now_le)

lemma g_NewUser: "on_env (NewUser p a) w = (x, w') \<Longrightarrow> good w0 w \<Longrightarrow> good w0 w'"
  by (rule g_env) (auto dest: NewUser_env)

lemma g_rt_Find:
  assumes "on_rts (rt_FindByTokenHash (d_rts D) h) w = (x, w')" and "good w0 w"
  shows "good w0 w'"
proof -
  note A = on_rtsD [OF assms(1)]
  have f: "rt_FindByTokenHash (d_rts D) h (w_rts w) (w_env w) = (x, w_rts w', w_env w')" using A by simp
  have "rok (w_rts w)" using good_wok [OF assms(2)] by (simp add: wok_def)
  from rt.rt_Find [OF f this] A good_wok [OF assms(2)] show ?thesis
    by (intro good_frame [OF assms(2)]) (simp_all add: wok_def)
qed

lemma g_gr_Find:
  assumes "on_grants (gr_FindByID (d_grants D) i) w = (x, w')" and "good w0 w"
  shows "good w0 w'"
proof -
  note A = on_grantsD [OF assms(1)]
  have f: "gr_FindByID (d_grants D) i (w_grants w) (w_env w) = (x, w_grants w', w_env w')" using A by simp
  have "gok (w_grants w)" using good_wok [OF assms(2)] by (simp add: wok_def)
  from gr.grant_Find [OF f this] A good_wok [OF assms(2)] show ?thesis
    by (intro good_frame [OF assms(2)]) (simp_all add: wok_def)
qed

lemma g_us_FindByID:
  assumes "on_users (ur_FindByID (d_users D) i) w = (x, w')" and "good w0 w"
  shows "good w0 w'"
proof -
  note A = on_usersD [OF assms(1)]
  have f: "ur_FindByID (d_users D) i (w_users w) (w_env w) = (x, w_users w', w_env w')" using A by simp
  have "uok (w_users w)" using good_wok [OF assms(2)] by (simp add: wok_def)
  from us.user_FindByID [OF f this] A good_wok [OF assms(2)] show ?thesis
    by (intro good_frame [OF assms(2)]) (simp_all add: wok_def)
qed

lemma g_us_FindByEmail:
  assumes "on_users (ur_FindByEmail (d_users D) DefaultTenantID em) w = (x, w')" and "good w0 w"
  shows "good w0 w'"
proof -
  note A = on_usersD [OF assms(1)]
  have f: "ur_FindByEmail (d_users D) DefaultTenantID em (w_users w) (w_env w) = (x, w_users w', w_env w')" using A by simp
  have "uok (w_users w)" using good_wok [OF assms(2)] by (simp add: wok_def)
  from us.user_FindByEmail [OF f this] A good_wok [OF assms(2)] show ?thesis
    by (intro good_frame [OF assms(2)]) (simp_all add: wok_def)
qed

lemma g_rt_Revoke:
  assumes "on_rts (rt_RevokeByTokenHash (d_rts D) h) w = (x, w')" and "good w0 w"
  shows "good w0 w'"
proof -
  note A = on_rtsD [OF assms(1)]
  have f: "rt_RevokeByTokenHash (d_rts D) h (w_rts w) (w_env w) = (x, w_rts w', w_env w')" using A by simp
  have rokw: "rok (w_rts w)" using good_wok [OF assms(2)] by (simp add: wok_def)
  note R = rt.rt_Revoke [OF f rokw]
  have "rel_option row_later (rows (w_rts w) i) (rows (w_rts w') i)" for i
  proof (cases x)
    case None
    then obtain y t where y: "row_at (rows (w_rts w)) h y" "RT_RevokedAt y = None"
      "rows (w_rts w') = (rows (w_rts w))(RT_ID y \<mapsto> y\<lparr>RT_RevokedAt := Some t\<rparr>)" using R by auto
    then show ?thesis by (auto simp: row_at_def option.rel_refl intro: row_later_upd)
  next
    case (Some er)
    with R show ?thesis by (simp add: option.rel_refl)
  qed
  moreover have "wok w'" using A R good_wok [OF assms(2)] by (simp add: wok_def)
  ultimately show ?thesis using A R by (intro good_core [OF assms(2)]) (auto simp: later_refl)
qed

lemma g_bulk:
  assumes "on_rts f w = (x, w')" and "good w0 w"
    and "rok (w_rts w) \<Longrightarrow> rok (w_rts w') \<and> env_le (w_env w) (w_env w')
      \<and> (x = None \<and> bulk_revoked sel (rows (w_rts w)) (rows (w_rts w')) \<or> x \<noteq> None \<and> rows (w_rts w') = rows (w_rts w))"
  shows "good w0 w'"
proof -
  note A = on_rtsD [OF assms(1)]
  have R: "rok (w_rts w') \<and> env_le (w_env w) (w_env w')
      \<and> (x = None \<and> bulk_revoked sel (rows (w_rts w)) (rows (w_rts w')) \<or> x \<noteq> None \<and> rows (w_rts w') = rows (w_rts w))"
    by (rule assms(3)) (use good_wok [OF assms(2)] in \<open>simp add: wok_def\<close>)
  have "rel_option row_later (rows (w_rts w) i) (rows (w_rts w') i)" for i
    using R bulk_revoked_later by (auto simp: option.rel_refl)
  moreover have "wok w'" using A R good_wok [OF assms(2)] by (simp add: wok_def)
  ultimately show ?thesis using A R by (intro good_core [OF assms(2)]) (auto simp: later_refl)
qed

lemma g_RevokeAllForGrant:
  assumes "on_rts (rt_RevokeAllForGrant (d_rts D) k) w = (x, w')" and "good w0 w"
  shows "good w0 w'"
proof -
  have f: "rt_RevokeAllForGrant (d_rts D) k (w_rts w) (w_env w) = (x, w_rts w', w_env w')" using on_rtsD [OF assms(1)] by simp
  show ?thesis by (rule g_bulk [OF assms rt.rt_RevokeGrant [OF f]])
qed

lemma g_RevokeAllForUser:
  assumes "on_rts (rt_RevokeAllForUser (d_rts D) k) w = (x, w')" and "good w0 w"
  shows "good w0 w'"
proof -
  have f: "rt_RevokeAllForUser (d_rts D) k (w_rts w) (w_env w) = (x, w_rts w', w_env w')" using on_rtsD [OF assms(1)] by simp
  show ?thesis by (rule g_bulk [OF assms rt.rt_RevokeUser [OF f]])
qed

lemma g_gr_Revoke:
  assumes "on_grants (gr_Revoke (d_grants D) i t) w = (x, w')" and "good w0 w"
  shows "good w0 w'"
proof -
  note A = on_grantsD [OF assms(1)]
  have f: "gr_Revoke (d_grants D) i t (w_grants w) (w_env w) = (x, w_grants w', w_env w')" using A by simp
  have "gok (w_grants w)" using good_wok [OF assms(2)] by (simp add: wok_def)
  note R = gr.grant_Revoke [OF f this]
  have "later grant_later (grants (w_grants w)) (grants (w_grants w'))
      \<and> (\<forall>j. grants (w_grants w) j = None \<longrightarrow> grants (w_grants w') j = None)"
    using R by (auto simp: later_def grant_later_def split: option.splits)
  moreover have "wok w'" using A R good_wok [OF assms(2)] by (simp add: wok_def)
  ultimately show ?thesis using A R by (intro good_core [OF assms(2)]) (auto simp: later_refl option.rel_refl)
qed

text \<open>Storing a grant: a new one under a new identifier, or a live one that is extended.\<close>

lemma g_gr_Save:
  assumes "on_grants (gr_Save (d_grants D) g) w = (x, w')" and "good w0 w"
    and "\<exists>n < uuid_ctr (w_env w). G_ID g = p_uuid (d_prims D) n"
    and "\<And>g0. grants (w_grants w) (G_ID g) = Some g0 \<Longrightarrow> grant_later g0 g"
  shows "good w0 w'"
proof -
  note A = on_grantsD [OF assms(1)]
  have f: "gr_Save (d_grants D) g (w_grants w) (w_env w) = (x, w_grants w', w_env w')" using A by simp
  have "gok (w_grants w)" using good_wok [OF assms(2)] by (simp add: wok_def)
  note R = gr.grant_Save [OF f this]
  have "later grant_later (grants (w_grants w)) (grants (w_grants w'))"
  proof (cases "x = None")
    case True
    then have "grants (w_grants w') = (grants (w_grants w))(G_ID g \<mapsto> g)" using R by simp
    then show ?thesis using later_upd [where R = grant_later, OF grant_later_refl assms(4)] by simp
  next
    case False
    then have "grants (w_grants w') = grants (w_grants w)" using R by blast
    then show ?thesis by (simp add: later_refl)
  qed
  moreover have "\<exists>n < uuid_ctr (w_env w'). j = p_uuid (d_prims D) n"
    if "grants (w_grants w') j = Some y" "grants (w_grants w) j = None" for j y
  proof -
    have "j = G_ID g" using R that by (auto split: if_splits)
    moreover have "uuid_ctr (w_env w) \<le> uuid_ctr (w_env w')" using R by (simp add: env_le_def)
    ultimately show ?thesis using below_mono [OF assms(3)] by blast
  qed
  moreover have "wok w'" using A R good_wok [OF assms(2)] by (simp add: wok_def)
  ultimately show ?thesis using A R by (intro good_core [OF assms(2)]) (auto simp: later_refl option.rel_refl)
qed

text \<open>Changing an account in memory and storing it, identifying fields untouched.\<close>

lemma g_mutate_user:
  assumes "good w0 w" and "users (w_users w) (U_ID u0) = Some u0" and "same_identity u u0"
  shows "good w0 (mutate_user D u w)
    \<and> (\<exists>v. users (w_users (mutate_user D u w)) (U_ID u0) = Some v \<and> same_identity u v)"
proof -
  have uokw: "uok (w_users w)" using good_wok [OF assms(1)] by (simp add: wok_def)
  have id: "U_ID u = U_ID u0" using assms(3) by (simp add: same_identity_def)
  then have at: "users (w_users w) (U_ID u) = Some u0" using assms(2) by simp
  note U = us.user_alias [OF uokw at assms(3)]
  let ?w = "mutate_user D u w"
  have us': "users (w_users ?w) = users (w_users w) \<or> users (w_users ?w) = (users (w_users w))(U_ID u \<mapsto> u)"
    using U by (simp add: mutate_user_def)
  have "wok ?w" using U good_wok [OF assms(1)] by (simp add: wok_def mutate_user_def)
  moreover have "later user_later (users (w_users w)) (users (w_users ?w))"
    using us' at id by (auto simp: later_refl user_later_def intro!: later_upd)
  moreover have "\<exists>j v. users (w_users w) j = Some v \<and> U_PasswordResetTokenHash v = Some h"
    if "users (w_users ?w) i = Some x" "U_PasswordResetTokenHash x = Some h" for i x h
  proof (cases "users (w_users w) i = Some x")
    case False
    then have "x = u" using us' that(1) by (auto split: if_splits)
    then have "U_PasswordResetTokenHash u0 = Some h" using assms(3) that(2) by (simp add: same_identity_def)
    with assms(2) show ?thesis by blast
  qed (use that(2) in blast)
  ultimately have "good w0 ?w"
    by (intro good_core [OF assms(1)]) (auto simp: mutate_user_def later_refl option.rel_refl)
  moreover have "same_identity u u" by (simp add: same_identity_def)
  ultimately show ?thesis using us' at id assms(3) by auto
qed

lemma g_us_Save:
  assumes "on_users (ur_Save (d_users D) u) w = (x, w')" and "good w0 w" and "may_save_user u (users (w_users w))"
    and "\<And>h. U_PasswordResetTokenHash u = Some h \<Longrightarrow> (\<exists>k < rand_ctr (w_env w). h = token_hash (d_prims D) k)
      \<or> (\<exists>j v. users (w_users w) j = Some v \<and> U_PasswordResetTokenHash v = Some h)"
  shows "good w0 w'"
proof -
  note A = on_usersD [OF assms(1)]
  have f: "ur_Save (d_users D) u (w_users w) (w_env w) = (x, w_users w', w_env w')" using A by simp
  have uokw: "uok (w_users w)" using good_wok [OF assms(2)] by (simp add: wok_def)
  note R = us.user_Save [OF f uokw assms(3)]
  have us': "users (w_users w') = users (w_users w) \<or> users (w_users w') = (users (w_users w))(U_ID u \<mapsto> u)" using R by auto
  have "later user_later (users (w_users w)) (users (w_users w'))"
    using us' us.user_keyed [OF uokw] by (auto simp: later_refl user_later_def intro!: later_upd)
  moreover have "(\<exists>k < rand_ctr (w_env w'). h = token_hash (d_prims D) k)
      \<or> (\<exists>j v. users (w_users w) j = Some v \<and> U_PasswordResetTokenHash v = Some h)"
    if "users (w_users w') i = Some y" "U_PasswordResetTokenHash y = Some h" for i y h
  proof -
    have "rand_ctr (w_env w) \<le> rand_ctr (w_env w')" using R by (simp add: env_le_def)
    then have new: "(\<exists>k < rand_ctr (w_env w'). h = token_hash (d_prims D) k)
      \<or> (\<exists>j v. users (w_users w) j = Some v \<and> U_PasswordResetTokenHash v = Some h)" if "U_PasswordResetTokenHash u = Some h"
      using assms(4) [OF that] below_mono [of "rand_ctr (w_env w)" "\<lambda>k. h = token_hash (d_prims D) k"] by auto
    show ?thesis
    proof (cases "users (w_users w) i = Some y")
      case False
      then have "y = u" using us' that(1) by (auto split: if_splits)
      with new that(2) show ?thesis by blast
    qed (use that(2) in blast)
  qed
  moreover have "wok w'" using A R good_wok [OF assms(2)] by (simp add: wok_def)
  ultimately show ?thesis using A R by (intro good_core [OF assms(2)]) (auto simp: later_refl option.rel_refl)
qed

lemma g_save_user:
  assumes "good w0 w" and "users (w_users w) (U_ID v) = Some v" and "same_identity u v"
  shows "good w0 (save_user D u w)"
proof -
  obtain x w' where s: "on_users (ur_Save (d_users D) u) w = (x, w')" by (metis surj_pair)
  have uokw: "uok (w_users w)" using good_wok [OF assms(1)] by (simp add: wok_def)
  have "good w0 w'"
    using us.may_save_same [OF uokw assms(2,3)] assms(2,3)
    by (intro g_us_Save [OF s assms(1)]) (auto simp: same_identity_def)
  then show ?thesis by (simp add: save_user_def s)
qed

text \<open>The first or the next token of a chain: the one event that adds a row.\<close>

lemma g_rt_Save:
  assumes run: "on_rts (rt_Save (d_rts D) new) w = (x, w')" and g: "good w0 w"
    and new: "row_ok w new"
    and hash: "\<And>i y. rows (w_rts w) i = Some y \<Longrightarrow> RT_TokenHash y \<noteq> RT_TokenHash new"
    and id: "rows (w_rts w) (RT_ID new) = None"
    and only: "\<And>i y. rows (w_rts w) i = Some y \<Longrightarrow> RT_GrantID y = RT_GrantID new \<Longrightarrow> RT_RevokedAt y \<noteq> None"
  shows "good w0 w'"
proof -
  note A = on_rtsD [OF run]
  have inv: "sys_inv w" using g by (simp add: good_def)
  have f: "rt_Save (d_rts D) new (w_rts w) (w_env w) = (x, w_rts w', w_env w')" using A by simp
  have "rok (w_rts w)" using good_wok [OF g] by (simp add: wok_def)
  moreover have "fresh_hash new (rows (w_rts w))" using hash by (auto simp: fresh_hash_def)
  ultimately have R: "rok (w_rts w') \<and> env_le (w_env w) (w_env w')
      \<and> (x = None \<and> rows (w_rts w') = (rows (w_rts w))(RT_ID new \<mapsto> new) \<or> x \<noteq> None \<and> rows (w_rts w') = rows (w_rts w))"
    by (rule rt.rt_Save [OF f])
  have ok': "wok w'" using A R good_wok [OF g] by (simp add: wok_def)
  show ?thesis
  proof (cases x)
    case (Some er)
    with A R ok' show ?thesis by (intro good_frame [OF g]) simp_all
  next
    case None
    then have rows': "rows (w_rts w') = (rows (w_rts w))(RT_ID new \<mapsto> new)" using R by simp
    have ev: "evolves w w'"
      using A R id rows' by (auto simp: evolves_def later_refl intro!: later_upd)
    have le: "rand_ctr (w_env w) \<le> rand_ctr (w_env w')" "uuid_ctr (w_env w) \<le> uuid_ctr (w_env w')"
      using R by (simp_all add: env_le_def)
    have "row_ok w' y" if "rows (w_rts w') i = Some y" for i y
      using that rows' inv new row_ok_mono [OF _ ev] by (auto simp: sys_inv_def split: if_splits)
    moreover have "i = j" if "rows (w_rts w') i = Some a" "rows (w_rts w') j = Some b" "RT_RevokedAt a = None"
      "RT_RevokedAt b = None" "RT_GrantID a = RT_GrantID b" for i j a b
    proof -
      have "i = j" if "rows (w_rts w) i = Some a" "rows (w_rts w) j = Some b"
        using that inv \<open>RT_RevokedAt a = None\<close> \<open>RT_RevokedAt b = None\<close> \<open>RT_GrantID a = RT_GrantID b\<close>
        unfolding sys_inv_def by blast
      moreover have "i = RT_ID new \<and> a = new \<or> rows (w_rts w) i = Some a" "j = RT_ID new \<and> b = new \<or> rows (w_rts w) j = Some b"
        using that(1,2) rows' by (auto split: if_splits)
      moreover have False if "y = new" "rows (w_rts w) k = Some z" "RT_RevokedAt z = None" "RT_GrantID z = RT_GrantID y" for k y z
        using only [OF that(2)] that by simp
      ultimately show ?thesis using that by metis
    qed
    moreover have "\<exists>n < uuid_ctr (w_env w'). i = p_uuid (d_prims D) n" if "grants (w_grants w') i = Some z" for i z
    proof -
      have "\<exists>n < uuid_ctr (w_env w). i = p_uuid (d_prims D) n" using that A inv by (simp add: sys_inv_def)
      from below_mono [OF this le(2)] show ?thesis .
    qed
    moreover have "\<exists>k < rand_ctr (w_env w'). h = token_hash (d_prims D) k"
      if "users (w_users w') i = Some u" "U_PasswordResetTokenHash u = Some h" for i u h
    proof -
      have "\<exists>k < rand_ctr (w_env w). h = token_hash (d_prims D) k" using that A inv by (simp add: sys_inv_def)
      from below_mono [OF this le(1)] show ?thesis .
    qed
    ultimately have "sys_inv w'" unfolding sys_inv_def using ok' by blast
    moreover have "evolves w0 w'" using g ev evolves_trans by (auto simp: good_def)
    ultimately show ?thesis by (simp add: good_def)
  qed
qed

end

end
