(* ===== verification/Preserve.thy ===== *)
theory Preserve
  imports Invariant
begin

text \<open>
  Every use case keeps the invariant and only moves the state forward: one lemma per handler, put
  together from the lemmas per operation.
\<close>

section \<open>Issuing tokens\<close>

context drawing_token_port
begin

text \<open>The refresh token an issuance returns is a draw that was made during it.\<close>

lemma IssueTokens_draw:
  assumes "IssueTokens q T req e = (Inr tk, e')"
  shows "\<exists>k. rand_ctr e \<le> k \<and> k < rand_ctr e' \<and> IT_RefreshToken tk = RawURLEncoding_EncodeToString (p_rand p k TokenBytes)"
proof -
  obtain gid ng e1 where g: "issue_grant q req e = ((gid, ng), e1)" by (metis surj_pair)
  obtain at e2 where a: "ts_GenAccessToken T (U_ID (is_User req)) (scope_String (is_Scope req)) gid (is_ExpireSecs req) e1 = (Inr at, e2)"
    using assms g by (auto simp: IssueTokens_def Let_def split: prod.splits sum.splits)
  obtain raw e3 where r: "ts_GenRefreshToken T (U_ID (is_User req)) e2 = (Inr raw, e3)"
    using assms g a by (auto simp: IssueTokens_def Let_def split: prod.splits sum.splits)
  have "env_le e e1" using g by (auto simp: issue_grant_def split: if_splits prod.splits dest: NewGrant_fields(5))
  moreover have "env_le e1 e2" using GenAccess_env [OF a] .
  moreover have "env_le e3 e'" "IT_RefreshToken tk = raw"
    using assms g a r by (auto simp: IssueTokens_def Let_def split: prod.splits sum.splits if_splits dest!: GenID_env)
  ultimately show ?thesis using GenRefresh_draw [OF r] by (intro exI [of _ "rand_ctr e2"]) (simp add: env_le_def)
qed

end

context auth_app
begin

text \<open>A draw made after the state \<open>w\<close> is the hash of no stored token and of no pending reset.\<close>

lemma draw_fresh:
  assumes "good w0 w" and "fresh_source (d_prims D)" and "rand_ctr (w_env w) \<le> k"
  shows "rows (w_rts w) i = Some y \<Longrightarrow> RT_TokenHash y \<noteq> token_hash (d_prims D) k"
    "users (w_users w) i = Some u \<Longrightarrow> U_PasswordResetTokenHash u \<noteq> Some (token_hash (d_prims D) k)"
proof -
  have inj: "token_hash (d_prims D) a = token_hash (d_prims D) b \<Longrightarrow> a = b" for a b
    using assms(2) by (auto simp: fresh_source_def dest: injD)
  have inv: "sys_inv w" using assms(1) by (simp add: good_def)
  show "RT_TokenHash y \<noteq> token_hash (d_prims D) k" if "rows (w_rts w) i = Some y"
  proof -
    have "row_ok w y" using inv that by (simp add: sys_inv_def)
    then obtain j where "j < rand_ctr (w_env w)" "RT_TokenHash y = token_hash (d_prims D) j" by (auto simp: row_ok_def)
    with inj [of j k] assms(3) show ?thesis by auto
  qed
  show "U_PasswordResetTokenHash u \<noteq> Some (token_hash (d_prims D) k)" if "users (w_users w) i = Some u"
  proof
    assume "U_PasswordResetTokenHash u = Some (token_hash (d_prims D) k)"
    with inv that obtain j where "j < rand_ctr (w_env w)" "token_hash (d_prims D) k = token_hash (d_prims D) j"
      unfolding sys_inv_def by blast
    with inj [of k j] assms(3) show False by auto
  qed
qed

lemma uuid_fresh:
  assumes "good w0 w" and "fresh_source (d_prims D)" and "uuid_ctr (w_env w) \<le> k"
  shows "rows (w_rts w) (p_uuid (d_prims D) k) = None" "grants (w_grants w) (p_uuid (d_prims D) k) = None"
    "rows (w_rts w) i = Some y \<Longrightarrow> RT_GrantID y \<noteq> p_uuid (d_prims D) k"
proof -
  have inj: "p_uuid (d_prims D) a = p_uuid (d_prims D) b \<Longrightarrow> a = b" for a b
    using assms(2) by (auto simp: fresh_source_def dest: injD)
  have inv: "sys_inv w" using assms(1) by (simp add: good_def)
  have rokw: "rok (w_rts w)" using good_wok [OF assms(1)] by (simp add: wok_def)
  show "rows (w_rts w) (p_uuid (d_prims D) k) = None"
  proof (rule ccontr)
    assume "rows (w_rts w) (p_uuid (d_prims D) k) \<noteq> None"
    then obtain y where y: "rows (w_rts w) (p_uuid (d_prims D) k) = Some y" by blast
    then have "row_ok w y" using inv by (simp add: sys_inv_def)
    then obtain j where "j < uuid_ctr (w_env w)" "RT_ID y = p_uuid (d_prims D) j" by (auto simp: row_ok_def)
    with rt.rt_keyed [OF rokw y] inj [of j k] assms(3) show False by auto
  qed
  show "grants (w_grants w) (p_uuid (d_prims D) k) = None"
  proof (rule ccontr)
    assume "grants (w_grants w) (p_uuid (d_prims D) k) \<noteq> None"
    then obtain j where "j < uuid_ctr (w_env w)" "p_uuid (d_prims D) k = p_uuid (d_prims D) j"
      using inv unfolding sys_inv_def by blast
    with inj [of k j] assms(3) show False by auto
  qed
  show "RT_GrantID y \<noteq> p_uuid (d_prims D) k" if "rows (w_rts w) i = Some y"
  proof -
    have "row_ok w y" using inv that by (simp add: sys_inv_def)
    then obtain j where "j < uuid_ctr (w_env w)" "RT_GrantID y = p_uuid (d_prims D) j" by (auto simp: row_ok_def)
    with inj [of j k] assms(3) show ?thesis by auto
  qed
qed

lemma row_grant_nonempty:
  assumes "good w0 w" and "fresh_source (d_prims D)" and "rows (w_rts w) i = Some y"
  shows "RT_GrantID y \<noteq> []"
proof -
  have "row_ok w y" using assms(1,3) by (simp add: good_def sys_inv_def)
  then obtain n where "RT_GrantID y = p_uuid (d_prims D) n" by (auto simp: row_ok_def)
  with assms(2) show ?thesis by (simp add: fresh_source_def)
qed

lemma g_NewRT: "on_env (NewRefreshToken p u c tk) w = (x, w') \<Longrightarrow> good w0 w \<Longrightarrow> good w0 w'"
  by (rule g_env) (auto dest: NewRefreshToken_fields(12))

lemma g_Rotate: "on_env (Rotate p r u tk) w = (x, w') \<Longrightarrow> good w0 w \<Longrightarrow> good w0 w'"
  by (rule g_env) (auto dest: Rotate_fields(13))

text \<open>
  Storing the tokens of a sign-in: code exchange and the password grant differ in how they wrap the
  error only.
\<close>

lemma g_store_tokens:
  assumes issue: "on_env (IssueTokens (d_prims D) (d_tokens D) req) w = (Inr tk, w1)"
    and new: "on_env (NewRefreshToken (d_prims D) u cid tk) w1 = (rt, w2)"
    and save: "(case IT_NewGrant tk of None \<Rightarrow> (None, w2)
      | Some g \<Rightarrow> on_grants (gr_Save (d_grants D) (ExtendToCover g (RT_ExpiresAt rt))) w2) = (r, w3)"
    and g: "good w0 w" and src: "fresh_source (d_prims D)" and ex: "is_ExistingGrantID req = []"
    and usr: "users (w_users w) u = Some v"
  shows "good w0 w3 \<and> (r = None \<longrightarrow> on_rts (rt_Save (d_rts D) rt) w3 = (r', w') \<longrightarrow> good w0 w')"
proof (intro conjI impI)
  note I = on_envD [OF issue] and N = on_envD [OF new]
  have i: "IssueTokens (d_prims D) (d_tokens D) req (w_env w) = (Inr tk, w_env w1)"
    and n: "NewRefreshToken (d_prims D) u cid tk (w_env w1) = (rt, w_env w2)" using I N by simp_all
  from tk.IssueTokens_Inr [OF i] ex obtain gr e1 where
    gr: "NewGrant (d_prims D) (U_ID (is_User req)) (is_ClientID req) (w_env w) = (gr, e1)" "IT_NewGrant tk = Some gr"
      "IT_GrantID tk = G_ID gr" by auto
  note gf = NewGrant_fields [OF gr(1)] and rf = NewRefreshToken_fields [OF n]
  have gid: "G_ID gr = p_uuid (d_prims D) (uuid_ctr (w_env w))" "IT_GrantID tk \<noteq> []" "uuid_ctr (w_env w) < uuid_ctr (w_env w1)"
    using gf(4) gr(3) src tk.issue_new_grant_ctr [OF i ex] by (auto simp: fresh_source_def)
  have ids: "RT_ID rt = p_uuid (d_prims D) (uuid_ctr (w_env w1))" "uuid_ctr (w_env w2) = Suc (uuid_ctr (w_env w1))"
    using NewRefreshToken_ID [OF n gid(2)] by simp_all
  from tk.IssueTokens_draw [OF i] obtain k where k: "rand_ctr (w_env w) \<le> k" "k < rand_ctr (w_env w1)"
    "RT_TokenHash rt = token_hash (d_prims D) k" using rf(3) by (auto simp: token_hash_def)
  have good2: "good w0 w2" using g_NewRT [OF new g_Issue [OF issue g]] .
  have g3: "on_grants (gr_Save (d_grants D) (ExtendToCover gr (RT_ExpiresAt rt))) w2 = (r, w3)" using save gr(2) by simp
  have old: "grants (w_grants w2) (G_ID gr) = None" using uuid_fresh(2) [OF g src, of "uuid_ctr (w_env w)"] gid I N by simp
  show good3: "good w0 w3"
    by (rule g_gr_Save [OF g3 good2]) (use old gid ids in \<open>auto simp: ExtendToCover_def intro!: exI [of _ "uuid_ctr (w_env w)"]\<close>)
  assume none: "r = None" and run: "on_rts (rt_Save (d_rts D) rt) w3 = (r', w')"
  note G = grant_saved [OF save [unfolded none] good_wok [OF good2]]
  have le: "rand_ctr (w_env w1) \<le> rand_ctr (w_env w3)" "uuid_ctr (w_env w2) \<le> uuid_ctr (w_env w3)" "clock (w_env w2) \<le> clock (w_env w3)"
    using G rf(12) by (simp_all add: env_le_def)
  have same: "w_rts w3 = w_rts w" "w_users w3 = w_users w" using G I N by simp_all
  have gidrt: "RT_GrantID rt = p_uuid (d_prims D) (uuid_ctr (w_env w))" using rf(7) gid gr(3) by simp
  have ok3: "row_ok w3 rt"
    unfolding row_ok_def
  proof (intro conjI)
    show "\<exists>k < rand_ctr (w_env w3). RT_TokenHash rt = token_hash (d_prims D) k" using k le by (intro exI [of _ k]) simp
    show "\<exists>n < uuid_ctr (w_env w3). RT_GrantID rt = p_uuid (d_prims D) n"
      using gidrt gid(3) ids(2) le by (intro exI [of _ "uuid_ctr (w_env w)"]) simp
    show "\<exists>n < uuid_ctr (w_env w3). RT_ID rt = p_uuid (d_prims D) n"
      using ids le by (intro exI [of _ "uuid_ctr (w_env w1)"]) simp
    show "\<exists>g. grants (w_grants w3) (RT_GrantID rt) = Some g" using G gr(2) gidrt gid(1) by simp
    show "\<exists>u. users (w_users w3) (RT_UserID rt) = Some u" using usr same rf(1) by simp
    show "RT_AuthenticatedAt rt \<le> clock (w_env w3)" using rf(9,11) le by simp
  qed
  have hash3: "RT_TokenHash y \<noteq> RT_TokenHash rt" if "rows (w_rts w3) j = Some y" for j y
    using draw_fresh(1) [OF g src k(1)] that k(3) same by simp
  have id3: "rows (w_rts w3) (RT_ID rt) = None"
    using uuid_fresh(1) [OF g src, of "uuid_ctr (w_env w1)"] gid(3) ids(1) same by simp
  have new3: "RT_RevokedAt y \<noteq> None" if "rows (w_rts w3) j = Some y" "RT_GrantID y = RT_GrantID rt" for j y
    using uuid_fresh(3) [OF g src, of "uuid_ctr (w_env w)"] that gidrt same by simp
  show "good w0 w'" by (rule g_rt_Save [OF run good3 ok3 hash3 id3 new3])
qed

section \<open>Handlers that only move the clock, the cache and revocations\<close>

lemma g_counter: "good w0 w \<Longrightarrow> good w0 (count_revocation w)"
  by (rule good_frame, assumption) (auto simp: count_revocation_def wok_def dest!: good_wok)

lemma g_AuthCode: "on_env (NewAuthCode p a) w = (x, w') \<Longrightarrow> good w0 w \<Longrightarrow> good w0 w'"
  by (rule g_env) (auto simp: NewAuthCode_def Let_def env_le_def split: prod.splits sum.splits option.splits dest!: random_Token_le nowD)

lemma g_AuthRequest: "on_env (NewAuthorizeRequest p a) w = (x, w') \<Longrightarrow> good w0 w \<Longrightarrow> good w0 w'"
  by (rule g_env) (auto simp: NewAuthorizeRequest_def Let_def env_le_def NewSessionID_def uuid_NewString_def split: prod.splits sum.splits option.splits if_splits dest!: random_Token_le nowD)

lemma g_code_IsValid: "on_env (auth_code_IsValid p a b c d) w = (x, w') \<Longrightarrow> good w0 w \<Longrightarrow> good w0 w'"
  by (rule g_env) (auto simp: auth_code_IsValid_def auth_code_IsExpired_def Let_def env_le_def split: prod.splits sum.splits option.splits if_splits dest!: nowD)

lemmas good_steps = g_Set g_GetErr g_GetAndDelete g_MarkGrant g_MarkSessions g_Blacklist g_now g_Parse g_Issue g_rt_IsValid
  g_expired g_locked g_rt_Find g_us_FindByID g_us_FindByEmail g_rt_Revoke g_RevokeAllForGrant g_RevokeAllForUser
  g_gr_Revoke g_AuthCode g_AuthRequest g_code_IsValid g_NewRT g_Rotate

lemma g_cascade: "revoke_cascade D g w = (r, w') \<Longrightarrow> good w0 w \<Longrightarrow> good w0 w'"
  unfolding revoke_cascade_def Let_def
  by (auto split: prod.split_asm if_split_asm option.split_asm) (assumption | erule good_steps)+

lemma g_revokeConfirmed: "revokeConfirmedRefreshToken D x w = (r, w') \<Longrightarrow> good w0 w \<Longrightarrow> good w0 w'"
  unfolding revokeConfirmedRefreshToken_def Let_def
  by (auto split: prod.split_asm if_split_asm option.split_asm) (assumption | rule g_counter | erule good_steps g_cascade)+

lemma g_revoke_blacklist: "revoke_blacklistAccessToken D tok c w = (r, w') \<Longrightarrow> good w0 w \<Longrightarrow> good w0 w'"
  unfolding revoke_blacklistAccessToken_def Let_def
  by (auto split: prod.split_asm if_split_asm option.split_asm sum.split_asm) (assumption | rule g_counter | erule good_steps)+

lemma g_RevokeToken: "RevokeToken_Execute D c w = (r, w') \<Longrightarrow> good w0 w \<Longrightarrow> good w0 w'"
  unfolding RevokeToken_Execute_def Let_def
  by (auto split: prod.split_asm if_split_asm sum.split_asm) (assumption | rule g_counter | erule good_steps g_revoke_blacklist g_revokeConfirmed)+

lemma g_revokeGrantTokens: "good w0 w \<Longrightarrow> good w0 (revokeGrantTokens D cl w)"
  unfolding revokeGrantTokens_def logout_revokeGrant_def Let_def
  by (auto split: prod.split) (assumption | erule good_steps)+

lemma g_logout_blacklist: "good w0 w \<Longrightarrow> good w0 (logout_blacklistAccessToken D cl w)"
  unfolding logout_blacklistAccessToken_def Let_def
  by (auto split: prod.split) (assumption | erule good_steps)+

lemma g_Logout: "Logout_Execute D c w = (r, w') \<Longrightarrow> good w0 w \<Longrightarrow> good w0 w'"
  unfolding Logout_Execute_def revokeIfAuthenticated_def Let_def
  by (auto split: prod.split_asm if_split_asm sum.split_asm option.split_asm) (assumption | rule g_revokeGrantTokens g_logout_blacklist | erule good_steps)+

lemma g_revokeFamily: "good w0 w \<Longrightarrow> good w0 (revokeFamily D x w)"
  unfolding revokeFamily_def revokeGrant_def writeRevokedGrantMarker_def Let_def
  by (auto split: prod.split) (assumption | erule good_steps)+

lemma g_GetAuthorize: "GetAuthorize_Execute D q w = (r, w') \<Longrightarrow> good w0 w \<Longrightarrow> good w0 w'"
  unfolding GetAuthorize_Execute_def Let_def
  by (auto split: prod.split_asm if_split_asm sum.split_asm option.split_asm) (assumption | erule good_steps)+

lemma g_GetSignIn: "GetSignIn_Execute D q w = (r, w') \<Longrightarrow> good w0 w \<Longrightarrow> good w0 w'"
  unfolding GetSignIn_Execute_def
  by (auto split: prod.split_asm sum.split_asm option.split_asm cval.split_asm) (assumption | erule good_steps)+

lemma g_sessions_check: "sessions_check D cl w = (r, w') \<Longrightarrow> good w0 w \<Longrightarrow> good w0 w'"
  unfolding sessions_check_def
  by (auto split: prod.split_asm sum.split_asm option.split_asm cval.split_asm) (assumption | erule good_steps)+

lemma g_grant_check: "grant_check D cl w = (r, w') \<Longrightarrow> good w0 w \<Longrightarrow> good w0 w'"
  unfolding grant_check_def by (auto split: prod.split_asm sum.split_asm if_split_asm) (assumption | erule good_steps)+

lemma g_IsRevoked: "IsRevoked D cl w = (r, w') \<Longrightarrow> good w0 w \<Longrightarrow> good w0 w'"
  unfolding IsRevoked_def
  by (auto split: prod.split_asm sum.split_asm if_split_asm) (assumption | erule good_steps g_grant_check g_sessions_check)+

lemma g_verifyBearer: "verifyBearer D h w = (r, w') \<Longrightarrow> good w0 w \<Longrightarrow> good w0 w'"
  unfolding verifyBearer_def
  by (auto split: prod.split_asm sum.split_asm if_split_asm option.split_asm) (assumption | erule good_steps g_IsRevoked)+

lemma g_introspect_active: "introspect_active D cl w = (r, w') \<Longrightarrow> good w0 w \<Longrightarrow> good w0 w'"
  unfolding introspect_active_def Let_def
  by (auto split: prod.split_asm sum.split_asm if_split_asm option.split_asm cval.split_asm intro: g_GetErr) (blast intro: g_GetErr)+

lemma g_Introspect: "IntrospectToken_Execute D q w = (r, w') \<Longrightarrow> good w0 w \<Longrightarrow> good w0 w'"
  unfolding IntrospectToken_Execute_def Let_def
  by (auto split: prod.split_asm sum.split_asm option.split_asm) (assumption | erule good_steps g_introspect_active)+

lemma g_GetProfile: "GetProfile_Execute D u w = (r, w') \<Longrightarrow> good w0 w \<Longrightarrow> good w0 w'"
  unfolding GetProfile_Execute_def
  by (auto split: prod.split_asm sum.split_asm if_split_asm) (assumption | erule good_steps)+

section \<open>The refresh grant\<close>

lemma Rotate_uuid: "Rotate p rt u tk e = (n, e') \<Longrightarrow> \<exists>k. uuid_ctr e \<le> k \<and> k < uuid_ctr e' \<and> RT_ID n = p_uuid p k"
  by (auto simp: Rotate_def NewRefreshToken_def NewGrantID_def uuid_NewString_def Let_def
      split: prod.splits if_splits dest!: nowD intro: exI [of _ "uuid_ctr e"] exI [of _ "Suc (uuid_ctr e)"])

lemma g_findActive: "findActiveRefreshToken D raw w = (r, w') \<Longrightarrow> good w0 w \<Longrightarrow> good w0 w'"
  unfolding findActiveRefreshToken_def Let_def
  by (auto split: prod.split_asm if_split_asm sum.split_asm) (assumption | rule g_revokeFamily | erule good_steps)+

lemma g_gr_alias:
  assumes "good w0 w" and "grants (w_grants w) (G_ID g) = Some g0" and "grant_later g0 g"
  shows "good w0 (w\<lparr>w_grants := gr_alias (d_grants D) g (w_grants w)\<rparr>)"
proof -
  have "gok (w_grants w)" using good_wok [OF assms(1)] by (simp add: wok_def)
  note A = gr.grant_alias [OF this assms(2)]
  let ?w = "w\<lparr>w_grants := gr_alias (d_grants D) g (w_grants w)\<rparr>"
  have "later grant_later (grants (w_grants w)) (grants (w_grants ?w))"
    using A assms(2,3) later_upd [where R = grant_later and m = "grants (w_grants w)" and i = "G_ID g" and y = g]
    by (auto simp: later_refl)
  moreover have "grants (w_grants ?w) j = None" if "grants (w_grants w) j = None" for j
    using A that assms(2) by auto
  moreover have "wok ?w" using A good_wok [OF assms(1)] by (simp add: wok_def)
  ultimately show ?thesis by (intro good_core [OF assms(1)]) (auto simp: later_refl option.rel_refl)
qed

lemma g_checkAndExtend:
  assumes run: "checkAndExtendGrant D gid ex w = (r, w')" and g: "good w0 w"
  shows "good w0 w'"
proof (cases "gid = []")
  case True
  with assms show ?thesis by (simp add: checkAndExtendGrant_def)
next
  case False
  obtain fr w1 where f: "on_grants (gr_FindByID (d_grants D) gid) w = (fr, w1)" by (metis surj_pair)
  have g1: "good w0 w1" by (rule g_gr_Find [OF f g])
  show ?thesis
  proof (cases fr)
    case (Inl er)
    with run f g1 False show ?thesis by (auto simp: checkAndExtendGrant_def split: if_splits)
  next
    case (Inr x)
    obtain v w2 where v: "on_env (grant_IsValid x) w1 = (v, w2)" by (metis surj_pair)
    have g2: "good w0 w2" by (rule g_grant_IsValid [OF v g1])
    let ?x = "ExtendToCover x ex" and ?w3 = "w2\<lparr>w_grants := gr_alias (d_grants D) (ExtendToCover x ex) (w_grants w2)\<rparr>"
    show ?thesis
    proof (cases v)
      case False
      with run f v g2 Inr \<open>gid \<noteq> []\<close> show ?thesis by (auto simp: checkAndExtendGrant_def)
    next
      case True
      note F = on_grantsD [OF f] and V = on_envD [OF v]
      have ff: "gr_FindByID (d_grants D) gid (w_grants w) (w_env w) = (fr, w_grants w1, w_env w1)" using F by simp
      have "gok (w_grants w)" using good_wok [OF g] by (simp add: wok_def)
      from gr.grant_Find [OF ff this] Inr V have x: "grants (w_grants w2) (G_ID ?x) = Some x" "G_ID ?x = gid"
        by (simp_all add: ExtendToCover_def)
      have later: "grant_later x ?x" "grant_later ?x ?x" by (simp_all add: grant_later_def ExtendToCover_def)
      have g3: "good w0 ?w3" by (rule g_gr_alias [OF g2 x(1) later(1)])
      obtain se w4 where s: "on_grants (gr_Save (d_grants D) ?x) ?w3 = (se, w4)" by (metis surj_pair)
      have w': "w' = w4" using run f v s Inr True \<open>gid \<noteq> []\<close> by (auto simp: checkAndExtendGrant_def Let_def split: option.splits)
      have old: "grant_later g0 ?x" if "grants (w_grants ?w3) (G_ID ?x) = Some g0" for g0
      proof -
        have "gok (w_grants w2)" using good_wok [OF g2] by (simp add: wok_def)
        from gr.grant_alias [OF this x(1)] that x(1) later show ?thesis by auto
      qed
      have "\<exists>n < uuid_ctr (w_env ?w3). G_ID ?x = p_uuid (d_prims D) n"
        using g2 x(1) by (simp add: good_def sys_inv_def)
      from g_gr_Save [OF s g3 this old] w' show ?thesis by simp
    qed
  qed
qed

text \<open>The committing half of a rotation.\<close>

lemma g_rotate_txn:
  assumes run: "rotate_txn D old new w = (r, w')" and g: "good w0 w"
    and row: "row_at (rows (w_rts w)) (RT_TokenHash old) old" "RT_RevokedAt old = None"
    and new: "row_ok w new" "RT_GrantID new = RT_GrantID old" "rows (w_rts w) (RT_ID new) = None"
    and hash: "\<And>i y. rows (w_rts w) i = Some y \<Longrightarrow> RT_TokenHash y \<noteq> RT_TokenHash new"
  shows "good w0 w'"
proof -
  obtain ce w1 where a: "checkAndExtendGrant D (RT_GrantID old) (RT_ExpiresAt new) w = (ce, w1)" by (metis surj_pair)
  have g1: "good w0 w1" by (rule g_checkAndExtend [OF a g])
  have gw1: "good w w1" by (rule g_checkAndExtend [OF a good_start]) (use g in \<open>simp add: good_def\<close>)
  have rts: "w_rts w1 = w_rts w"
    using a by (auto simp: checkAndExtendGrant_def Let_def split: if_splits sum.splits prod.splits option.splits
        dest!: on_grantsD on_envD)
  obtain re w2 where b: "on_rts (rt_RevokeByTokenHash (d_rts D) (RT_TokenHash old)) w1 = (re, w2)" by (metis surj_pair)
  have g2: "good w0 w2" by (rule g_rt_Revoke [OF b g1])
  have gw2: "good w w2" by (rule g_rt_Revoke [OF b gw1])
  obtain se w3 where c: "on_rts (rt_Save (d_rts D) new) w2 = (se, w3)" by (metis surj_pair)
  show ?thesis
  proof (cases "ce = None \<and> re = None")
    case False
    then have "w' = w1 \<or> w' = w2" using run a b by (auto simp: rotate_txn_def split: option.splits if_splits)
    with g1 g2 show ?thesis by blast
  next
    case True
    then have w': "w' = w3" using run a b c by (auto simp: rotate_txn_def split: option.splits)
    note B = on_rtsD [OF b]
    have rb: "rt_RevokeByTokenHash (d_rts D) (RT_TokenHash old) (w_rts w1) (w_env w1) = (None, w_rts w2, w_env w2)"
      using B True by simp
    have rok1: "rok (w_rts w1)" using good_wok [OF g1] by (simp add: wok_def)
    obtain x t where x: "row_at (rows (w_rts w)) (RT_TokenHash old) x"
      "rows (w_rts w2) = (rows (w_rts w))(RT_ID x \<mapsto> x\<lparr>RT_RevokedAt := Some t\<rparr>)"
      using rt.rt_Revoke [OF rb rok1] rts by auto
    have "x = old" using rt.rt_unique [OF rok1] x(1) row(1) rts by metis
    then have rows2: "rows (w_rts w2) = (rows (w_rts w))(RT_ID old \<mapsto> old\<lparr>RT_RevokedAt := Some t\<rparr>)"
      and at: "rows (w_rts w) (RT_ID old) = Some old" using x by (simp_all add: row_at_def)
    have ok2: "row_ok w2 new" by (rule row_ok_mono [OF new(1)]) (use gw2 in \<open>simp add: good_def\<close>)
    have hash2: "RT_TokenHash y \<noteq> RT_TokenHash new" if "rows (w_rts w2) i = Some y" for i y
      using that rows2 hash at by (auto split: if_splits)
    have id2: "rows (w_rts w2) (RT_ID new) = None" using rows2 new(3) at by auto
    have dead: "RT_RevokedAt y \<noteq> None" if y: "rows (w_rts w2) i = Some y" "RT_GrantID y = RT_GrantID new" for i y
    proof (cases "i = RT_ID old")
      case True
      then show ?thesis using y rows2 by auto
    next
      case False
      then have yw: "rows (w_rts w) i = Some y" using y rows2 by simp
      show ?thesis
      proof
        assume "RT_RevokedAt y = None"
        then have "i = RT_ID old"
          using g yw at row(2) y(2) new(2) unfolding good_def sys_inv_def by metis
        with False show False by simp
      qed
    qed
    from g_rt_Save [OF c g2 ok2 hash2 id2 dead] w' show ?thesis by simp
  qed
qed

lemma g_updateRefreshToken:
  assumes run: "updateRefreshToken D old new w = (r, w')"
  shows "\<exists>r1. rotate_txn D old new w = (r1, w')"
  using run by (auto simp: updateRefreshToken_def noop_uow NoopUnitOfWork_Do_def split: prod.splits option.splits if_splits)

text \<open>The new token of a rotation satisfies what \<open>g_rotate_txn\<close> asks for.\<close>

lemma g_rotate_old:
  assumes f: "findActiveRefreshToken D raw w = (Inr old, w1)"
    and u: "on_users (ur_FindByID (d_users D) (RT_UserID old)) w1 = (Inr user, w2)"
    and i: "on_env (IssueTokens (d_prims D) (d_tokens D) req) w2 = (Inr tk, w3)"
    and n: "on_env (Rotate (d_prims D) old (U_ID user) tk) w3 = (new, w4)"
    and txn: "rotate_txn D old new w4 = (r, w')" and g: "good w0 w" and src: "fresh_source (d_prims D)"
  shows "good w0 w'"
proof -
  have g4: "good w0 w4" by (rule g_Rotate [OF n g_Issue [OF i g_us_FindByID [OF u g_findActive [OF f g]]]])
  have gw: "good w w" by (rule good_start) (use g in \<open>simp add: good_def\<close>)
  have gw4: "good w w4" by (rule g_Rotate [OF n g_Issue [OF i g_us_FindByID [OF u g_findActive [OF f gw]]]])
  note S = findActive_Inr [OF f good_wok [OF g]] and U = on_usersD [OF u] and I = on_envD [OF i] and N = on_envD [OF n]
  have row: "row_at (rows (w_rts w)) (RT_TokenHash old) old" "RT_RevokedAt old = None" "rows (w_rts w) (RT_ID old) = Some old"
    using S by (auto simp: row_at_def)
  have ok: "row_ok w old" using g row(3) by (simp add: good_def sys_inv_def)
  have ne: "RT_GrantID old \<noteq> []" by (rule row_grant_nonempty [OF g src row(3)])
  have fu: "ur_FindByID (d_users D) (RT_UserID old) (w_users w1) (w_env w1) = (Inr user, w_users w2, w_env w2)" using U by simp
  have "uok (w_users w1)" using good_wok [OF g_findActive [OF f g]] by (simp add: wok_def)
  note F = us.user_FindByID [OF fu this]
  have ti: "IssueTokens (d_prims D) (d_tokens D) req (w_env w2) = (Inr tk, w_env w3)"
    and nw: "Rotate (d_prims D) old (U_ID user) tk (w_env w3) = (new, w_env w4)" using I N by simp_all
  note R = Rotate_fields [OF nw]
  have le: "env_le (w_env w) (w_env w2)" "env_le (w_env w3) (w_env w4)" using S F R(13) by (auto intro: env_le_trans)
  have le3: "env_le (w_env w2) (w_env w3)" by (rule tk.IssueTokens_env [OF ti])
  have rts: "rows (w_rts w4) = rows (w_rts w)" using S U I N by simp
  from tk.IssueTokens_draw [OF ti] obtain k where k: "rand_ctr (w_env w2) \<le> k" "k < rand_ctr (w_env w3)"
    "RT_TokenHash new = token_hash (d_prims D) k" using R(5) by (auto simp: token_hash_def)
  obtain m where ids: "RT_ID new = p_uuid (d_prims D) m" "m < uuid_ctr (w_env w4)" "uuid_ctr (w_env w3) \<le> m"
    using Rotate_uuid [OF nw] by blast
  have k0: "rand_ctr (w_env w) \<le> k" "k < rand_ctr (w_env w4)" "uuid_ctr (w_env w) \<le> m"
    using k ids(3) le le3 by (simp_all add: env_le_def)
  have old4: "row_ok w4 old" by (rule row_ok_mono [OF ok]) (use gw4 in \<open>simp add: good_def\<close>)
  have new4: "row_ok w4 new"
    unfolding row_ok_def
  proof (intro conjI)
    show "\<exists>k < rand_ctr (w_env w4). RT_TokenHash new = token_hash (d_prims D) k" using k(3) k0(2) by blast
    show "\<exists>n < uuid_ctr (w_env w4). RT_ID new = p_uuid (d_prims D) n" using ids by blast
  qed (use old4 R F ne in \<open>simp_all add: row_ok_def\<close>)
  show ?thesis
  proof (rule g_rotate_txn [OF txn g4 _ row(2) new4])
    show "row_at (rows (w_rts w4)) (RT_TokenHash old) old" using row(1) rts by simp
    show "RT_GrantID new = RT_GrantID old" using R(8) ne by simp
    show "rows (w_rts w4) (RT_ID new) = None" using uuid_fresh(1) [OF g src k0(3)] ids(1) rts by simp
    show "RT_TokenHash y \<noteq> RT_TokenHash new" if "rows (w_rts w4) j = Some y" for j y
      using draw_fresh(1) [OF g src k0(1)] that k(3) rts by simp
  qed
qed

lemma g_RefreshToken:
  assumes run: "RefreshToken_Execute D c w = (r, w')" and g: "good w0 w" and src: "fresh_source (d_prims D)"
  shows "good w0 w'"
proof (cases "Authenticate (d_prims D) (d_registry D) (refresh_credentials c)")
  case (Inl er)
  with run g show ?thesis by (simp add: RefreshToken_Execute_def)
next
  case (Inr client)
  obtain fr w1 where f: "findActiveRefreshToken D (rc_RefreshToken c) w = (fr, w1)" by (metis surj_pair)
  have g1: "good w0 w1" by (rule g_findActive [OF f g])
  show ?thesis
  proof (cases "AllowsGrant client GrantRefreshToken \<and> (\<exists>old. fr = Inr old \<and> IssuedTo old (C_ID client))")
    case False
    with run Inr f g g1 show ?thesis by (auto simp: RefreshToken_Execute_def split: if_splits sum.splits)
  next
    case True
    then obtain old where ag: "AllowsGrant client GrantRefreshToken" and old: "fr = Inr old" "IssuedTo old (C_ID client)" by blast
    obtain ur w2 where u: "on_users (ur_FindByID (d_users D) (RT_UserID old)) w1 = (ur, w2)" by (metis surj_pair)
    have g2: "good w0 w2" by (rule g_us_FindByID [OF u g1])
    show ?thesis
    proof (cases "\<exists>user. ur = Inr user \<and> \<not> (case U_SessionsInvalidatedAt user of None \<Rightarrow> False | Some t \<Rightarrow> \<not> RT_AuthenticatedAt old > t)")
      case False
      with run Inr ag f old u g2 show ?thesis by (auto simp: RefreshToken_Execute_def split: sum.splits if_splits)
    next
      case True
      then obtain user where user: "ur = Inr user"
        "\<not> (case U_SessionsInvalidatedAt user of None \<Rightarrow> False | Some t \<Rightarrow> \<not> RT_AuthenticatedAt old > t)" by blast
      let ?req = "\<lparr>is_User = user, is_ClientID = C_ID client, is_Nonce = [], is_Scope = RT_Scope old,
        is_ExpireSecs = ResolveExpirySecs (rc_ExpireSecs c), is_ExistingGrantID = RT_GrantID old\<rparr>"
      obtain tr w3 where i: "on_env (IssueTokens (d_prims D) (d_tokens D) ?req) w2 = (tr, w3)" by (metis surj_pair)
      have g3: "good w0 w3" by (rule g_Issue [OF i g2])
      note S = findActive_Inr [OF f [unfolded old(1)] good_wok [OF g]]
      have row: "row_at (rows (w_rts w)) (RT_TokenHash old) old" "RT_RevokedAt old = None" "rows (w_rts w) (RT_ID old) = Some old"
        using S by (auto simp: row_at_def)
      show ?thesis
      proof (cases tr)
        case Inl': (Inl er)
        with run Inr ag f old u user i g3 show ?thesis by (simp add: RefreshToken_Execute_def)
      next
        case Inr': (Inr tk)
        have ne: "RT_GrantID old \<noteq> []" by (rule row_grant_nonempty [OF g src row(3)])
        have ti: "IssueTokens (d_prims D) (d_tokens D) ?req (w_env w2) = (Inr tk, w_env w3)" using on_envD [OF i] Inr' by simp
        from tk.IssueTokens_Inr [OF ti] ne have tk: "IT_NewGrant tk = None" "env_le (w_env w2) (w_env w3)" by simp_all
        obtain new w4 where n: "on_env (Rotate (d_prims D) old (U_ID user) tk) w3 = (new, w4)" by (metis surj_pair)
        have g4: "good w0 w4" by (rule g_Rotate [OF n g3])
        obtain ue w5 where up: "updateRefreshToken D old new w4 = (ue, w5)" by (metis surj_pair)
        have w': "w' = w5"
          using run Inr ag f old u user i Inr' n tk(1) up by (auto simp: RefreshToken_Execute_def Let_def split: option.splits)
        obtain r1 where txn: "rotate_txn D old new w4 = (r1, w5)" using g_updateRefreshToken [OF up] by blast
        show ?thesis
          unfolding w' by (rule g_rotate_old [OF f [unfolded old(1)] u [unfolded user(1)] i [unfolded Inr'] n txn g src])
      qed
    qed
  qed
qed

section \<open>Accounts\<close>

lemma good_user_stays:
  assumes "good w w'" and "users (w_users w) i = Some u"
  shows "\<exists>v. users (w_users w') i = Some v"
  using assms unfolding good_def evolves_def later_def by blast

lemma g_mutate_save:
  assumes "good w0 w" and "users (w_users w) (U_ID u0) = Some u0" and "same_identity u u0"
  shows "good w0 (save_user D u (mutate_user D u w))"
proof -
  from g_mutate_user [OF assms] obtain v where v: "good w0 (mutate_user D u w)"
    "users (w_users (mutate_user D u w)) (U_ID u0) = Some v" "same_identity u v" by blast
  moreover have "U_ID v = U_ID u0" using assms(3) v(3) by (simp add: same_identity_def)
  ultimately show ?thesis by (intro g_save_user [of _ _ v]) simp_all
qed

lemma RecordFailedLogin_identity: "RecordFailedLogin u e = (u', e') \<Longrightarrow> same_identity u' u"
  by (auto simp: RecordFailedLogin_def same_identity_def Let_def split: prod.splits if_splits)

lemma ResetFailedLogins_identity: "ResetFailedLogins u e = (u', e') \<Longrightarrow> same_identity u' u"
  by (auto simp: ResetFailedLogins_def same_identity_def split: prod.splits)

lemma Rehash_identity: "RehashPasswordIfNeeded p u pw e = (Inr (b, u'), e') \<Longrightarrow> same_identity u' u"
  by (auto simp: RehashPasswordIfNeeded_def same_identity_def split: prod.splits option.splits sum.splits if_splits)

lemma same_identity_trans: "same_identity a b \<Longrightarrow> same_identity b c \<Longrightarrow> same_identity a c"
  by (simp add: same_identity_def)

lemma g_recordFailure:
  assumes "good w0 w" and "\<And>u. uo = Some u \<Longrightarrow> users (w_users w) (U_ID u) = Some u"
  shows "good w0 (recordAccountFailure D uo w)"
proof (cases uo)
  case None
  with assms show ?thesis by (simp add: recordAccountFailure_def)
next
  case (Some u)
  obtain u1 w1 where f: "on_env (RecordFailedLogin u) w = (u1, w1)" by (metis surj_pair)
  note F = on_envD [OF f]
  have "good w0 (save_user D u1 (mutate_user D u1 w1))"
    by (rule g_mutate_save [OF g_failed [OF f assms(1)]])
      (use F assms(2) Some RecordFailedLogin_identity [of u "w_env w" u1 "w_env w1"] in auto)
  with f Some show ?thesis by (simp add: recordAccountFailure_def)
qed

lemma g_signInFailed:
  assumes "signInFailed D se uo w = (r, w')" and "good w0 w" and "\<And>u. uo = Some u \<Longrightarrow> users (w_users w) (U_ID u) = Some u"
  shows "good w0 w'"
proof -
  have "good w0 (recordAccountFailure D uo w)" by (rule g_recordFailure [OF assms(2,3)])
  with assms(1) show ?thesis
    unfolding signInFailed_def Let_def by (auto split: if_split_asm prod.split_asm intro: g_Set)
qed

text \<open>An account in the store that was changed in memory, its failure counters then cleared.\<close>

lemma g_settle:
  assumes g: "good w0 w" and at: "users (w_users w) (U_ID v) = Some v" and same: "same_identity u v"
  shows "good w0 (let (u1, w1) = on_env (ResetFailedLogins u) w in save_user D u1 (mutate_user D u1 w1))"
    "good w0 (let (u1, w1) = on_env (ResetFailedLogins u) w in mutate_user D u1 w1)"
proof -
  obtain u1 w1 where f: "on_env (ResetFailedLogins u) w = (u1, w1)" by (metis surj_pair)
  note F = on_envD [OF f]
  have "same_identity u1 v"
    using F ResetFailedLogins_identity [of u "w_env w" u1 "w_env w1"] same same_identity_trans by blast
  moreover have "users (w_users w1) (U_ID v) = Some v" using F at by simp
  moreover have "good w0 w1" by (rule g_reset [OF f g])
  ultimately have 1: "good w0 (save_user D u1 (mutate_user D u1 w1))" "good w0 (mutate_user D u1 w1)"
    using g_mutate_save [of w0 w1 v u1] g_mutate_user [of w0 w1 v u1] by blast+
  show "good w0 (let (u1, w1) = on_env (ResetFailedLogins u) w in save_user D u1 (mutate_user D u1 w1))"
    "good w0 (let (u1, w1) = on_env (ResetFailedLogins u) w in mutate_user D u1 w1)" using 1 by (simp_all add: f)
qed

lemma g_resetFailures:
  assumes "good w0 w" and "users (w_users w) (U_ID v) = Some v" and "same_identity u v"
  shows "good w0 (resetAccountFailures D u b w)"
  using assms g_settle(1) [OF assms] g_save_user [OF assms]
  unfolding resetAccountFailures_def Let_def by (auto split: prod.splits)

lemma g_token_settle:
  assumes "token_settleAccount D u b w = (x, w')" and "good w0 w" and "users (w_users w) (U_ID v) = Some v" and "same_identity u v"
  shows "good w0 w' \<and> U_ID x = U_ID u"
proof -
  obtain u1 w1 where f: "on_env (ResetFailedLogins u) w = (u1, w1)" by (metis surj_pair)
  have "U_ID u1 = U_ID u"
    using on_envD [OF f] ResetFailedLogins_identity [of u "w_env w" u1 "w_env w1"] by (simp add: same_identity_def)
  with assms(1,2) f g_settle(1,2) [OF assms(2-4)] g_save_user [OF assms(2-4)] show ?thesis
    unfolding token_settleAccount_def Let_def by (auto split: if_splits)
qed

lemma found_by_email:
  assumes "on_users (ur_FindByEmail (d_users D) DefaultTenantID em) w = (Inr u, w1)" and "wok w"
  shows "users (w_users w1) (U_ID u) = Some u" "users (w_users w) (U_ID u) = Some u" "U_Email u = em"
proof -
  note A = on_usersD [OF assms(1)]
  have f: "ur_FindByEmail (d_users D) DefaultTenantID em (w_users w) (w_env w) = (Inr u, w_users w1, w_env w1)" using A by simp
  have "uok (w_users w)" using assms(2) by (simp add: wok_def)
  from us.user_FindByEmail [OF f this] show "users (w_users w1) (U_ID u) = Some u" "users (w_users w) (U_ID u) = Some u" "U_Email u = em"
    by simp_all
qed

text \<open>The part of a sign-in after the account turned out not to be locked.\<close>

lemma g_verify_unlocked:
  assumes run: "(if \<not> ValidatePassword (d_prims D) u pw then signInFailed D se (Some u) w2
      else case on_env (RehashPasswordIfNeeded (d_prims D) u pw) w2 of
          (Inl panic, w3) \<Rightarrow> (Inl panic, w3)
        | (Inr (rehashed, u1), w3) \<Rightarrow> (Inr (U_ID u1), resetAccountFailures D u1 rehashed (mutate_user D u1 w3))) = (r, w')"
    and g: "good w0 w2" and at: "users (w_users w2) (U_ID u) = Some u"
  shows "good w0 w'"
proof -
  obtain rh w3 where c: "on_env (RehashPasswordIfNeeded (d_prims D) u pw) w2 = (rh, w3)" by (metis surj_pair)
  have g3: "good w0 w3" by (rule g_rehash [OF c g])
  show ?thesis
  proof (cases "\<not> ValidatePassword (d_prims D) u pw \<or> (\<exists>er. rh = Inl er)")
    case True
    with run c g g3 show ?thesis by (auto simp: at split: if_splits elim!: g_signInFailed)
  next
    case False
    then obtain rd u1 where rh: "rh = Inr (rd, u1)" by (cases rh) auto
    have same: "same_identity u1 u"
      using on_envD [OF c] rh Rehash_identity [of "d_prims D" u pw "w_env w2" rd u1 "w_env w3"] by simp
    have at3: "users (w_users w3) (U_ID u) = Some u" using at on_envD [OF c] by simp
    from g_mutate_user [OF g3 at3 same] obtain v where v: "good w0 (mutate_user D u1 w3)"
      "users (w_users (mutate_user D u1 w3)) (U_ID u) = Some v" "same_identity u1 v" by blast
    have "U_ID v = U_ID u" using same v(3) by (simp add: same_identity_def)
    with g_resetFailures [OF v(1) _ v(3)] v(2)
    have "good w0 (resetAccountFailures D u1 rd (mutate_user D u1 w3))" by simp
    with run c False rh show ?thesis by auto
  qed
qed

lemma g_verifyCredentials:
  assumes run: "verifyCredentials D se em pw w = (r, w')" and g: "good w0 w"
  shows "good w0 w'"
proof -
  obtain f w1 where a: "on_users (ur_FindByEmail (d_users D) DefaultTenantID em) w = (f, w1)" by (metis surj_pair)
  have g1: "good w0 w1" by (rule g_us_FindByEmail [OF a g])
  show ?thesis
  proof (cases f)
    case (Inl er)
    with run a g1 show ?thesis by (auto simp: verifyCredentials_def split: if_splits elim: g_signInFailed)
  next
    case (Inr u)
    obtain l w2 where b: "on_env (user_IsLockedOut u) w1 = (l, w2)" by (metis surj_pair)
    have g2: "good w0 w2" by (rule g_locked [OF b g1])
    have at: "users (w_users w2) (U_ID u) = Some u"
      using found_by_email(1) [OF a [unfolded Inr] good_wok [OF g]] on_envD [OF b] by simp
    show ?thesis
    proof (cases l)
      case True
      with run a b Inr g2 show ?thesis by (simp add: verifyCredentials_def)
    next
      case False
      with run a b Inr g_verify_unlocked [OF _ g2 at] show ?thesis by (simp add: verifyCredentials_def)
    qed
  qed
qed

lemma g_CreateAuthCode: "CreateAuthCode_Execute D c w = (r, w') \<Longrightarrow> good w0 w \<Longrightarrow> good w0 w'"
  unfolding CreateAuthCode_Execute_def
  by (auto split: prod.split_asm sum.split_asm option.split_asm if_split_asm cval.split_asm)
    (assumption | erule good_steps g_verifyCredentials)+

lemma g_us_Create:
  assumes "on_users (ur_CreateUser (d_users D) u) w = (x, w')" and "good w0 w"
    and "U_TenantID u = DefaultTenantID" and "U_PasswordResetTokenHash u = None"
  shows "good w0 w'"
proof -
  note A = on_usersD [OF assms(1)]
  have f: "ur_CreateUser (d_users D) u (w_users w) (w_env w) = (x, w_users w', w_env w')" using A by simp
  have uokw: "uok (w_users w)" using good_wok [OF assms(2)] by (simp add: wok_def)
  note R = us.user_Create [OF f uokw assms(3,4)]
  have us': "users (w_users w') = users (w_users w) \<or> users (w_users w') = (users (w_users w))(U_ID u \<mapsto> u)"
    using R by (auto split: option.splits)
  have "later user_later (users (w_users w)) (users (w_users w'))"
    using us' us.user_keyed [OF uokw] by (auto simp: later_refl user_later_def intro!: later_upd)
  moreover have "\<exists>j v. users (w_users w) j = Some v \<and> U_PasswordResetTokenHash v = Some h"
    if "users (w_users w') i = Some y" "U_PasswordResetTokenHash y = Some h" for i y h
  proof -
    have "users (w_users w) i = Some y" using us' that assms(4) by (auto split: if_splits)
    with that(2) show ?thesis by blast
  qed
  moreover have "wok w'" using A R good_wok [OF assms(2)] by (simp add: wok_def)
  ultimately show ?thesis using A R by (intro good_core [OF assms(2)]) (auto simp: later_refl option.rel_refl)
qed

lemma g_CreateUser:
  assumes run: "CreateUser_Execute D c w = (r, w')" and g: "good w0 w"
  shows "good w0 w'"
proof -
  let ?a = "\<lparr>UA_TenantID = [], UA_Username = cu_Username c, UA_Nickname = cu_Nickname c,
              UA_Password = cu_Password c, UA_Email = cu_Email c, UA_EmailVerified = False\<rparr>"
  obtain ur w1 where a: "on_env (NewUser (d_prims D) ?a) w = (ur, w1)" by (metis surj_pair)
  have g1: "good w0 w1" by (rule g_NewUser [OF a g])
  show ?thesis
  proof (cases ur)
    case (Inl er)
    with run a g1 show ?thesis by (simp add: CreateUser_Execute_def)
  next
    case (Inr u)
    obtain cr w2 where b: "on_users (ur_CreateUser (d_users D) u) w1 = (cr, w2)" by (metis surj_pair)
    have "NewUser (d_prims D) ?a (w_env w) = (Inr u, w_env w1)" using on_envD [OF a] Inr by simp
    from NewUser_Inr [OF this] have "good w0 w2" by (intro g_us_Create [OF b g1]) simp_all
    with run a Inr b show ?thesis by (auto simp: CreateUser_Execute_def split: option.splits if_splits)
  qed
qed

lemma g_checkEmail: "checkEmailAvailable D tn em i w = (r, w') \<Longrightarrow> good w0 w \<Longrightarrow> tn = DefaultTenantID \<Longrightarrow> good w0 w'"
  unfolding checkEmailAvailable_def by (auto split: prod.split_asm sum.split_asm if_split_asm intro: g_us_FindByEmail)

lemma user_tenant: "wok w \<Longrightarrow> users (w_users w) i = Some u \<Longrightarrow> U_TenantID u = DefaultTenantID"
  using us.user_keyed [of "w_users w" i u] by (simp add: wok_def may_save_user_def)

lemma found_by_id:
  assumes "on_users (ur_FindByID (d_users D) i) w = (Inr u, w1)" and "wok w"
  shows "users (w_users w1) i = Some u" "users (w_users w) i = Some u" "U_ID u = i"
proof -
  note A = on_usersD [OF assms(1)]
  have f: "ur_FindByID (d_users D) i (w_users w) (w_env w) = (Inr u, w_users w1, w_env w1)" using A by simp
  have "uok (w_users w)" using assms(2) by (simp add: wok_def)
  from us.user_FindByID [OF f this] show "users (w_users w1) i = Some u" "users (w_users w) i = Some u" "U_ID u = i" by simp_all
qed

lemma g_profile: "on_env (user_UpdateProfile u args) w = (x, w') \<Longrightarrow> good w0 w \<Longrightarrow> good w0 w'"
  by (rule g_env) (auto dest: UpdateProfile_fields(7))

lemma g_UpdateProfile:
  assumes run: "UpdateProfile_Execute D c w = (r, w')" and g: "good w0 w"
  shows "good w0 w'"
proof -
  let ?args = "\<lparr>UP_Username = up_Username c, UP_Nickname = up_Nickname c, UP_Email = up_Email c\<rparr>"
  obtain ur w1 where a: "on_users (ur_FindByID (d_users D) (up_UserID c)) w = (ur, w1)" by (metis surj_pair)
  have g1: "good w0 w1" by (rule g_us_FindByID [OF a g])
  show ?thesis
  proof (cases ur)
    case (Inl er)
    with run a g1 show ?thesis by (auto simp: UpdateProfile_Execute_def split: if_splits)
  next
    case (Inr u)
    note F = found_by_id [OF a [unfolded Inr] good_wok [OF g]]
    obtain ce w2 where b: "(case UP_Email ?args of None \<Rightarrow> (None, w1)
        | Some email \<Rightarrow> checkEmailAvailable D (U_TenantID u) email (up_UserID c) w1) = (ce, w2)" by (metis surj_pair)
    have "U_TenantID u = DefaultTenantID" by (rule user_tenant [OF good_wok [OF g] F(2)])
    then have g2: "good w0 w2" using b g1 by (auto split: option.splits intro: g_checkEmail)
    obtain u' w3 where d: "on_env (user_UpdateProfile u ?args) w2 = (u', w3)" by (metis surj_pair)
    have g3: "good w0 w3" by (rule g_profile [OF d g2])
    obtain se w4 where s: "on_users (ur_Save (d_users D) u') w3 = (se, w4)" by (metis surj_pair)
    show ?thesis
    proof (cases ce)
      case (Some er)
      with run a Inr b g2 show ?thesis by (auto simp: UpdateProfile_Execute_def)
    next
      case None
      note C = profile_checked [OF a [unfolded Inr] b [unfolded None] d good_wok [OF g]]
      have "user_UpdateProfile u ?args (w_env w2) = (u', w_env w3)" using on_envD [OF d] by simp
      from UpdateProfile_fields(3) [OF this]
      have hash: "(\<exists>k < rand_ctr (w_env w3). h = token_hash (d_prims D) k)
          \<or> (\<exists>j v. users (w_users w3) j = Some v \<and> U_PasswordResetTokenHash v = Some h)" if "U_PasswordResetTokenHash u' = Some h" for h
        using C that by auto
      have ms: "may_save_user u' (users (w_users w3))" using C by blast
      have "good w0 w4" by (rule g_us_Save [OF s g3 ms hash])
      with run a Inr b None d s show ?thesis by (auto simp: UpdateProfile_Execute_def split: option.splits)
    qed
  qed
qed

section \<open>Password recovery\<close>

lemma g_rateLimited: "rateLimited D em w = (b, w') \<Longrightarrow> good w0 w \<Longrightarrow> good w0 w'"
  unfolding rateLimited_def by (auto split: prod.split_asm sum.split_asm intro: g_cache dest: ca.Incr_env)

lemma g_mail: "good w0 w \<Longrightarrow> good w0 (w\<lparr>w_mail := m\<rparr>)"
  by (rule good_frame, assumption) (auto simp: wok_def dest!: good_wok)

lemma GenerateReset_draw:
  assumes "GeneratePasswordResetToken p e = (Inr tok, e')"
  shows "Hash p tok = token_hash p (rand_ctr e)" "rand_ctr e < rand_ctr e'" "env_le e e'"
  using assms random_Token_le [of p e "Inr tok" e']
  by (auto simp: GeneratePasswordResetToken_def random_Token_Inr token_hash_def)

lemma g_genReset: "on_env (GeneratePasswordResetToken p) w = (x, w') \<Longrightarrow> good w0 w \<Longrightarrow> good w0 w'"
  by (rule g_env) (auto simp: GeneratePasswordResetToken_def dest: random_Token_le)

lemma g_setReset: "on_env (SetPasswordResetToken p u t ttl) w = (x, w') \<Longrightarrow> good w0 w \<Longrightarrow> good w0 w'"
  by (rule g_env) (auto dest: SetPasswordResetToken_fields(7))

text \<open>The part of a recovery request after the counter.\<close>

lemma g_ForgotPassword_after:
  assumes run: "ForgotPassword_Execute D em w = (r, w')" and a: "rateLimited D em w = (b, w1)"
    and g1: "good w0 w1" and src: "fresh_source (d_prims D)"
  shows "good w0 w'"
proof -
  obtain f w2 where u: "on_users (ur_FindByEmail (d_users D) DefaultTenantID em) w1 = (f, w2)" by (metis surj_pair)
  have g2: "good w0 w2" by (rule g_us_FindByEmail [OF u g1])
  obtain tr w3 where t: "on_env (GeneratePasswordResetToken (d_prims D)) w2 = (tr, w3)" by (metis surj_pair)
  have g3: "good w0 w3" by (rule g_genReset [OF t g2])
  show ?thesis
  proof (cases "b \<or> (\<exists>er. f = Inl er) \<or> (\<exists>er. tr = Inl er)")
    case True
    with run a u t g1 g2 g3 show ?thesis by (auto simp: ForgotPassword_Execute_def split: if_splits sum.splits)
  next
    case False
    then obtain user tok where fu: "f = Inr user" and tok: "tr = Inr tok" by (cases f; cases tr) auto
    have at: "users (w_users w2) (U_ID user) = Some user"
      using found_by_email(1) [OF u [unfolded fu] good_wok [OF g1]] .
    obtain u' w4 where d: "on_env (SetPasswordResetToken (d_prims D) user tok PasswordResetTokenTTL) w3 = (u', w4)" by (metis surj_pair)
    have g4: "good w0 w4" by (rule g_setReset [OF d g3])
    note T = on_envD [OF t] and D = on_envD [OF d]
    have gen: "GeneratePasswordResetToken (d_prims D) (w_env w2) = (Inr tok, w_env w3)" using T tok by simp
    have set: "SetPasswordResetToken (d_prims D) user tok PasswordResetTokenTTL (w_env w3) = (u', w_env w4)" using D by simp
    note P = SetPasswordResetToken_fields [OF set] and R = GenerateReset_draw [OF gen]
    have us4: "users (w_users w4) = users (w_users w2)" using T D by simp
    have nohash: "U_PasswordResetTokenHash x \<noteq> Some (Hash (d_prims D) tok)" if "users (w_users w4) i = Some x" for i x
      using draw_fresh(2) [OF g2 src, of "rand_ctr (w_env w2)"] that us4 R(1) by simp
    have uok2: "uok (w_users w2)" using good_wok [OF g2] by (simp add: wok_def)
    have may: "may_save_user u' (users (w_users w4))"
      using us.user_keyed [OF uok2 at] P us4 nohash by (auto simp: may_save_user_def)
    have draw: "\<exists>k < rand_ctr (w_env w4). h = token_hash (d_prims D) k" if "U_PasswordResetTokenHash u' = Some h" for h
      using that P(4,8) R(1,2) by (intro exI [of _ "rand_ctr (w_env w2)"]) simp
    obtain se w5 where s: "on_users (ur_Save (d_users D) u') w4 = (se, w5)" by (metis surj_pair)
    have "good w0 w5" by (rule g_us_Save [OF s g4 may]) (use draw in blast)
    moreover have "w' = w5 \<or> w' = w5\<lparr>w_mail := w_mail w5 @ [(U_Email u', tok)]\<rparr>"
      using run a u fu t tok d s False by (auto simp: ForgotPassword_Execute_def Let_def split: option.splits)
    ultimately show ?thesis using g_mail by blast
  qed
qed

lemma g_ForgotPassword:
  assumes run: "ForgotPassword_Execute D em w = (r, w')" and g: "good w0 w" and src: "fresh_source (d_prims D)"
  shows "good w0 w'"
proof -
  obtain b w1 where a: "rateLimited D em w = (b, w1)" by (metis surj_pair)
  show ?thesis by (rule g_ForgotPassword_after [OF run a g_rateLimited [OF a g] src])
qed

lemma g_reset_txn:
  assumes run: "reset_txn D c w = (r, w')" and g: "good w0 w"
  shows "good w0 w'"
proof -
  note C = reset_txn_cases [OF run good_wok [OF g]]
  have uokw: "uok (w_users w)" using good_wok [OF g] by (simp add: wok_def)
  show ?thesis
  proof (cases r)
    case (Inl er)
    with C show ?thesis by (intro good_frame [OF g]) simp_all
  next
    case (Inr u')
    then obtain u e1 where u: "users (w_users w) (U_ID u) = Some u"
      "reset_update (d_prims D) (rp_Password c) u (w_env w) = (Inr u', e1)"
      "users (w_users w') = (users (w_users w))(U_ID u \<mapsto> u')" using C by auto
    have u': "U_ID u' = U_ID u" "U_PasswordResetTokenHash u' = None" using reset_update_Inr [OF u(2)] by simp_all
    have "later user_later (users (w_users w)) (users (w_users w'))"
      unfolding u(3) using u(1) u'(1) by (intro later_upd) (auto simp: user_later_def)
    moreover have "\<exists>j v. users (w_users w) j = Some v \<and> U_PasswordResetTokenHash v = Some h"
      if "users (w_users w') i = Some y" "U_PasswordResetTokenHash y = Some h" for i y h
    proof -
      have "users (w_users w) i = Some y" using u(3) u'(2) that by (auto split: if_splits)
      with that(2) show ?thesis by blast
    qed
    ultimately show ?thesis using C by (intro good_core [OF g]) (auto simp: later_refl option.rel_refl)
  qed
qed

lemma g_ResetPassword:
  assumes run: "ResetPassword_Execute D c w = (r, w')" and g: "good w0 w"
  shows "good w0 w'"
proof -
  obtain tr w1 where t: "reset_txn D c w = (tr, w1)" by (metis surj_pair)
  have g1: "good w0 w1" by (rule g_reset_txn [OF t g])
  show ?thesis
  proof (cases tr)
    case (Inl er)
    with run t g1 show ?thesis by (auto simp: ResetPassword_Execute_def noop_uow NoopUnitOfWork_Do_def)
  next
    case (Inr u)
    obtain x w2 where b: "on_rts (rt_RevokeAllForUser (d_rts D) (U_ID u)) w1 = (x, w2)" by (metis surj_pair)
    obtain y w3 where d: "on_cache (MarkSessionsInvalidated (d_cache D) (U_ID u) (the (U_SessionsInvalidatedAt u))) w2 = (y, w3)"
      by (metis surj_pair)
    have "good w0 w3" by (rule g_MarkSessions [OF d g_RevokeAllForUser [OF b g1]])
    with run t Inr b d show ?thesis by (simp add: ResetPassword_Execute_def noop_uow NoopUnitOfWork_Do_def)
  qed
qed

section \<open>Signing in\<close>

lemma g_consume: "consumeAuthCode D code w = (r, w') \<Longrightarrow> good w0 w \<Longrightarrow> good w0 w'"
  unfolding consumeAuthCode_def
  by (auto split: prod.split_asm option.split_asm cval.split_asm) (assumption | erule good_steps)+

lemma g_saveRefreshToken:
  assumes issue: "on_env (IssueTokens (d_prims D) (d_tokens D) req) w = (Inr tk, w1)"
    and run: "saveRefreshToken D u cid tk w1 = (r, w')"
    and g: "good w0 w" and src: "fresh_source (d_prims D)" and ex: "is_ExistingGrantID req = []"
    and usr: "users (w_users w) u = Some v"
  shows "good w0 w'"
proof -
  obtain rt w2 where n: "on_env (NewRefreshToken (d_prims D) u cid tk) w1 = (rt, w2)" by (metis surj_pair)
  obtain se w3 where s: "(case IT_NewGrant tk of None \<Rightarrow> (None, w2)
      | Some g \<Rightarrow> on_grants (gr_Save (d_grants D) (ExtendToCover g (RT_ExpiresAt rt))) w2) = (se, w3)" by (metis surj_pair)
  obtain re w4 where t: "on_rts (rt_Save (d_rts D) rt) w3 = (re, w4)" by (metis surj_pair)
  have "w' = (if se = None then w4 else w3)"
    using run n s t by (cases se) (auto simp: saveRefreshToken_def)
  with g_store_tokens [OF issue n s g src ex usr, of re w4] t show ?thesis by (auto split: if_splits)
qed

lemma token_store_as_save:
  assumes "token_store D user tk w = (r, w')"
  shows "\<exists>r'. saveRefreshToken D (U_ID user) [] tk w = (r', w')"
  using assms unfolding token_store_def saveRefreshToken_def Let_def
  by (auto split: prod.split_asm option.split_asm)

lemma g_ExchangeCode:
  assumes run: "ExchangeCode_Execute D c w = (r, w')" and g: "good w0 w" and src: "fresh_source (d_prims D)"
  shows "good w0 w'"
proof (cases "Authenticate (d_prims D) (d_registry D) (exchange_credentials c)")
  case (Inl er)
  with run g show ?thesis by (simp add: ExchangeCode_Execute_def)
next
  case (Inr client)
  obtain cr w1 where a: "consumeAuthCode D (ec_Code c) w = (cr, w1)" by (metis surj_pair)
  have g1: "good w0 w1" by (rule g_consume [OF a g])
  show ?thesis
  proof (cases "AllowsGrant client GrantAuthorizationCode \<and> (\<exists>ac. cr = Inr ac \<and> \<not> (client_IsPublic client \<and> AC_CodeChallenge ac = None))")
    case False
    with run Inr a g g1 show ?thesis by (auto simp: ExchangeCode_Execute_def split: if_splits sum.splits)
  next
    case True
    then obtain ac where ag: "AllowsGrant client GrantAuthorizationCode" and ac: "cr = Inr ac"
      "\<not> (client_IsPublic client \<and> AC_CodeChallenge ac = None)" by blast
    obtain vr w2 where v: "on_env (auth_code_IsValid (d_prims D) ac (C_ID client) (ec_RedirectURI c) (ec_CodeVerifier c)) w1 = (vr, w2)"
      by (metis surj_pair)
    have g2: "good w0 w2" by (rule g_code_IsValid [OF v g1])
    obtain ur w3 where u: "on_users (ur_FindByID (d_users D) (AC_UserID ac)) w2 = (ur, w3)" by (metis surj_pair)
    have g3: "good w0 w3" by (rule g_us_FindByID [OF u g2])
    show ?thesis
    proof (cases "vr = Inr True \<and> (\<exists>user. ur = Inr user)")
      case False
      with run Inr ag a ac v u g2 g3 show ?thesis by (auto simp: ExchangeCode_Execute_def split: sum.splits if_splits)
    next
      case True
      then obtain user where vt: "vr = Inr True" and user: "ur = Inr user" by blast
      have at: "users (w_users w3) (U_ID user) = Some user"
        using found_by_id [OF u [unfolded user] good_wok [OF g2]] by simp
      let ?req = "\<lparr>is_User = user, is_ClientID = C_ID client, is_Nonce = (case AC_Nonce ac of None \<Rightarrow> [] | Some n \<Rightarrow> n),
         is_Scope = AC_Scope ac, is_ExpireSecs = ResolveExpirySecs (ec_ExpireSecs c), is_ExistingGrantID = []\<rparr>"
      obtain tr w4 where i: "on_env (IssueTokens (d_prims D) (d_tokens D) ?req) w3 = (tr, w4)" by (metis surj_pair)
      have g4: "good w0 w4" by (rule g_Issue [OF i g3])
      show ?thesis
      proof (cases tr)
        case Inl': (Inl er)
        with run Inr ag a ac v vt u user i g4 show ?thesis by (simp add: ExchangeCode_Execute_def exchange_issueTokens_def)
      next
        case Inr': (Inr tk)
        obtain se w5 where s: "saveRefreshToken D (U_ID user) (C_ID client) tk w4 = (se, w5)" by (metis surj_pair)
        have "good w0 w5" by (rule g_saveRefreshToken [OF i [unfolded Inr'] s g3 src _ at]) simp
        with run Inr ag a ac v vt u user i Inr' s show ?thesis
          by (auto simp: ExchangeCode_Execute_def exchange_issueTokens_def split: option.splits)
      qed
    qed
  qed
qed

lemma g_GetToken:
  assumes run: "GetToken_Execute D q w = (r, w')" and g: "good w0 w" and src: "fresh_source (d_prims D)"
  shows "good w0 w'"
proof -
  obtain f w1 where a: "on_users (ur_FindByEmail (d_users D) DefaultTenantID (gt_Email q)) w = (f, w1)" by (metis surj_pair)
  have g1: "good w0 w1" by (rule g_us_FindByEmail [OF a g])
  show ?thesis
  proof (cases f)
    case (Inl er)
    with run a g1 show ?thesis by (simp add: GetToken_Execute_def)
  next
    case (Inr u)
    obtain l w2 where b: "on_env (user_IsLockedOut u) w1 = (l, w2)" by (metis surj_pair)
    have g2: "good w0 w2" by (rule g_locked [OF b g1])
    have at: "users (w_users w2) (U_ID u) = Some u"
      using found_by_email(1) [OF a [unfolded Inr] good_wok [OF g]] on_envD [OF b] by simp
    obtain rh w3 where c: "on_env (RehashPasswordIfNeeded (d_prims D) u (gt_Password q)) w2 = (rh, w3)" by (metis surj_pair)
    have g3: "good w0 w3" by (rule g_rehash [OF c g2])
    have fail: "good w0 (recordAccountFailure D (Some u) w2)" by (rule g_recordFailure [OF g2]) (use at in simp)
    show ?thesis
    proof (cases "l \<or> \<not> ValidatePassword (d_prims D) u (gt_Password q) \<or> (\<exists>er. rh = Inl er)")
      case True
      with run a b c Inr g2 g3 fail show ?thesis
        by (auto simp: GetToken_Execute_def recordAccountFailure_def split: if_splits prod.splits)
    next
      case False
      then obtain rd u1 where rh: "rh = Inr (rd, u1)" by (cases rh) auto
      have same: "same_identity u1 u"
        using on_envD [OF c] rh Rehash_identity [of "d_prims D" u "gt_Password q" "w_env w2" rd u1 "w_env w3"] by simp
      have at3: "users (w_users w3) (U_ID u) = Some u" using at on_envD [OF c] by simp
      from g_mutate_user [OF g3 at3 same] obtain v where v: "good w0 (mutate_user D u1 w3)"
        "users (w_users (mutate_user D u1 w3)) (U_ID u) = Some v" "same_identity u1 v" by blast
      have idv: "U_ID v = U_ID u" "U_ID u1 = U_ID u" using same v(3) by (simp_all add: same_identity_def)
      have atv: "users (w_users (mutate_user D u1 w3)) (U_ID v) = Some v" using v(2) idv by simp
      obtain u2 w4 where st: "token_settleAccount D u1 rd (mutate_user D u1 w3) = (u2, w4)" by (metis surj_pair)
      have g4: "good w0 w4" and u2: "U_ID u2 = U_ID u" using g_token_settle [OF st v(1) atv v(3)] idv by simp_all
      have "good (mutate_user D u1 w3) w4"
        using g_token_settle [OF st good_start atv v(3)] v(1) by (simp add: good_def)
      then obtain v4 where v4: "users (w_users w4) (U_ID u2) = Some v4" using good_user_stays atv idv u2 by metis
      show ?thesis
      proof (cases "resolveScope (d_ScopeAllowlist D) (gt_Scope q)")
        case Inl': (Inl er)
        with run a b c Inr False rh st g4 show ?thesis by (simp add: GetToken_Execute_def)
      next
        case Inr': (Inr sc)
        let ?req = "\<lparr>is_User = u2, is_ClientID = [], is_Nonce = [], is_Scope = sc,
          is_ExpireSecs = ResolveExpirySecs (gt_ExpireSecs q), is_ExistingGrantID = []\<rparr>"
        obtain tr w5 where i: "on_env (IssueTokens (d_prims D) (d_tokens D) ?req) w4 = (tr, w5)" by (metis surj_pair)
        have g5: "good w0 w5" by (rule g_Issue [OF i g4])
        show ?thesis
        proof (cases tr)
          case (Inl er)
          with run a b c Inr False rh st Inr' i g5 show ?thesis by (simp add: GetToken_Execute_def)
        next
          case tk: (Inr tk)
          obtain se w6 where s: "token_store D u2 tk w5 = (se, w6)" by (metis surj_pair)
          obtain r' where s': "saveRefreshToken D (U_ID u2) [] tk w5 = (r', w6)" using token_store_as_save [OF s] by blast
          have "good w0 w6" by (rule g_saveRefreshToken [OF i [unfolded tk] s' g4 src _ v4]) simp
          with run a b c Inr False rh st Inr' i tk s show ?thesis
            by (auto simp: GetToken_Execute_def split: option.splits)
        qed
      qed
    qed
  qed
qed

end

end
