(* ===== verification/Module.thy ===== *)
theory Module
  imports Preserve
begin

text \<open>
  The module: validation of commands (\<open>core/validator\<close>), the registry of use cases and its dispatch
  (\<open>core/usecase/dispatcher.go\<close>), the metrics it observes (\<open>modules/auth/module.go\<close>).
\<close>

section \<open>Commands and results\<close>

text \<open>The command and query types the module registers; queries without fields have no argument.\<close>

datatype request =
    CreateUserCommand create_user_cmd
  | CreateAuthCodeCommand auth_code_cmd
  | RevokeTokenCommand revoke_cmd
  | UpdateProfileCommand update_profile_cmd
  | RefreshTokenCommand refresh_cmd
  | ExchangeCodeCommand exchange_cmd
  | LogoutCommand logout_cmd
  | ForgotPasswordCommand string
  | ResetPasswordCommand reset_password_cmd
  | GetDiscoveryQuery
  | GetAuthorizeQuery authorize_query
  | GetSignInQuery string
  | GetTokenQuery get_token_query
  | GetProfileQuery string
  | GetJWKSQuery
  | IntrospectTokenQuery introspect_query

datatype result =
    RNil
  | RCreateUser create_user_response
  | RAuthCode string
  | RUpdateProfile update_profile_response
  | RToken token_response
  | RLogout string
  | RDiscovery discovery_response
  | RAuthorize authorize_result
  | RSignIn string
  | RProfile get_profile_response
  | RJWKS "(string \<times> jwk list) list"
  | RIntrospect introspect_response

section \<open>Validation\<close>

text \<open>
  \<open>^(?i)[A-Za-z0-9!@#$%]{8,64}$\<close>. Case folding lets two further runes match the letters: the long s
  (U+017F) and the Kelvin sign (U+212A).
\<close>

definition password_rune :: "nat \<Rightarrow> bool" where
  "password_rune r \<longleftrightarrow> 65 \<le> r \<and> r \<le> 90 \<or> 97 \<le> r \<and> r \<le> 122 \<or> 48 \<le> r \<and> r \<le> 57
     \<or> r = 33 \<or> r = 64 \<or> r = 35 \<or> r = 36 \<or> r = 37 \<or> r = 383 \<or> r = 8490"

definition passwordValidation :: "string \<Rightarrow> bool" where
  "passwordValidation s \<longleftrightarrow> 8 \<le> length (runes s) \<and> length (runes s) \<le> 64 \<and> list_all password_rune (runes s)"

definition hasWordValidation :: "string \<Rightarrow> string \<Rightarrow> bool" where
  "hasWordValidation s param \<longleftrightarrow> list_all (\<lambda>w. w \<in> set (Fields s)) (Fields param)"

definition hasAnyWordValidation :: "string \<Rightarrow> string \<Rightarrow> bool" where
  "hasAnyWordValidation s param \<longleftrightarrow> list_ex (\<lambda>w. w \<in> set (Fields s)) (Fields param)"

text \<open>
  \<open>ValidateStruct\<close> by command: \<open>required\<close> on a string asks for a non-empty one, \<open>omitempty\<close> on a pointer
  skips nil. \<open>email\<close>, the library's address check, is the parameter \<open>em\<close>. The wording of the library's
  error is not modelled.
\<close>

definition token_type_hint_ok :: "string option \<Rightarrow> bool" where
  "token_type_hint_ok h \<longleftrightarrow> (case h of None \<Rightarrow> True | Some v \<Rightarrow> v = ''access_token'' \<or> v = ''refresh_token'')"

fun command_tags :: "prims \<Rightarrow> (string \<Rightarrow> bool) \<Rightarrow> request \<Rightarrow> bool" where
  "command_tags p em (CreateUserCommand c) \<longleftrightarrow> cu_Username c \<noteq> [] \<and> cu_Nickname c \<noteq> [] \<and> cu_Email c \<noteq> [] \<and> em (cu_Email c)
     \<and> cu_Password c \<noteq> [] \<and> passwordValidation (cu_Password c)"
| "command_tags p em (CreateAuthCodeCommand c) \<longleftrightarrow> cac_Email c \<noteq> [] \<and> cac_Password c \<noteq> [] \<and> cac_CSRFToken c \<noteq> [] \<and> cac_SessionID c \<noteq> []"
| "command_tags p em (RevokeTokenCommand c) \<longleftrightarrow> rv_Token c \<noteq> [] \<and> token_type_hint_ok (rv_TokenTypeHint c)"
| "command_tags p em (UpdateProfileCommand c) \<longleftrightarrow> up_UserID c \<noteq> [] \<and> (case up_Email c of None \<Rightarrow> True | Some v \<Rightarrow> em v)"
| "command_tags p em (RefreshTokenCommand c) \<longleftrightarrow> rc_GrantType c \<noteq> [] \<and> rc_RefreshToken c \<noteq> []
     \<and> (case rc_ExpireSecs c of None \<Rightarrow> True | Some n \<Rightarrow> n > 0)"
| "command_tags p em (ExchangeCodeCommand c) \<longleftrightarrow> ec_Code c \<noteq> [] \<and> ec_RedirectURI c \<noteq> [] \<and> redirectURIValidation p (ec_RedirectURI c)
     \<and> (case ec_ExpireSecs c of None \<Rightarrow> True | Some n \<Rightarrow> n > 0)"
| "command_tags p em (LogoutCommand c) \<longleftrightarrow> True"
| "command_tags p em (ForgotPasswordCommand e) \<longleftrightarrow> e \<noteq> [] \<and> em e"
| "command_tags p em (ResetPasswordCommand c) \<longleftrightarrow> rp_Token c \<noteq> [] \<and> rp_Password c \<noteq> []"
| "command_tags p em GetDiscoveryQuery \<longleftrightarrow> True"
| "command_tags p em (GetAuthorizeQuery q) \<longleftrightarrow> aq_ClientID q \<noteq> [] \<and> aq_RedirectURI q \<noteq> [] \<and> redirectURIValidation p (aq_RedirectURI q)"
| "command_tags p em (GetSignInQuery s) \<longleftrightarrow> s \<noteq> [] \<and> p_valid_uuid p s"
| "command_tags p em (GetTokenQuery q) \<longleftrightarrow> gt_Email q \<noteq> [] \<and> em (gt_Email q) \<and> gt_Password q \<noteq> []
     \<and> (case gt_ExpireSecs q of None \<Rightarrow> True | Some n \<Rightarrow> n \<ge> 0)"
| "command_tags p em (GetProfileQuery u) \<longleftrightarrow> u \<noteq> []"
| "command_tags p em GetJWKSQuery \<longleftrightarrow> True"
| "command_tags p em (IntrospectTokenQuery q) \<longleftrightarrow> iq_Token q \<noteq> [] \<and> token_type_hint_ok (iq_TokenTypeHint q)"

definition ValidateStruct :: "prims \<Rightarrow> (string \<Rightarrow> bool) \<Rightarrow> request \<Rightarrow> go_error option" where
  "ValidateStruct p em r = (if command_tags p em r then None else Some (ErrText ''validation failed''))"

section \<open>The registry\<close>

text \<open>
  \<open>reflect.TypeOf\<close>, the key of the registry. A use case asserts the type of its command and panics on
  any other.
\<close>

fun type_of_request :: "request \<Rightarrow> string" where
  "type_of_request (CreateUserCommand _) = ''CreateUserCommand''"
| "type_of_request (CreateAuthCodeCommand _) = ''CreateAuthCodeCommand''"
| "type_of_request (RevokeTokenCommand _) = ''RevokeTokenCommand''"
| "type_of_request (UpdateProfileCommand _) = ''UpdateProfileCommand''"
| "type_of_request (RefreshTokenCommand _) = ''RefreshTokenCommand''"
| "type_of_request (ExchangeCodeCommand _) = ''ExchangeCodeCommand''"
| "type_of_request (LogoutCommand _) = ''LogoutCommand''"
| "type_of_request (ForgotPasswordCommand _) = ''ForgotPasswordCommand''"
| "type_of_request (ResetPasswordCommand _) = ''ResetPasswordCommand''"
| "type_of_request GetDiscoveryQuery = ''GetDiscoveryQuery''"
| "type_of_request (GetAuthorizeQuery _) = ''GetAuthorizeQuery''"
| "type_of_request (GetSignInQuery _) = ''GetSignInQuery''"
| "type_of_request (GetTokenQuery _) = ''GetTokenQuery''"
| "type_of_request (GetProfileQuery _) = ''GetProfileQuery''"
| "type_of_request GetJWKSQuery = ''GetJWKSQuery''"
| "type_of_request (IntrospectTokenQuery _) = ''IntrospectTokenQuery''"

type_synonym ('u, 'r, 'g, 'c) use_case =
  "request \<Rightarrow> ('u, 'r, 'g, 'c) world \<Rightarrow> (go_error + result) \<times> ('u, 'r, 'g, 'c) world"

definition returns :: "('a \<Rightarrow> result) \<Rightarrow> (go_error + 'a) \<times> 'w \<Rightarrow> (go_error + result) \<times> 'w" where
  "returns f x = (case x of (Inl err, w) \<Rightarrow> (Inl err, w) | (Inr a, w) \<Rightarrow> (Inr (f a), w))"

definition returns_nothing :: "go_error option \<times> 'w \<Rightarrow> (go_error + result) \<times> 'w" where
  "returns_nothing x = (case x of (Some err, w) \<Rightarrow> (Inl err, w) | (None, w) \<Rightarrow> (Inr RNil, w))"

definition type_assertion :: go_error where
  "type_assertion = ErrPanic ''interface conversion''"

definition Register ::
  "string \<Rightarrow> ('u, 'r, 'g, 'c) use_case \<Rightarrow> (string \<rightharpoonup> ('u, 'r, 'g, 'c) use_case) \<Rightarrow> (string \<rightharpoonup> ('u, 'r, 'g, 'c) use_case)" where
  "Register t uc R = (case R t of Some _ \<Rightarrow> R | None \<Rightarrow> R(t \<mapsto> uc))"

definition registerUseCases :: "('u, 'r, 'g, 'c) deps \<Rightarrow> (string \<rightharpoonup> ('u, 'r, 'g, 'c) use_case)" where
  "registerUseCases D =
     (Register ''IntrospectTokenQuery'' (\<lambda>r w. case r of IntrospectTokenQuery q \<Rightarrow> returns RIntrospect (IntrospectToken_Execute D q w) | _ \<Rightarrow> (Inl type_assertion, w))
    \<circ> Register ''GetJWKSQuery'' (\<lambda>r w. (Inr (RJWKS (GetJWKS_Execute D)), w))
    \<circ> Register ''GetProfileQuery'' (\<lambda>r w. case r of GetProfileQuery u \<Rightarrow> returns RProfile (GetProfile_Execute D u w) | _ \<Rightarrow> (Inl type_assertion, w))
    \<circ> Register ''GetTokenQuery'' (\<lambda>r w. case r of GetTokenQuery q \<Rightarrow> returns RToken (GetToken_Execute D q w) | _ \<Rightarrow> (Inl type_assertion, w))
    \<circ> Register ''GetSignInQuery'' (\<lambda>r w. case r of GetSignInQuery s \<Rightarrow> returns RSignIn (GetSignIn_Execute D s w) | _ \<Rightarrow> (Inl type_assertion, w))
    \<circ> Register ''GetAuthorizeQuery'' (\<lambda>r w. case r of GetAuthorizeQuery q \<Rightarrow> returns RAuthorize (GetAuthorize_Execute D q w) | _ \<Rightarrow> (Inl type_assertion, w))
    \<circ> Register ''GetDiscoveryQuery'' (\<lambda>r w. (Inr (RDiscovery (GetDiscovery_Execute D)), w))
    \<circ> Register ''ResetPasswordCommand'' (\<lambda>r w. case r of ResetPasswordCommand c \<Rightarrow> returns_nothing (ResetPassword_Execute D c w) | _ \<Rightarrow> (Inl type_assertion, w))
    \<circ> Register ''ForgotPasswordCommand'' (\<lambda>r w. case r of ForgotPasswordCommand e \<Rightarrow> returns_nothing (ForgotPassword_Execute D e w) | _ \<Rightarrow> (Inl type_assertion, w))
    \<circ> Register ''LogoutCommand'' (\<lambda>r w. case r of LogoutCommand c \<Rightarrow> (let (uri, w1) = Logout_Execute D c w in (Inr (RLogout uri), w1)) | _ \<Rightarrow> (Inl type_assertion, w))
    \<circ> Register ''ExchangeCodeCommand'' (\<lambda>r w. case r of ExchangeCodeCommand c \<Rightarrow> returns RToken (ExchangeCode_Execute D c w) | _ \<Rightarrow> (Inl type_assertion, w))
    \<circ> Register ''RefreshTokenCommand'' (\<lambda>r w. case r of RefreshTokenCommand c \<Rightarrow> returns RToken (RefreshToken_Execute D c w) | _ \<Rightarrow> (Inl type_assertion, w))
    \<circ> Register ''UpdateProfileCommand'' (\<lambda>r w. case r of UpdateProfileCommand c \<Rightarrow> returns RUpdateProfile (UpdateProfile_Execute D c w) | _ \<Rightarrow> (Inl type_assertion, w))
    \<circ> Register ''RevokeTokenCommand'' (\<lambda>r w. case r of RevokeTokenCommand c \<Rightarrow> returns_nothing (RevokeToken_Execute D c w) | _ \<Rightarrow> (Inl type_assertion, w))
    \<circ> Register ''CreateAuthCodeCommand'' (\<lambda>r w. case r of CreateAuthCodeCommand c \<Rightarrow> returns RAuthCode (CreateAuthCode_Execute D c w) | _ \<Rightarrow> (Inl type_assertion, w))
    \<circ> Register ''CreateUserCommand'' (\<lambda>r w. case r of CreateUserCommand c \<Rightarrow> returns RCreateUser (CreateUser_Execute D c w) | _ \<Rightarrow> (Inl type_assertion, w)))
     Map.empty"

abbreviation validationErrCode :: ErrCode where "validationErrCode \<equiv> 10001"
abbreviation useCaseNotFoundCode :: ErrCode where "useCaseNotFoundCode \<equiv> 11002"

definition registry_find :: "(string \<rightharpoonup> ('u, 'r, 'g, 'c) use_case) \<Rightarrow> request \<Rightarrow> go_error + ('u, 'r, 'g, 'c) use_case" where
  "registry_find R r =
     (case R (type_of_request r) of
        None \<Rightarrow> Inl (NewErrorStruct useCaseNotFoundCode 404 (ErrText ''use case not found''))
      | Some uc \<Rightarrow> Inr uc)"

text \<open>
  A panic of the use case reaches the caller as an error whose text starts with \<open>panic in registry\<close>,
  which is how \<open>ErrPanic\<close> reads.
\<close>

definition Registry_Dispatch ::
  "prims \<Rightarrow> (string \<Rightarrow> bool) \<Rightarrow> (string \<rightharpoonup> ('u, 'r, 'g, 'c) use_case) \<Rightarrow> ('u, 'r, 'g, 'c) use_case" where
  "Registry_Dispatch p em R r w =
     (case registry_find R r of
        Inl err \<Rightarrow> (Inl err, w)
      | Inr uc \<Rightarrow>
          (case ValidateStruct p em r of
             Some err \<Rightarrow> (Inl (NewErrorStruct validationErrCode 400 err), w)
           | None \<Rightarrow> uc r w))"

section \<open>The module\<close>

definition observeMetrics ::
  "request \<Rightarrow> go_error option \<Rightarrow> ('u, 'r, 'g, 'c) world \<Rightarrow> ('u, 'r, 'g, 'c) world" where
  "observeMetrics r err w =
     (case err of
        Some e \<Rightarrow>
          if err_Code e = Some InvalidEmailOrPassword then w\<lparr>w_failed_logins := Suc (w_failed_logins w)\<rparr> else w
      | None \<Rightarrow>
          (case r of
             ExchangeCodeCommand _ \<Rightarrow> w\<lparr>w_tokens_issued := Suc (w_tokens_issued w)\<rparr>
           | CreateAuthCodeCommand _ \<Rightarrow> w\<lparr>w_tokens_issued := Suc (w_tokens_issued w)\<rparr>
           | GetTokenQuery _ \<Rightarrow> w\<lparr>w_tokens_issued := Suc (w_tokens_issued w)\<rparr>
           | _ \<Rightarrow> w))"

definition Module_Dispatch :: "('u, 'r, 'g, 'c) deps \<Rightarrow> (string \<Rightarrow> bool) \<Rightarrow> ('u, 'r, 'g, 'c) use_case" where
  "Module_Dispatch D em r w =
     (let (res, w1) = Registry_Dispatch (d_prims D) em (registerUseCases D) r w in
      (res, observeMetrics r (case res of Inl err \<Rightarrow> Some err | Inr _ \<Rightarrow> None) w1))"

section \<open>What dispatch guarantees\<close>

text \<open>Every command type has its own use case.\<close>

fun Execute :: "('u, 'r, 'g, 'c) deps \<Rightarrow> ('u, 'r, 'g, 'c) use_case" where
  "Execute D (CreateUserCommand c) w = returns RCreateUser (CreateUser_Execute D c w)"
| "Execute D (CreateAuthCodeCommand c) w = returns RAuthCode (CreateAuthCode_Execute D c w)"
| "Execute D (RevokeTokenCommand c) w = returns_nothing (RevokeToken_Execute D c w)"
| "Execute D (UpdateProfileCommand c) w = returns RUpdateProfile (UpdateProfile_Execute D c w)"
| "Execute D (RefreshTokenCommand c) w = returns RToken (RefreshToken_Execute D c w)"
| "Execute D (ExchangeCodeCommand c) w = returns RToken (ExchangeCode_Execute D c w)"
| "Execute D (LogoutCommand c) w = (let (uri, w1) = Logout_Execute D c w in (Inr (RLogout uri), w1))"
| "Execute D (ForgotPasswordCommand e) w = returns_nothing (ForgotPassword_Execute D e w)"
| "Execute D (ResetPasswordCommand c) w = returns_nothing (ResetPassword_Execute D c w)"
| "Execute D GetDiscoveryQuery w = (Inr (RDiscovery (GetDiscovery_Execute D)), w)"
| "Execute D (GetAuthorizeQuery q) w = returns RAuthorize (GetAuthorize_Execute D q w)"
| "Execute D (GetSignInQuery s) w = returns RSignIn (GetSignIn_Execute D s w)"
| "Execute D (GetTokenQuery q) w = returns RToken (GetToken_Execute D q w)"
| "Execute D (GetProfileQuery u) w = returns RProfile (GetProfile_Execute D u w)"
| "Execute D GetJWKSQuery w = (Inr (RJWKS (GetJWKS_Execute D)), w)"
| "Execute D (IntrospectTokenQuery q) w = returns RIntrospect (IntrospectToken_Execute D q w)"

lemma Register_same [simp]: "R t = None \<Longrightarrow> Register t uc R t = Some uc"
  by (simp add: Register_def)

lemma Register_other [simp]: "t \<noteq> s \<Longrightarrow> Register t uc R s = R s"
  by (simp add: Register_def split: option.splits)

lemma registered:
  "\<exists>uc. registerUseCases D (type_of_request r) = Some uc \<and> (\<forall>w. uc r w = Execute D r w)"
  by (cases r) (simp_all add: registerUseCases_def)

lemma dispatch_execute:
  "Registry_Dispatch p em (registerUseCases D) r w =
     (if command_tags p em r then Execute D r w
      else (Inl (NewErrorStruct validationErrCode 400 (ErrText ''validation failed'')), w))"
  using registered [of D r] by (auto simp: Registry_Dispatch_def registry_find_def ValidateStruct_def)

lemma observeMetrics_frame:
  "w_users (observeMetrics r e w) = w_users w" "w_rts (observeMetrics r e w) = w_rts w"
  "w_grants (observeMetrics r e w) = w_grants w" "w_cache (observeMetrics r e w) = w_cache w"
  "w_env (observeMetrics r e w) = w_env w" "w_mail (observeMetrics r e w) = w_mail w"
  by (simp_all add: observeMetrics_def split: option.splits request.splits)

context auth_app
begin

lemma g_observe: "good w0 w \<Longrightarrow> good w0 (observeMetrics r e w)"
  by (rule good_frame, assumption) (auto simp: observeMetrics_frame wok_def dest!: good_wok)

text \<open>Every use case keeps the invariant and moves the state forward.\<close>

lemma returns_state: "returns f x = (r, w') \<Longrightarrow> \<exists>y. x = (y, w')"
  by (auto simp: returns_def split: prod.splits sum.splits)

lemma returns_nothing_state: "returns_nothing x = (r, w') \<Longrightarrow> \<exists>y. x = (y, w')"
  by (auto simp: returns_nothing_def split: prod.splits option.splits)

lemmas handler_steps = g_CreateUser g_CreateAuthCode g_RevokeToken g_UpdateProfile g_Logout g_ResetPassword g_GetAuthorize
  g_GetSignIn g_GetProfile g_Introspect
lemmas fresh_handler_steps = g_RefreshToken g_ExchangeCode g_ForgotPassword g_GetToken

lemma g_Execute:
  assumes "Execute D r w = (x, w')" and "good w0 w" and "fresh_source (d_prims D)"
  shows "good w0 w'"
  using assms
  by (cases r)
    (auto split: prod.split_asm dest!: returns_state returns_nothing_state elim: handler_steps fresh_handler_steps)

lemma g_Dispatch:
  assumes "Module_Dispatch D em r w = (x, w')" and "good w0 w" and "fresh_source (d_prims D)"
  shows "good w0 w'"
proof -
  obtain y w1 where d: "Registry_Dispatch (d_prims D) em (registerUseCases D) r w = (y, w1)" by (metis surj_pair)
  have "good w0 w1" using d assms(2,3) by (auto simp: dispatch_execute split: if_splits elim: g_Execute)
  moreover have "w' = observeMetrics r (case y of Inl err \<Rightarrow> Some err | Inr _ \<Rightarrow> None) w1"
    using assms(1) d by (auto simp: Module_Dispatch_def)
  ultimately show ?thesis using g_observe by blast
qed

end

end
