(* ===== verification/Web.thy ===== *)
theory Web
  imports Module
begin

text \<open>
  The HTTP delivery: binding of requests to commands (\<open>handler/web/binding\<close>), the middlewares
  (\<open>handler/web/middleware\<close>), the responder (\<open>handler/web/responder\<close>), the generic handlers
  (\<open>handler/web/handler.go\<close>) and the routes (\<open>adapter/in/router.go\<close>).
\<close>

section \<open>Requests and responses\<close>

text \<open>
  What the engine gives a handler. \<open>hr_path\<close> is the pattern of the matched route (empty for none);
  \<open>hr_bound\<close> and \<open>hr_int\<close> are what the engine's own binders (URI, query, header, body) found for a
  field, by the field's Go name, and \<open>hr_bind_error\<close> the error they reported.
\<close>

record http_request =
  hr_method :: string
  hr_path :: string
  hr_remote_ip :: string
  hr_request_id :: string
  hr_authorization :: string
  hr_basic :: "(string \<times> string) option"
  hr_form_grant_type :: string
  hr_json_grant_type :: "string option"
  hr_bind_error :: "go_error option"
  hr_bound :: "string \<Rightarrow> string option"
  hr_int :: "string \<Rightarrow> int option"
  hr_cookie :: "string \<Rightarrow> string option"

datatype same_site = Strict | Lax

record cookie =
  ck_Name :: string
  ck_Value :: string
  ck_MaxAge :: int
  ck_SameSite :: same_site
  ck_Secure :: bool
  ck_HttpOnly :: bool

datatype http_body =
    NoBody
  | Body result
  | ErrorBody string ErrCode
  | OAuth2Body string string
  | MessageBody string
  | Page string "(string \<times> string) list"

type_synonym headers = "(string \<times> string) list"

record http_response =
  hs_status :: int
  hs_headers :: headers
  hs_cookies :: "cookie list"
  hs_body :: http_body

definition header_Set :: "string \<Rightarrow> string \<Rightarrow> headers \<Rightarrow> headers" where
  "header_Set k v h = (k, v) # filter (\<lambda>x. fst x \<noteq> k) h"

definition header_Del :: "string \<Rightarrow> headers \<Rightarrow> headers" where
  "header_Del k h = filter (\<lambda>x. fst x \<noteq> k) h"

text \<open>The values middlewares leave in the request context.\<close>

record web_ctx =
  cx_access_token :: "string option"
  cx_user_id :: "string option"
  cx_basic_client_id :: "string option"
  cx_basic_client_secret :: "string option"
  cx_cookie_secure :: bool
  cx_oauth2_errors :: bool

section \<open>The responder\<close>

abbreviation CookieRefreshToken :: string where "CookieRefreshToken \<equiv> ''refresh_token''"
abbreviation CookieAuthorizeRequest :: string where "CookieAuthorizeRequest \<equiv> ''auth_session''"
abbreviation SignInPath :: string where "SignInPath \<equiv> ''/sign-in''"

text \<open>\<open>URL()\<close>, \<open>Cookies()\<close> and \<open>HTMLPage()\<close> of the results that have them. A cookie without a mode is strict.\<close>

fun result_URL :: "prims \<Rightarrow> result \<Rightarrow> string option" where
  "result_URL p (RAuthCode uri) = Some uri"
| "result_URL p (RLogout uri) = Some uri"
| "result_URL p (RAuthorize (AuthorizeErrorRedirect uri err st)) = Some (AuthorizeErrorRedirect_URL p uri err st)"
| "result_URL p (RAuthorize (GetAuthorizeResponse sid)) = Some SignInPath"
| "result_URL p _ = None"

fun result_Cookies :: "result \<Rightarrow> (string \<times> string \<times> int \<times> same_site option) list" where
  "result_Cookies (RAuthCode uri) = [(CookieAuthorizeRequest, [], -1, Some Lax)]"
| "result_Cookies (RLogout uri) = [(CookieRefreshToken, [], -1, None)]"
| "result_Cookies (RAuthorize (GetAuthorizeResponse sid)) =
     [(CookieAuthorizeRequest, sid, AuthorizeRequestTTL div Second, Some Lax)]"
| "result_Cookies _ = []"

fun result_Page :: "result \<Rightarrow> (string \<times> (string \<times> string) list) option" where
  "result_Page (RSignIn csrf) = Some (''sign_in.html'', [(''title'', ''Sign In''), (''csrf_token'', csrf)])"
| "result_Page _ = None"

definition setCookies :: "bool \<Rightarrow> (string \<times> string \<times> int \<times> same_site option) list \<Rightarrow> cookie list" where
  "setCookies secure cs = map (\<lambda>(n, v, age, ss).
     \<lparr>ck_Name = n, ck_Value = v, ck_MaxAge = age, ck_SameSite = (case ss of None \<Rightarrow> Strict | Some m \<Rightarrow> m),
      ck_Secure = secure, ck_HttpOnly = True\<rparr>) cs"

definition noStore :: "headers \<Rightarrow> headers" where
  "noStore h = header_Set ''Expires'' ''0'' (header_Set ''Pragma'' ''no-cache'' (header_Set ''Cache-Control'' ''no-store'' h))"

definition redirectStatus :: "string \<Rightarrow> int" where
  "redirectStatus m = (if m = ''POST'' then 303 else 302)"

text \<open>\<open>OAuth2Code()\<close> and \<open>OAuth2Description()\<close>, where the dynamic type has them.\<close>

fun err_OAuth2 :: "go_error \<Rightarrow> (string \<times> string) option" where
  "err_OAuth2 (HTTPError c h e) = Some (OAuth2CodeFor c, err_Error e)"
| "err_OAuth2 (OAuth2Err s c d) = Some (c, d)"
| "err_OAuth2 _ = None"

definition failOAuth2 :: "go_error \<Rightarrow> headers \<Rightarrow> http_response" where
  "failOAuth2 err h =
     (let status = (case err_HTTPStatus err of Some s \<Rightarrow> if s \<noteq> 0 then s else 400 | None \<Rightarrow> 400);
          (code, desc) = (case err_OAuth2 err of
             Some (c, d) \<Rightarrow> (if c \<noteq> [] then c else OAuth2InvalidRequest, d)
           | None \<Rightarrow> (OAuth2InvalidRequest, err_Error err));
          h1 = (if code = OAuth2InvalidClient \<and> status = 401
             then header_Set ''WWW-Authenticate'' ''Basic realm=\"oauth2\"'' h else h) in
      \<lparr>hs_status = status, hs_headers = h1, hs_cookies = [], hs_body = OAuth2Body code desc\<rparr>)"

definition fail :: "web_ctx \<Rightarrow> go_error \<Rightarrow> bool \<Rightarrow> headers \<Rightarrow> http_response" where
  "fail cx err isHTML h =
     (if isHTML then
        let status = (case (err_Code err, err_HTTPStatus err) of
               (Some _, Some s) \<Rightarrow> if s \<noteq> 0 then s else 500 | _ \<Rightarrow> 500) in
        \<lparr>hs_status = status, hs_headers = h, hs_cookies = [],
         hs_body = Page ''error.html'' [(''title'', ''Something went wrong''), (''message'', err_Error err)]\<rparr>
      else if cx_oauth2_errors cx then failOAuth2 err h
      else case err_Code err of
          None \<Rightarrow> \<lparr>hs_status = 500, hs_headers = h, hs_cookies = [], hs_body = ErrorBody ''internal server error'' 90000\<rparr>
        | Some code \<Rightarrow>
            \<lparr>hs_status = (case err_HTTPStatus err of Some s \<Rightarrow> if s \<noteq> 0 then s else 500 | None \<Rightarrow> 500),
             hs_headers = h, hs_cookies = [], hs_body = ErrorBody (err_Error err) code\<rparr>)"

definition Response :: "prims \<Rightarrow> web_ctx \<Rightarrow> string \<Rightarrow> headers \<Rightarrow> go_error + result \<Rightarrow> bool \<Rightarrow> http_response" where
  "Response p cx m h res isHTML =
     (case res of
        Inl err \<Rightarrow> fail cx err isHTML h
      | Inr data \<Rightarrow>
          let cks = setCookies (cx_cookie_secure cx) (result_Cookies data) in
          if (case result_URL p data of None \<Rightarrow> False | Some u \<Rightarrow> u \<noteq> []) then
            \<lparr>hs_status = redirectStatus m,
             hs_headers = header_Set ''Content-Length'' ''0'' (header_Set ''Location'' (the (result_URL p data)) (noStore h)),
             hs_cookies = cks, hs_body = NoBody\<rparr>
          else case result_Page data of
              Some (page, dat) \<Rightarrow> \<lparr>hs_status = 200, hs_headers = noStore h, hs_cookies = cks, hs_body = Page page dat\<rparr>
            | None \<Rightarrow> \<lparr>hs_status = 200, hs_headers = h, hs_cookies = cks, hs_body = Body data\<rparr>)"

section \<open>Binding\<close>

definition normalizeURI :: "prims \<Rightarrow> string \<Rightarrow> string" where
  "normalizeURI p raw = (case p_url_Parse p raw of None \<Rightarrow> raw | Some u \<Rightarrow> p_url_String p u)"

text \<open>
  \<open>bindFromContext\<close>, field by field: a \<open>ctx\<close> field takes the context value if there is one and keeps
  what the engine's binders left otherwise; a cookie only fills an empty field.
\<close>

definition bound_string :: "http_request \<Rightarrow> string \<Rightarrow> string" where
  "bound_string rq f = (case hr_bound rq f of None \<Rightarrow> [] | Some v \<Rightarrow> v)"

definition bind_ctx :: "string option \<Rightarrow> string \<Rightarrow> string" where
  "bind_ctx cv v = (case cv of Some x \<Rightarrow> x | None \<Rightarrow> v)"

definition bind_ctx_ptr :: "string option \<Rightarrow> string option \<Rightarrow> string option" where
  "bind_ctx_ptr cv v = (case cv of Some x \<Rightarrow> Some x | None \<Rightarrow> v)"

definition bind_cookie :: "string option \<Rightarrow> string \<Rightarrow> string" where
  "bind_cookie cv v = (if v \<noteq> [] then v else case cv of Some x \<Rightarrow> x | None \<Rightarrow> v)"

definition bind_uri :: "prims \<Rightarrow> string \<Rightarrow> string" where
  "bind_uri p v = (if v \<noteq> [] then normalizeURI p v else v)"

datatype command_type = T_CreateUser | T_CreateAuthCode | T_RevokeToken | T_UpdateProfile | T_RefreshToken | T_ExchangeCode
  | T_Logout | T_ForgotPassword | T_ResetPassword | T_GetDiscovery | T_GetAuthorize | T_GetSignIn | T_GetToken
  | T_GetProfile | T_GetJWKS | T_IntrospectToken

fun bind_command :: "prims \<Rightarrow> web_ctx \<Rightarrow> http_request \<Rightarrow> command_type \<Rightarrow> request" where
  "bind_command p cx rq T_CreateUser = CreateUserCommand
     \<lparr>cu_Username = bound_string rq ''Username'', cu_Nickname = bound_string rq ''Nickname'',
      cu_Email = bound_string rq ''Email'', cu_Password = bound_string rq ''Password''\<rparr>"
| "bind_command p cx rq T_CreateAuthCode = CreateAuthCodeCommand
     \<lparr>cac_Email = bound_string rq ''Email'', cac_Password = bound_string rq ''Password'',
      cac_CSRFToken = bound_string rq ''CSRFToken'',
      cac_SessionID = bind_cookie (hr_cookie rq CookieAuthorizeRequest) (bound_string rq ''SessionID'')\<rparr>"
| "bind_command p cx rq T_RevokeToken = RevokeTokenCommand
     \<lparr>rv_CallerID = bind_ctx (cx_user_id cx) (bound_string rq ''CallerID''),
      rv_ClientID = bound_string rq ''ClientID'', rv_ClientSecret = bound_string rq ''ClientSecret'',
      rv_BasicClientID = bind_ctx (cx_basic_client_id cx) (bound_string rq ''BasicClientID''),
      rv_BasicClientSecret = bind_ctx (cx_basic_client_secret cx) (bound_string rq ''BasicClientSecret''),
      rv_Token = bound_string rq ''Token'', rv_TokenTypeHint = hr_bound rq ''TokenTypeHint''\<rparr>"
| "bind_command p cx rq T_UpdateProfile = UpdateProfileCommand
     \<lparr>up_UserID = bind_ctx (cx_user_id cx) (bound_string rq ''UserID''), up_Username = hr_bound rq ''Username'',
      up_Nickname = hr_bound rq ''Nickname'', up_Email = hr_bound rq ''Email''\<rparr>"
| "bind_command p cx rq T_RefreshToken = RefreshTokenCommand
     \<lparr>rc_GrantType = bound_string rq ''GrantType'', rc_ClientID = bound_string rq ''ClientID'',
      rc_ClientSecret = bound_string rq ''ClientSecret'',
      rc_BasicClientID = bind_ctx (cx_basic_client_id cx) (bound_string rq ''BasicClientID''),
      rc_BasicClientSecret = bind_ctx (cx_basic_client_secret cx) (bound_string rq ''BasicClientSecret''),
      rc_RefreshToken = bind_cookie (hr_cookie rq CookieRefreshToken) (bound_string rq ''RefreshToken''),
      rc_ExpireSecs = hr_int rq ''ExpireSecs''\<rparr>"
| "bind_command p cx rq T_ExchangeCode = ExchangeCodeCommand
     \<lparr>ec_Code = bound_string rq ''Code'', ec_ClientID = bound_string rq ''ClientID'',
      ec_ClientSecret = bound_string rq ''ClientSecret'',
      ec_BasicClientID = bind_ctx (cx_basic_client_id cx) (bound_string rq ''BasicClientID''),
      ec_BasicClientSecret = bind_ctx (cx_basic_client_secret cx) (bound_string rq ''BasicClientSecret''),
      ec_RedirectURI = bind_uri p (bound_string rq ''RedirectURI''), ec_ExpireSecs = hr_int rq ''ExpireSecs'',
      ec_CodeVerifier = bound_string rq ''CodeVerifier''\<rparr>"
| "bind_command p cx rq T_Logout = LogoutCommand
     \<lparr>lc_AccessToken = bind_ctx_ptr (cx_access_token cx) (hr_bound rq ''AccessToken''),
      lc_PostLogoutRedirectURI = hr_bound rq ''PostLogoutRedirectURI''\<rparr>"
| "bind_command p cx rq T_ForgotPassword = ForgotPasswordCommand (bound_string rq ''Email'')"
| "bind_command p cx rq T_ResetPassword = ResetPasswordCommand
     \<lparr>rp_Token = bound_string rq ''Token'', rp_Password = bound_string rq ''Password''\<rparr>"
| "bind_command p cx rq T_GetDiscovery = GetDiscoveryQuery"
| "bind_command p cx rq T_GetAuthorize = GetAuthorizeQuery
     \<lparr>aq_ResponseType = bound_string rq ''ResponseType'', aq_ClientID = bound_string rq ''ClientID'',
      aq_RedirectURI = bind_uri p (bound_string rq ''RedirectURI''), aq_Scope = bound_string rq ''Scope'',
      aq_State = hr_bound rq ''State'', aq_Nonce = hr_bound rq ''Nonce'', aq_CodeChallenge = hr_bound rq ''CodeChallenge'',
      aq_CodeChallengeMethod = hr_bound rq ''CodeChallengeMethod''\<rparr>"
| "bind_command p cx rq T_GetSignIn = GetSignInQuery
     (bind_cookie (hr_cookie rq CookieAuthorizeRequest) (bound_string rq ''SessionID''))"
| "bind_command p cx rq T_GetToken = GetTokenQuery
     \<lparr>gt_Email = bound_string rq ''Email'', gt_Password = bound_string rq ''Password'', gt_Scope = hr_bound rq ''Scope'',
      gt_ExpireSecs = hr_int rq ''ExpireSecs''\<rparr>"
| "bind_command p cx rq T_GetProfile = GetProfileQuery (bind_ctx (cx_user_id cx) (bound_string rq ''UserID''))"
| "bind_command p cx rq T_GetJWKS = GetJWKSQuery"
| "bind_command p cx rq T_IntrospectToken = IntrospectTokenQuery
     \<lparr>iq_ClientID = bound_string rq ''ClientID'', iq_ClientSecret = bound_string rq ''ClientSecret'',
      iq_BasicClientID = bind_ctx (cx_basic_client_id cx) (bound_string rq ''BasicClientID''),
      iq_BasicClientSecret = bind_ctx (cx_basic_client_secret cx) (bound_string rq ''BasicClientSecret''),
      iq_Token = bound_string rq ''Token'', iq_TokenTypeHint = hr_bound rq ''TokenTypeHint''\<rparr>"

definition Bind :: "prims \<Rightarrow> web_ctx \<Rightarrow> http_request \<Rightarrow> command_type \<Rightarrow> go_error + request" where
  "Bind p cx rq t = (case hr_bind_error rq of Some err \<Rightarrow> Inl err | None \<Rightarrow> Inr (bind_command p cx rq t))"

section \<open>Generic handlers\<close>

definition map_error :: "go_error + result \<Rightarrow> go_error + result" where
  "map_error res = (case res of Inl err \<Rightarrow> Inl (the (MapHTTPError (Some err))) | Inr a \<Rightarrow> Inr a)"

definition handle ::
  "('u, 'r, 'g, 'c) deps \<Rightarrow> (string \<Rightarrow> bool) \<Rightarrow> bool \<Rightarrow> command_type \<Rightarrow> http_request \<Rightarrow> web_ctx \<Rightarrow> headers
     \<Rightarrow> ('u, 'r, 'g, 'c) world \<Rightarrow> http_response \<times> ('u, 'r, 'g, 'c) world" where
  "handle D em isHTML t rq cx h w =
     (case Bind (d_prims D) cx rq t of
        Inl err \<Rightarrow> (Response (d_prims D) cx (hr_method rq) h (Inl err) isHTML, w)
      | Inr cmd \<Rightarrow>
          let (res, w1) = Module_Dispatch D em cmd w in
          (Response (d_prims D) cx (hr_method rq) h (map_error res) isHTML, w1))"

text \<open>\<open>HandleIf\<close>, once its condition holds: a binding error goes through the error mapper as well.\<close>

definition HandleIf ::
  "('u, 'r, 'g, 'c) deps \<Rightarrow> (string \<Rightarrow> bool) \<Rightarrow> command_type \<Rightarrow> http_request \<Rightarrow> web_ctx \<Rightarrow> headers
     \<Rightarrow> ('u, 'r, 'g, 'c) world \<Rightarrow> http_response \<times> ('u, 'r, 'g, 'c) world" where
  "HandleIf D em t rq cx h w =
     (case Bind (d_prims D) cx rq t of
        Inl err \<Rightarrow> (Response (d_prims D) cx (hr_method rq) h (map_error (Inl err)) False, w)
      | Inr cmd \<Rightarrow>
          let (res, w1) = Module_Dispatch D em cmd w in
          (Response (d_prims D) cx (hr_method rq) h (map_error res) False, w1))"

section \<open>Middlewares\<close>

definition maxInboundRequestID :: nat where "maxInboundRequestID = 128"

definition RequestID :: "prims \<Rightarrow> http_request \<Rightarrow> env \<Rightarrow> string \<times> env" where
  "RequestID p rq e =
     (if hr_request_id rq = [] \<or> length (hr_request_id rq) > maxInboundRequestID then uuid_NewString p e
      else (hr_request_id rq, e))"

definition SecurityHeaders :: "headers \<Rightarrow> headers" where
  "SecurityHeaders h =
     header_Set ''Pragma'' ''no-cache'' (header_Set ''Cache-Control'' ''no-store''
       (header_Set ''Referrer-Policy'' ''no-referrer'' (header_Set ''X-Content-Type-Options'' ''nosniff''
         (header_Set ''Content-Security-Policy'' (''frame-ancestors '' @ CHR 0x27 # ''none'' @ [CHR 0x27])
           (header_Set ''X-Frame-Options'' ''DENY'' h)))))"

definition CachePublic :: "headers \<Rightarrow> headers" where
  "CachePublic h = header_Del ''Pragma'' (header_Set ''Cache-Control'' ''public, max-age=300'' h)"

definition ExtractClientCredentials :: "http_request \<Rightarrow> web_ctx \<Rightarrow> web_ctx" where
  "ExtractClientCredentials rq cx =
     (case hr_basic rq of
        None \<Rightarrow> cx
      | Some (cid, secret) \<Rightarrow> cx\<lparr>cx_basic_client_id := Some cid, cx_basic_client_secret := Some secret\<rparr>)"

definition ExtractAccessToken :: "http_request \<Rightarrow> web_ctx \<Rightarrow> web_ctx" where
  "ExtractAccessToken rq cx =
     (case extractBearerToken (hr_authorization rq) of None \<Rightarrow> cx | Some tok \<Rightarrow> cx\<lparr>cx_access_token := Some tok\<rparr>)"

definition set_identity :: "bearer_identity \<Rightarrow> web_ctx \<Rightarrow> web_ctx" where
  "set_identity bi cx = cx\<lparr>cx_access_token := Some (bi_access_token bi), cx_user_id := Some (bi_user_id bi)\<rparr>"

definition OAuth2Errors :: "web_ctx \<Rightarrow> web_ctx" where
  "OAuth2Errors cx = cx\<lparr>cx_oauth2_errors := True\<rparr>"

text \<open>
  \<open>hr_json_grant_type\<close> is the \<open>grant_type\<close> of a JSON body of at most a megabyte, \<open>None\<close> if the body is
  no such.
\<close>

definition grantType :: "http_request \<Rightarrow> string" where
  "grantType rq =
     (if hr_form_grant_type rq \<noteq> [] then hr_form_grant_type rq
      else case hr_json_grant_type rq of None \<Rightarrow> [] | Some g \<Rightarrow> g)"

definition GrantType :: "string list \<Rightarrow> http_request \<Rightarrow> go_error + string" where
  "GrantType allowed rq =
     (let gt = grantType rq in
      if gt = [] then Inl (OAuth2Err 400 OAuth2InvalidRequest ''grant_type is required'')
      else if allowed \<noteq> [] \<and> gt \<notin> set allowed then Inl (OAuth2Err 400 OAuth2UnsupportedGrantType ''unsupported grant_type'')
      else Inr gt)"

definition rateLimitCacheKey :: "string \<Rightarrow> string" where
  "rateLimitCacheKey ip = ''ratelimit:'' @ ip"

definition isFailClosedPath :: "string \<Rightarrow> bool" where
  "isFailClosedPath path \<longleftrightarrow> path \<in> {''/sign-in'', ''/token'', ''/protocol/openid-connect/token''}"

text \<open>Whether the request goes on.\<close>

definition DistributedRateLimit ::
  "('u, 'r, 'g, 'c) deps \<Rightarrow> int \<Rightarrow> duration \<Rightarrow> http_request \<Rightarrow> ('u, 'r, 'g, 'c) world \<Rightarrow> bool \<times> ('u, 'r, 'g, 'c) world" where
  "DistributedRateLimit D limit window rq w =
     (if hr_remote_ip rq = [] then (False, w)
      else case on_cache (k_IncrWindow (d_cache D) (rateLimitCacheKey (hr_remote_ip rq)) window) w of
          (Inl err, w1) \<Rightarrow> (\<not> isFailClosedPath (hr_path rq), w1)
        | (Inr count, w1) \<Rightarrow> (count \<le> limit, w1))"

section \<open>Routes\<close>

datatype route = R_SignInPage | R_SignUpPage | R_Authorize | R_Certs | R_Token | R_SignUp | R_SignIn | R_ForgotPassword
  | R_ResetPassword | R_Discovery | R_UserInfo | R_Logout | R_Revoke | R_Introspect | R_UpdateProfile

definition routes :: "((string \<times> string) \<times> route) list" where
  "routes =
     [((''GET'', ''/sign-in''), R_SignInPage), ((''GET'', ''/sign-up''), R_SignUpPage),
      ((''GET'', ''/authorize''), R_Authorize), ((''GET'', ''/protocol/openid-connect/auth''), R_Authorize),
      ((''GET'', ''/protocol/openid-connect/certs''), R_Certs), ((''POST'', ''/token''), R_Token),
      ((''POST'', ''/protocol/openid-connect/token''), R_Token), ((''POST'', ''/sign-up''), R_SignUp),
      ((''POST'', ''/sign-in''), R_SignIn), ((''POST'', ''/forgot-password''), R_ForgotPassword),
      ((''POST'', ''/reset-password''), R_ResetPassword), ((''GET'', ''/.well-known/openid-configuration''), R_Discovery),
      ((''GET'', ''/.well-known/jwks.json''), R_Certs), ((''GET'', ''/userinfo''), R_UserInfo),
      ((''GET'', ''/protocol/openid-connect/userinfo''), R_UserInfo), ((''GET'', ''/oidc/logout''), R_Logout),
      ((''POST'', ''/oidc/logout''), R_Logout), ((''POST'', ''/oidc/revoke''), R_Revoke),
      ((''POST'', ''/oidc/introspect''), R_Introspect), ((''GET'', ''/oidc/me''), R_UserInfo),
      ((''POST'', ''/api/v3/update-profile''), R_UpdateProfile)]"

definition authenticated ::
  "('u, 'r, 'g, 'c) deps \<Rightarrow> (web_ctx \<Rightarrow> headers \<Rightarrow> ('u, 'r, 'g, 'c) world \<Rightarrow> http_response \<times> ('u, 'r, 'g, 'c) world)
     \<Rightarrow> http_request \<Rightarrow> web_ctx \<Rightarrow> headers \<Rightarrow> ('u, 'r, 'g, 'c) world \<Rightarrow> http_response \<times> ('u, 'r, 'g, 'c) world" where
  "authenticated D k rq cx h w =
     (case mw_Authenticate D (hr_authorization rq) w of
        (Inl err, w1) \<Rightarrow>
          (Response (d_prims D) cx (hr_method rq) (header_Set ''WWW-Authenticate'' ''Bearer'' h) (Inl err) False, w1)
      | (Inr bi, w1) \<Rightarrow> k (set_identity bi cx) h w1)"

definition token_handlers ::
  "('u, 'r, 'g, 'c) deps \<Rightarrow> (string \<Rightarrow> bool) \<Rightarrow> http_request \<Rightarrow> web_ctx \<Rightarrow> headers
     \<Rightarrow> ('u, 'r, 'g, 'c) world \<Rightarrow> http_response \<times> ('u, 'r, 'g, 'c) world" where
  "token_handlers D em rq cx h w =
     (let cx1 = OAuth2Errors cx in
      case GrantType [''refresh_token'', ''authorization_code'', ''password''] rq of
        Inl err \<Rightarrow> (Response (d_prims D) cx1 (hr_method rq) h (Inl err) False, w)
      | Inr gt \<Rightarrow>
          let cx2 = ExtractClientCredentials rq cx1 in
          if gt = ''refresh_token'' then HandleIf D em T_RefreshToken rq cx2 h w
          else if gt = ''authorization_code'' then HandleIf D em T_ExchangeCode rq cx2 h w
          else HandleIf D em T_GetToken rq cx2 h w)"

fun serve_route ::
  "('u, 'r, 'g, 'c) deps \<Rightarrow> (string \<Rightarrow> bool) \<Rightarrow> route \<Rightarrow> http_request \<Rightarrow> web_ctx \<Rightarrow> headers
     \<Rightarrow> ('u, 'r, 'g, 'c) world \<Rightarrow> http_response \<times> ('u, 'r, 'g, 'c) world" where
  "serve_route D em R_SignInPage rq cx h w = handle D em True T_GetSignIn rq cx h w"
| "serve_route D em R_SignUpPage rq cx h w =
     (\<lparr>hs_status = 200, hs_headers = h, hs_cookies = [], hs_body = Page ''sign_up.html'' [(''title'', ''Create Account'')]\<rparr>, w)"
| "serve_route D em R_Authorize rq cx h w = handle D em False T_GetAuthorize rq cx h w"
| "serve_route D em R_Certs rq cx h w = handle D em False T_GetJWKS rq cx (CachePublic h) w"
| "serve_route D em R_Token rq cx h w = token_handlers D em rq cx h w"
| "serve_route D em R_SignUp rq cx h w = handle D em False T_CreateUser rq cx h w"
| "serve_route D em R_SignIn rq cx h w = handle D em False T_CreateAuthCode rq cx h w"
| "serve_route D em R_ForgotPassword rq cx h w = handle D em False T_ForgotPassword rq cx h w"
| "serve_route D em R_ResetPassword rq cx h w = handle D em False T_ResetPassword rq cx h w"
| "serve_route D em R_Discovery rq cx h w = handle D em False T_GetDiscovery rq cx (CachePublic h) w"
| "serve_route D em R_UserInfo rq cx h w = authenticated D (handle D em False T_GetProfile rq) rq cx h w"
| "serve_route D em R_Logout rq cx h w = handle D em False T_Logout rq (ExtractAccessToken rq cx) h w"
| "serve_route D em R_Revoke rq cx h w =
     (let cx1 = OAuth2Errors cx; (bi, w1) = mw_AuthenticateOptional D (hr_authorization rq) w;
          cx2 = (case bi of None \<Rightarrow> cx1 | Some b \<Rightarrow> set_identity b cx1) in
      handle D em False T_RevokeToken rq (ExtractClientCredentials rq cx2) h w1)"
| "serve_route D em R_Introspect rq cx h w =
     handle D em False T_IntrospectToken rq (ExtractClientCredentials rq (OAuth2Errors cx)) h w"
| "serve_route D em R_UpdateProfile rq cx h w = authenticated D (handle D em False T_UpdateProfile rq) rq cx h w"

section \<open>The engine\<close>

text \<open>
  \<open>coreweb.Config\<close>. The CORS middleware is a library: \<open>wc_cors\<close> tells the headers it adds and, for a
  request it ends itself, the status.
\<close>

record web_config =
  wc_CookieSecure :: bool
  wc_RateLimitPerMin :: int
  wc_RateLimitWindow :: duration
  wc_cors :: "http_request \<Rightarrow> headers \<times> int option"

definition serve ::
  "('u, 'r, 'g, 'c) deps \<Rightarrow> (string \<Rightarrow> bool) \<Rightarrow> web_config \<Rightarrow> http_request
     \<Rightarrow> ('u, 'r, 'g, 'c) world \<Rightarrow> http_response \<times> ('u, 'r, 'g, 'c) world" where
  "serve D em cfg rq w =
     (let (rid, w1) = on_env (RequestID (d_prims D) rq) w;
          h = SecurityHeaders (header_Set ''X-Request-Id'' rid []);
          (ch, abort) = wc_cors cfg rq;
          h1 = ch @ h;
          cx = \<lparr>cx_access_token = None, cx_user_id = None, cx_basic_client_id = None, cx_basic_client_secret = None,
                cx_cookie_secure = wc_CookieSecure cfg, cx_oauth2_errors = False\<rparr> in
      case abort of
        Some st \<Rightarrow> (\<lparr>hs_status = st, hs_headers = h1, hs_cookies = [], hs_body = NoBody\<rparr>, w1)
      | None \<Rightarrow>
          let (pass, w2) = (if wc_RateLimitPerMin cfg > 0
                then DistributedRateLimit D (wc_RateLimitPerMin cfg) (wc_RateLimitWindow cfg) rq w1 else (True, w1)) in
          if \<not> pass then
            (\<lparr>hs_status = 429, hs_headers = h1, hs_cookies = [], hs_body = MessageBody ''too many requests''\<rparr>, w2)
          else case map_of routes (hr_method rq, hr_path rq) of
              None \<Rightarrow> (\<lparr>hs_status = 404, hs_headers = h1, hs_cookies = [], hs_body = NoBody\<rparr>, w2)
            | Some r \<Rightarrow> serve_route D em r rq cx h1 w2)"

section \<open>What delivery guarantees\<close>

lemma header_Set_get: "map_of (header_Set k v h) j = (if k = j then Some v else map_of h j)"
proof -
  have "map_of (filter (\<lambda>x. fst x \<noteq> k) h) j = (if k = j then None else map_of h j)" by (induction h) auto
  then show ?thesis by (simp add: header_Set_def)
qed

lemma header_Del_get: "map_of (header_Del k h) j = (if k = j then None else map_of h j)"
  unfolding header_Del_def by (induction h) auto

lemmas header_get = header_Set_get header_Del_get

text \<open>What a handler does to the headers it is given: the framing headers stay.\<close>

definition hardened :: "headers \<Rightarrow> bool" where
  "hardened h \<longleftrightarrow> map_of h ''X-Frame-Options'' = Some ''DENY'' \<and> map_of h ''X-Content-Type-Options'' = Some ''nosniff''
     \<and> map_of h ''Referrer-Policy'' = Some ''no-referrer''
     \<and> map_of h ''Content-Security-Policy'' = Some (''frame-ancestors '' @ CHR 0x27 # ''none'' @ [CHR 0x27])"

lemma hardened_Set: "hardened h \<Longrightarrow> k \<notin> {''X-Frame-Options'', ''X-Content-Type-Options'', ''Referrer-Policy'', ''Content-Security-Policy''}
    \<Longrightarrow> hardened (header_Set k v h)"
  by (simp add: hardened_def header_get)

lemma hardened_CachePublic: "hardened h \<Longrightarrow> hardened (CachePublic h)"
  by (simp add: hardened_def CachePublic_def header_get)

lemma failOAuth2_hardened: "hardened h \<Longrightarrow> hardened (hs_headers (failOAuth2 err h))"
  by (auto simp: failOAuth2_def Let_def intro: hardened_Set split: prod.splits)

lemma fail_hardened: "hardened h \<Longrightarrow> hardened (hs_headers (fail cx err html h))"
  by (auto simp: fail_def Let_def failOAuth2_hardened split: option.splits)

lemma Response_hardened: "hardened h \<Longrightarrow> hardened (hs_headers (Response p cx m h res html))"
  by (auto simp: Response_def Let_def fail_hardened noStore_def intro!: hardened_Set split: sum.splits option.splits)

lemma handle_hardened: "hardened h \<Longrightarrow> handle D em html t rq cx h w = (rs, w') \<Longrightarrow> hardened (hs_headers rs)"
  by (auto simp: handle_def Let_def intro: Response_hardened split: sum.splits prod.splits)

lemma HandleIf_hardened: "hardened h \<Longrightarrow> HandleIf D em t rq cx h w = (rs, w') \<Longrightarrow> hardened (hs_headers rs)"
  by (auto simp: HandleIf_def Let_def intro: Response_hardened split: sum.splits prod.splits)

lemma authenticated_hardened:
  assumes "hardened h" and "authenticated D (handle D em False t rq) rq cx h w = (rs, w')"
  shows "hardened (hs_headers rs)"
  using assms
  by (auto simp: authenticated_def intro!: Response_hardened hardened_Set elim: handle_hardened split: sum.splits prod.splits)

lemma token_handlers_hardened: "hardened h \<Longrightarrow> token_handlers D em rq cx h w = (rs, w') \<Longrightarrow> hardened (hs_headers rs)"
  by (auto simp: token_handlers_def Let_def intro: Response_hardened elim: HandleIf_hardened split: sum.splits if_splits)

lemma serve_route_hardened:
  assumes "hardened h" and "serve_route D em r rq cx h w = (rs, w')"
  shows "hardened (hs_headers rs)"
  using assms
  by (cases r)
    (auto simp: Let_def elim: handle_hardened authenticated_hardened token_handlers_hardened
      handle_hardened [OF hardened_CachePublic] split: prod.splits)

text \<open>Every response, errors and throttled requests included, forbids framing and sniffing.\<close>

lemma serve_hardened:
  assumes "serve D em cfg rq w = (rs, w')"
    and "\<forall>k \<in> {''X-Frame-Options'', ''X-Content-Type-Options'', ''Referrer-Policy'', ''Content-Security-Policy''}.
      map_of (fst (wc_cors cfg rq)) k = None"
  shows "hardened (hs_headers rs)"
proof -
  obtain rid w1 where r: "on_env (RequestID (d_prims D) rq) w = (rid, w1)" by (metis surj_pair)
  obtain ch ab where c: "wc_cors cfg rq = (ch, ab)" by (metis surj_pair)
  have h: "hardened (ch @ SecurityHeaders (header_Set ''X-Request-Id'' rid []))"
    using assms(2) c by (simp add: hardened_def SecurityHeaders_def header_get map_add_def)
  show ?thesis
    using assms(1) h unfolding serve_def r c Let_def prod.case
    by (auto split: option.split_asm prod.split_asm if_split_asm elim: serve_route_hardened)
qed

text \<open>A route behind the bearer check answers 401 to a token the check refuses, and runs no use case.\<close>

lemma authenticated_refused:
  assumes "mw_Authenticate D (hr_authorization rq) w = (Inl err, w1)" and "\<not> cx_oauth2_errors cx"
  shows "\<exists>rs. authenticated D k rq cx h w = (rs, w1) \<and> hs_status rs = 401 \<and> hs_body rs = ErrorBody ''invalid token'' Unauthorized
    \<and> map_of (hs_headers rs) ''WWW-Authenticate'' = Some ''Bearer''"
proof -
  have "err = New Unauthorized 401 ''invalid token''"
    using assms(1) by (auto simp: mw_Authenticate_def split: prod.splits option.splits)
  with assms show ?thesis
    by (simp add: authenticated_def Response_def fail_def New_def NewErrorStruct_def header_get)
qed

text \<open>The keys of the rate limiter are no keys of the application.\<close>

lemma rate_key_disjoint:
  "rateLimitCacheKey ip \<noteq> AuthorizeRequestKey i" "rateLimitCacheKey ip \<noteq> AuthCodeKey i" "rateLimitCacheKey ip \<noteq> BlacklistKey i"
  "rateLimitCacheKey ip \<noteq> RevokedGrantKey i" "rateLimitCacheKey ip \<noteq> SessionsInvalidatedKey i"
  "rateLimitCacheKey ip \<noteq> ForgotPasswordRateKey i" "rateLimitCacheKey ip = rateLimitCacheKey jp \<longleftrightarrow> ip = jp"
  by (simp_all add: rateLimitCacheKey_def cache_key_defs)

context auth_app
begin

lemma g_handle: "handle D em html t rq cx h w = (rs, w') \<Longrightarrow> good w0 w \<Longrightarrow> fresh_source (d_prims D) \<Longrightarrow> good w0 w'"
  by (auto simp: handle_def split: sum.split_asm prod.split_asm elim: g_Dispatch)

lemma g_HandleIf: "HandleIf D em t rq cx h w = (rs, w') \<Longrightarrow> good w0 w \<Longrightarrow> fresh_source (d_prims D) \<Longrightarrow> good w0 w'"
  by (auto simp: HandleIf_def split: sum.split_asm prod.split_asm elim: g_Dispatch)

lemma g_mw_Authenticate: "mw_Authenticate D h w = (r, w') \<Longrightarrow> good w0 w \<Longrightarrow> good w0 w'"
  by (auto simp: mw_Authenticate_def split: prod.split_asm option.split_asm elim: g_verifyBearer)

lemma g_mw_Optional: "mw_AuthenticateOptional D h w = (r, w') \<Longrightarrow> good w0 w \<Longrightarrow> good w0 w'"
  by (auto simp: mw_AuthenticateOptional_def split: prod.split_asm option.split_asm elim: g_verifyBearer)

lemma g_authenticated:
  assumes "authenticated D (handle D em False t rq) rq cx h w = (rs, w')" and "good w0 w" and "fresh_source (d_prims D)"
  shows "good w0 w'"
proof -
  obtain r w1 where a: "mw_Authenticate D (hr_authorization rq) w = (r, w1)" by (metis surj_pair)
  have "good w0 w1" by (rule g_mw_Authenticate [OF a assms(2)])
  with assms(1,3) a show ?thesis by (auto simp: authenticated_def split: sum.splits elim: g_handle)
qed

lemma g_token_handlers:
  "token_handlers D em rq cx h w = (rs, w') \<Longrightarrow> good w0 w \<Longrightarrow> fresh_source (d_prims D) \<Longrightarrow> good w0 w'"
  by (auto simp: token_handlers_def Let_def split: sum.split_asm if_split_asm elim: g_HandleIf)

lemma g_serve_route:
  assumes "serve_route D em r rq cx h w = (rs, w')" and "good w0 w" and "fresh_source (d_prims D)"
  shows "good w0 w'"
proof (cases r)
  case R_Revoke
  obtain bi w1 where a: "mw_AuthenticateOptional D (hr_authorization rq) w = (bi, w1)" by (metis surj_pair)
  have "good w0 w1" by (rule g_mw_Optional [OF a assms(2)])
  with assms(1,3) a R_Revoke show ?thesis by (auto simp: Let_def elim: g_handle)
qed (use assms in \<open>auto simp: Let_def elim: g_handle g_authenticated g_token_handlers\<close>)

lemma g_rate_limit: "DistributedRateLimit D l win rq w = (b, w') \<Longrightarrow> good w0 w \<Longrightarrow> good w0 w'"
  unfolding DistributedRateLimit_def
  by (auto split: prod.split_asm sum.split_asm if_split_asm intro: g_cache dest: ca.Incr_env)

lemma g_RequestID: "on_env (RequestID p rq) w = (x, w') \<Longrightarrow> good w0 w \<Longrightarrow> good w0 w'"
  by (rule g_env) (auto simp: RequestID_def uuid_NewString_def env_le_def split: if_splits)

text \<open>Serving any request keeps the invariant.\<close>

lemma g_serve:
  assumes run: "serve D em cfg rq w = (rs, w')" and g: "good w0 w" and src: "fresh_source (d_prims D)"
  shows "good w0 w'"
proof -
  obtain rid w1 where r: "on_env (RequestID (d_prims D) rq) w = (rid, w1)" by (metis surj_pair)
  obtain ch ab where c: "wc_cors cfg rq = (ch, ab)" by (metis surj_pair)
  obtain b w2 where l: "(if wc_RateLimitPerMin cfg > 0
      then DistributedRateLimit D (wc_RateLimitPerMin cfg) (wc_RateLimitWindow cfg) rq w1 else (True, w1)) = (b, w2)"
    by (metis surj_pair)
  have g1: "good w0 w1" by (rule g_RequestID [OF r g])
  have g2: "good w0 w2" using l g1 by (auto split: if_splits elim: g_rate_limit)
  show ?thesis
    using run g1 g2 src unfolding serve_def r c l Let_def prod.case
    by (auto split: option.split_asm if_split_asm elim: g_serve_route)
qed

end

end
