(* ===== verification/Limits.thy ===== *)
theory Limits
  imports Web
begin

text \<open>
  Limits over many requests: the recovery mails one address receives in an hour, the attempts a
  sign-in session allows, and what the rate limiter of the web layer lets through.
\<close>

section \<open>Recovery mail\<close>

text \<open>The messages sent to addresses that share the counter \<open>key\<close>.\<close>

definition mails_for :: "prims \<Rightarrow> string \<Rightarrow> ('u, 'r, 'g, 'c) world \<Rightarrow> nat" where
  "mails_for p key w = length (filter (\<lambda>m. forgotPasswordRateKey p (fst m) = key) (w_mail w))"

text \<open>The number of requests of the address \<open>ip\<close> the limiter lets pass in a series of requests.\<close>

primrec rate_run ::
  "('u, 'r, 'g, 'c) deps \<Rightarrow> int \<Rightarrow> duration \<Rightarrow> string \<Rightarrow> http_request list \<Rightarrow> ('u, 'r, 'g, 'c) world \<Rightarrow> nat \<times> ('u, 'r, 'g, 'c) world" where
  "rate_run D limit win ip [] w = (0, w)"
| "rate_run D limit win ip (rq # rqs) w =
     (let (pass, w1) = DistributedRateLimit D limit win rq w; (n, w2) = rate_run D limit win ip rqs w1 in
      (if pass \<and> hr_remote_ip rq = ip then Suc n else n, w2))"

context auth_app
begin

text \<open>One request sends at most one message, to the address it was made for.\<close>

lemma forgot_mail:
  assumes run: "ForgotPassword_Execute D em w = (r, w')" and g: "good w w"
  shows "w_mail w' = w_mail w \<or> (\<exists>tok. w_mail w' = w_mail w @ [(em, tok)])"
proof -
  obtain b w1 where rl: "rateLimited D em w = (b, w1)" by (metis surj_pair)
  note RL = rateLimited_frame [OF rl]
  have ok1: "wok w1" using good_wok [OF g] RL by (simp add: wok_def)
  obtain f w2 where a: "on_users (ur_FindByEmail (d_users D) DefaultTenantID em) w1 = (f, w2)" by (metis surj_pair)
  show ?thesis
  proof (cases "b \<or> (\<exists>er. f = Inl er)")
    case True
    then show ?thesis using run rl a RL on_usersD [OF a] by (auto simp: ForgotPassword_Execute_def split: if_splits sum.splits)
  next
    case False
    then obtain u where u: "f = Inr u" by (cases f) auto
    have em: "U_Email u = em" using found_by_email(3) [OF a [unfolded u] ok1] .
    have "U_Email u' = em" if "SetPasswordResetToken (d_prims D) u tok ttl e = (u', e')" for u' tok ttl e e'
      using SetPasswordResetToken_fields(2) [OF that] em by simp
    with run rl a u False RL on_usersD [OF a] show ?thesis
      unfolding ForgotPassword_Execute_def Let_def
      by (auto split: sum.splits prod.splits option.splits dest!: on_usersD on_envD)
  qed
qed

lemma forgot_counters:
  assumes run: "ForgotPassword_Execute D em w = (r, w')" and rl: "rateLimited D em w = (b, w1)"
  shows "w_cache w' = w_cache w1" "b \<Longrightarrow> w_mail w' = w_mail w"
    "forgotPasswordRateKey (d_prims D) em \<noteq> key \<Longrightarrow> live (w_cache w') t key = live (w_cache w) t key"
proof -
  note S = forgot_step [OF run rl] and F = rateLimited_frame [OF rl]
  show "w_cache w' = w_cache w1" using S by simp
  show "w_mail w' = w_mail w" if b using S F that by simp
  obtain rc where i: "on_cache (k_IncrWindow (d_cache D) (forgotPasswordRateKey (d_prims D) em) forgotPasswordWindow) w = (rc, w1)"
    using rl by (auto simp: rateLimited_def split: prod.splits sum.splits)
  have inc: "k_IncrWindow (d_cache D) (forgotPasswordRateKey (d_prims D) em) forgotPasswordWindow (w_cache w) (w_env w)
      = (rc, w_cache w1, w_env w1)" using on_cacheD [OF i] by simp
  show "live (w_cache w') t key = live (w_cache w) t key" if "forgotPasswordRateKey (d_prims D) em \<noteq> key"
    using ca.Incr_other [OF inc that [symmetric]] S by simp
qed

lemma forgot_clocks:
  assumes run: "ForgotPassword_Execute D em w = (r, w')" and rl: "rateLimited D em w = (b, w1)"
    and inv: "sys_inv w" and src: "fresh_source (d_prims D)"
  shows "sys_inv w'" "clock (w_env w) \<le> clock (w_env w1)" "clock (w_env w1) \<le> clock (w_env w')"
proof -
  have gw: "good w w" by (rule good_start [OF inv])
  show "sys_inv w'" using g_ForgotPassword [OF run gw src] by (simp add: good_def)
  show "clock (w_env w) \<le> clock (w_env w1)" using rateLimited_frame [OF rl] by (simp add: env_le_def)
  have inv1: "sys_inv w1" using g_rateLimited [OF rl gw] by (simp add: good_def)
  have "good w1 w'" using g_ForgotPassword_after [OF run rl good_start [OF inv1] src] .
  then show "clock (w_env w1) \<le> clock (w_env w')" by (simp add: good_def evolves_def env_le_def)
qed

lemma forgot_run_clock:
  assumes "sys_inv w" and "fresh_source (d_prims D)"
  shows "clock (w_env w) \<le> clock (w_env (forgot_run D ems w))"
  using assms(1)
proof (induction ems arbitrary: w)
  case (Cons em ems)
  obtain r w' where run: "ForgotPassword_Execute D em w = (r, w')" by (metis surj_pair)
  obtain b w1 where rl: "rateLimited D em w = (b, w1)" by (metis surj_pair)
  note C = forgot_clocks [OF run rl Cons.prems assms(2)]
  from Cons.IH [OF C(1)] C run show ?case by simp
qed simp

text \<open>A counter that stands at \<open>n\<close> for the rest of the window leaves \<open>3 - n\<close> messages.\<close>

lemma forgot_run_counted:
  assumes "sys_inv w" and "fresh_source (d_prims D)" and "1 \<le> n"
    and "\<forall>t \<le> until. live (w_cache w) t key = Some (CInt n)" and "until \<le> clock (w_env w) + forgotPasswordWindow"
    and "clock (w_env (forgot_run D ems w)) \<le> until"
  shows "int (mails_for (d_prims D) key (forgot_run D ems w)) \<le> int (mails_for (d_prims D) key w) + max 0 (3 - n)
    \<and> clock (w_env w) \<le> clock (w_env (forgot_run D ems w))"
  using assms
proof (induction ems arbitrary: w n)
  case (Cons em ems)
  obtain r w' where run: "ForgotPassword_Execute D em w = (r, w')" by (metis surj_pair)
  obtain b w1 where rl: "rateLimited D em w = (b, w1)" by (metis surj_pair)
  note C = forgot_clocks [OF run rl Cons.prems(1,2)] and K = forgot_counters [OF run rl]
  have fin: "clock (w_env (forgot_run D ems w')) \<le> until" using Cons.prems(6) run by simp
  have until': "until \<le> clock (w_env w') + forgotPasswordWindow" using Cons.prems(5) C by linarith
  show ?case
  proof (cases "forgotPasswordRateKey (d_prims D) em = key")
    case False
    have cnt: "\<forall>t \<le> until. live (w_cache w') t key = Some (CInt n)" using Cons.prems(4) K(3) [OF False] by simp
    have "mails_for (d_prims D) key w' = mails_for (d_prims D) key w"
      using forgot_mail [OF run good_start [OF Cons.prems(1)]] False by (auto simp: mails_for_def)
    with Cons.IH [OF C(1) Cons.prems(2,3) cnt until' fin] C run show ?thesis by simp
  next
    case True
    have mono: "clock (w_env w') \<le> clock (w_env (forgot_run D ems w'))" by (rule forgot_run_clock [OF C(1) Cons.prems(2)])
    have time: "clock (w_env w1) \<le> until" using mono fin C by linarith
    note R = rateLimited_count [OF rl Cons.prems(5) time, unfolded True, OF Cons.prems(4)]
    have cnt: "\<forall>t \<le> until. live (w_cache w') t key = Some (CInt (n + 1))" using R(2) K(1) by simp
    have "int (mails_for (d_prims D) key w') \<le> int (mails_for (d_prims D) key w) + (if 3 \<le> n then 0 else 1)"
      using forgot_mail [OF run good_start [OF Cons.prems(1)]] K(2) R(1) by (auto simp: mails_for_def forgotPasswordMaxPerWindow_def)
    moreover have "int (mails_for (d_prims D) key (forgot_run D ems w')) \<le> int (mails_for (d_prims D) key w') + max 0 (3 - (n + 1))
        \<and> clock (w_env w') \<le> clock (w_env (forgot_run D ems w'))"
      using Cons.IH [OF C(1) Cons.prems(2) _ cnt until' fin] Cons.prems(3) by simp
    ultimately show ?thesis using C run by (auto simp: max_def split: if_splits)
  qed
qed simp

text \<open>
  From a moment at which no counter runs for \<open>key\<close>, at most three messages go out within the window,
  whatever else is requested meanwhile.
\<close>

lemma forgot_run_capped:
  assumes "sys_inv w" and "fresh_source (d_prims D)" and "live (w_cache w) (clock (w_env w)) key = None"
    and "until \<le> clock (w_env w) + forgotPasswordWindow" and "clock (w_env (forgot_run D ems w)) \<le> until"
  shows "mails_for (d_prims D) key (forgot_run D ems w) \<le> mails_for (d_prims D) key w + 3"
  using assms
proof (induction ems arbitrary: w)
  case (Cons em ems)
  obtain r w' where run: "ForgotPassword_Execute D em w = (r, w')" by (metis surj_pair)
  obtain b w1 where rl: "rateLimited D em w = (b, w1)" by (metis surj_pair)
  note C = forgot_clocks [OF run rl Cons.prems(1,2)] and K = forgot_counters [OF run rl]
  have fin: "clock (w_env (forgot_run D ems w')) \<le> until" using Cons.prems(5) run by simp
  have until': "until \<le> clock (w_env w') + forgotPasswordWindow" using Cons.prems(4) C by linarith
  have later: "live (w_cache w) t key = None" if "clock (w_env w) \<le> t" for t
    using ca.live_expires [of "w_cache w" t key _ "clock (w_env w)"] Cons.prems(3) that
    by (cases "live (w_cache w) t key") auto
  show ?case
  proof (cases "forgotPasswordRateKey (d_prims D) em = key")
    case False
    have none: "live (w_cache w') (clock (w_env w')) key = None" using K(3) [OF False] later C by simp
    have "mails_for (d_prims D) key w' = mails_for (d_prims D) key w"
      using forgot_mail [OF run good_start [OF Cons.prems(1)]] False by (auto simp: mails_for_def)
    with Cons.IH [OF C(1) Cons.prems(2) none until' fin] run show ?thesis by simp
  next
    case True
    have "live (w_cache w) (clock (w_env w1)) (forgotPasswordRateKey (d_prims D) em) = None" using later C True by simp
    note R = rateLimited_first [OF rl this, unfolded True]
    have cnt: "\<forall>t \<le> until. live (w_cache w') t key = Some (CInt 1)" using R(2) K(1) Cons.prems(4) C by simp
    have "int (mails_for (d_prims D) key (forgot_run D ems w')) \<le> int (mails_for (d_prims D) key w') + 2"
      using forgot_run_counted [OF C(1) Cons.prems(2) _ cnt until' fin] by simp
    moreover have "mails_for (d_prims D) key w' \<le> mails_for (d_prims D) key w + 1"
      using forgot_mail [OF run good_start [OF Cons.prems(1)]] by (auto simp: mails_for_def)
    ultimately show ?thesis using run by simp
  qed
qed simp

section \<open>The rate limiter\<close>

text \<open>
  What one passage of the limiter does to the counter of the client's address: it starts at one,
  counts up within its window, and the request goes on while the count is at most the limit.
\<close>

lemma rate_limit_counts:
  assumes run: "DistributedRateLimit D limit win rq w = (pass, w')" and win: "0 < win" and ip: "hr_remote_ip rq \<noteq> []"
    and int: "\<forall>v. live (w_cache w) (clock (w_env w')) (rateLimitCacheKey (hr_remote_ip rq)) = Some v \<longrightarrow> (\<exists>n. v = CInt n)"
  shows "(case live (w_cache w) (clock (w_env w')) (rateLimitCacheKey (hr_remote_ip rq)) of
      None \<Rightarrow> pass = (1 \<le> limit) \<and> (\<forall>t. live (w_cache w') t (rateLimitCacheKey (hr_remote_ip rq))
          = (if t \<le> clock (w_env w') + win then Some (CInt 1) else None))
    | Some v \<Rightarrow> (\<exists>n. v = CInt n \<and> pass = (n + 1 \<le> limit) \<and>
        (\<forall>t \<le> clock (w_env w') + win. live (w_cache w') t (rateLimitCacheKey (hr_remote_ip rq))
           = map_option (\<lambda>_. CInt (n + 1)) (live (w_cache w) t (rateLimitCacheKey (hr_remote_ip rq))))))
    \<and> w_users w' = w_users w \<and> w_rts w' = w_rts w \<and> w_grants w' = w_grants w \<and> w_mail w' = w_mail w
    \<and> (\<forall>k t. k \<noteq> rateLimitCacheKey (hr_remote_ip rq) \<longrightarrow> live (w_cache w') t k = live (w_cache w) t k)"
proof -
  let ?k = "rateLimitCacheKey (hr_remote_ip rq)"
  obtain rc where i: "on_cache (k_IncrWindow (d_cache D) ?k win) w = (rc, w')"
    using run ip by (auto simp: DistributedRateLimit_def split: prod.splits sum.splits)
  note I = on_cacheD [OF i]
  have inc: "k_IncrWindow (d_cache D) ?k win (w_cache w) (w_env w) = (rc, w_cache w', w_env w')" using I by simp
  obtain n where n: "rc = Inr n"
    using ca.Incr_reliable inc int by (cases rc) fastforce+
  have pass: "pass = (n \<le> limit)" using run ip i n by (simp add: DistributedRateLimit_def)
  note O = ca.Incr_ok [OF inc [unfolded n] win]
  show ?thesis
  proof (cases "live (w_cache w) (clock (w_env w')) ?k")
    case None
    with O pass I ca.Incr_other [OF inc] show ?thesis by simp
  next
    case (Some v)
    then have v: "v = CInt (n - 1)" "\<forall>t \<le> clock (w_env w') + win. live (w_cache w') t ?k = map_option (\<lambda>_. CInt n) (live (w_cache w) t ?k)"
      using O by simp_all
    then have "\<exists>m. v = CInt m \<and> pass = (m + 1 \<le> limit) \<and>
        (\<forall>t \<le> clock (w_env w') + win. live (w_cache w') t ?k = map_option (\<lambda>_. CInt (m + 1)) (live (w_cache w) t ?k))"
      using pass by (intro exI [of _ "n - 1"]) simp
    with Some I ca.Incr_other [OF inc] show ?thesis by simp
  qed
qed

lemma rate_limit_clock: "DistributedRateLimit D limit win rq w = (pass, w') \<Longrightarrow> clock (w_env w) \<le> clock (w_env w')"
  unfolding DistributedRateLimit_def
  by (auto split: if_split_asm prod.split_asm sum.split_asm dest!: on_cacheD ca.Incr_env simp: env_le_def)

lemma rate_limit_other:
  assumes "DistributedRateLimit D limit win rq w = (pass, w')" and "hr_remote_ip rq \<noteq> ip"
  shows "live (w_cache w') t (rateLimitCacheKey ip) = live (w_cache w) t (rateLimitCacheKey ip)"
proof (cases "hr_remote_ip rq = []")
  case True
  with assms(1) show ?thesis by (simp add: DistributedRateLimit_def)
next
  case False
  then obtain rc where i: "on_cache (k_IncrWindow (d_cache D) (rateLimitCacheKey (hr_remote_ip rq)) win) w = (rc, w')"
    using assms(1) by (auto simp: DistributedRateLimit_def split: prod.splits sum.splits)
  have "rateLimitCacheKey ip \<noteq> rateLimitCacheKey (hr_remote_ip rq)" using assms(2) by (auto simp: rate_key_disjoint(7))
  moreover have "k_IncrWindow (d_cache D) (rateLimitCacheKey (hr_remote_ip rq)) win (w_cache w) (w_env w) = (rc, w_cache w', w_env w')"
    using on_cacheD [OF i] by simp
  ultimately show ?thesis using ca.Incr_other by blast
qed

lemma rate_run_clock: "clock (w_env w) \<le> clock (w_env (snd (rate_run D limit win ip rqs w)))"
proof (induction rqs arbitrary: w)
  case (Cons rq rqs)
  obtain pass w1 where r: "DistributedRateLimit D limit win rq w = (pass, w1)" by (metis surj_pair)
  have "clock (w_env w1) \<le> clock (w_env (snd (rate_run D limit win ip rqs w1)))" by (rule Cons.IH)
  with rate_limit_clock [OF r] r show ?case by (auto split: prod.split)
qed simp

text \<open>A counter that stands at \<open>n\<close> for the rest of the window lets \<open>limit - n\<close> requests pass.\<close>

lemma rate_run_counted:
  assumes "0 < win" and "ip \<noteq> []" and "\<forall>t \<le> until. live (w_cache w) t (rateLimitCacheKey ip) = Some (CInt n)"
    and "until \<le> clock (w_env w) + win" and "clock (w_env (snd (rate_run D limit win ip rqs w))) \<le> until"
  shows "int (fst (rate_run D limit win ip rqs w)) \<le> max 0 (limit - n)"
  using assms(3-5)
proof (induction rqs arbitrary: w n)
  case (Cons rq rqs)
  obtain pass w1 where r: "DistributedRateLimit D limit win rq w = (pass, w1)" by (metis surj_pair)
  obtain m w2 where rest: "rate_run D limit win ip rqs w1 = (m, w2)" by (metis surj_pair)
  have fin: "clock (w_env w2) \<le> until" using Cons.prems(3) r rest by simp
  have ck: "clock (w_env w) \<le> clock (w_env w1)" "clock (w_env w1) \<le> clock (w_env w2)"
    using rate_limit_clock [OF r] rate_run_clock [of w1 limit win ip rqs] rest by simp_all
  have until: "until \<le> clock (w_env w1) + win" using Cons.prems(2) ck by linarith
  show ?case
  proof (cases "hr_remote_ip rq = ip")
    case False
    have "\<forall>t \<le> until. live (w_cache w1) t (rateLimitCacheKey ip) = Some (CInt n)"
      using Cons.prems(1) rate_limit_other [OF r False] by simp
    from Cons.IH [OF this until] fin r rest False show ?thesis by simp
  next
    case True
    have cnt: "live (w_cache w) (clock (w_env w1)) (rateLimitCacheKey ip) = Some (CInt n)" using Cons.prems(1) fin ck by simp
    note C = rate_limit_counts [OF r assms(1), unfolded True, OF assms(2), unfolded cnt]
    have pass: "pass = (n + 1 \<le> limit)" and "\<forall>t \<le> clock (w_env w1) + win. live (w_cache w1) t (rateLimitCacheKey ip)
        = map_option (\<lambda>_. CInt (n + 1)) (live (w_cache w) t (rateLimitCacheKey ip))" using C by simp_all
    then have "\<forall>t \<le> until. live (w_cache w1) t (rateLimitCacheKey ip) = Some (CInt (n + 1))"
      using Cons.prems(1) until by simp
    from Cons.IH [OF this until] fin rest have "int m \<le> max 0 (limit - (n + 1))" by simp
    with pass r rest True show ?thesis by (auto simp: max_def split: if_splits)
  qed
qed simp

text \<open>From a moment without a counter, at most \<open>limit\<close> requests of one address pass within the window.\<close>

lemma rate_run_capped:
  assumes "0 < win" and "0 \<le> limit" and "ip \<noteq> []" and "live (w_cache w) (clock (w_env w)) (rateLimitCacheKey ip) = None"
    and "clock (w_env (snd (rate_run D limit win ip rqs w))) \<le> clock (w_env w) + win"
  shows "int (fst (rate_run D limit win ip rqs w)) \<le> limit"
  using assms(4,5)
proof (induction rqs arbitrary: w)
  case (Cons rq rqs)
  obtain pass w1 where r: "DistributedRateLimit D limit win rq w = (pass, w1)" by (metis surj_pair)
  obtain m w2 where rest: "rate_run D limit win ip rqs w1 = (m, w2)" by (metis surj_pair)
  have fin: "clock (w_env w2) \<le> clock (w_env w) + win" using Cons.prems(2) r rest by simp
  have ck: "clock (w_env w) \<le> clock (w_env w1)" "clock (w_env w1) \<le> clock (w_env w2)"
    using rate_limit_clock [OF r] rate_run_clock [of w1 limit win ip rqs] rest by simp_all
  have none: "live (w_cache w) (clock (w_env w1)) (rateLimitCacheKey ip) = None"
    using ca.live_expires [of "w_cache w" "clock (w_env w1)" "rateLimitCacheKey ip" _ "clock (w_env w)"] Cons.prems(1) ck(1)
    by (cases "live (w_cache w) (clock (w_env w1)) (rateLimitCacheKey ip)") auto
  show ?case
  proof (cases "hr_remote_ip rq = ip")
    case False
    have "live (w_cache w1) (clock (w_env w1)) (rateLimitCacheKey ip) = None" using none rate_limit_other [OF r False] by simp
    from Cons.IH [OF this] fin ck r rest False show ?thesis by simp
  next
    case True
    note C = rate_limit_counts [OF r assms(1), unfolded True, OF assms(3), unfolded none]
    have pass: "pass = (1 \<le> limit)" and "\<forall>t \<le> clock (w_env w1) + win. live (w_cache w1) t (rateLimitCacheKey ip) = Some (CInt 1)"
      using C by simp_all
    then have cnt: "\<forall>t \<le> clock (w_env w) + win. live (w_cache w1) t (rateLimitCacheKey ip) = Some (CInt 1)" using ck(1) by simp
    have "int m \<le> max 0 (limit - 1)"
      using rate_run_counted [OF assms(1,3) cnt, of limit rqs] fin ck(1) rest by simp
    with pass r rest True assms(2) show ?thesis by (auto simp: max_def split: if_splits)
  qed
qed (use assms(2) in simp)

end

end
