(* ===== verification/SignIn.thy ===== *)
theory SignIn
  imports Limits
begin

text \<open>
  The sign-in (\<open>application/command/create_auth_code.go\<close>): what a successful sign-in proves and stores,
  how a session counts failures, what a locked account reveals; and the fate of an authorization code.
\<close>

section \<open>Credentials\<close>

context auth_app
begin

lemma good_restart: "good w0 w \<Longrightarrow> good w w"
  by (rule good_start) (simp add: good_def)

lemma good_env: "good w w' \<Longrightarrow> env_le (w_env w) (w_env w')"
  by (simp add: good_def evolves_def)

lemma save_user_frame:
  "w_cache (save_user D u w) = w_cache w \<and> w_rts (save_user D u w) = w_rts w \<and> w_grants (save_user D u w) = w_grants w"
  by (auto simp: save_user_def split: prod.splits dest!: on_usersD)

lemma resetAccount_frame:
  "w_cache (resetAccountFailures D u b w) = w_cache w \<and> w_rts (resetAccountFailures D u b w) = w_rts w
   \<and> w_grants (resetAccountFailures D u b w) = w_grants w"
  by (auto simp: resetAccountFailures_def Let_def save_user_frame mutate_user_def split: prod.splits dest!: on_envD)

lemma recordAccount_frame:
  "w_cache (recordAccountFailure D u w) = w_cache w \<and> w_rts (recordAccountFailure D u w) = w_rts w
   \<and> w_grants (recordAccountFailure D u w) = w_grants w"
  by (auto simp: recordAccountFailure_def save_user_frame mutate_user_def split: prod.splits option.splits dest!: on_envD)

lemma rehash_ID: "RehashPasswordIfNeeded p u pw e = (Inr (b, u'), e') \<Longrightarrow> U_ID u' = U_ID u"
  by (auto simp: RehashPasswordIfNeeded_def split: option.splits if_splits sum.splits prod.splits)

text \<open>Accepted credentials: the account exists, is not locked and its password matches.\<close>

lemma verify_Inr:
  assumes run: "verifyCredentials D s em pw w = (Inr uid, w')" and g: "good w w"
  shows "\<exists>u. users (w_users w) uid = Some u \<and> U_Email u = em \<and> ValidatePassword (d_prims D) u pw
    \<and> (\<forall>l. U_LockedUntil u = Some l \<longrightarrow> l \<le> clock (w_env w'))
    \<and> w_cache w' = w_cache w \<and> w_rts w' = w_rts w \<and> w_grants w' = w_grants w \<and> clock (w_env w) \<le> clock (w_env w')"
proof -
  have g': "good w w'" by (rule g_verifyCredentials [OF run g])
  obtain u w1 where a: "on_users (ur_FindByEmail (d_users D) DefaultTenantID em) w = (Inr u, w1)"
    using run by (auto simp: verifyCredentials_def signInFailed_def Let_def split: prod.splits sum.splits if_splits)
  note U = found_by_email [OF a good_wok [OF g]]
  obtain w2 where b: "on_env (user_IsLockedOut u) w1 = (False, w2)"
    using run a by (auto simp: verifyCredentials_def split: prod.splits if_splits)
  obtain rd u1 w3 where pw: "ValidatePassword (d_prims D) u pw"
    and c: "on_env (RehashPasswordIfNeeded (d_prims D) u pw) w2 = (Inr (rd, u1), w3)"
    and fin: "uid = U_ID u1" "w' = resetAccountFailures D u1 rd (mutate_user D u1 w3)"
    using run a b by (auto simp: verifyCredentials_def signInFailed_def Let_def split: prod.splits sum.splits if_splits)
  have w2: "good w w2" by (rule g_locked [OF b g_us_FindByEmail [OF a g]])
  then have g2: "good w2 w2" by (rule good_restart)
  have same: "same_identity u1 u" using on_envD [OF c] Rehash_identity by blast
  have at: "users (w_users w2) (U_ID u) = Some u" using U(1) on_envD [OF b] by simp
  have "good w2 w'" by (rule g_verify_unlocked [where pw = pw and se = s and r = "Inr uid", OF _ g2 at]) (use pw c fin in simp)
  then have later: "clock (w_env w2) \<le> clock (w_env w')" by (simp add: good_def evolves_def env_le_def)
  have "l \<le> clock (w_env w2)" if "U_LockedUntil u = Some l" for l
    using on_envD [OF b] that by (auto simp: user_IsLockedOut_def split: prod.splits dest!: nowD)
  with later have "\<forall>l. U_LockedUntil u = Some l \<longrightarrow> l \<le> clock (w_env w')" by (auto intro: order_trans)
  moreover have "clock (w_env w) \<le> clock (w_env w')" using g' by (simp add: good_def evolves_def env_le_def)
  moreover have "w_cache w' = w_cache w \<and> w_rts w' = w_rts w \<and> w_grants w' = w_grants w"
    using fin(2) on_usersD [OF a] on_envD [OF b] on_envD [OF c] by (simp add: resetAccount_frame mutate_user_def)
  ultimately show ?thesis using U(2,3) pw same fin(1) by (auto simp: same_identity_def)
qed

section \<open>A successful sign-in\<close>

text \<open>
  What a successful sign-in proves and stores: the session was live and its CSRF token known, the
  credentials were right, and the code is bound to what the session recorded.
\<close>

definition signed_in :: "auth_code_cmd \<Rightarrow> string \<Rightarrow> authorize_request \<Rightarrow> user \<Rightarrow> auth_code
    \<Rightarrow> ('u, 'r, 'g, 'c) world \<Rightarrow> ('u, 'r, 'g, 'c) world \<Rightarrow> bool" where
  "signed_in c uri s u a w w' \<longleftrightarrow>
     (\<exists>s0. live (w_cache w) (clock (w_env w)) (AuthorizeRequestKey (cac_SessionID c)) = Some (CSession s0) \<and> s = s0\<lparr>AR_Scope := AR_Scope s\<rparr>)
     \<and> authorize_request_Validate (d_prims D) s = None \<and> cac_CSRFToken c = AR_CSRFToken s
     \<and> users (w_users w) (U_ID u) = Some u \<and> U_Email u = cac_Email c \<and> ValidatePassword (d_prims D) u (cac_Password c)
     \<and> (\<forall>l. U_LockedUntil u = Some l \<longrightarrow> l \<le> clock (w_env w'))
     \<and> AC_UserID a = U_ID u \<and> AC_ClientID a = Some (AR_ClientID s) \<and> AC_RedirectURI a = AR_RedirectURI s
     \<and> AC_Scope a = AR_Scope s \<and> AC_Nonce a = AR_Nonce s \<and> AC_CodeChallenge a = AR_CodeChallenge s
     \<and> AC_CodeChallengeMethod a = AR_CodeChallengeMethod s
     \<and> (\<exists>k \<ge> rand_ctr (w_env w). AC_Code a = RawURLEncoding_EncodeToString (p_rand (d_prims D) k TokenBytes))
     \<and> BuildRedirectURI (d_prims D) s (AC_Code a) = Inr uri
     \<and> (\<forall>t \<le> clock (w_env w) + AuthCodeTTL. live (w_cache w') t (AuthCodeKey (AC_Code a)) = Some (CCode a))
     \<and> (\<forall>t. live (w_cache w') t (AuthorizeRequestKey (cac_SessionID c)) = None)
     \<and> w_rts w' = w_rts w \<and> w_grants w' = w_grants w"

lemma session_taken:
  assumes "on_cache (k_GetAndDelete (d_cache D) k DSession) w = (Some (CSession s), w1)"
  shows "\<exists>s0. live (w_cache w) (clock (w_env w)) k = Some (CSession s0) \<and> s = s0\<lparr>AR_Scope := AR_Scope s\<rparr>"
    "\<forall>t. live (w_cache w1) t k = None"
proof -
  have f: "k_GetAndDelete (d_cache D) k DSession (w_cache w) (w_env w) = (Some (CSession s), w_cache w1, w_env w1)"
    using on_cacheD [OF assms] by simp
  show "\<forall>t. live (w_cache w1) t k = None" using ca.GetAndDelete_gone [OF f] by blast
  from ca.GetAndDelete [OF f] obtain v where v: "live (w_cache w) (clock (w_env w1)) k = Some v" "json_decode DSession v = Inr (CSession s)"
    by (auto simp: decoded_def split: option.splits sum.splits)
  from json_decode_DSession_Inr [OF v(2)] obtain s0 sc where s0: "v = CSession s0" "s = s0\<lparr>AR_Scope := sc\<rparr>" by auto
  have "clock (w_env w) \<le> clock (w_env w1)" using ca.GetAndDelete_env [OF f] by (simp add: env_le_def)
  with ca.live_expires [OF v(1)] s0 show "\<exists>s0. live (w_cache w) (clock (w_env w)) k = Some (CSession s0) \<and> s = s0\<lparr>AR_Scope := AR_Scope s\<rparr>"
    by auto
qed

lemma signin_success:
  assumes run: "CreateAuthCode_Execute D c w = (Inr uri, w')" and g: "good w w"
  shows "\<exists>s u a. signed_in c uri s u a w w'"
proof -
  let ?k = "AuthorizeRequestKey (cac_SessionID c)"
  obtain s w1 uid w2 a w3 where
    t: "on_cache (k_GetAndDelete (d_cache D) ?k DSession) w = (Some (CSession s), w1)"
    and s: "authorize_request_Validate (d_prims D) s = None" "cac_CSRFToken c = AR_CSRFToken s"
    and v: "verifyCredentials D s (cac_Email c) (cac_Password c) w1 = (Inr uid, w2)"
    and n: "on_env (NewAuthCode (d_prims D) \<lparr>ACA_UserID = uid, ACA_ClientID = AR_ClientID s,
        ACA_RedirectURI = AR_RedirectURI s, ACA_Scope = AR_Scope s, ACA_Nonce = AR_Nonce s, ACA_CodeChallenge = AR_CodeChallenge s,
        ACA_CodeChallengeMethod = AR_CodeChallengeMethod s\<rparr>) w2 = (Inr a, w3)"
    and k: "on_cache (k_Set (d_cache D) (AuthCodeKey (AC_Code a)) (CCode a) (Some AuthCodeTTL)) w3 = (None, w')"
    and uri: "BuildRedirectURI (d_prims D) s (AC_Code a) = Inr uri"
    using run unfolding CreateAuthCode_Execute_def
    by (auto split: prod.split_asm option.split_asm sum.split_asm if_split_asm cval.split_asm)
  note T = session_taken [OF t]
  have g1: "good w w1" by (rule g_GetAndDelete [OF t g])
  then have g11: "good w1 w1" by (rule good_restart)
  obtain u where u: "users (w_users w1) uid = Some u" "U_Email u = cac_Email c" "ValidatePassword (d_prims D) u (cac_Password c)"
    "\<forall>l. U_LockedUntil u = Some l \<longrightarrow> l \<le> clock (w_env w2)"
    and fr: "w_cache w2 = w_cache w1" "w_rts w2 = w_rts w1" "w_grants w2 = w_grants w1"
    using verify_Inr [OF v g11] by blast
  have uid: "U_ID u = uid" using us.user_keyed [OF _ u(1)] good_wok [OF g1] by (simp add: wok_def)
  note N = on_envD [OF n] and K = on_cacheD [OF k]
  have na: "NewAuthCode (d_prims D) \<lparr>ACA_UserID = uid, ACA_ClientID = AR_ClientID s,
        ACA_RedirectURI = AR_RedirectURI s, ACA_Scope = AR_Scope s, ACA_Nonce = AR_Nonce s, ACA_CodeChallenge = AR_CodeChallenge s,
        ACA_CodeChallengeMethod = AR_CodeChallengeMethod s\<rparr> (w_env w2) = (Inr a, w_env w3)" using N by simp
  note A = NewAuthCode_Inr [OF na, simplified]
  have g2: "good w w2" by (rule g_verifyCredentials [OF v g1])
  have g3: "good w w3" by (rule g_AuthCode [OF n g2])
  have set: "k_Set (d_cache D) (AuthCodeKey (AC_Code a)) (CCode a) (Some AuthCodeTTL) (w_cache w3) (w_env w3) = (None, w_cache w', w_env w')"
    using K by simp
  have le: "clock (w_env w) \<le> clock (w_env w3)" "rand_ctr (w_env w) \<le> rand_ctr (w_env w2)" "clock (w_env w2) \<le> clock (w_env w')"
    using good_env [OF g3] good_env [OF g2] good_env [OF g_AuthCode [OF n good_restart [OF g2]]] ca.Set_env [OF set]
    by (auto simp: env_le_def)
  have "\<forall>t \<le> clock (w_env w) + AuthCodeTTL. live (w_cache w') t (AuthCodeKey (AC_Code a)) = Some (CCode a)"
    using ca.Set_min [OF set] le(1) by simp
  moreover have "live (w_cache w') t ?k = None" for t
    using ca.Set_other [OF set, of ?k] cache_keys_disjoint(1) T(2) fr N by simp
  moreover have "\<forall>l. U_LockedUntil u = Some l \<longrightarrow> l \<le> clock (w_env w')" using u(4) le(3) by (auto intro: order_trans)
  moreover have "\<exists>k \<ge> rand_ctr (w_env w). AC_Code a = RawURLEncoding_EncodeToString (p_rand (d_prims D) k TokenBytes)"
    using A le(2) by blast
  moreover have "users (w_users w) (U_ID u) = Some u" using u(1) uid on_cacheD [OF t] by simp
  moreover have "w_rts w' = w_rts w" "w_grants w' = w_grants w" using fr N K on_cacheD [OF t] by simp_all
  ultimately have "signed_in c uri s u a w w'" unfolding signed_in_def using T(1) s u(2,3) uid A uri by simp
  then show ?thesis by blast
qed

section \<open>Starting a session\<close>

text \<open>A session that was started waits under its identifier and holds what the request asked for.\<close>

lemma authorize_session:
  assumes run: "GetAuthorize_Execute D q w = (Inr (GetAuthorizeResponse sid), w')"
  shows "\<exists>s. AR_ID s = sid \<and> (\<forall>t \<le> clock (w_env w) + AuthorizeRequestTTL. live (w_cache w') t (AuthorizeRequestKey sid) = Some (CSession s))
    \<and> authorize_request_Validate (d_prims D) s = None \<and> AR_FailedAttempts s = 0
    \<and> AR_ClientID s = aq_ClientID q \<and> AR_RedirectURI s = aq_RedirectURI q \<and> AR_State s = aq_State q \<and> AR_Nonce s = aq_Nonce q
    \<and> AR_CodeChallenge s = aq_CodeChallenge q \<and> w_users w' = w_users w \<and> w_rts w' = w_rts w \<and> w_grants w' = w_grants w"
proof -
  obtain s w1 where n: "on_env (NewAuthorizeRequest (d_prims D)
        \<lparr>ARA_ClientID = aq_ClientID q, ARA_RedirectURI = aq_RedirectURI q, ARA_Scope = aq_Scope q,
         ARA_State = aq_State q, ARA_Nonce = aq_Nonce q, ARA_CodeChallenge = aq_CodeChallenge q,
         ARA_CodeChallengeMethod = aq_CodeChallengeMethod q\<rparr>) w = (Inr s, w1)"
    and k: "on_cache (k_Set (d_cache D) (AuthorizeRequestKey (AR_ID s)) (CSession s) (Some AuthorizeRequestTTL)) w1 = (None, w')"
    and sid: "sid = AR_ID s"
    using run unfolding GetAuthorize_Execute_def Let_def
    by (auto split: sum.split_asm option.split_asm if_split_asm prod.split_asm)
  note N = on_envD [OF n] and K = on_cacheD [OF k]
  have new: "NewAuthorizeRequest (d_prims D)
        \<lparr>ARA_ClientID = aq_ClientID q, ARA_RedirectURI = aq_RedirectURI q, ARA_Scope = aq_Scope q,
         ARA_State = aq_State q, ARA_Nonce = aq_Nonce q, ARA_CodeChallenge = aq_CodeChallenge q,
         ARA_CodeChallengeMethod = aq_CodeChallengeMethod q\<rparr> (w_env w) = (Inr s, w_env w1)" using N by simp
  have set: "k_Set (d_cache D) (AuthorizeRequestKey (AR_ID s)) (CSession s) (Some AuthorizeRequestTTL) (w_cache w1) (w_env w1)
      = (None, w_cache w', w_env w')" using K by simp
  have "clock (w_env w) \<le> clock (w_env w1)"
    using new by (auto simp: NewAuthorizeRequest_def NewSessionID_def random_Token_Inr uuid_NewString_def Let_def
        split: sum.splits prod.splits option.splits dest!: nowD)
  then have "\<forall>t \<le> clock (w_env w) + AuthorizeRequestTTL. live (w_cache w') t (AuthorizeRequestKey sid) = Some (CSession s)"
    using ca.Set_min [OF set] sid by simp
  with NewAuthorizeRequest_Inr [OF new] sid N K show ?thesis by auto
qed

section \<open>Attempts per session\<close>

text \<open>What checking credentials does to the cache: nothing, or it stores the session with one more failure.\<close>

lemma signInFailed_cache:
  assumes "signInFailed D s u w = (r, w')"
  shows "w_cache w' = w_cache w \<or> AR_FailedAttempts s + 1 < maxFailedAttempts
    \<and> (\<exists>e. k_Set (d_cache D) (AuthorizeRequestKey (AR_ID s)) (CSession (RequestFail s)) (Some AuthorizeRequestTTL) (w_cache w) e
         = (None, w_cache w', w_env w'))"
proof (cases "request_IsLockedOut (RequestFail s)")
  case True
  with assms show ?thesis by (auto simp: signInFailed_def recordAccount_frame)
next
  case False
  let ?w = "recordAccountFailure D u w"
  obtain rs w2 where k: "on_cache (k_Set (d_cache D) (AuthorizeRequestKey (AR_ID s)) (CSession (RequestFail s)) (Some AuthorizeRequestTTL)) ?w = (rs, w2)"
    by (metis surj_pair)
  note K = on_cacheD [OF k]
  have "rs = None" using ca.Set_reliable K by blast
  moreover have "w' = w2" using assms False k by (simp add: signInFailed_def Let_def)
  moreover have "w_cache ?w = w_cache w" by (simp add: recordAccount_frame)
  ultimately show ?thesis using K False by (auto simp: request_IsLockedOut_def RequestFail_def)
qed

lemma verify_cache:
  assumes "verifyCredentials D s em pw w = (r, w')"
  shows "w_cache w' = w_cache w \<or> AR_FailedAttempts s + 1 < maxFailedAttempts
    \<and> (\<exists>e. k_Set (d_cache D) (AuthorizeRequestKey (AR_ID s)) (CSession (RequestFail s)) (Some AuthorizeRequestTTL) (w_cache w) e
         = (None, w_cache w', w_env w'))"
proof -
  obtain f w1 where a: "on_users (ur_FindByEmail (d_users D) DefaultTenantID em) w = (f, w1)" by (metis surj_pair)
  note A = on_usersD [OF a]
  show ?thesis
  proof (cases f)
    case (Inl er)
    with assms a A signInFailed_cache [of s None w1 r w'] show ?thesis by (auto simp: verifyCredentials_def split: if_splits)
  next
    case (Inr u)
    obtain l w2 where b: "on_env (user_IsLockedOut u) w1 = (l, w2)" by (metis surj_pair)
    note B = on_envD [OF b]
    obtain rh w3 where c: "on_env (RehashPasswordIfNeeded (d_prims D) u pw) w2 = (rh, w3)" by (metis surj_pair)
    note C = on_envD [OF c]
    show ?thesis
    proof (cases "\<not> l \<and> \<not> ValidatePassword (d_prims D) u pw")
      case True
      with assms a b Inr have "signInFailed D s (Some u) w2 = (r, w')" by (simp add: verifyCredentials_def)
      from signInFailed_cache [OF this] A B show ?thesis by simp
    next
      case False
      with assms a b c Inr A B C show ?thesis
        by (auto simp: verifyCredentials_def resetAccount_frame mutate_user_def split: if_splits sum.splits)
    qed
  qed
qed

text \<open>
  A request that leaves its session alive either did not get at the session at all or raised its
  counter, which stays below the limit.
\<close>

lemma signin_attempt:
  assumes run: "CreateAuthCode_Execute D c w = (r, w')"
  shows "live (w_cache w') t (AuthorizeRequestKey (cac_SessionID c)) = Some v \<Longrightarrow>
      r = Inl NewErrInvalidSession \<and> live (w_cache w) t (AuthorizeRequestKey (cac_SessionID c)) = Some v
      \<or> (\<exists>s s0. v = CSession s \<and> live (w_cache w) (clock (w_env w)) (AuthorizeRequestKey (cac_SessionID c)) = Some (CSession s0)
           \<and> AR_FailedAttempts s = AR_FailedAttempts s0 + 1 \<and> AR_FailedAttempts s < maxFailedAttempts)"
    and "r \<noteq> Inl NewErrInvalidSession \<Longrightarrow>
      \<exists>s0. live (w_cache w) (clock (w_env w)) (AuthorizeRequestKey (cac_SessionID c)) = Some (CSession s0)"
proof -
  let ?k = "AuthorizeRequestKey (cac_SessionID c)"
  obtain x w1 where t: "on_cache (k_GetAndDelete (d_cache D) ?k DSession) w = (x, w1)" by (metis surj_pair)
  have gd: "k_GetAndDelete (d_cache D) ?k DSession (w_cache w) (w_env w) = (x, w_cache w1, w_env w1)" using on_cacheD [OF t] by simp
  have main: "(live (w_cache w') t ?k = Some v \<longrightarrow> r = Inl NewErrInvalidSession \<and> live (w_cache w) t ?k = Some v
      \<or> (\<exists>s s0. v = CSession s \<and> live (w_cache w) (clock (w_env w)) ?k = Some (CSession s0)
           \<and> AR_FailedAttempts s = AR_FailedAttempts s0 + 1 \<and> AR_FailedAttempts s < maxFailedAttempts))
    \<and> (r \<noteq> Inl NewErrInvalidSession \<longrightarrow> (\<exists>s0. live (w_cache w) (clock (w_env w)) ?k = Some (CSession s0)))" for t v
  proof (cases "\<exists>s. x = Some (CSession s)")
    case False
    then have "r = Inl NewErrInvalidSession" "w' = w1"
      using run t by (auto simp: CreateAuthCode_Execute_def split: option.splits cval.splits)
    with ca.GetAndDelete_mono [OF gd] show ?thesis by auto
  next
    case True
    then obtain s where s: "x = Some (CSession s)" by blast
    note T = session_taken [OF t [unfolded s]]
    then obtain s0 where s0: "live (w_cache w) (clock (w_env w)) ?k = Some (CSession s0)" "s = s0\<lparr>AR_Scope := AR_Scope s\<rparr>" by blast
    have att: "AR_FailedAttempts s = AR_FailedAttempts s0" using s0(2) by (metis authorize_request.select_convs authorize_request.surjective authorize_request.update_convs)
    obtain vr w2 where v: "verifyCredentials D s (cac_Email c) (cac_Password c) w1 = (vr, w2)" by (metis surj_pair)
    have w2: "live (w_cache w2) t ?k = Some v \<longrightarrow> v = CSession (RequestFail s) \<and> AR_FailedAttempts s + 1 < maxFailedAttempts"
      using verify_cache [OF v]
    proof (elim disjE conjE exE)
      assume "w_cache w2 = w_cache w1"
      then show ?thesis using T(2) by simp
    next
      fix e assume lt: "AR_FailedAttempts s + 1 < maxFailedAttempts"
        and k: "k_Set (d_cache D) (AuthorizeRequestKey (AR_ID s)) (CSession (RequestFail s)) (Some AuthorizeRequestTTL) (w_cache w1) e
          = (None, w_cache w2, w_env w2)"
      show ?thesis
      proof (cases "AuthorizeRequestKey (AR_ID s) = ?k")
        case True
        have "0 < AuthorizeRequestTTL" by (simp add: AuthorizeRequestTTL_def)
        from ca.Set_ok [OF k this] obtain T where "live (w_cache w2) t (AuthorizeRequestKey (AR_ID s))
            = (if t \<le> T + AuthorizeRequestTTL then Some (CSession (RequestFail s)) else None)" by blast
        with lt True show ?thesis by (auto split: if_splits)
      next
        case False
        with ca.Set_other [OF k, of ?k] T(2) show ?thesis by simp
      qed
    qed
    have "live (w_cache w') t ?k = live (w_cache w1) t ?k \<or> live (w_cache w') t ?k = live (w_cache w2) t ?k"
      using run t s v ca.Set_other [of _ _ _ _ _ _ _ _ ?k t] cache_keys_disjoint(1)
      by (auto simp: CreateAuthCode_Execute_def split: prod.splits option.splits sum.splits if_splits dest!: on_envD on_cacheD)
    with w2 T(2) s0(1) att show ?thesis by (auto simp: RequestFail_def)
  qed
  show "live (w_cache w') t ?k = Some v \<Longrightarrow> r = Inl NewErrInvalidSession \<and> live (w_cache w) t ?k = Some v
      \<or> (\<exists>s s0. v = CSession s \<and> live (w_cache w) (clock (w_env w)) ?k = Some (CSession s0)
           \<and> AR_FailedAttempts s = AR_FailedAttempts s0 + 1 \<and> AR_FailedAttempts s < maxFailedAttempts)"
    using main by blast
  show "r \<noteq> Inl NewErrInvalidSession \<Longrightarrow> \<exists>s0. live (w_cache w) (clock (w_env w)) ?k = Some (CSession s0)"
    using main by blast
qed

end

text \<open>A series of sign-in requests; the number of them that got at a session.\<close>

fun signin_run :: "('u, 'r, 'g, 'c) deps \<Rightarrow> auth_code_cmd list \<Rightarrow> ('u, 'r, 'g, 'c) world \<Rightarrow> nat" where
  "signin_run D [] w = 0"
| "signin_run D (c # cs) w =
     (let (r, w1) = CreateAuthCode_Execute D c w in
      (if r = Inl NewErrInvalidSession then 0 else 1) + signin_run D cs w1)"

context auth_app
begin

text \<open>A session with \<open>n\<close> recorded failures admits at most \<open>3 - n\<close> further requests.\<close>

lemma signin_budget:
  assumes "\<forall>c \<in> set cs. cac_SessionID c = sid"
    and "\<forall>t v. live (w_cache w) t (AuthorizeRequestKey sid) = Some v \<longrightarrow>
      (\<exists>s. v = CSession s \<and> AR_FailedAttempts s < maxFailedAttempts \<and> maxFailedAttempts - AR_FailedAttempts s \<le> int n)"
  shows "signin_run D cs w \<le> n"
  using assms
proof (induction cs arbitrary: w n)
  case (Cons c cs)
  obtain r w1 where run: "CreateAuthCode_Execute D c w = (r, w1)" by (metis surj_pair)
  have sid: "cac_SessionID c = sid" "\<forall>c \<in> set cs. cac_SessionID c = sid" using Cons.prems(1) by simp_all
  note A = signin_attempt [OF run, unfolded sid(1)]
  show ?case
  proof (cases "r = Inl NewErrInvalidSession")
    case True
    have "\<exists>s. v = CSession s \<and> AR_FailedAttempts s < maxFailedAttempts \<and> maxFailedAttempts - AR_FailedAttempts s \<le> int n"
      if l: "live (w_cache w1) t (AuthorizeRequestKey sid) = Some v" for t v
      using A(1) [OF l]
    proof (elim disjE conjE exE)
      fix s s0 assume "v = CSession s" "live (w_cache w) (clock (w_env w)) (AuthorizeRequestKey sid) = Some (CSession s0)"
        "AR_FailedAttempts s = AR_FailedAttempts s0 + 1" "AR_FailedAttempts s < maxFailedAttempts"
      with Cons.prems(2) show ?thesis by fastforce
    qed (use Cons.prems(2) in blast)
    then have "signin_run D cs w1 \<le> n" by (intro Cons.IH [OF sid(2)]) blast
    then show ?thesis using run True by simp
  next
    case False
    from A(2) [OF False] obtain s0 where s0: "live (w_cache w) (clock (w_env w)) (AuthorizeRequestKey sid) = Some (CSession s0)" by blast
    with Cons.prems(2) have b: "AR_FailedAttempts s0 < maxFailedAttempts" "maxFailedAttempts - AR_FailedAttempts s0 \<le> int n" by fastforce+
    then obtain m where n: "n = Suc m" by (cases n) auto
    have "\<exists>s. v = CSession s \<and> AR_FailedAttempts s < maxFailedAttempts \<and> maxFailedAttempts - AR_FailedAttempts s \<le> int m"
      if l: "live (w_cache w1) t (AuthorizeRequestKey sid) = Some v" for t v
      using A(1) [OF l] False s0 b n by auto
    then have "signin_run D cs w1 \<le> m" by (intro Cons.IH [OF sid(2)]) blast
    then show ?thesis using run False n by simp
  qed
qed simp

text \<open>While an account is locked, the answer and the effect of a sign-in do not depend on the password.\<close>

lemma locked_verify:
  assumes run: "verifyCredentials D s em pw w = (r, w')" and g: "good w w"
    and u: "users (w_users w) i = Some u" "U_Email u = em" "U_LockedUntil u = Some l" and time: "clock (w_env w') < l"
  shows "(\<exists>er. r = Inl er) \<and> verifyCredentials D s em pw' w = (r, w')"
proof -
  have uokw: "uok (w_users w)" using good_wok [OF g] by (simp add: wok_def)
  obtain f w1 where a: "on_users (ur_FindByEmail (d_users D) DefaultTenantID em) w = (f, w1)" by (metis surj_pair)
  have fe: "ur_FindByEmail (d_users D) DefaultTenantID em (w_users w) (w_env w) = (f, w_users w1, w_env w1)"
    using on_usersD [OF a] by simp
  note F = us.user_FindByEmail [OF fe uokw]
  show ?thesis
  proof (cases f)
    case (Inl er)
    then have "\<not> errors_Is er ErrNotFound" using F u by auto
    with run a Inl show ?thesis by (auto simp: verifyCredentials_def)
  next
    case (Inr v)
    have "U_ID v = i" using us.email_unique [OF uokw _ u(1), of "U_ID v" v] F Inr u(2) by simp
    then have v: "v = u" using F Inr u(1) by simp
    obtain b w2 where lk: "on_env (user_IsLockedOut u) w1 = (b, w2)" by (metis surj_pair)
    show ?thesis
    proof (cases b)
      case True
      with run a Inr v lk show ?thesis by (auto simp: verifyCredentials_def)
    next
      case False
      have g2: "good w2 w2" by (rule good_restart [OF g_locked [OF lk g_us_FindByEmail [OF a g]]])
      have at: "users (w_users w2) (U_ID u) = Some u"
        using found_by_email(1) [OF a [unfolded Inr] good_wok [OF g]] on_envD [OF lk] v by simp
      have "good w2 w'"
        by (rule g_verify_unlocked [where pw = pw and se = s and r = r, OF _ g2 at])
          (use run a Inr v lk False in \<open>simp add: verifyCredentials_def\<close>)
      then have "clock (w_env w2) \<le> clock (w_env w')" using good_env by (auto simp: env_le_def)
      moreover have "l \<le> clock (w_env w2)"
        using on_envD [OF lk] u(3) False by (auto simp: user_IsLockedOut_def split: prod.splits dest!: nowD)
      ultimately show ?thesis using time by simp
    qed
  qed
qed

lemma locked_signin:
  assumes run: "CreateAuthCode_Execute D c w = (r, w')" and g: "good w w"
    and u: "users (w_users w) i = Some u" "U_Email u = cac_Email c" "U_LockedUntil u = Some l" and time: "clock (w_env w') < l"
  shows "(\<exists>er. r = Inl er) \<and> CreateAuthCode_Execute D (c\<lparr>cac_Password := pw\<rparr>) w = (r, w')"
proof -
  obtain x w1 where t: "on_cache (k_GetAndDelete (d_cache D) (AuthorizeRequestKey (cac_SessionID c)) DSession) w = (x, w1)" by (metis surj_pair)
  have g1: "good w1 w1" by (rule good_restart [OF g_GetAndDelete [OF t g]])
  show ?thesis
  proof (cases "\<exists>s. x = Some (CSession s) \<and> authorize_request_Validate (d_prims D) s = None \<and> cac_CSRFToken c = AR_CSRFToken s")
    case False
    with run t show ?thesis
      by (auto simp: CreateAuthCode_Execute_def split: option.splits cval.splits if_splits)
  next
    case True
    then obtain s where s: "x = Some (CSession s)" "authorize_request_Validate (d_prims D) s = None" "cac_CSRFToken c = AR_CSRFToken s" by blast
    obtain vr w2 where v: "verifyCredentials D s (cac_Email c) (cac_Password c) w1 = (vr, w2)" by (metis surj_pair)
    have u1: "users (w_users w1) i = Some u" using u(1) on_cacheD [OF t] by simp
    have "\<exists>er. vr = Inl er"
    proof (cases vr)
      case (Inr uid)
      from verify_Inr [OF v [unfolded Inr] g1] obtain u' where u': "users (w_users w1) uid = Some u'" "U_Email u' = cac_Email c"
        "\<forall>l. U_LockedUntil u' = Some l \<longrightarrow> l \<le> clock (w_env w2)" by blast
      have "uid = i" using us.email_unique [OF _ u'(1) u1] u'(2) u(2) good_wok [OF g1] by (simp add: wok_def)
      with u' u1 u(3) have "l \<le> clock (w_env w2)" by simp
      moreover have "good w2 w'"
        using run t s v Inr good_restart [OF g_verifyCredentials [OF v g1]]
        by (auto simp: CreateAuthCode_Execute_def split: prod.split_asm sum.split_asm option.split_asm)
          (assumption | erule good_steps)+
      ultimately show ?thesis using time good_env [of w2 w'] by (simp add: env_le_def)
    qed simp
    then obtain er where vr: "vr = Inl er" by blast
    then have "w' = w2" "r = Inl er" using run t s v by (simp_all add: CreateAuthCode_Execute_def)
    with locked_verify [OF v g1 u1 u(2,3)] time t s vr show ?thesis by (simp add: CreateAuthCode_Execute_def)
  qed
qed

section \<open>The fate of an authorization code\<close>

lemma saveRefreshToken_cache: "saveRefreshToken D u cid tk w = (r, w') \<Longrightarrow> w_cache w' = w_cache w"
  by (auto simp: saveRefreshToken_def Let_def split: prod.splits option.splits if_splits dest!: on_envD on_grantsD on_rtsD)

lemma exchange_issue_cache: "exchange_issueTokens D cid n a u w = (r, w') \<Longrightarrow> w_cache w' = w_cache w"
  by (auto simp: exchange_issueTokens_def Let_def split: prod.splits sum.splits dest!: on_envD)

text \<open>After its code was consumed an exchange does not touch the cache, and without a code it does nothing.\<close>

lemma exchange_cache:
  assumes run: "ExchangeCode_Execute D c w = (r, w')"
    and cl: "Authenticate (d_prims D) (d_registry D) (exchange_credentials c) = Inr client" "AllowsGrant client GrantAuthorizationCode"
  shows "w_cache w' = w_cache (snd (consumeAuthCode D (ec_Code c) w))"
proof -
  obtain cr w1 where k: "consumeAuthCode D (ec_Code c) w = (cr, w1)" by (metis surj_pair)
  have "w_cache w' = w_cache w1"
    using run cl k unfolding ExchangeCode_Execute_def Let_def
    by (auto split: prod.split_asm sum.split_asm if_split_asm option.split_asm
        dest!: saveRefreshToken_cache exchange_issue_cache on_envD on_usersD)
  with k show ?thesis by simp
qed

lemma exchange_no_code:
  assumes run: "ExchangeCode_Execute D c w = (r, w')" and none: "\<forall>t. live (w_cache w) t (AuthCodeKey (ec_Code c)) = None"
  shows "\<exists>er. r = Inl er" "w_rts w' = w_rts w \<and> w_grants w' = w_grants w \<and> w_users w' = w_users w"
proof -
  obtain cr w1 where k: "consumeAuthCode D (ec_Code c) w = (cr, w1)" by (metis surj_pair)
  have "cr \<noteq> Inr ac" for ac
  proof
    assume "cr = Inr ac"
    then have "consumeAuthCode D (ec_Code c) w = (Inr ac, w1)" using k by simp
    from consume_code(1) [OF this] none show False by simp
  qed
  then obtain er where cr: "cr = Inl er" by (cases cr) auto
  have fr: "w_rts w1 = w_rts w \<and> w_grants w1 = w_grants w \<and> w_users w1 = w_users w"
    using k by (auto simp: consumeAuthCode_def split: prod.splits option.splits cval.splits dest!: on_cacheD)
  show "\<exists>er. r = Inl er" "w_rts w' = w_rts w \<and> w_grants w' = w_grants w \<and> w_users w' = w_users w"
    using run k cr fr by (auto simp: ExchangeCode_Execute_def split: sum.splits if_splits)
qed

text \<open>A token that was just issued has a hash no stored token has.\<close>

lemma issued_hash_fresh:
  assumes i: "on_env (IssueTokens (d_prims D) (d_tokens D) req) w2 = (Inr tk, w3)" and g: "good w w2" and g0: "good w w"
    and src: "fresh_source (d_prims D)"
  shows "\<forall>i x. rows (w_rts w) i = Some x \<longrightarrow> RT_TokenHash x \<noteq> Hash (d_prims D) (IT_RefreshToken tk)"
proof -
  obtain k where "rand_ctr (w_env w2) \<le> k" "IT_RefreshToken tk = RawURLEncoding_EncodeToString (p_rand (d_prims D) k TokenBytes)"
    using tk.IssueTokens_draw on_envD [OF i] by blast
  with good_env [OF g] have "rand_ctr (w_env w) \<le> k" "Hash (d_prims D) (IT_RefreshToken tk) = token_hash (d_prims D) k"
    by (simp_all add: env_le_def token_hash_def)
  with draw_fresh(1) [OF g0 src] show ?thesis by simp
qed

lemma exchange_new_hash:
  assumes run: "ExchangeCode_Execute D c w = (Inr res, w')" and g: "good w w" and src: "fresh_source (d_prims D)"
  shows "\<forall>i x. rows (w_rts w) i = Some x \<longrightarrow> RT_TokenHash x \<noteq> Hash (d_prims D) (tr_RefreshToken res)"
proof -
  obtain client :: client and ac w1 w2 user w3 tk w4 where
    k: "consumeAuthCode D (ec_Code c) w = (Inr ac, w1)"
    and v: "on_env (auth_code_IsValid (d_prims D) ac (C_ID client) (ec_RedirectURI c) (ec_CodeVerifier c)) w1 = (Inr True, w2)"
    and u: "on_users (ur_FindByID (d_users D) (AC_UserID ac)) w2 = (Inr user, w3)"
    and i: "exchange_issueTokens D (C_ID client) (ResolveExpirySecs (ec_ExpireSecs c)) ac user w3 = (Inr tk, w4)"
    and res: "res = TokenResponse_FromEntity tk (ResolveExpirySecs (ec_ExpireSecs c))"
    by (rule exchange_stages [OF run]) (rule that, assumption+)
  have g3: "good w w3" by (rule g_us_FindByID [OF u g_code_IsValid [OF v g_consume [OF k g]]])
  from i obtain req where i': "on_env (IssueTokens (d_prims D) (d_tokens D) req) w3 = (Inr tk, w4)"
    unfolding exchange_issueTokens_def Let_def by (rule that)
  from issued_hash_fresh [OF i' g3 g src] res show ?thesis by (simp add: TokenResponse_FromEntity_def)
qed

end

end
