(* ===== verification/Families.thy ===== *)
theory Families
  imports SignIn
begin

text \<open>
  Refresh-token families. An abstract specification of the refresh grant: per grant the hashes of the
  live and of the spent tokens, and three things presenting a token can do to them. The use case
  implements it whenever the storage accepts writes, and it answers every request that deserves it.
\<close>

section \<open>The specification\<close>

type_synonym families = "GrantID \<Rightarrow> string set \<times> string set"

abbreviation live_hashes :: "families \<Rightarrow> GrantID \<Rightarrow> string set" where "live_hashes F g \<equiv> fst (F g)"
abbreviation spent_hashes :: "families \<Rightarrow> GrantID \<Rightarrow> string set" where "spent_hashes F g \<equiv> snd (F g)"

text \<open>Presenting the hash \<open>h\<close>; the answer is the hash of the new token, if one is issued.\<close>

inductive family_step :: "string \<Rightarrow> string option \<Rightarrow> families \<Rightarrow> families \<Rightarrow> bool" where
  family_rotate: "h \<in> live_hashes F g \<Longrightarrow> (\<forall>j. n \<notin> live_hashes F j \<and> n \<notin> spent_hashes F j) \<Longrightarrow>
    family_step h (Some n) F (F(g := (insert n (live_hashes F g - {h}), insert h (spent_hashes F g))))"
| family_replay: "h \<in> spent_hashes F g \<Longrightarrow>
    family_step h None F (F(g := ({}, live_hashes F g \<union> spent_hashes F g)))"
| family_refuse: "family_step h None F F"

inductive_cases family_issued: "family_step h (Some n) F F'"
inductive_cases family_refused: "family_step h None F F'"

text \<open>What the specification promises by itself.\<close>

definition family_ok :: "families \<Rightarrow> bool" where
  "family_ok F \<longleftrightarrow> (\<forall>g. (\<forall>a b. a \<in> live_hashes F g \<longrightarrow> b \<in> live_hashes F g \<longrightarrow> a = b))
     \<and> (\<forall>g j. live_hashes F g \<inter> spent_hashes F j = {})
     \<and> (\<forall>g j h. h \<in> live_hashes F g \<longrightarrow> h \<in> live_hashes F j \<longrightarrow> g = j)"

lemma family_step_spent: "family_step h a F F' \<Longrightarrow> spent_hashes F g \<subseteq> spent_hashes F' g"
  by (induction rule: family_step.induct) auto

lemma family_step_ok: "family_step h a F F' \<Longrightarrow> family_ok F \<Longrightarrow> family_ok F'"
proof (induction rule: family_step.induct)
  case (family_rotate h F g n)
  then have one: "live_hashes F g = {h}" unfolding family_ok_def by blast
  have "h \<noteq> n" "\<And>j. h \<in> live_hashes F j \<Longrightarrow> j = g" using family_rotate unfolding family_ok_def by blast+
  with family_rotate show ?case unfolding family_ok_def one by (auto split: if_splits)
next
  case (family_replay h F g)
  then show ?case unfolding family_ok_def by (auto split: if_splits; blast)
qed

section \<open>The families of a store\<close>

definition families :: "(string \<rightharpoonup> refresh_token) \<Rightarrow> families" where
  "families m g = ({RT_TokenHash x | x i. m i = Some x \<and> RT_GrantID x = g \<and> RT_RevokedAt x = None},
                   {RT_TokenHash x | x i. m i = Some x \<and> RT_GrantID x = g \<and> RT_RevokedAt x \<noteq> None})"

lemma live_families: "h \<in> live_hashes (families m) g \<longleftrightarrow>
    (\<exists>i x. m i = Some x \<and> RT_GrantID x = g \<and> RT_RevokedAt x = None \<and> RT_TokenHash x = h)"
  by (auto simp: families_def)

lemma spent_families: "h \<in> spent_hashes (families m) g \<longleftrightarrow>
    (\<exists>i x. m i = Some x \<and> RT_GrantID x = g \<and> RT_RevokedAt x \<noteq> None \<and> RT_TokenHash x = h)"
  by (auto simp: families_def)

lemmas in_families = live_families spent_families

lemma families_eqI:
  assumes "\<And>g h. h \<in> live_hashes F g \<longleftrightarrow> h \<in> live_hashes F' g"
    and "\<And>g h. h \<in> spent_hashes F g \<longleftrightarrow> h \<in> spent_hashes F' g"
  shows "F = F'"
  using assms by (intro ext prod_eqI set_eqI) auto

text \<open>Rows with distinct hashes: dating one and adding another is the abstract rotation.\<close>

lemma families_rotate:
  assumes uniq: "\<And>i j x y. m i = Some x \<Longrightarrow> m j = Some y \<Longrightarrow> RT_TokenHash x = RT_TokenHash y \<Longrightarrow> i = j"
    and old: "m (RT_ID old) = Some old" "RT_RevokedAt old = None"
    and new: "m (RT_ID new) = None" "RT_RevokedAt new = None" "RT_GrantID new = RT_GrantID old"
  shows "families (m(RT_ID old \<mapsto> old\<lparr>RT_RevokedAt := Some t\<rparr>, RT_ID new \<mapsto> new)) =
    (families m)(RT_GrantID old := (insert (RT_TokenHash new) (live_hashes (families m) (RT_GrantID old) - {RT_TokenHash old}),
       insert (RT_TokenHash old) (spent_hashes (families m) (RT_GrantID old))))"
    (is "families ?m = ?F")
proof (rule families_eqI)
  fix g h
  have ids: "RT_ID new \<noteq> RT_ID old" using old(1) new(1) by auto
  show "h \<in> live_hashes (families ?m) g \<longleftrightarrow> h \<in> live_hashes ?F g"
  proof
    assume "h \<in> live_hashes (families ?m) g"
    then obtain i x where "?m i = Some x" "RT_GrantID x = g" "RT_RevokedAt x = None" "RT_TokenHash x = h"
      unfolding live_families by blast
    then show "h \<in> live_hashes ?F g"
      using uniq [of i x "RT_ID old" old] old new ids by (auto simp: live_families split: if_splits)
  next
    assume h: "h \<in> live_hashes ?F g"
    show "h \<in> live_hashes (families ?m) g"
    proof (cases "g = RT_GrantID old \<and> h = RT_TokenHash new")
      case True
      then show ?thesis using new unfolding live_families by (intro exI [of _ "RT_ID new"] exI [of _ new]) simp
    next
      case False
      with h obtain i x where x: "m i = Some x" "RT_GrantID x = g" "RT_RevokedAt x = None" "RT_TokenHash x = h"
        "g = RT_GrantID old \<longrightarrow> h \<noteq> RT_TokenHash old" by (auto simp: live_families split: if_splits)
      then have "i \<noteq> RT_ID old" "i \<noteq> RT_ID new" using old(1) new(1) by auto
      with x show ?thesis unfolding live_families by (intro exI [of _ i] exI [of _ x]) simp
    qed
  qed
  show "h \<in> spent_hashes (families ?m) g \<longleftrightarrow> h \<in> spent_hashes ?F g"
  proof
    assume "h \<in> spent_hashes (families ?m) g"
    then obtain i x where "?m i = Some x" "RT_GrantID x = g" "RT_RevokedAt x \<noteq> None" "RT_TokenHash x = h"
      unfolding spent_families by blast
    then show "h \<in> spent_hashes ?F g"
      using old new ids by (auto simp: spent_families split: if_splits)
  next
    assume h: "h \<in> spent_hashes ?F g"
    show "h \<in> spent_hashes (families ?m) g"
    proof (cases "g = RT_GrantID old \<and> h = RT_TokenHash old")
      case True
      then show ?thesis using ids unfolding spent_families
        by (intro exI [of _ "RT_ID old"] exI [of _ "old\<lparr>RT_RevokedAt := Some t\<rparr>"]) simp
    next
      case False
      with h obtain i x where x: "m i = Some x" "RT_GrantID x = g" "RT_RevokedAt x \<noteq> None" "RT_TokenHash x = h"
        by (auto simp: spent_families split: if_splits)
      then have "i \<noteq> RT_ID old" "i \<noteq> RT_ID new" using old new(1) by auto
      with x show ?thesis unfolding spent_families by (intro exI [of _ i] exI [of _ x]) simp
    qed
  qed
qed

text \<open>Revoking all rows of a grant is the abstract response to a replay.\<close>

lemma families_kill:
  assumes bulk: "bulk_revoked (\<lambda>x. RT_GrantID x = k) m m'"
  shows "families m' = (families m)(k := ({}, live_hashes (families m) k \<union> spent_hashes (families m) k))"
proof (rule families_eqI)
  fix g h
  have prev: "\<exists>x. m i = Some x \<and> revoked_as (RT_GrantID x = k) x y" if "m' i = Some y" for i y
    using bulk_revokedD [OF bulk that] .
  have forth: "\<exists>y. m' i = Some y \<and> revoked_as (RT_GrantID x = k) x y" if "m i = Some x" for i x
  proof -
    have "rel_option (\<lambda>x y. revoked_as (RT_GrantID x = k) x y) (Some x) (m' i)" using bulk that by (metis bulk_revoked_def)
    then show ?thesis by (simp add: option_rel_Some1)
  qed
  show "h \<in> live_hashes (families m') g \<longleftrightarrow> h \<in> live_hashes ((families m)(k := ({}, live_hashes (families m) k \<union> spent_hashes (families m) k))) g"
    (is "?a \<longleftrightarrow> ?b")
  proof
    assume ?a
    then obtain i y where y: "m' i = Some y" "RT_GrantID y = g" "RT_RevokedAt y = None" "RT_TokenHash y = h"
      unfolding live_families by blast
    from prev [OF y(1)] obtain x where x: "m i = Some x" "revoked_as (RT_GrantID x = k) x y" by blast
    note f = revoked_as_fields [OF x(2)]
    have "g \<noteq> k" using f(3,6) y by auto
    moreover have "y = x" using f(3,7) y \<open>g \<noteq> k\<close> by auto
    ultimately show ?b using x y unfolding live_families by (auto simp: live_families)
  next
    assume b: ?b
    then have "g \<noteq> k" by auto
    with b obtain i x where x: "m i = Some x" "RT_GrantID x = g" "RT_RevokedAt x = None" "RT_TokenHash x = h"
      by (auto simp: live_families)
    from forth [OF x(1)] obtain y where y: "m' i = Some y" "revoked_as (RT_GrantID x = k) x y" by blast
    have "y = x" using revoked_as_fields(7) [OF y(2)] x \<open>g \<noteq> k\<close> by simp
    with x y show ?a unfolding live_families by blast
  qed
  show "h \<in> spent_hashes (families m') g \<longleftrightarrow> h \<in> spent_hashes ((families m)(k := ({}, live_hashes (families m) k \<union> spent_hashes (families m) k))) g"
    (is "?a \<longleftrightarrow> ?b")
  proof
    assume ?a
    then obtain i y where y: "m' i = Some y" "RT_GrantID y = g" "RT_RevokedAt y \<noteq> None" "RT_TokenHash y = h"
      unfolding spent_families by blast
    from prev [OF y(1)] obtain x where x: "m i = Some x" "revoked_as (RT_GrantID x = k) x y" by blast
    note f = revoked_as_fields [OF x(2)]
    show ?b
    proof (cases "g = k")
      case True
      have "h \<in> live_hashes (families m) k \<or> h \<in> spent_hashes (families m) k"
        using True x(1) y f unfolding in_families by (cases "RT_RevokedAt x = None") metis+
      with True show ?thesis by simp
    next
      case False
      then have "y = x" using f(3,7) y by auto
      with False x y show ?thesis by (auto simp: in_families)
    qed
  next
    assume ?b
    then obtain i x where x: "m i = Some x" "RT_GrantID x = g" "RT_TokenHash x = h" "g \<noteq> k \<longrightarrow> RT_RevokedAt x \<noteq> None"
      by (auto simp: in_families split: if_splits)
    from forth [OF x(1)] obtain y where y: "m' i = Some y" "revoked_as (RT_GrantID x = k) x y" by blast
    note f = revoked_as_fields [OF y(2)]
    have "RT_RevokedAt y \<noteq> None" using f x by (cases "g = k") auto
    with x y f show ?a unfolding spent_families by (intro exI [of _ i] exI [of _ y]) simp
  qed
qed

section \<open>The refresh grant on working storage\<close>

context drawing_token_port
begin

lemma IssueTokens_disk:
  assumes "IssueTokens q T req e = (r, e')"
  shows "disk e' = disk e"
proof -
  obtain gid ng e1 where g: "issue_grant q req e = ((gid, ng), e1)" by (metis surj_pair)
  have "disk e1 = disk e" using g by (auto simp: issue_grant_def split: if_splits prod.splits dest: NewGrant_fields(8))
  with assms g show ?thesis
    by (auto simp: IssueTokens_def Let_def split: prod.splits sum.splits if_splits
        dest!: GenAccess_disk GenRefresh_disk GenID_disk)
qed

end

context auth_app
begin

text \<open>The check of the grant, whatever its outcome: it touches the grants only.\<close>

lemma checkAndExtend_reliable:
  assumes chk: "checkAndExtendGrant D g ex w = (r, w')" and ok: "wok w" and disk: "disk (w_env w) = []"
  shows "w_rts w' = w_rts w \<and> disk (w_env w') = [] \<and> env_le (w_env w) (w_env w')
    \<and> (r \<noteq> None \<longrightarrow> (\<exists>x. grants (w_grants w) g = Some x \<and> (G_RevokedAt x \<noteq> None \<or> G_ExpiresAt x \<le> clock (w_env w'))))"
proof (cases "g = []")
  case True
  with chk disk show ?thesis by (simp add: checkAndExtendGrant_def)
next
  case False
  obtain res w1 where a: "on_grants (gr_FindByID (d_grants D) g) w = (res, w1)" by (metis surj_pair)
  note A = on_grantsD [OF a]
  have gokw: "gok (w_grants w)" using ok by (simp add: wok_def)
  have f: "gr_FindByID (d_grants D) g (w_grants w) (w_env w) = (res, w_grants w1, w_env w1)" using A by simp
  note F = gr.grant_Find [OF f gokw] and R = gr.grant_Find_reliable [OF f gokw disk]
  show ?thesis
  proof (cases res)
    case (Inl er)
    with chk False a A F R show ?thesis by (auto simp: checkAndExtendGrant_def split: if_splits)
  next
    case (Inr x)
    obtain v w2 where b: "on_env (grant_IsValid x) w1 = (v, w2)" by (metis surj_pair)
    note B = on_envD [OF b]
    have V: "env_le (w_env w1) (w_env w2)" "disk (w_env w2) = []"
      "\<not> v \<Longrightarrow> G_RevokedAt x \<noteq> None \<or> G_ExpiresAt x \<le> clock (w_env w2)"
      using B R by (auto simp: grant_IsValid_def env_le_def split: prod.splits if_splits dest!: nowD)
    have le: "env_le (w_env w) (w_env w2)" using F V(1) by (blast intro: env_le_trans)
    show ?thesis
    proof (cases v)
      case False
      with chk \<open>g \<noteq> []\<close> a A Inr b B V le F show ?thesis by (auto simp: checkAndExtendGrant_def)
    next
      case True
      let ?w = "w2\<lparr>w_grants := gr_alias (d_grants D) (ExtendToCover x ex) (w_grants w2)\<rparr>"
      obtain s w3 where c: "on_grants (gr_Save (d_grants D) (ExtendToCover x ex)) ?w = (s, w3)" by (metis surj_pair)
      note C = on_grantsD [OF c]
      have sv: "gr_Save (d_grants D) (ExtendToCover x ex) (w_grants ?w) (w_env ?w) = (s, w_grants w3, w_env w3)" using C by simp
      have dw: "disk (w_env ?w) = []" using V(2) by simp
      note S = gr.grant_Save_reliable [OF sv dw]
      have x: "grants (w_grants w2) (G_ID (ExtendToCover x ex)) = Some x" "gok (w_grants w2)"
        using F Inr B by (simp_all add: ExtendToCover_def)
      have "gok (w_grants ?w)" using gr.grant_alias [OF x(2,1)] by simp
      from gr.grant_Save [OF sv this] have "env_le (w_env w2) (w_env w3)" by simp
      with le have "env_le (w_env w) (w_env w3)" by (rule env_le_trans)
      moreover have "r = None" "w' = w3" using chk \<open>g \<noteq> []\<close> a Inr b True c S by (auto simp: checkAndExtendGrant_def)
      ultimately show ?thesis using S C B A by simp
    qed
  qed
qed

text \<open>A rotation that fails although the storage works: nothing is revoked, and the reason is time or the grant.\<close>

lemma rotate_txn_Some:
  assumes txn: "rotate_txn D old new w = (Some er, w')" and ok: "wok w" and disk: "disk (w_env w) = []"
    and row: "row_at (rows (w_rts w)) (RT_TokenHash old) old" "RT_RevokedAt old = None"
  shows "rows (w_rts w') = rows (w_rts w) \<and> (RT_ExpiresAt old < clock (w_env w')
    \<or> (\<exists>x. grants (w_grants w) (RT_GrantID old) = Some x \<and> (G_RevokedAt x \<noteq> None \<or> G_ExpiresAt x \<le> clock (w_env w'))))"
proof -
  obtain r w1 where a: "checkAndExtendGrant D (RT_GrantID old) (RT_ExpiresAt new) w = (r, w1)" by (metis surj_pair)
  note A = checkAndExtend_reliable [OF a ok disk]
  show ?thesis
  proof (cases r)
    case (Some x)
    with txn a A show ?thesis by (simp add: rotate_txn_def)
  next
    case None
    have ok1: "rok (w_rts w1)" using A ok by (simp add: wok_def)
    have d1: "disk (w_env w1) = []" using A by blast
    obtain s w2 where b: "on_rts (rt_RevokeByTokenHash (d_rts D) (RT_TokenHash old)) w1 = (s, w2)" by (metis surj_pair)
    have rv: "rt_RevokeByTokenHash (d_rts D) (RT_TokenHash old) (w_rts w1) (w_env w1) = (s, w_rts w2, w_env w2)"
      using on_rtsD [OF b] by simp
    note R = rt.rt_Revoke [OF rv ok1] and RR = rt.rt_Revoke_reliable [OF rv ok1 d1]
    show ?thesis
    proof (cases s)
      case (Some er')
      then have "errors_Is er' ErrNotFound" using RR by blast
      with R Some have rw: "rows (w_rts w2) = rows (w_rts w1)"
        "\<forall>rt. row_at (rows (w_rts w1)) (RT_TokenHash old) rt \<longrightarrow> RT_RevokedAt rt \<noteq> None \<or> RT_ExpiresAt rt < clock (w_env w2)"
        by simp_all
      have same: "w_rts w1 = w_rts w" using A by blast
      then have "RT_ExpiresAt old < clock (w_env w2)" using rw(2) row by auto
      moreover have "w' = w2" using txn a None b Some by (auto simp: rotate_txn_def split: if_splits)
      ultimately show ?thesis using rw(1) same by simp
    next
      case s: None
      obtain t w3 where c: "on_rts (rt_Save (d_rts D) new) w2 = (t, w3)" by (metis surj_pair)
      have sv: "rt_Save (d_rts D) new (w_rts w2) (w_env w2) = (t, w_rts w3, w_env w3)" using on_rtsD [OF c] by simp
      have d2: "disk (w_env w2) = []" using RR by blast
      have "t = None" using rt.rt_Save_reliable [OF sv d2] by simp
      with txn a None b s c show ?thesis by (simp add: rotate_txn_def)
    qed
  qed
qed

text \<open>
  A request that deserves an answer: an authenticated client that may refresh presents a live token of
  its own whose user and grant are in order until the moment \<open>until\<close>.
\<close>

definition refreshable :: "refresh_cmd \<Rightarrow> client \<Rightarrow> refresh_token \<Rightarrow> ('u, 'r, 'g, 'c) world \<Rightarrow> time \<Rightarrow> bool" where
  "refreshable c client x w until \<longleftrightarrow>
     Authenticate (d_prims D) (d_registry D) (refresh_credentials c) = Inr client \<and> AllowsGrant client GrantRefreshToken
     \<and> row_at (rows (w_rts w)) (Hash (d_prims D) (rc_RefreshToken c)) x \<and> RT_RevokedAt x = None \<and> RT_GrantID x \<noteq> []
     \<and> until < RT_ExpiresAt x \<and> IssuedTo x (C_ID client)
     \<and> (\<exists>u. users (w_users w) (RT_UserID x) = Some u \<and> (\<forall>t. U_SessionsInvalidatedAt u = Some t \<longrightarrow> t < RT_AuthenticatedAt x))
     \<and> (\<forall>g. grants (w_grants w) (RT_GrantID x) = Some g \<longrightarrow> G_RevokedAt g = None \<and> until < G_ExpiresAt g)"

lemma findActive_Inl:
  assumes run: "findActiveRefreshToken D raw w = (Inl er, w')" and ok: "wok w" and disk: "disk (w_env w) = []"
    and ne: "\<forall>i x. rows (w_rts w) i = Some x \<longrightarrow> RT_GrantID x \<noteq> []"
  shows "(\<exists>x. row_at (rows (w_rts w)) (Hash (d_prims D) raw) x \<and> RT_RevokedAt x \<noteq> None
        \<and> bulk_revoked (\<lambda>y. RT_GrantID y = RT_GrantID x) (rows (w_rts w)) (rows (w_rts w')))
    \<or> rows (w_rts w') = rows (w_rts w)
      \<and> (\<forall>x. row_at (rows (w_rts w)) (Hash (d_prims D) raw) x \<longrightarrow> RT_RevokedAt x = None \<and> RT_ExpiresAt x \<le> clock (w_env w'))"
proof -
  obtain res w1 where a: "on_rts (rt_FindByTokenHash (d_rts D) (Hash (d_prims D) raw)) w = (res, w1)" by (metis surj_pair)
  note A = on_rtsD [OF a]
  have rokw: "rok (w_rts w)" using ok by (simp add: wok_def)
  have f: "rt_FindByTokenHash (d_rts D) (Hash (d_prims D) raw) (w_rts w) (w_env w) = (res, w_rts w1, w_env w1)" using A by simp
  note F = rt.rt_Find [OF f rokw] and R = rt.rt_Find_reliable [OF f rokw disk]
  show ?thesis
  proof (cases res)
    case (Inl e)
    with run a F R show ?thesis by (auto simp: findActiveRefreshToken_def)
  next
    case (Inr x)
    then have x: "row_at (rows (w_rts w)) (Hash (d_prims D) raw) x" using F by simp
    then have only: "y = x" if "row_at (rows (w_rts w)) (Hash (d_prims D) raw) y" for y
      using rt.rt_unique [OF rokw that] by simp
    show ?thesis
    proof (cases "RT_RevokedAt x = None")
      case False
      have ok1: "wok w1" using ok F A by (simp add: wok_def)
      have "RT_GrantID x \<noteq> []" using ne x by (auto simp: row_at_def)
      moreover have "w' = revokeFamily D x w1" using run a Inr False by (auto simp: findActiveRefreshToken_def)
      ultimately have "bulk_revoked (\<lambda>y. RT_GrantID y = RT_GrantID x) (rows (w_rts w1)) (rows (w_rts w'))"
        using revokeFamily_dead [OF _ ok1] R by blast
      with x False F show ?thesis by auto
    next
      case True
      obtain v w2 where b: "on_env (rt_IsValid x) w1 = (v, w2)" by (metis surj_pair)
      note B = on_envD [OF b]
      have w': "\<not> v" "w' = w2" using run a Inr True b by (auto simp: findActiveRefreshToken_def split: if_splits)
      then have "RT_ExpiresAt x \<le> clock (w_env w2)" using B True by (auto simp: rt_IsValid_def split: prod.splits dest!: nowD)
      with w' F B only True show ?thesis by auto
    qed
  qed
qed

lemma findActive_disk:
  assumes run: "findActiveRefreshToken D raw w = (Inr x, w')" and ok: "wok w" and disk: "disk (w_env w) = []"
  shows "disk (w_env w') = []"
proof -
  obtain w1 where a: "on_rts (rt_FindByTokenHash (d_rts D) (Hash (d_prims D) raw)) w = (Inr x, w1)"
    and b: "on_env (rt_IsValid x) w1 = (True, w')"
    using run by (auto simp: findActiveRefreshToken_def split: prod.splits sum.splits if_splits)
  have rokw: "rok (w_rts w)" using ok by (simp add: wok_def)
  have f: "rt_FindByTokenHash (d_rts D) (Hash (d_prims D) raw) (w_rts w) (w_env w) = (Inr x, w_rts w1, w_env w1)"
    using on_rtsD [OF a] by simp
  have "disk (w_env w1) = []" using rt.rt_Find_reliable [OF f rokw disk] by simp
  with on_envD [OF b] show ?thesis by (auto simp: rt_IsValid_def split: prod.splits if_splits dest!: nowD)
qed

text \<open>A request refused after its token was found to be live.\<close>

lemma refused_late:
  assumes run: "RefreshToken_Execute D c w = (Inl er, w')" and ok: "wok w" and disk: "disk (w_env w) = []"
    and cl: "Authenticate (d_prims D) (d_registry D) (refresh_credentials c) = Inr client" "AllowsGrant client GrantRefreshToken"
    and f: "findActiveRefreshToken D (rc_RefreshToken c) w = (Inr old, w1)" and ne: "RT_GrantID old \<noteq> []"
  shows "rows (w_rts w') = rows (w_rts w)
      \<and> ((\<exists>req e e1 er1. IssueTokens (d_prims D) (d_tokens D) req e = (Inl er1, e1))
         \<or> \<not> refreshable c client old w (clock (w_env w')))"
proof (cases "IssuedTo old (C_ID client)")
  case False
  with run cl f findActive_Inr [OF f ok] show ?thesis by (simp add: RefreshToken_Execute_def refreshable_def)
next
  case True
  note S = findActive_Inr [OF f ok]
  have d1: "disk (w_env w1) = []" using findActive_disk [OF f ok disk] .
  have uok1: "uok (w_users w1)" using S by (auto simp only: wok_def)
  obtain ur w2 where u: "on_users (ur_FindByID (d_users D) (RT_UserID old)) w1 = (ur, w2)" by (metis surj_pair)
  note U = on_usersD [OF u]
  have uf: "ur_FindByID (d_users D) (RT_UserID old) (w_users w1) (w_env w1) = (ur, w_users w2, w_env w2)" using U by simp
  note UF = us.user_FindByID [OF uf uok1] and UR = us.user_FindByID_reliable [OF uf uok1 d1]
  show ?thesis
  proof (cases "\<exists>user. ur = Inr user \<and> \<not> (case U_SessionsInvalidatedAt user of None \<Rightarrow> False | Some t \<Rightarrow> \<not> RT_AuthenticatedAt old > t)")
    case False
    have "w' = w2" using run cl f True u False by (auto simp: RefreshToken_Execute_def split: sum.splits if_splits)
    moreover have "\<not> refreshable c client old w t" for t
      using False UF UR S by (cases ur) (auto simp: refreshable_def split: option.splits)
    ultimately show ?thesis using U S by simp
  next
    case user: True
    then obtain user where user: "ur = Inr user"
      "\<not> (case U_SessionsInvalidatedAt user of None \<Rightarrow> False | Some t \<Rightarrow> \<not> RT_AuthenticatedAt old > t)" by blast
    let ?req = "\<lparr>is_User = user, is_ClientID = C_ID client, is_Nonce = [], is_Scope = RT_Scope old,
        is_ExpireSecs = ResolveExpirySecs (rc_ExpireSecs c), is_ExistingGrantID = RT_GrantID old\<rparr>"
    obtain tr w3 where i: "on_env (IssueTokens (d_prims D) (d_tokens D) ?req) w2 = (tr, w3)" by (metis surj_pair)
    note I = on_envD [OF i]
    show ?thesis
    proof (cases tr)
      case (Inl e)
      have "w' = w3" using run cl f True u user i Inl by (simp add: RefreshToken_Execute_def)
      moreover have "\<exists>req e e1 er1. IssueTokens (d_prims D) (d_tokens D) req e = (Inl er1, e1)" using I Inl by blast
      ultimately show ?thesis using I U S by simp
    next
      case (Inr tk)
      have ng: "IT_NewGrant tk = None" using tk.IssueTokens_Inr I Inr ne by fastforce
      obtain new w4 where n: "on_env (Rotate (d_prims D) old (U_ID user) tk) w3 = (new, w4)" by (metis surj_pair)
      note N = on_envD [OF n]
      have r: "Rotate (d_prims D) old (U_ID user) tk (w_env w3) = (new, w_env w4)" using N by simp
      obtain er2 where t: "rotate_txn D old new w4 = (Some er2, w')"
        using run cl f True u user i Inr n ng
        by (auto simp: RefreshToken_Execute_def updateRefreshToken_def noop_uow NoopUnitOfWork_Do_def Let_def
            split: prod.splits option.splits if_splits)
      have d4: "disk (w_env w4) = []" using UR tk.IssueTokens_disk I Rotate_fields(15) [OF r] by auto
      have ok4: "wok w4" and same: "rows (w_rts w4) = rows (w_rts w)" "w_grants w4 = w_grants w"
        using S U UF I N by (auto simp: wok_def)
      have row: "row_at (rows (w_rts w4)) (RT_TokenHash old) old" "RT_RevokedAt old = None"
        using S same by (auto simp: row_at_def)
      from rotate_txn_Some [OF t ok4 d4 row] same show ?thesis by (auto simp: refreshable_def)
    qed
  qed
qed

text \<open>
  A refused request: it replayed a spent token and the family is revoked; or no stored token changed,
  and the request did not deserve an answer or the tokens could not be issued.
\<close>

lemma refresh_refused:
  assumes run: "RefreshToken_Execute D c w = (Inl er, w')" and ok: "wok w" and disk: "disk (w_env w) = []"
    and ne: "\<forall>i x. rows (w_rts w) i = Some x \<longrightarrow> RT_GrantID x \<noteq> []"
  shows "(\<exists>x. row_at (rows (w_rts w)) (Hash (d_prims D) (rc_RefreshToken c)) x \<and> RT_RevokedAt x \<noteq> None
        \<and> bulk_revoked (\<lambda>y. RT_GrantID y = RT_GrantID x) (rows (w_rts w)) (rows (w_rts w')))
    \<or> rows (w_rts w') = rows (w_rts w)
      \<and> ((\<exists>req e e1 er1. IssueTokens (d_prims D) (d_tokens D) req e = (Inl er1, e1))
         \<or> (\<forall>client x. \<not> refreshable c client x w (clock (w_env w'))))"
proof (cases "\<exists>client. Authenticate (d_prims D) (d_registry D) (refresh_credentials c) = Inr client \<and> AllowsGrant client GrantRefreshToken")
  case False
  with run show ?thesis
    by (auto simp: RefreshToken_Execute_def refreshable_def split: sum.splits if_splits)
next
  case True
  then obtain client where cl: "Authenticate (d_prims D) (d_registry D) (refresh_credentials c) = Inr client"
    "AllowsGrant client GrantRefreshToken" by blast
  obtain fr w1 where f: "findActiveRefreshToken D (rc_RefreshToken c) w = (fr, w1)" by (metis surj_pair)
  show ?thesis
  proof (cases fr)
    case (Inl e)
    have "w' = w1" using run cl f Inl by (simp add: RefreshToken_Execute_def)
    with findActive_Inl [OF f [unfolded Inl] ok disk ne] show ?thesis by (auto simp: refreshable_def)
  next
    case (Inr old)
    note S = findActive_Inr [OF f [unfolded Inr] ok]
    have only: "client' = client \<and> x = old" if "refreshable c client' x w t" for client' x t
      using rt.rt_unique [of "w_rts w"] that S ok cl by (auto simp: refreshable_def wok_def)
    have "RT_GrantID old \<noteq> []" using ne S by (auto simp: row_at_def)
    from refused_late [OF run ok disk cl f [unfolded Inr] this] only show ?thesis by blast
  qed
qed

text \<open>Whoever deserves an answer gets one.\<close>

lemma refresh_answers:
  assumes run: "RefreshToken_Execute D c w = (r, w')" and ok: "wok w" and disk: "disk (w_env w) = []"
    and ne: "\<forall>i x. rows (w_rts w) i = Some x \<longrightarrow> RT_GrantID x \<noteq> []"
    and issue: "\<And>req e. \<exists>tk e1. IssueTokens (d_prims D) (d_tokens D) req e = (Inr tk, e1)"
    and fair: "refreshable c client x w (clock (w_env w'))"
  shows "\<exists>res. r = Inr res"
proof (cases r)
  case (Inl er)
  have iss: "IssueTokens (d_prims D) (d_tokens D) req e \<noteq> (Inl er1, e1)" for req e e1 er1 using issue [of req e] by auto
  have live: "RT_RevokedAt y = None" if "row_at (rows (w_rts w)) (Hash (d_prims D) (rc_RefreshToken c)) y" for y
    using rt.rt_unique [OF _ that] fair ok by (auto simp: refreshable_def wok_def)
  from refresh_refused [OF run [unfolded Inl] ok disk ne] have False
  proof (elim disjE exE conjE, goal_cases)
    case (1 y)
    then show ?case using live [OF 1(1)] by simp
  next
    case 2
    then show ?case using iss by blast
  next
    case 3
    then show ?case using fair by blast
  qed
  then show ?thesis ..
qed simp

lemma refresh_new_hash:
  assumes run: "RefreshToken_Execute D c w = (Inr res, w')" and g: "good w w" and src: "fresh_source (d_prims D)"
  shows "\<forall>i x. rows (w_rts w) i = Some x \<longrightarrow> RT_TokenHash x \<noteq> Hash (d_prims D) (tr_RefreshToken res)"
proof -
  obtain old w1 user w2 tk w3 req where
    f: "findActiveRefreshToken D (rc_RefreshToken c) w = (Inr old, w1)"
    and u: "on_users (ur_FindByID (d_users D) (RT_UserID old)) w1 = (Inr user, w2)"
    and i: "on_env (IssueTokens (d_prims D) (d_tokens D) req) w2 = (Inr tk, w3)"
    and res: "res = TokenResponse_FromEntity tk (ResolveExpirySecs (rc_ExpireSecs c))"
    by (rule refresh_stages [OF run]) (rule that, assumption+)
  have "good w w2" by (rule g_us_FindByID [OF u g_findActive [OF f g]])
  from issued_hash_fresh [OF i this g src] res show ?thesis by (simp add: TokenResponse_FromEntity_def)
qed

text \<open>The refresh grant implements the specification.\<close>

lemma refresh_refines:
  assumes run: "RefreshToken_Execute D c w = (r, w')" and g: "good w w" and src: "fresh_source (d_prims D)"
    and disk: "disk (w_env w) = []"
  shows "family_step (Hash (d_prims D) (rc_RefreshToken c))
    (case r of Inl _ \<Rightarrow> None | Inr res \<Rightarrow> Some (Hash (d_prims D) (tr_RefreshToken res)))
    (families (rows (w_rts w))) (families (rows (w_rts w')))"
proof (cases r)
  case (Inl er)
  have ne: "\<forall>i x. rows (w_rts w) i = Some x \<longrightarrow> RT_GrantID x \<noteq> []" using row_grant_nonempty [OF g src] by blast
  from refresh_refused [OF run [unfolded Inl] good_wok [OF g] disk ne]
  consider x where "row_at (rows (w_rts w)) (Hash (d_prims D) (rc_RefreshToken c)) x" "RT_RevokedAt x \<noteq> None"
      "bulk_revoked (\<lambda>y. RT_GrantID y = RT_GrantID x) (rows (w_rts w)) (rows (w_rts w'))"
    | "rows (w_rts w') = rows (w_rts w)" by blast
  then show ?thesis
  proof cases
    case (1 x)
    then have "Hash (d_prims D) (rc_RefreshToken c) \<in> spent_hashes (families (rows (w_rts w))) (RT_GrantID x)"
      unfolding spent_families row_at_def by blast
    then show ?thesis unfolding families_kill [OF 1(3)] Inl sum.case by (rule family_replay)
  next
    case 2
    then show ?thesis by (simp add: Inl family_refuse)
  qed
next
  case (Inr res)
  let ?m = "rows (w_rts w)"
  note hash = refresh_new_hash [OF run [unfolded Inr] g src]
  have uu: "\<forall>n. p_uuid (d_prims D) n \<noteq> []" using src by (simp add: fresh_source_def)
  from refresh_success [OF run [unfolded Inr] good_wok [OF g] hash uu] obtain client old new where
    R: "rotated c res client old new w w'" by blast
  have rokw: "rok (w_rts w)" using good_wok [OF g] by (simp add: wok_def)
  have old: "?m (RT_ID old) = Some old" "RT_RevokedAt old = None" "RT_TokenHash old = Hash (d_prims D) (rc_RefreshToken c)"
    using R by (simp_all add: rotated_def row_at_def)
  have ne: "RT_GrantID old \<noteq> []" by (rule row_grant_nonempty [OF g src old(1)])
  obtain t n where rows: "rows (w_rts w') = ?m(RT_ID old \<mapsto> old\<lparr>RT_RevokedAt := Some t\<rparr>, RT_ID new \<mapsto> new)"
    and id: "uuid_ctr (w_env w) \<le> n" "RT_ID new = p_uuid (d_prims D) n"
    using R unfolding rotated_def by blast
  have new: "?m (RT_ID new) = None" using uuid_fresh(1) [OF g src id(1)] id(2) by simp
  have nf: "RT_RevokedAt new = None" "RT_GrantID new = RT_GrantID old" "RT_TokenHash new = Hash (d_prims D) (tr_RefreshToken res)"
    using R ne unfolding rotated_def by simp_all
  have uniq: "i = j" if "?m i = Some x" "?m j = Some y" "RT_TokenHash x = RT_TokenHash y" for i j x y
    using rt.rt_unique [OF rokw, of "RT_TokenHash x" x y] rt.rt_keyed [OF rokw that(1)] rt.rt_keyed [OF rokw that(2)] that
    by (auto simp: row_at_def)
  have live: "RT_TokenHash old \<in> live_hashes (families ?m) (RT_GrantID old)" unfolding live_families using old by blast
  have unused: "\<forall>j. RT_TokenHash new \<notin> live_hashes (families ?m) j \<and> RT_TokenHash new \<notin> spent_hashes (families ?m) j"
    unfolding in_families nf using hash by blast
  show ?thesis
    using family_rotate [OF live unused] families_rotate [where t = t, OF uniq old(1,2) new nf(1,2)]
    unfolding rows Inr old(3) [symmetric] by (simp add: nf(3))
qed

end

end
