(* ===== verification/FileRepo.thy ===== *)
theory FileRepo
  imports Env
begin

text \<open>
  The generic file-backed repository (\<open>infrastructure/repository/file\<close>): an in-memory map of items,
  lazily built secondary indexes and the JSON file, kept in step. The type parameters \<open>T\<close> and \<open>D\<close>
  of the Go code are the type variables of the records below. Every exported operation holds the
  repository's lock for its whole body, so each is one step on the state.
\<close>

section \<open>State\<close>

text \<open>
  \<open>items\<close> is a Go map with an iteration order: the order in which keys were first inserted. The
  index-dependent results are proved independent of it. The file is the map of documents that the
  JSON encoder writes and the decoder reads back. \<open>fieldValue\<close> is the reflective
  \<open>stringFieldValue\<close>, instantiated per entity type.
\<close>

record ('t, 'd) fr_cfg =
  toDoc :: "'t \<Rightarrow> env \<Rightarrow> 'd \<times> env"
  toEntity :: "'d \<Rightarrow> go_error + 't"
  getID :: "'t \<Rightarrow> string"
  fieldValue :: "string \<Rightarrow> 't \<Rightarrow> go_error + string option"

record ('t, 'd) file_repo =
  items :: "(string \<times> 't) list"
  indexedFields :: "string \<rightharpoonup> (string \<rightharpoonup> string)"
  store :: "(string \<times> 'd) list"

section \<open>The file\<close>

text \<open>
  \<open>writeToFile\<close> writes a temporary file and renames it, so a failing write leaves the old contents.
\<close>

definition write_failed :: go_error where
  "write_failed = ErrWriteFailed (ErrText ''write'')"

lemma write_failed_not_found [simp]: "\<not> errors_Is write_failed ErrNotFound"
  by (simp add: write_failed_def)

definition writeToFile ::
  "(string \<times> 'd) list \<Rightarrow> ('t, 'd) file_repo \<Rightarrow> env \<Rightarrow> go_error option \<times> ('t, 'd) file_repo \<times> env" where
  "writeToFile docs r e =
     (let (written, e1) = disk_write e in
      if written then (None, r\<lparr>store := docs\<rparr>, e1)
      else (Some write_failed, r, e1))"

primrec toDocs ::
  "('t, 'd) fr_cfg \<Rightarrow> (string \<times> 't) list \<Rightarrow> env \<Rightarrow> (string \<times> 'd) list \<times> env" where
  "toDocs cfg [] e = ([], e)"
| "toDocs cfg (kv # its) e =
     (let (d, e1) = toDoc cfg (snd kv) e; (ds, e2) = toDocs cfg its e1 in ((fst kv, d) # ds, e2))"

definition writeItems ::
  "('t, 'd) fr_cfg \<Rightarrow> (string \<times> 't) list \<Rightarrow> ('t, 'd) file_repo \<Rightarrow> env
     \<Rightarrow> go_error option \<times> ('t, 'd) file_repo \<times> env" where
  "writeItems cfg its r e = (let (docs, e1) = toDocs cfg its e in writeToFile docs r e1)"

definition writeItemsWith ::
  "('t, 'd) fr_cfg \<Rightarrow> string \<Rightarrow> 't \<Rightarrow> ('t, 'd) file_repo \<Rightarrow> env
     \<Rightarrow> go_error option \<times> ('t, 'd) file_repo \<times> env" where
  "writeItemsWith cfg i item r e =
     (let (docs, e1) = toDocs cfg (items r) e; (d, e2) = toDoc cfg item e1 in
      writeToFile (AList.update i d docs) r e2)"

text \<open>\<open>New\<close>: the repository over the documents of the file; any bad document is an error.\<close>

primrec load_items :: "('t, 'd) fr_cfg \<Rightarrow> (string \<times> 'd) list \<Rightarrow> go_error + (string \<times> 't) list" where
  "load_items cfg [] = Inr []"
| "load_items cfg (kd # ds) =
     (case toEntity cfg (snd kd) of
        Inl err \<Rightarrow> Inl err
      | Inr x \<Rightarrow> (case load_items cfg ds of Inl err \<Rightarrow> Inl err | Inr its \<Rightarrow> Inr ((fst kd, x) # its)))"

definition NewFileRepository ::
  "('t, 'd) fr_cfg \<Rightarrow> (string \<times> 'd) list \<Rightarrow> go_error + ('t, 'd) file_repo" where
  "NewFileRepository cfg loaded =
     (case load_items cfg loaded of
        Inl err \<Rightarrow> Inl err
      | Inr its \<Rightarrow> Inr \<lparr>items = its, indexedFields = Map.empty, store = loaded\<rparr>)"

section \<open>Indexes\<close>

primrec buildIndex ::
  "('t, 'd) fr_cfg \<Rightarrow> string \<Rightarrow> (string \<times> 't) list \<Rightarrow> (string \<rightharpoonup> string) \<Rightarrow> go_error + (string \<rightharpoonup> string)" where
  "buildIndex cfg f [] index = Inr index"
| "buildIndex cfg f (kv # its) index =
     (case fieldValue cfg f (snd kv) of
        Inl err \<Rightarrow> Inl err
      | Inr None \<Rightarrow> buildIndex cfg f its index
      | Inr (Some value) \<Rightarrow> buildIndex cfg f its (index(value \<mapsto> fst kv)))"

definition updateIndexesForItem ::
  "('t, 'd) fr_cfg \<Rightarrow> string \<Rightarrow> 't \<Rightarrow> ('t, 'd) file_repo \<Rightarrow> ('t, 'd) file_repo" where
  "updateIndexesForItem cfg i item r = r\<lparr>indexedFields := (\<lambda>f.
     case indexedFields r f of
       None \<Rightarrow> None
     | Some index \<Rightarrow>
         let kept = (\<lambda>value. if index value = Some i then None else index value) in
         Some (case fieldValue cfg f item of
             Inr (Some value) \<Rightarrow> kept(value \<mapsto> i) | _ \<Rightarrow> kept))\<rparr>"

definition rebuildIndexes :: "('t, 'd) fr_cfg \<Rightarrow> ('t, 'd) file_repo \<Rightarrow> ('t, 'd) file_repo" where
  "rebuildIndexes cfg r = r\<lparr>indexedFields := (\<lambda>f.
     case indexedFields r f of
       None \<Rightarrow> None
     | Some _ \<Rightarrow> (case buildIndex cfg f (items r) Map.empty of Inl err \<Rightarrow> None | Inr index \<Rightarrow> Some index))\<rparr>"

definition findByFieldLocked ::
  "('t, 'd) fr_cfg \<Rightarrow> string \<Rightarrow> string \<Rightarrow> ('t, 'd) file_repo \<Rightarrow> (go_error + 't) \<times> ('t, 'd) file_repo" where
  "findByFieldLocked cfg f value r =
     (let look = (\<lambda>index r1.
            case index value of
              None \<Rightarrow> (Inl ErrNotFound, r1)
            | Some i \<Rightarrow> (case map_of (items r1) i of
                  None \<Rightarrow> (Inl ErrNotFound,
                    r1\<lparr>indexedFields := (indexedFields r1)(f \<mapsto> index(value := None))\<rparr>)
                | Some item \<Rightarrow> (Inr item, r1))) in
      case indexedFields r f of
        Some index \<Rightarrow> look index r
      | None \<Rightarrow> (case buildIndex cfg f (items r) Map.empty of
            Inl err \<Rightarrow> (Inl err, r)
          | Inr index \<Rightarrow> look index (r\<lparr>indexedFields := (indexedFields r)(f \<mapsto> index)\<rparr>)))"

text \<open>The index-free search of \<open>field.go\<close>, the reference for the indexed one.\<close>

primrec scanByField ::
  "('t, 'd) fr_cfg \<Rightarrow> (string \<times> 't) list \<Rightarrow> string \<Rightarrow> string \<Rightarrow> go_error + 't" where
  "scanByField cfg [] f value = Inl ErrNotFound"
| "scanByField cfg (kv # its) f value =
     (case fieldValue cfg f (snd kv) of
        Inl err \<Rightarrow> Inl err
      | Inr x \<Rightarrow> if x = Some value then Inr (snd kv) else scanByField cfg its f value)"

section \<open>Operations\<close>

definition fr_Find ::
  "('t, 'd) fr_cfg \<Rightarrow> string \<Rightarrow> string \<Rightarrow> ('t, 'd) file_repo \<Rightarrow> (go_error + 't) \<times> ('t, 'd) file_repo" where
  "fr_Find cfg f value r = findByFieldLocked cfg f value r"

definition fr_Save ::
  "('t, 'd) fr_cfg \<Rightarrow> 't \<Rightarrow> ('t, 'd) file_repo \<Rightarrow> env \<Rightarrow> go_error option \<times> ('t, 'd) file_repo \<times> env" where
  "fr_Save cfg item r e =
     (let i = getID cfg item in
      case writeItemsWith cfg i item r e of
        (Some err, r1, e1) \<Rightarrow> (Some err, r1, e1)
      | (None, r1, e1) \<Rightarrow>
          (None, updateIndexesForItem cfg i item (r1\<lparr>items := AList.update i item (items r1)\<rparr>), e1))"

definition CreateIfFieldNotExists ::
  "('t, 'd) fr_cfg \<Rightarrow> string \<Rightarrow> string \<Rightarrow> 't \<Rightarrow> ('t, 'd) file_repo \<Rightarrow> env
     \<Rightarrow> go_error option \<times> ('t, 'd) file_repo \<times> env" where
  "CreateIfFieldNotExists cfg f value item r e =
     (case findByFieldLocked cfg f value r of
        (Inr _, r1) \<Rightarrow> (Some ErrConflict, r1, e)
      | (Inl err, r1) \<Rightarrow>
          if \<not> errors_Is err ErrNotFound then (Some err, r1, e)
          else fr_Save cfg item r1 e)"

text \<open>
  The callback of \<open>UpdateByField\<close> works on a copy of the item; it may read the clock and fail.
\<close>

definition UpdateByField ::
  "('t, 'd) fr_cfg \<Rightarrow> string \<Rightarrow> string \<Rightarrow> ('t \<Rightarrow> env \<Rightarrow> (go_error + 't) \<times> env) \<Rightarrow> ('t, 'd) file_repo \<Rightarrow> env
     \<Rightarrow> go_error option \<times> ('t, 'd) file_repo \<times> env" where
  "UpdateByField cfg f value update r e =
     (case findByFieldLocked cfg f value r of
        (Inl err, r1) \<Rightarrow> (Some err, r1, e)
      | (Inr item, r1) \<Rightarrow>
          (case update item e of
             (Inl err, e1) \<Rightarrow> (Some err, r1, e1)
           | (Inr cp, e1) \<Rightarrow> fr_Save cfg cp r1 e1))"

primrec updateAll_loop ::
  "('t \<Rightarrow> env \<Rightarrow> (go_error + 't option) \<times> env) \<Rightarrow> (string \<times> 't) list \<Rightarrow> env
     \<Rightarrow> (go_error + (string \<times> 't) list \<times> bool) \<times> env" where
  "updateAll_loop update [] e = (Inr ([], False), e)"
| "updateAll_loop update (kv # its) e =
     (case update (snd kv) e of
        (Inl err, e1) \<Rightarrow> (Inl err, e1)
      | (Inr ch, e1) \<Rightarrow>
          (case updateAll_loop update its e1 of
             (Inl err, e2) \<Rightarrow> (Inl err, e2)
           | (Inr (rest, changed), e2) \<Rightarrow>
               (Inr ((fst kv, case ch of None \<Rightarrow> snd kv | Some cp \<Rightarrow> cp) # rest, changed \<or> ch \<noteq> None), e2)))"

text \<open>
  \<open>UpdateAll\<close>: the callback's \<open>(true, nil)\<close> is \<open>Some cp\<close>, its \<open>(false, nil)\<close> is \<open>None\<close>. A changed item
  is a new pointer, so \<open>sameItems\<close> holds exactly when the callback changed nothing.
\<close>

definition UpdateAll ::
  "('t, 'd) fr_cfg \<Rightarrow> ('t \<Rightarrow> env \<Rightarrow> (go_error + 't option) \<times> env) \<Rightarrow> ('t, 'd) file_repo \<Rightarrow> env
     \<Rightarrow> go_error option \<times> ('t, 'd) file_repo \<times> env" where
  "UpdateAll cfg update r e =
     (case updateAll_loop update (items r) e of
        (Inl err, e1) \<Rightarrow> (Some err, r, e1)
      | (Inr (nextItems, changed), e1) \<Rightarrow>
          if \<not> changed then (None, r, e1)
          else (case writeItems cfg nextItems r e1 of
              (Some err, r1, e2) \<Rightarrow> (Some err, r1, e2)
            | (None, r1, e2) \<Rightarrow> (None, rebuildIndexes cfg (r1\<lparr>items := nextItems\<rparr>), e2)))"

text \<open>
  \<open>FindByField\<close> hands out the pointer stored in \<open>items\<close>, not a copy. When a caller assigns to fields
  of the object it found, the repository's map already holds the new contents, before any \<open>Save\<close>
  and without touching indexes or file.
\<close>

definition fr_alias :: "('t, 'd) fr_cfg \<Rightarrow> 't \<Rightarrow> ('t, 'd) file_repo \<Rightarrow> ('t, 'd) file_repo" where
  "fr_alias cfg item r =
     (if map_of (items r) (getID cfg item) = None then r
      else r\<lparr>items := AList.update (getID cfg item) item (items r)\<rparr>)"

section \<open>The invariant\<close>

text \<open>
  For a set \<open>F\<close> of unique fields: every index built for a field of \<open>F\<close> maps a value to an
  identifier exactly when the item stored under it has that value.
\<close>

definition has_value :: "('t, 'd) fr_cfg \<Rightarrow> string \<Rightarrow> (string \<rightharpoonup> 't) \<Rightarrow> string \<Rightarrow> string \<Rightarrow> bool" where
  "has_value cfg f m v i \<longleftrightarrow> (case m i of None \<Rightarrow> False | Some x \<Rightarrow> fieldValue cfg f x = Inr (Some v))"

definition unique_field :: "('t, 'd) fr_cfg \<Rightarrow> string \<Rightarrow> (string \<rightharpoonup> 't) \<Rightarrow> bool" where
  "unique_field cfg f m \<longleftrightarrow> (\<forall>v i j. has_value cfg f m v i \<longrightarrow> has_value cfg f m v j \<longrightarrow> i = j)"

definition index_ok :: "('t, 'd) fr_cfg \<Rightarrow> string \<Rightarrow> (string \<rightharpoonup> 't) \<Rightarrow> (string \<rightharpoonup> string) \<Rightarrow> bool" where
  "index_ok cfg f m index \<longleftrightarrow> (\<forall>v i. index v = Some i \<longleftrightarrow> has_value cfg f m v i)"

definition fr_inv :: "('t, 'd) fr_cfg \<Rightarrow> string set \<Rightarrow> ('t, 'd) file_repo \<Rightarrow> bool" where
  "fr_inv cfg F r \<longleftrightarrow> distinct_keys (items r)
     \<and> (\<forall>i x. map_of (items r) i = Some x \<longrightarrow> getID cfg x = i)
     \<and> (\<forall>f \<in> F. unique_field cfg f (map_of (items r)))
     \<and> (\<forall>f \<in> F. \<forall>index. indexedFields r f = Some index \<longrightarrow> index_ok cfg f (map_of (items r)) index)"

definition string_fields :: "('t, 'd) fr_cfg \<Rightarrow> string set \<Rightarrow> bool" where
  "string_fields cfg F \<longleftrightarrow> (\<forall>f \<in> F. \<forall>x. \<exists>v. fieldValue cfg f x = Inr v)"

text \<open>The pairs of an identifier and the value its item has in field \<open>f\<close>.\<close>

definition entries :: "('t, 'd) fr_cfg \<Rightarrow> string \<Rightarrow> (string \<times> 't) list \<Rightarrow> (string \<times> string) set" where
  "entries cfg f its = {(i, v). \<exists>x. (i, x) \<in> set its \<and> fieldValue cfg f x = Inr (Some v)}"

lemma entries_Cons:
  "entries cfg f (kv # its) =
     (case fieldValue cfg f (snd kv) of Inr (Some v) \<Rightarrow> {(fst kv, v)} | _ \<Rightarrow> {}) \<union> entries cfg f its"
  by (cases kv) (auto simp: entries_def split: sum.splits option.splits)

lemma entries_has_value:
  assumes "distinct_keys its"
  shows "(i, v) \<in> entries cfg f its \<longleftrightarrow> has_value cfg f (map_of its) v i"
proof -
  have "(i, x) \<in> set its \<longleftrightarrow> map_of its i = Some x" for x
    using assms by (simp add: distinct_keys_def)
  then show ?thesis by (auto simp: entries_def has_value_def split: option.splits)
qed

section \<open>What the repository promises of any codec\<close>

locale file_codec =
  fixes cfg :: "('t, 'd) fr_cfg" and F :: "string set"
  assumes strings: "string_fields cfg F"
    and toDoc_env: "toDoc cfg x e = (d, e') \<Longrightarrow> env_le e e'"
    and toDoc_disk: "toDoc cfg x e = (d, e') \<Longrightarrow> disk e' = disk e"
begin

lemma buildIndex_entries:
  assumes "f \<in> F"
  shows "\<exists>index. buildIndex cfg f its index0 = Inr index
    \<and> (\<forall>v i. index v = Some i \<longrightarrow> index0 v = Some i \<or> (i, v) \<in> entries cfg f its)
    \<and> (\<forall>v. (index0 v \<noteq> None \<or> v \<in> snd ` entries cfg f its) \<longrightarrow> index v \<noteq> None)"
proof (induction its arbitrary: index0)
  case (Cons kv its)
  obtain fv where fv: "fieldValue cfg f (snd kv) = Inr fv"
    using strings assms by (auto simp: string_fields_def)
  show ?case
  proof (cases fv)
    case None
    with Cons [of index0] fv show ?thesis by (simp add: entries_Cons)
  next
    case (Some w)
    have keep: "(index0(w \<mapsto> fst kv)) v \<noteq> None \<longleftrightarrow> index0 v \<noteq> None \<or> v = w" for v by simp
    from Cons [of "index0(w \<mapsto> fst kv)"] fv Some show ?thesis
      by (auto simp: entries_Cons simp del: fun_upd_apply simp: keep) (metis fun_upd_apply option.sel)+
  qed
qed (simp add: entries_def)

lemma buildIndex_ok:
  assumes "f \<in> F" and "distinct_keys its" and "unique_field cfg f (map_of its)"
  shows "\<exists>index. buildIndex cfg f its Map.empty = Inr index \<and> index_ok cfg f (map_of its) index"
proof -
  have mem: "(i, v) \<in> entries cfg f its \<longleftrightarrow> has_value cfg f (map_of its) v i" for v i
    using assms(2) by (rule entries_has_value)
  obtain index where ix: "buildIndex cfg f its Map.empty = Inr index"
    and sound: "\<And>v i. index v = Some i \<Longrightarrow> has_value cfg f (map_of its) v i"
    and complete: "\<And>v i. has_value cfg f (map_of its) v i \<Longrightarrow> index v \<noteq> None"
    using buildIndex_entries [OF assms(1), of its Map.empty] by (force simp: mem [symmetric])
  have "index v = Some i" if has: "has_value cfg f (map_of its) v i" for v i
  proof -
    obtain j where j: "index v = Some j" using complete [OF has] by blast
    then have "j = i" using sound [OF j] has assms(3) by (auto simp only: unique_field_def)
    with j show ?thesis by simp
  qed
  with sound have "index_ok cfg f (map_of its) index" unfolding index_ok_def by (metis (no_types))
  with ix show ?thesis by blast
qed

text \<open>A lookup on a unique field finds the item that has the value, or nothing if there is none.\<close>

lemma find_correct:
  assumes inv: "fr_inv cfg F r" and f: "f \<in> F" and find: "findByFieldLocked cfg f v r = (res, r')"
  shows "items r' = items r \<and> store r' = store r \<and> fr_inv cfg F r'
    \<and> (case res of
         Inl err \<Rightarrow> err = ErrNotFound \<and> (\<forall>i. \<not> has_value cfg f (map_of (items r)) v i)
       | Inr x \<Rightarrow> map_of (items r) (getID cfg x) = Some x \<and> fieldValue cfg f x = Inr (Some v))"
proof -
  have uniq: "unique_field cfg f (map_of (items r))" and dist: "distinct_keys (items r)"
    using inv f by (auto simp: fr_inv_def)
  obtain index r1 where ix: "index_ok cfg f (map_of (items r)) index"
    and r1: "items r1 = items r" "store r1 = store r" "fr_inv cfg F r1"
    and look: "findByFieldLocked cfg f v r =
        (case index v of None \<Rightarrow> (Inl ErrNotFound, r1)
         | Some i \<Rightarrow> (case map_of (items r1) i of
              None \<Rightarrow> (Inl ErrNotFound, r1\<lparr>indexedFields := (indexedFields r1)(f \<mapsto> index(v := None))\<rparr>)
            | Some item \<Rightarrow> (Inr item, r1)))"
  proof (cases "indexedFields r f")
    case (Some index)
    then have "index_ok cfg f (map_of (items r)) index" using inv f by (auto simp: fr_inv_def)
    with Some inv show ?thesis by (intro that [of index r]) (auto simp: findByFieldLocked_def)
  next
    case None
    obtain index where b: "buildIndex cfg f (items r) Map.empty = Inr index"
      and ok: "index_ok cfg f (map_of (items r)) index"
      using buildIndex_ok [OF f dist uniq] by blast
    show ?thesis
      using None b ok inv
      by (intro that [of index "r\<lparr>indexedFields := (indexedFields r)(f \<mapsto> index)\<rparr>"])
        (auto simp: findByFieldLocked_def fr_inv_def)
  qed
  show ?thesis
  proof (cases "index v")
    case None
    then have "\<forall>i. \<not> has_value cfg f (map_of (items r)) v i"
      using ix by (metis index_ok_def option.distinct(1))
    with None look find r1 show ?thesis by auto
  next
    case (Some i)
    then have "has_value cfg f (map_of (items r)) v i" using ix by (auto simp: index_ok_def)
    then obtain x where "map_of (items r) i = Some x" "fieldValue cfg f x = Inr (Some v)"
      by (auto simp: has_value_def split: option.splits)
    with Some look find r1 inv show ?thesis by (auto simp: fr_inv_def)
  qed
qed

lemma toDocs_env: "toDocs cfg its e = (ds, e') \<Longrightarrow> env_le e e'"
  by (induction its arbitrary: e ds e')
    (auto simp: split: prod.splits dest!: toDoc_env intro: env_le_trans)

lemma writeToFile_cases:
  "writeToFile docs r e = (err, r', e') \<Longrightarrow>
   env_le e e' \<and> (disk e = [] \<longrightarrow> err = None)
   \<and> (err = None \<and> r' = r\<lparr>store := docs\<rparr> \<or> r' = r \<and> err = Some write_failed)"
  by (auto simp: writeToFile_def Let_def disk_write_ok dest: disk_le split: prod.splits if_splits)

lemma writeItemsWith_cases:
  assumes "writeItemsWith cfg i item r e = (err, r', e')"
  shows "env_le e e' \<and> items r' = items r \<and> indexedFields r' = indexedFields r
    \<and> (err = None \<or> r' = r \<and> err = Some write_failed)"
proof -
  obtain docs e1 d e2 where "toDocs cfg (items r) e = (docs, e1)" "toDoc cfg item e1 = (d, e2)"
    by (metis surj_pair)
  then show ?thesis using assms
    by (auto simp: writeItemsWith_def dest!: writeToFile_cases toDocs_env toDoc_env
        intro: env_le_trans)
qed

lemma writeItems_cases:
  assumes "writeItems cfg its r e = (err, r', e')"
  shows "env_le e e' \<and> items r' = items r \<and> indexedFields r' = indexedFields r
    \<and> (err = None \<or> r' = r \<and> err = Some write_failed)"
  using assms by (auto simp: writeItems_def dest!: writeToFile_cases toDocs_env
      split: prod.splits intro: env_le_trans)

text \<open>
  A write may store an item if its values of the unique fields are not those of another item.
\<close>

definition may_store :: "'t \<Rightarrow> (string \<rightharpoonup> 't) \<Rightarrow> bool" where
  "may_store item m \<longleftrightarrow> (\<forall>f \<in> F. \<forall>v i. fieldValue cfg f item = Inr (Some v) \<longrightarrow> has_value cfg f m v i \<longrightarrow>
      i = getID cfg item)"

lemma has_value_upd:
  "has_value cfg f (m(k \<mapsto> x)) v i \<longleftrightarrow>
     (if i = k then fieldValue cfg f x = Inr (Some v) else has_value cfg f m v i)"
  by (simp add: has_value_def)

lemma update_index_ok:
  assumes "index_ok cfg f m index" and "f \<in> F" and "may_store item m"
  shows "index_ok cfg f (m(getID cfg item \<mapsto> item))
    (let kept = (\<lambda>value. if index value = Some (getID cfg item) then None else index value) in
     case fieldValue cfg f item of Inr (Some value) \<Rightarrow> kept(value \<mapsto> getID cfg item) | _ \<Rightarrow> kept)"
proof -
  obtain fv where fv: "fieldValue cfg f item = Inr fv"
    using strings assms(2) by (auto simp: string_fields_def)
  have ix: "has_value cfg f m v i \<longleftrightarrow> index v = Some i" for v i
    using assms(1) by (simp add: index_ok_def)
  show ?thesis
    using assms(2,3) fv by (cases fv) (auto simp: index_ok_def has_value_upd may_store_def Let_def ix)
qed

lemma unique_upd:
  assumes "unique_field cfg f m" and "f \<in> F" and "may_store item m"
  shows "unique_field cfg f (m(getID cfg item \<mapsto> item))"
proof -
  have other: "i = getID cfg item" if "fieldValue cfg f item = Inr (Some v)" "has_value cfg f m v i" for v i
    using assms(2,3) that by (simp add: may_store_def)
  have old: "i = j" if "has_value cfg f m v i" "has_value cfg f m v j" for v i j
    using assms(1) that by (simp add: unique_field_def)
  show ?thesis unfolding unique_field_def has_value_upd
    by (metis other old)
qed

lemma Save_cases:
  assumes save: "fr_Save cfg item r e = (err, r', e')"
  shows "env_le e e'
    \<and> (err = None \<and> map_of (items r') = (map_of (items r))(getID cfg item \<mapsto> item)
       \<or> err = Some write_failed \<and> r' = r)"
proof -
  obtain w r1 e1 where w: "writeItemsWith cfg (getID cfg item) item r e = (w, r1, e1)"
    by (metis surj_pair)
  from writeItemsWith_cases [OF w] save w show ?thesis
    by (cases w) (auto simp: fr_Save_def Let_def updateIndexesForItem_def map_of_AList_update)
qed

lemma Save_inv:
  assumes save: "fr_Save cfg item r e = (err, r', e')" and inv: "fr_inv cfg F r"
    and may: "may_store item (map_of (items r))"
  shows "fr_inv cfg F r'"
proof -
  obtain w r1 e1 where w: "writeItemsWith cfg (getID cfg item) item r e = (w, r1, e1)"
    by (metis surj_pair)
  show ?thesis
  proof (cases w)
    case (Some x)
    with save w writeItemsWith_cases [OF w] inv show ?thesis by (auto simp: fr_Save_def Let_def)
  next
    case None
    then have r': "r' = updateIndexesForItem cfg (getID cfg item) item
        (r1\<lparr>items := AList.update (getID cfg item) item (items r1)\<rparr>)"
      using save w by (simp add: fr_Save_def Let_def)
    have r1: "items r1 = items r" "indexedFields r1 = indexedFields r"
      using writeItemsWith_cases [OF w] by auto
    have its: "map_of (items r') = (map_of (items r))(getID cfg item \<mapsto> item)" "distinct_keys (items r')"
      using r' r1 inv by (simp_all add: updateIndexesForItem_def map_of_AList_update
          distinct_keys_update fr_inv_def)
    have "index_ok cfg f (map_of (items r')) index"
      if f: "f \<in> F" and ind: "indexedFields r' f = Some index" for f index
    proof -
      obtain index0 where i0: "indexedFields r f = Some index0"
        using ind r' r1 by (auto simp: updateIndexesForItem_def split: option.splits)
      then have "index_ok cfg f (map_of (items r)) index0" using inv f by (auto simp: fr_inv_def)
      from update_index_ok [OF this f may] show ?thesis
        using ind r' r1 i0 its by (simp add: updateIndexesForItem_def Let_def)
    qed
    with its inv may show ?thesis by (auto simp: fr_inv_def unique_upd split: if_splits)
  qed
qed

text \<open>A caller's assignments to an item it found do not disturb the fields they leave alone.\<close>

lemma alias_items:
  "map_of (items (fr_alias cfg item r)) =
     (if map_of (items r) (getID cfg item) = None then map_of (items r)
      else (map_of (items r))(getID cfg item \<mapsto> item))"
  by (simp add: fr_alias_def map_of_AList_update)

lemma has_value_same:
  assumes "\<forall>i. rel_option (\<lambda>x y. fieldValue cfg f y = fieldValue cfg f x) (m i) (m' i)"
  shows "has_value cfg f m' = has_value cfg f m"
proof (intro ext)
  fix v i
  from assms have "rel_option (\<lambda>x y. fieldValue cfg f y = fieldValue cfg f x) (m i) (m' i)" ..
  then show "has_value cfg f m' v i = has_value cfg f m v i"
    by (cases "m i"; cases "m' i") (simp_all add: has_value_def)
qed

lemma alias_inv:
  assumes inv: "fr_inv cfg F r" and old: "map_of (items r) (getID cfg item) = Some x"
    and same: "\<And>f. f \<in> F \<Longrightarrow> fieldValue cfg f item = fieldValue cfg f x"
  shows "fr_inv cfg F (fr_alias cfg item r)"
proof -
  have "has_value cfg f ((map_of (items r))(getID cfg item \<mapsto> item)) = has_value cfg f (map_of (items r))"
    if "f \<in> F" for f
    by (rule has_value_same) (simp add: old same [OF that] option.rel_refl)
  with inv old show ?thesis
    by (auto simp: fr_inv_def fr_alias_def map_of_AList_update distinct_keys_update
        unique_field_def index_ok_def split: if_splits)
qed

end

section \<open>Bulk updates\<close>

lemma updateAll_loop_rel:
  assumes "updateAll_loop update its e = (Inr (rest, changed), e')"
    and "\<And>x e e1. update x e = (Inr None, e1) \<Longrightarrow> Q x x \<and> env_le e e1"
    and "\<And>x e cp e1. update x e = (Inr (Some cp), e1) \<Longrightarrow> Q x cp \<and> env_le e e1"
  shows "list_all2 (\<lambda>a b. fst a = fst b \<and> Q (snd a) (snd b)) its rest \<and> env_le e e'
    \<and> (\<not> changed \<longrightarrow> rest = its)"
  using assms(1)
proof (induction its arbitrary: e rest changed e')
  case (Cons kv its)
  then obtain ch e1 rest' changed' where u: "update (snd kv) e = (Inr ch, e1)"
    and l: "updateAll_loop update its e1 = (Inr (rest', changed'), e')"
    and r: "rest = (fst kv, case ch of None \<Rightarrow> snd kv | Some cp \<Rightarrow> cp) # rest'"
      "changed = (changed' \<or> ch \<noteq> None)"
    by (auto split: prod.splits sum.splits)
  have "Q (snd kv) (case ch of None \<Rightarrow> snd kv | Some cp \<Rightarrow> cp) \<and> env_le e e1"
    using u assms(2,3) by (cases ch) simp_all
  with Cons.IH [OF l] r env_le_trans show ?case
    by (cases ch) auto
qed simp

lemma updateAll_loop_total:
  assumes "\<And>x e err. fst (update x e) \<noteq> Inl err"
  shows "fst (updateAll_loop update its e) \<noteq> Inl err"
proof (induction its arbitrary: e)
  case (Cons kv its)
  obtain ch e1 where u: "update (snd kv) e = (Inr ch, e1)"
    using assms [of "snd kv" e] by (cases "update (snd kv) e"; cases "fst (update (snd kv) e)") auto
  obtain res e2 where "updateAll_loop update its e1 = (res, e2)" by (metis surj_pair)
  with u Cons [of e1] show ?case by (auto split: sum.splits)
qed simp

lemma list_all2_map_of:
  assumes "list_all2 (\<lambda>a b. fst a = fst b \<and> Q (snd a) (snd b)) its rest"
  shows "rel_option Q (map_of its k) (map_of rest k) \<and> map fst rest = map fst its"
  using assms by (induction rule: list_all2_induct) auto

context file_codec
begin

lemma rebuild_inv:
  assumes "distinct_keys its" and "\<forall>i x. map_of its i = Some x \<longrightarrow> getID cfg x = i"
    and uniq: "\<forall>f \<in> F. unique_field cfg f (map_of its)"
  shows "fr_inv cfg F (rebuildIndexes cfg (r\<lparr>items := its\<rparr>))"
proof -
  have "index_ok cfg f (map_of its) index"
    if f: "f \<in> F" and ind: "indexedFields (rebuildIndexes cfg (r\<lparr>items := its\<rparr>)) f = Some index" for f index
  proof -
    obtain index0 where "buildIndex cfg f its Map.empty = Inr index0" "index_ok cfg f (map_of its) index0"
      using buildIndex_ok [OF f assms(1)] uniq f by blast
    with ind show ?thesis by (simp add: rebuildIndexes_def split: option.splits)
  qed
  with assms show ?thesis by (simp add: fr_inv_def rebuildIndexes_def)
qed

lemma UpdateAll_rel:
  assumes upd: "UpdateAll cfg update r e = (err, r', e')" and inv: "fr_inv cfg F r"
    and keep: "\<And>x e e1. update x e = (Inr None, e1) \<Longrightarrow> Q x x \<and> env_le e e1"
    and change: "\<And>x e cp e1. update x e = (Inr (Some cp), e1) \<Longrightarrow> Q x cp \<and> env_le e e1"
    and total: "\<And>x e err. fst (update x e) \<noteq> Inl err"
    and same: "\<And>x y. Q x y \<Longrightarrow> getID cfg y = getID cfg x \<and> (\<forall>f \<in> F. fieldValue cfg f y = fieldValue cfg f x)"
  shows "env_le e e' \<and> fr_inv cfg F r'
    \<and> (err = None \<and> (\<forall>k. rel_option Q (map_of (items r) k) (map_of (items r') k))
       \<or> err = Some write_failed \<and> r' = r)"
proof -
  obtain its ch e1 where l: "updateAll_loop update (items r) e = (Inr (its, ch), e1)"
    using updateAll_loop_total [of update "items r" e, OF total]
    by (metis fst_conv surj_pair sum.exhaust)
  have all: "list_all2 (\<lambda>a b. fst a = fst b \<and> Q (snd a) (snd b)) (items r) its"
    and le: "env_le e e1" and unch: "\<not> ch \<Longrightarrow> its = items r"
    using updateAll_loop_rel [where Q = Q, OF l keep change] by blast+
  have rel: "rel_option Q (map_of (items r) k) (map_of its k)" "map fst its = map fst (items r)" for k
    using list_all2_map_of [OF all] by blast+
  show ?thesis
  proof (cases ch)
    case False
    then show ?thesis using upd l inv rel le unch by (simp add: UpdateAll_def)
  next
    case True
    obtain w r1 e2 where w: "writeItems cfg its r e1 = (w, r1, e2)" by (metis surj_pair)
    note wc = writeItems_cases [OF w]
    have ids: "\<forall>i x. map_of its i = Some x \<longrightarrow> getID cfg x = i"
    proof (intro allI impI)
      fix i x assume "map_of its i = Some x"
      with rel(1) [of i] obtain y where "map_of (items r) i = Some y" "Q y x"
        by (auto simp: option_rel_Some2)
      then show "getID cfg x = i" using inv same by (auto simp: fr_inv_def)
    qed
    have "has_value cfg f (map_of its) = has_value cfg f (map_of (items r))" if "f \<in> F" for f
      by (intro has_value_same allI option.rel_mono_strong [OF rel(1)]) (use same that in blast)
    then have "\<forall>f \<in> F. unique_field cfg f (map_of its)"
      using inv by (simp add: fr_inv_def unique_field_def)
    moreover have "distinct_keys its" using inv rel(2) by (simp add: fr_inv_def distinct_keys_def)
    ultimately have "fr_inv cfg F (rebuildIndexes cfg (r1\<lparr>items := its\<rparr>))"
      using ids by (intro rebuild_inv) auto
    then show ?thesis
      using upd l True w wc rel(1) le inv
      by (cases w) (auto simp: UpdateAll_def rebuildIndexes_def intro: env_le_trans)
  qed
qed

text \<open>
  A lookup on any field, unique or not, changes no item and no index of a unique field, and returns
  a stored item.
\<close>

lemma find_any:
  assumes inv: "fr_inv cfg F r" and f: "f \<notin> F" and find: "findByFieldLocked cfg f v r = (res, r')"
  shows "items r' = items r \<and> fr_inv cfg F r' \<and> (\<forall>x. res = Inr x \<longrightarrow> map_of (items r) (getID cfg x) = Some x)"
proof -
  have same: "fr_inv cfg F (r1\<lparr>indexedFields := (indexedFields r1)(f \<mapsto> index)\<rparr>)"
    if "fr_inv cfg F r1" for r1 :: "('t, 'd) file_repo" and index
    using that f by (auto simp: fr_inv_def)
  have "items r' = items r \<and> fr_inv cfg F r' \<and> (\<forall>x. res = Inr x \<longrightarrow> (\<exists>i. map_of (items r) i = Some x))"
    using find inv same [OF inv] same [OF same [OF inv]]
    by (auto simp: findByFieldLocked_def Let_def split: option.splits sum.splits)
  with inv show ?thesis by (auto simp: fr_inv_def)
qed

text \<open>The read-modify-write of one item: on a unique field it is a lookup followed by a save.\<close>

lemma UpdateByField_cases:
  assumes upd: "UpdateByField cfg f v update r e = (err, r', e')" and inv: "fr_inv cfg F r" and f: "f \<in> F"
    and env: "\<And>x e. env_le e (snd (update x e))"
  obtains (missing) "\<And>i. \<not> has_value cfg f (map_of (items r)) v i" "err = Some ErrNotFound"
      "items r' = items r" "fr_inv cfg F r'" "e' = e"
  | (refused) x ue where "map_of (items r) (getID cfg x) = Some x" "fieldValue cfg f x = Inr (Some v)"
      "update x e = (Inl ue, e')" "err = Some ue" "items r' = items r" "fr_inv cfg F r'" "env_le e e'"
  | (updated) x cp r1 e1 where "map_of (items r) (getID cfg x) = Some x" "fieldValue cfg f x = Inr (Some v)"
      "update x e = (Inr cp, e1)" "env_le e e1" "items r1 = items r" "fr_inv cfg F r1"
      "fr_Save cfg cp r1 e1 = (err, r', e')"
proof -
  obtain res r1 where fd: "findByFieldLocked cfg f v r = (res, r1)" by (metis surj_pair)
  note fc = find_correct [OF inv f fd]
  show ?thesis
  proof (cases res)
    case (Inl er)
    with upd fd fc show ?thesis by (intro missing) (auto simp: UpdateByField_def)
  next
    case (Inr x)
    obtain u e1 where u: "update x e = (u, e1)" by (metis surj_pair)
    with env [of e x] have le: "env_le e e1" by simp
    show ?thesis
    proof (cases u)
      case (Inl ue)
      with Inr upd fd fc u le show ?thesis by (intro refused [of x ue]) (auto simp: UpdateByField_def)
    next
      case (Inr cp)
      then have "fr_Save cfg cp r1 e1 = (err, r', e')"
        using \<open>res = Inr x\<close> upd fd u by (simp add: UpdateByField_def)
      with Inr \<open>res = Inr x\<close> fc u le show ?thesis by (intro updated [of x cp e1 r1]) auto
    qed
  qed
qed

text \<open>While the disk accepts writes, nothing fails for want of storage.\<close>

lemma toDocs_disk: "toDocs cfg its e = (ds, e') \<Longrightarrow> disk e' = disk e"
  by (induction its arbitrary: e ds e') (auto split: prod.splits dest!: toDoc_disk)

lemma writeToFile_reliable:
  "writeToFile docs r e = (err, r', e') \<Longrightarrow> disk e = [] \<Longrightarrow> err = None \<and> disk e' = []"
  by (simp add: writeToFile_def disk_write_ok)

lemma Save_reliable:
  assumes "fr_Save cfg item r e = (err, r', e')" and "disk e = []"
  shows "err = None \<and> disk e' = []"
proof -
  obtain docs e1 d e2 where d: "toDocs cfg (items r) e = (docs, e1)" "toDoc cfg item e1 = (d, e2)"
    by (metis surj_pair)
  then have disk: "disk e2 = []" using assms(2) toDocs_disk toDoc_disk by metis
  obtain w r1 e3 where w: "writeToFile (AList.update (getID cfg item) d docs) r e2 = (w, r1, e3)"
    by (metis surj_pair)
  from writeToFile_reliable [OF w disk] assms(1) d w show ?thesis
    by (simp add: fr_Save_def writeItemsWith_def Let_def)
qed

lemma UpdateAll_reliable:
  assumes "UpdateAll cfg update r e = (err, r', e')" and "disk e = []"
    and total: "\<And>x e err. fst (update x e) \<noteq> Inl err" and upd: "\<And>x e. disk (snd (update x e)) = disk e"
  shows "err = None \<and> disk e' = []"
proof -
  have loop: "disk (snd (updateAll_loop update its e)) = disk e" for its e
  proof (induction its arbitrary: e)
    case (Cons kv its)
    obtain u e1 where u: "update (snd kv) e = (u, e1)" by (metis surj_pair)
    obtain v e2 where v: "updateAll_loop update its e1 = (v, e2)" by (metis surj_pair)
    from Cons [of e1] upd [of "snd kv" e] u v show ?case by (auto split: sum.splits)
  qed simp
  obtain its ch e1 where l: "updateAll_loop update (items r) e = (Inr (its, ch), e1)"
    using updateAll_loop_total [of update "items r" e, OF total]
    by (metis fst_conv surj_pair sum.exhaust)
  with loop [of "items r" e] assms(2) have d1: "disk e1 = []" by simp
  obtain docs e2 where docs: "toDocs cfg its e1 = (docs, e2)" by (metis surj_pair)
  then have d2: "disk e2 = []" using d1 toDocs_disk by metis
  obtain w r1 e3 where w: "writeToFile docs r e2 = (w, r1, e3)" by (metis surj_pair)
  from writeToFile_reliable [OF w d2] assms(1) l docs w d1 show ?thesis
    by (auto simp: UpdateAll_def writeItems_def split: if_splits)
qed

text \<open>The index answers as the scan over all items does, whatever the order of the scan.\<close>

lemma scan_cases:
  assumes "f \<in> F"
  shows "case scanByField cfg its f v of
      Inl err \<Rightarrow> err = ErrNotFound \<and> (\<forall>i. (i, v) \<notin> entries cfg f its)
    | Inr x \<Rightarrow> (\<exists>i. (i, x) \<in> set its \<and> fieldValue cfg f x = Inr (Some v))"
proof (induction its)
  case (Cons kv its)
  obtain fv where "fieldValue cfg f (snd kv) = Inr fv"
    using strings assms by (auto simp: string_fields_def)
  with Cons show ?case
    by (cases kv; cases fv) (auto simp: entries_Cons split: sum.splits)
qed (simp add: entries_def)

lemma find_eq_scan:
  assumes inv: "fr_inv cfg F r" and f: "f \<in> F"
  shows "fst (findByFieldLocked cfg f v r) = scanByField cfg (items r) f v"
proof -
  obtain res r' where find: "findByFieldLocked cfg f v r = (res, r')" by (metis surj_pair)
  note fc = find_correct [OF inv f find]
  have dist: "distinct_keys (items r)" and uniq: "unique_field cfg f (map_of (items r))"
    using inv f by (auto simp: fr_inv_def)
  note sc = scan_cases [OF f, of v "items r"]
  show ?thesis
  proof (cases "scanByField cfg (items r) f v")
    case (Inl er)
    then have none: "er = ErrNotFound" "\<And>i. \<not> has_value cfg f (map_of (items r)) v i"
      using sc by (auto simp: entries_has_value [OF dist])
    show ?thesis
    proof (cases res)
      case (Inr x)
      then have "has_value cfg f (map_of (items r)) v (getID cfg x)" using fc by (simp add: has_value_def)
      with none show ?thesis by blast
    qed (use Inl none find fc in auto)
  next
    case (Inr x)
    then obtain i where i: "(i, x) \<in> set (items r)" "fieldValue cfg f x = Inr (Some v)" using sc by auto
    then have mi: "map_of (items r) i = Some x" using dist by (simp add: distinct_keys_def)
    then have h: "has_value cfg f (map_of (items r)) v i" using i by (simp add: has_value_def)
    show ?thesis
    proof (cases res)
      case (Inr y)
      then have "has_value cfg f (map_of (items r)) v (getID cfg y)" "map_of (items r) (getID cfg y) = Some y"
        using fc by (simp_all add: has_value_def)
      with h uniq have "i = getID cfg y" by (simp add: unique_field_def)
      with \<open>map_of (items r) (getID cfg y) = Some y\<close> mi Inr find \<open>scanByField cfg (items r) f v = Inr x\<close>
      show ?thesis by simp
    qed (use h fc in auto)
  qed
qed

end

section \<open>Restart\<close>

text \<open>
  With a codec that can read what it wrote, a repository opened on the file after a successful
  write holds exactly the items of the one that wrote it.
\<close>

locale file_codec_round_trip = file_codec +
  fixes storable :: "'a \<Rightarrow> bool"
  assumes round_trip: "storable x \<Longrightarrow> toDoc cfg x e = (d, e') \<Longrightarrow> toEntity cfg d = Inr x"
begin

lemma load_toDocs:
  "\<forall>kv \<in> set its. storable (snd kv) \<Longrightarrow> toDocs cfg its e = (ds, e') \<Longrightarrow> load_items cfg ds = Inr its"
  by (induction its arbitrary: e ds e') (auto split: prod.splits dest!: round_trip)

lemma load_update:
  "load_items cfg ds = Inr its \<Longrightarrow> toEntity cfg d = Inr x \<Longrightarrow>
   load_items cfg (AList.update i d ds) = Inr (AList.update i x its)"
  by (induction ds arbitrary: its) (auto split: sum.splits)

lemma Save_restart:
  assumes save: "fr_Save cfg item r e = (None, r', e')"
    and ok: "storable item" "\<forall>kv \<in> set (items r). storable (snd kv)"
  shows "\<exists>r2. NewFileRepository cfg (store r') = Inr r2 \<and> items r2 = items r'"
proof -
  obtain docs e1 d e2 where d: "toDocs cfg (items r) e = (docs, e1)" "toDoc cfg item e1 = (d, e2)"
    by (metis surj_pair)
  have "store r' = AList.update (getID cfg item) d docs \<and>
      items r' = AList.update (getID cfg item) item (items r)"
    using save d by (auto simp: fr_Save_def writeItemsWith_def writeToFile_def updateIndexesForItem_def
        Let_def split: prod.splits if_splits)
  moreover have "load_items cfg (AList.update (getID cfg item) d docs)
      = Inr (AList.update (getID cfg item) item (items r))"
    using load_update [OF load_toDocs [OF ok(2) d(1)] round_trip [OF ok(1) d(2)]] .
  ultimately show ?thesis by (simp add: NewFileRepository_def)
qed

end

end
