(* ===== verification/Crypto.thy ===== *)
theory Crypto
  imports Env
begin

text \<open>
  Field encryption (\<open>core/crypto/cipher.go\<close>). AES-GCM and HMAC-SHA256 are parameters: an \<open>aead\<close>
  built from a key, and a keyed digest. What the code relies on is that \<open>Open\<close> undoes \<open>Seal\<close> for
  the same nonce and that the random source returns as many bytes as it is asked for.
\<close>

record aead =
  NonceSize :: nat
  Seal :: "string \<Rightarrow> string \<Rightarrow> string"             \<comment> \<open>nonce, plaintext\<close>
  Open :: "string \<Rightarrow> string \<Rightarrow> string option"      \<comment> \<open>nonce, ciphertext\<close>

record crypto_prims =
  cp_NewGCM :: "string \<Rightarrow> aead"
  cp_hmac_sha256 :: "string \<Rightarrow> string \<Rightarrow> string"

record cipher =
  ci_aead :: aead
  ci_blindIndexKey :: string

definition aesKeySize :: nat where "aesKeySize = 32"

definition NewCipher :: "crypto_prims \<Rightarrow> string \<Rightarrow> string \<Rightarrow> go_error + cipher" where
  "NewCipher cp encryptionKey blindIndexKey =
     (if length encryptionKey \<noteq> aesKeySize then Inl (ErrText ''encryption key must be 32 bytes'')
      else if blindIndexKey = [] then Inl (ErrText ''blind index key must not be empty'')
      else Inr \<lparr>ci_aead = cp_NewGCM cp encryptionKey, ci_blindIndexKey = blindIndexKey\<rparr>)"

definition NewCipherFromBase64 :: "crypto_prims \<Rightarrow> string \<Rightarrow> string \<Rightarrow> go_error + cipher" where
  "NewCipherFromBase64 cp encryptionKeyB64 blindIndexKeyB64 =
     (case StdEncoding_DecodeString encryptionKeyB64 of
        None \<Rightarrow> Inl (ErrText ''decode encryption key'')
      | Some enc \<Rightarrow> (case StdEncoding_DecodeString blindIndexKeyB64 of
            None \<Rightarrow> Inl (ErrText ''decode blind index key'')
          | Some bi \<Rightarrow> NewCipher cp enc bi))"

definition Encrypt :: "prims \<Rightarrow> cipher \<Rightarrow> string \<Rightarrow> env \<Rightarrow> (go_error + string) \<times> env" where
  "Encrypt p c plaintext e =
     (let (nonce, e1) = rand_Read p (NonceSize (ci_aead c)) e;
          sealed = nonce @ Seal (ci_aead c) nonce plaintext
      in (Inr (StdEncoding_EncodeToString sealed), e1))"

definition Decrypt :: "cipher \<Rightarrow> string \<Rightarrow> go_error + string" where
  "Decrypt c ciphertext =
     (case StdEncoding_DecodeString ciphertext of
        None \<Rightarrow> Inl (ErrText ''illegal base64 data'')
      | Some raw \<Rightarrow>
          let ns = NonceSize (ci_aead c) in
          if length raw < ns then Inl (ErrText ''ciphertext too short'')
          else case Open (ci_aead c) (take ns raw) (drop ns raw) of
              None \<Rightarrow> Inl (ErrText ''cipher: message authentication failed'')
            | Some plaintext \<Rightarrow> Inr plaintext)"

definition BlindIndex :: "crypto_prims \<Rightarrow> cipher \<Rightarrow> string \<Rightarrow> string" where
  "BlindIndex cp c v = hex_EncodeToString (cp_hmac_sha256 cp (ci_blindIndexKey c) v)"

text \<open>The documented behaviour of the two parameters.\<close>

definition aead_correct :: "aead \<Rightarrow> bool" where
  "aead_correct a \<longleftrightarrow> (\<forall>nonce plaintext. length nonce = NonceSize a \<longrightarrow>
      Open a nonce (Seal a nonce plaintext) = Some plaintext)"

definition rand_full :: "prims \<Rightarrow> bool" where
  "rand_full p \<longleftrightarrow> (\<forall>k n. length (p_rand p k n) = n)"

lemma Encrypt_env: "Encrypt p c x e = (r, e') \<Longrightarrow> env_le e e' \<and> disk e' = disk e \<and> (\<exists>s. r = Inr s)"
  by (auto simp: Encrypt_def rand_Read_def env_le_def)

lemma Decrypt_Encrypt:
  assumes "aead_correct (ci_aead c)" and "rand_full p" and "Encrypt p c x e = (Inr s, e')"
  shows "Decrypt c s = Inr x"
proof -
  define nonce where "nonce = p_rand p (rand_ctr e) (NonceSize (ci_aead c))"
  have len: "length nonce = NonceSize (ci_aead c)"
    using assms(2) by (simp add: nonce_def rand_full_def)
  have s: "s = StdEncoding_EncodeToString (nonce @ Seal (ci_aead c) nonce x)"
    using assms(3) by (auto simp: Encrypt_def rand_Read_def nonce_def)
  show ?thesis
    using assms(1) len by (simp add: Decrypt_def s StdEncoding_round_trip Let_def aead_correct_def)
qed

end
