(* ===== verification/Repos.thy ===== *)
theory Repos
  imports FileRepo Crypto Ports
begin

text \<open>
  The file-backed adapters (\<open>modules/auth/adapter/out\<close>): the persistence documents and codecs of
  grants, refresh tokens and users, the three repositories over the generic file store, and the
  proof that they honour the port contracts.
\<close>

section \<open>Grants\<close>

record grantDoc =
  gd_ID :: string
  gd_UserID :: string
  gd_ClientID :: string
  gd_DeviceID :: string
  gd_AuthenticatedAt :: time
  gd_CreatedAt :: time
  gd_ExpiresAt :: time
  gd_RevokedAt :: "time option"

definition grantToDoc :: "grant \<Rightarrow> grantDoc" where
  "grantToDoc g = \<lparr>gd_ID = G_ID g, gd_UserID = G_UserID g, gd_ClientID = G_ClientID g,
     gd_DeviceID = G_DeviceID g, gd_AuthenticatedAt = G_AuthenticatedAt g, gd_CreatedAt = G_CreatedAt g,
     gd_ExpiresAt = G_ExpiresAt g, gd_RevokedAt = G_RevokedAt g\<rparr>"

definition grantToEntity :: "grantDoc \<Rightarrow> go_error + grant" where
  "grantToEntity d = Inr \<lparr>G_ID = gd_ID d, G_UserID = gd_UserID d, G_ClientID = gd_ClientID d,
     G_DeviceID = gd_DeviceID d, G_AuthenticatedAt = gd_AuthenticatedAt d, G_CreatedAt = gd_CreatedAt d,
     G_ExpiresAt = gd_ExpiresAt d, G_RevokedAt = gd_RevokedAt d\<rparr>"

text \<open>
  \<open>stringFieldValue\<close> by reflection on each entity: string fields yield their value, a nil string
  pointer yields nothing, any other name or type is an error.
\<close>

definition invalid_field :: "go_error" where
  "invalid_field = ErrInvalidField (ErrText ''field'')"

definition grant_field :: "string \<Rightarrow> grant \<Rightarrow> go_error + string option" where
  "grant_field f g =
     (if f = ''ID'' then Inr (Some (G_ID g))
      else if f = ''UserID'' then Inr (Some (G_UserID g))
      else if f = ''ClientID'' then Inr (Some (G_ClientID g))
      else if f = ''DeviceID'' then Inr (Some (G_DeviceID g))
      else Inl invalid_field)"

type_synonym FileGrantRepository = "(grant, grantDoc) file_repo"

definition grant_cfg :: "(grant, grantDoc) fr_cfg" where
  "grant_cfg = \<lparr>toDoc = (\<lambda>g e. (grantToDoc g, e)), toEntity = grantToEntity, getID = G_ID,
     fieldValue = grant_field\<rparr>"

definition NewFileGrantRepository :: "(string \<times> grantDoc) list \<Rightarrow> go_error + FileGrantRepository" where
  "NewFileGrantRepository file = NewFileRepository grant_cfg file"

definition fgrant_Save :: "grant \<Rightarrow> FileGrantRepository \<Rightarrow> env \<Rightarrow> go_error option \<times> FileGrantRepository \<times> env" where
  "fgrant_Save g r e = fr_Save grant_cfg g r e"

definition fgrant_FindByID ::
  "GrantID \<Rightarrow> FileGrantRepository \<Rightarrow> env \<Rightarrow> (go_error + grant) \<times> FileGrantRepository \<times> env" where
  "fgrant_FindByID i r e = (let (res, r1) = fr_Find grant_cfg ''ID'' i r in (res, r1, e))"

definition fgrant_Revoke ::
  "GrantID \<Rightarrow> time \<Rightarrow> FileGrantRepository \<Rightarrow> env \<Rightarrow> go_error option \<times> FileGrantRepository \<times> env" where
  "fgrant_Revoke i at r e =
     UpdateByField grant_cfg ''ID'' i
       (\<lambda>g e. if G_RevokedAt g \<noteq> None then (Inl ErrNotFound, e) else (Inr (g\<lparr>G_RevokedAt := Some at\<rparr>), e)) r e"

definition file_grant_ops :: "FileGrantRepository grant_ops" where
  "file_grant_ops = \<lparr>gr_Save = fgrant_Save, gr_FindByID = fgrant_FindByID, gr_Revoke = fgrant_Revoke,
     gr_alias = fr_alias grant_cfg\<rparr>"

section \<open>Refresh tokens\<close>

record refreshTokenDoc =
  rd_ID :: string
  rd_UserID :: string
  rd_ClientID :: string
  rd_GrantID :: string
  rd_TokenHash :: string
  rd_Scope :: string
  rd_DeviceID :: string
  rd_AuthenticatedAt :: time
  rd_CreatedAt :: time
  rd_ExpiresAt :: time
  rd_RevokedAt :: "time option"

definition rtToDoc :: "refresh_token \<Rightarrow> refreshTokenDoc" where
  "rtToDoc rt = \<lparr>rd_ID = RT_ID rt, rd_UserID = RT_UserID rt, rd_ClientID = RT_ClientID rt,
     rd_GrantID = RT_GrantID rt, rd_TokenHash = RT_TokenHash rt, rd_Scope = scope_String (RT_Scope rt),
     rd_DeviceID = RT_DeviceID rt, rd_AuthenticatedAt = RT_AuthenticatedAt rt,
     rd_CreatedAt = RT_CreatedAt rt, rd_ExpiresAt = RT_ExpiresAt rt, rd_RevokedAt = RT_RevokedAt rt\<rparr>"

definition rtToEntity :: "refreshTokenDoc \<Rightarrow> go_error + refresh_token" where
  "rtToEntity d =
     (case NewScope (Fields (rd_Scope d)) of
        Inl err \<Rightarrow> Inl err
      | Inr sc \<Rightarrow> Inr \<lparr>RT_ID = rd_ID d, RT_UserID = rd_UserID d, RT_ClientID = rd_ClientID d,
          RT_GrantID = rd_GrantID d, RT_TokenHash = rd_TokenHash d, RT_Scope = sc,
          RT_DeviceID = rd_DeviceID d, RT_AuthenticatedAt = rd_AuthenticatedAt d,
          RT_CreatedAt = rd_CreatedAt d, RT_ExpiresAt = rd_ExpiresAt d, RT_RevokedAt = rd_RevokedAt d\<rparr>)"

definition rt_field :: "string \<Rightarrow> refresh_token \<Rightarrow> go_error + string option" where
  "rt_field f rt =
     (if f = ''ID'' then Inr (Some (RT_ID rt))
      else if f = ''UserID'' then Inr (Some (RT_UserID rt))
      else if f = ''ClientID'' then Inr (Some (RT_ClientID rt))
      else if f = ''GrantID'' then Inr (Some (RT_GrantID rt))
      else if f = ''TokenHash'' then Inr (Some (RT_TokenHash rt))
      else if f = ''DeviceID'' then Inr (Some (RT_DeviceID rt))
      else Inl invalid_field)"

type_synonym FileRefreshTokenRepository = "(refresh_token, refreshTokenDoc) file_repo"

definition rt_cfg :: "(refresh_token, refreshTokenDoc) fr_cfg" where
  "rt_cfg = \<lparr>toDoc = (\<lambda>rt e. (rtToDoc rt, e)), toEntity = rtToEntity, getID = RT_ID, fieldValue = rt_field\<rparr>"

definition NewFileRefreshTokenRepository ::
  "(string \<times> refreshTokenDoc) list \<Rightarrow> go_error + FileRefreshTokenRepository" where
  "NewFileRefreshTokenRepository file = NewFileRepository rt_cfg file"

definition frt_Save ::
  "refresh_token \<Rightarrow> FileRefreshTokenRepository \<Rightarrow> env \<Rightarrow> go_error option \<times> FileRefreshTokenRepository \<times> env" where
  "frt_Save rt r e = fr_Save rt_cfg rt r e"

definition frt_FindByTokenHash ::
  "string \<Rightarrow> FileRefreshTokenRepository \<Rightarrow> env \<Rightarrow> (go_error + refresh_token) \<times> FileRefreshTokenRepository \<times> env" where
  "frt_FindByTokenHash h r e = (let (res, r1) = fr_Find rt_cfg ''TokenHash'' h r in (res, r1, e))"

definition revoke_live :: "refresh_token \<Rightarrow> env \<Rightarrow> (go_error + refresh_token) \<times> env" where
  "revoke_live rt e =
     (if RT_RevokedAt rt \<noteq> None then (Inl ErrNotFound, e)
      else let (t, e1) = now e in
        if RT_ExpiresAt rt < t then (Inl ErrNotFound, e1)
        else let (t2, e2) = now e1 in (Inr (rt\<lparr>RT_RevokedAt := Some t2\<rparr>), e2))"

definition frt_RevokeByTokenHash ::
  "string \<Rightarrow> FileRefreshTokenRepository \<Rightarrow> env \<Rightarrow> go_error option \<times> FileRefreshTokenRepository \<times> env" where
  "frt_RevokeByTokenHash h r e = UpdateByField rt_cfg ''TokenHash'' h revoke_live r e"

definition revoke_selected ::
  "(refresh_token \<Rightarrow> bool) \<Rightarrow> refresh_token \<Rightarrow> env \<Rightarrow> (go_error + refresh_token option) \<times> env" where
  "revoke_selected sel rt e =
     (if sel rt \<and> RT_RevokedAt rt = None
      then let (t, e1) = now e in (Inr (Some (rt\<lparr>RT_RevokedAt := Some t\<rparr>)), e1)
      else (Inr None, e))"

definition frt_RevokeAllForUser ::
  "UserID \<Rightarrow> FileRefreshTokenRepository \<Rightarrow> env \<Rightarrow> go_error option \<times> FileRefreshTokenRepository \<times> env" where
  "frt_RevokeAllForUser userID r e =
     UpdateAll rt_cfg (revoke_selected (\<lambda>rt. RT_UserID rt = userID)) r e"

definition frt_RevokeAllForGrant ::
  "GrantID \<Rightarrow> FileRefreshTokenRepository \<Rightarrow> env \<Rightarrow> go_error option \<times> FileRefreshTokenRepository \<times> env" where
  "frt_RevokeAllForGrant grantID r e =
     UpdateAll rt_cfg (revoke_selected (\<lambda>rt. RT_GrantID rt = grantID)) r e"

definition file_rt_ops :: "FileRefreshTokenRepository rt_ops" where
  "file_rt_ops = \<lparr>rt_Save = frt_Save, rt_FindByTokenHash = frt_FindByTokenHash,
     rt_RevokeByTokenHash = frt_RevokeByTokenHash, rt_RevokeAllForUser = frt_RevokeAllForUser,
     rt_RevokeAllForGrant = frt_RevokeAllForGrant\<rparr>"

section \<open>Users\<close>

record userDoc =
  ud_ID :: string
  ud_TenantID :: string
  ud_Username :: string
  ud_Nickname :: string
  ud_Password :: string
  ud_EmailCiphertext :: string
  ud_EmailBlindIndex :: string
  ud_EmailVerified :: bool
  ud_PasswordResetTokenHash :: "string option"
  ud_PasswordResetExpiresAt :: "time option"
  ud_SessionsInvalidatedAt :: "time option"
  ud_FailedLoginAttempts :: int
  ud_LockedUntil :: "time option"
  ud_CreatedAt :: time
  ud_UpdatedAt :: time

text \<open>
  The codec's dependencies: the random source, the keyed digest and the cipher. \<open>toDoc\<close> panics if
  encryption fails, which it cannot here (the random source does not fail); the branch keeps the
  document without ciphertext.
\<close>

record user_codec =
  uc_prims :: prims
  uc_crypto :: crypto_prims
  uc_cipher :: cipher

definition userToDoc :: "user_codec \<Rightarrow> user \<Rightarrow> env \<Rightarrow> userDoc \<times> env" where
  "userToDoc uc u e =
     (let (ct, e1) = Encrypt (uc_prims uc) (uc_cipher uc) (U_Email u) e in
      (\<lparr>ud_ID = U_ID u, ud_TenantID = U_TenantID u, ud_Username = U_Username u,
        ud_Nickname = U_Nickname u, ud_Password = U_Password u,
        ud_EmailCiphertext = (case ct of Inl err \<Rightarrow> [] | Inr s \<Rightarrow> s),
        ud_EmailBlindIndex = BlindIndex (uc_crypto uc) (uc_cipher uc) (U_Email u),
        ud_EmailVerified = U_EmailVerified u, ud_PasswordResetTokenHash = U_PasswordResetTokenHash u,
        ud_PasswordResetExpiresAt = U_PasswordResetExpiresAt u,
        ud_SessionsInvalidatedAt = U_SessionsInvalidatedAt u,
        ud_FailedLoginAttempts = U_FailedLoginAttempts u, ud_LockedUntil = U_LockedUntil u,
        ud_CreatedAt = U_CreatedAt u, ud_UpdatedAt = U_UpdatedAt u\<rparr>, e1))"

definition userToEntity :: "user_codec \<Rightarrow> userDoc \<Rightarrow> go_error + user" where
  "userToEntity uc d =
     (case Decrypt (uc_cipher uc) (ud_EmailCiphertext d) of
        Inl err \<Rightarrow> Inl (ErrText (''decrypt email for user '' @ ud_ID d @ '': '' @ err_Error err))
      | Inr email \<Rightarrow>
          let tenantID = (if ud_TenantID d = [] then DefaultTenantID else ud_TenantID d) in
          Inr \<lparr>U_ID = ud_ID d, U_TenantID = tenantID, U_Username = ud_Username d,
            U_Nickname = ud_Nickname d, U_Password = ud_Password d, U_Email = email,
            U_EmailVerified = ud_EmailVerified d,
            U_PasswordResetTokenHash = ud_PasswordResetTokenHash d,
            U_PasswordResetExpiresAt = ud_PasswordResetExpiresAt d,
            U_SessionsInvalidatedAt = ud_SessionsInvalidatedAt d,
            U_FailedLoginAttempts = ud_FailedLoginAttempts d, U_LockedUntil = ud_LockedUntil d,
            U_CreatedAt = ud_CreatedAt d, U_UpdatedAt = ud_UpdatedAt d\<rparr>)"

definition user_field :: "string \<Rightarrow> user \<Rightarrow> go_error + string option" where
  "user_field f u =
     (if f = ''ID'' then Inr (Some (U_ID u))
      else if f = ''TenantID'' then Inr (Some (U_TenantID u))
      else if f = ''Username'' then Inr (Some (U_Username u))
      else if f = ''Nickname'' then Inr (Some (U_Nickname u))
      else if f = ''Password'' then Inr (Some (U_Password u))
      else if f = ''Email'' then Inr (Some (U_Email u))
      else if f = ''PasswordResetTokenHash'' then Inr (U_PasswordResetTokenHash u)
      else Inl invalid_field)"

type_synonym UserRepository = "(user, userDoc) file_repo"

definition user_cfg :: "user_codec \<Rightarrow> (user, userDoc) fr_cfg" where
  "user_cfg uc = \<lparr>toDoc = userToDoc uc, toEntity = userToEntity uc, getID = U_ID, fieldValue = user_field\<rparr>"

definition NewUserRepository :: "user_codec \<Rightarrow> (string \<times> userDoc) list \<Rightarrow> go_error + UserRepository" where
  "NewUserRepository uc file = NewFileRepository (user_cfg uc) file"

definition fuser_CreateUser :: "user_codec \<Rightarrow> user \<Rightarrow> UserRepository \<Rightarrow> env \<Rightarrow> go_error option \<times> UserRepository \<times> env" where
  "fuser_CreateUser uc u r e = CreateIfFieldNotExists (user_cfg uc) ''Email'' (U_Email u) u r e"

definition fuser_FindByEmail ::
  "user_codec \<Rightarrow> TenantID \<Rightarrow> string \<Rightarrow> UserRepository \<Rightarrow> env \<Rightarrow> (go_error + user) \<times> UserRepository \<times> env" where
  "fuser_FindByEmail uc tenantID email r e =
     (case fr_Find (user_cfg uc) ''Email'' email r of
        (Inl err, r1) \<Rightarrow> (Inl err, r1, e)
      | (Inr u, r1) \<Rightarrow> if U_TenantID u \<noteq> tenantID then (Inl ErrNotFound, r1, e) else (Inr u, r1, e))"

definition fuser_FindByID ::
  "user_codec \<Rightarrow> UserID \<Rightarrow> UserRepository \<Rightarrow> env \<Rightarrow> (go_error + user) \<times> UserRepository \<times> env" where
  "fuser_FindByID uc i r e = (let (res, r1) = fr_Find (user_cfg uc) ''ID'' i r in (res, r1, e))"

definition fuser_FindByPasswordResetTokenHash ::
  "user_codec \<Rightarrow> string \<Rightarrow> UserRepository \<Rightarrow> env \<Rightarrow> (go_error + user) \<times> UserRepository \<times> env" where
  "fuser_FindByPasswordResetTokenHash uc h r e =
     (let (res, r1) = fr_Find (user_cfg uc) ''PasswordResetTokenHash'' h r in (res, r1, e))"

definition fuser_Save :: "user_codec \<Rightarrow> user \<Rightarrow> UserRepository \<Rightarrow> env \<Rightarrow> go_error option \<times> UserRepository \<times> env" where
  "fuser_Save uc u r e = fr_Save (user_cfg uc) u r e"

text \<open>
  The updated copy is what the callback made of the user the store found; it is returned for the
  variables the callback captures.
\<close>

definition fuser_UpdateByPasswordResetTokenHash ::
  "user_codec \<Rightarrow> string \<Rightarrow> (user \<Rightarrow> env \<Rightarrow> (go_error + user) \<times> env) \<Rightarrow> UserRepository \<Rightarrow> env
     \<Rightarrow> (go_error + user) \<times> UserRepository \<times> env" where
  "fuser_UpdateByPasswordResetTokenHash uc h update r e =
     (case UpdateByField (user_cfg uc) ''PasswordResetTokenHash'' h update r e of
        (Some err, r1, e1) \<Rightarrow> (Inl err, r1, e1)
      | (None, r1, e1) \<Rightarrow>
          (case fr_Find (user_cfg uc) ''PasswordResetTokenHash'' h r of
             (Inl err, _) \<Rightarrow> (Inl err, r1, e1)
           | (Inr u, _) \<Rightarrow> (fst (update u e), r1, e1)))"

definition file_user_ops :: "user_codec \<Rightarrow> UserRepository user_ops" where
  "file_user_ops uc = \<lparr>ur_CreateUser = fuser_CreateUser uc, ur_FindByEmail = fuser_FindByEmail uc,
     ur_FindByID = fuser_FindByID uc,
     ur_FindByPasswordResetTokenHash = fuser_FindByPasswordResetTokenHash uc, ur_Save = fuser_Save uc,
     ur_UpdateByPasswordResetTokenHash = fuser_UpdateByPasswordResetTokenHash uc,
     ur_alias = fr_alias (user_cfg uc)\<rparr>"

section \<open>The codecs\<close>

interpretation gcodec: file_codec_round_trip grant_cfg "{''ID''}" "\<lambda>_. True"
  by unfold_locales
    (auto simp: string_fields_def grant_cfg_def grant_field_def grantToDoc_def grantToEntity_def)

interpretation rcodec: file_codec_round_trip rt_cfg "{''TokenHash''}" "\<lambda>rt. scope_ok (RT_Scope rt)"
proof (unfold_locales, goal_cases)
  case (4 x e d e')
  have "NewScope (Fields (scope_String (RT_Scope x))) = Inr (RT_Scope x)"
    using 4(1) by (rule scope_round_trip)
  with 4 show ?case by (auto simp: rt_cfg_def rtToDoc_def rtToEntity_def)
qed (auto simp: string_fields_def rt_cfg_def rt_field_def)

interpretation ucodec: file_codec "user_cfg uc" "{''ID'', ''Email'', ''PasswordResetTokenHash''}" for uc
  by unfold_locales
    (auto simp: string_fields_def user_cfg_def user_field_def userToDoc_def split: prod.splits
      dest!: Encrypt_env)

lemma userDoc_round_trip:
  assumes "aead_correct (ci_aead (uc_cipher uc))" and "rand_full (uc_prims uc)"
    and "U_TenantID u \<noteq> []" and "userToDoc uc u e = (d, e')"
  shows "userToEntity uc d = Inr u"
proof -
  obtain s e1 where enc: "Encrypt (uc_prims uc) (uc_cipher uc) (U_Email u) e = (Inr s, e1)"
    using Encrypt_env by (metis surj_pair)
  from Decrypt_Encrypt [OF assms(1,2) enc] show ?thesis
    using assms(3,4) by (auto simp: userToDoc_def userToEntity_def enc)
qed

section \<open>The contracts\<close>

abbreviation grants_of :: "FileGrantRepository \<Rightarrow> GrantID \<rightharpoonup> grant" where
  "grants_of r \<equiv> map_of (items r)"

abbreviation grants_ok :: "FileGrantRepository \<Rightarrow> bool" where
  "grants_ok r \<equiv> fr_inv grant_cfg {''ID''} r"

abbreviation rows_of :: "FileRefreshTokenRepository \<Rightarrow> string \<rightharpoonup> refresh_token" where
  "rows_of r \<equiv> map_of (items r)"

abbreviation rows_ok :: "FileRefreshTokenRepository \<Rightarrow> bool" where
  "rows_ok r \<equiv> fr_inv rt_cfg {''TokenHash''} r"

abbreviation users_of :: "UserRepository \<Rightarrow> UserID \<rightharpoonup> user" where
  "users_of r \<equiv> map_of (items r)"

definition users_ok :: "user_codec \<Rightarrow> UserRepository \<Rightarrow> bool" where
  "users_ok uc r \<longleftrightarrow> fr_inv (user_cfg uc) {''ID'', ''Email'', ''PasswordResetTokenHash''} r
     \<and> (\<forall>i u. users_of r i = Some u \<longrightarrow> U_TenantID u = DefaultTenantID)"

lemma grant_cfg_simps [simp]:
  "getID grant_cfg = G_ID" "fieldValue grant_cfg = grant_field" "grant_field ''ID'' g = Inr (Some (G_ID g))"
  by (simp_all add: grant_cfg_def grant_field_def)

lemma rt_cfg_simps [simp]:
  "getID rt_cfg = RT_ID" "fieldValue rt_cfg = rt_field"
  "rt_field ''TokenHash'' rt = Inr (Some (RT_TokenHash rt))"
  by (simp_all add: rt_cfg_def rt_field_def)

lemma user_cfg_simps [simp]:
  "getID (user_cfg uc) = U_ID" "fieldValue (user_cfg uc) = user_field"
  "user_field ''ID'' u = Inr (Some (U_ID u))" "user_field ''Email'' u = Inr (Some (U_Email u))"
  "user_field ''PasswordResetTokenHash'' u = Inr (U_PasswordResetTokenHash u)"
  by (simp_all add: user_cfg_def user_field_def)

lemma grant_may_store: "grants_ok r \<Longrightarrow> gcodec.may_store g (grants_of r)"
  by (auto simp: gcodec.may_store_def has_value_def fr_inv_def split: option.splits)

lemma user_may_store:
  "users_ok uc r \<Longrightarrow> may_save_user u (users_of r) \<Longrightarrow> ucodec.may_store uc u (users_of r)"
  by (auto simp: ucodec.may_store_def has_value_def fr_inv_def users_ok_def may_save_user_def split: option.splits)

lemma rt_may_store: "fresh_hash rt (rows_of r) \<Longrightarrow> rcodec.may_store rt (rows_of r)"
  by (auto simp: rcodec.may_store_def has_value_def fresh_hash_def split: option.splits)

lemma fgrant_Find_ok:
  assumes "fgrant_FindByID i s e = (res, s', e')" and "grants_ok s"
  shows "grants_ok s' \<and> env_le e e' \<and> grants_of s' = grants_of s
      \<and> (case res of Inr g \<Rightarrow> grants_of s i = Some g \<and> G_ID g = i
         | Inl er \<Rightarrow> er = ErrNotFound \<and> grants_of s i = None)"
proof -
  have f: "findByFieldLocked grant_cfg ''ID'' i s = (res, s')" "e' = e"
    using assms(1) by (auto simp: fgrant_FindByID_def fr_Find_def split: prod.splits)
  have "\<And>g. grants_of s i = Some g \<Longrightarrow> G_ID g = i" using assms(2) by (auto simp: fr_inv_def)
  with gcodec.find_correct [OF assms(2) _ f(1)] f(2) show ?thesis
    by (cases res; cases "grants_of s i") (auto simp: has_value_def split: option.splits)
qed

lemma fgrant_Save_ok:
  assumes "fr_Save grant_cfg g s e = (err, s', e')" and "grants_ok s"
  shows "grants_ok s' \<and> env_le e e'
      \<and> (err = None \<and> grants_of s' = (grants_of s)(G_ID g \<mapsto> g)
         \<or> err = Some write_failed \<and> grants_of s' = grants_of s)"
  using gcodec.Save_cases [OF assms(1)] gcodec.Save_inv [OF assms grant_may_store [OF assms(2)]]
  by auto

lemma fgrant_Revoke_ok:
  assumes "fgrant_Revoke i at s e = (err, s', e')" and "grants_ok s"
  shows "grants_ok s' \<and> env_le e e'
      \<and> (case err of
           None \<Rightarrow> (\<exists>g. grants_of s i = Some g \<and> G_RevokedAt g = None
                     \<and> grants_of s' = (grants_of s)(i \<mapsto> g\<lparr>G_RevokedAt := Some at\<rparr>))
         | Some er \<Rightarrow> grants_of s' = grants_of s \<and>
             (er = ErrNotFound \<and> (\<forall>g. grants_of s i = Some g \<longrightarrow> G_RevokedAt g \<noteq> None)
              \<or> er = write_failed))"
proof -
  let ?upd = "\<lambda>g e. if G_RevokedAt g \<noteq> None then (Inl ErrNotFound :: go_error + grant, e)
      else (Inr (g\<lparr>G_RevokedAt := Some at\<rparr>), e)"
  have env: "\<And>x e0. env_le e0 (snd (?upd x e0))" by simp
  have in_ID: "''ID'' \<in> {''ID''}" by simp
  from assms(1) [unfolded fgrant_Revoke_def] assms(2) in_ID env show ?thesis
  proof (rule gcodec.UpdateByField_cases, goal_cases)
    case 1
    have "grants_of s i = None" using 1(1) [of i] assms(2)
      by (cases "grants_of s i") (auto simp: has_value_def fr_inv_def)
    with 1 show ?case by simp
  next
    case (2 g ue)
    then show ?case by (auto split: if_splits)
  next
    case (3 g cp r1 e1)
    then have g: "G_RevokedAt g = None" "cp = g\<lparr>G_RevokedAt := Some at\<rparr>" "e1 = e" "G_ID g = i"
      by (auto split: if_splits)
    from fgrant_Save_ok [OF 3(7,6)] 3(1,5) g show ?case by (auto split: option.splits)
  qed
qed

interpretation fgr: grant_repository file_grant_ops grants_of grants_ok
proof (unfold_locales, goal_cases)
  case (1 g s e err s' e')
  then have "fr_Save grant_cfg g s e = (err, s', e')" by (simp add: file_grant_ops_def fgrant_Save_def)
  from fgrant_Save_ok [OF this 1(2)] show ?case by auto
next
  case (2 i s e res s' e')
  then have "fgrant_FindByID i s e = (res, s', e')" by (simp add: file_grant_ops_def)
  from fgrant_Find_ok [OF this 2(2)] show ?case by (auto split: sum.splits)
next
  case (3 i at s e err s' e')
  then have "fgrant_Revoke i at s e = (err, s', e')" by (simp add: file_grant_ops_def)
  from fgrant_Revoke_ok [OF this 3(2)] show ?case by (auto split: option.splits)
next
  case (4 s g g0)
  then have "grants_ok (fr_alias grant_cfg g s)"
    by (intro gcodec.alias_inv [of s g g0]) (auto simp: fr_inv_def)
  with 4 show ?case by (simp add: file_grant_ops_def gcodec.alias_items)
qed

lemma revoke_live_env: "env_le e (snd (revoke_live rt e))"
  by (auto simp: revoke_live_def Let_def env_le_def split: prod.splits dest!: nowD)

lemma revoke_live_cases:
  assumes "revoke_live rt e = (res, e')"
  shows "case res of
      Inl er \<Rightarrow> er = ErrNotFound \<and> (RT_RevokedAt rt \<noteq> None \<or> RT_ExpiresAt rt < clock e')
    | Inr x \<Rightarrow> RT_RevokedAt rt = None \<and> clock e \<le> RT_ExpiresAt rt \<and> (\<exists>t. x = rt\<lparr>RT_RevokedAt := Some t\<rparr>)"
  using assms by (auto simp: revoke_live_def Let_def split: if_splits prod.splits dest!: nowD)

lemma rows_ok_id: "rows_ok s \<Longrightarrow> rows_of s i = Some x \<Longrightarrow> RT_ID x = i"
  by (auto simp: fr_inv_def)

lemma row_at_has_value:
  assumes "rows_ok s"
  shows "has_value rt_cfg ''TokenHash'' (rows_of s) h i \<longleftrightarrow> (\<exists>rt. row_at (rows_of s) h rt \<and> RT_ID rt = i)"
proof
  assume "has_value rt_cfg ''TokenHash'' (rows_of s) h i"
  then obtain x where x: "rows_of s i = Some x" "RT_TokenHash x = h"
    by (auto simp: has_value_def split: option.splits)
  then show "\<exists>rt. row_at (rows_of s) h rt \<and> RT_ID rt = i"
    using rows_ok_id [OF assms x(1)] by (auto simp: row_at_def)
next
  assume "\<exists>rt. row_at (rows_of s) h rt \<and> RT_ID rt = i"
  then show "has_value rt_cfg ''TokenHash'' (rows_of s) h i" by (auto simp: has_value_def row_at_def)
qed

lemma rows_ok_unique: "rows_ok s \<Longrightarrow> row_at (rows_of s) h x \<Longrightarrow> row_at (rows_of s) h y \<Longrightarrow> x = y"
proof -
  assume ok: "rows_ok s" and x: "row_at (rows_of s) h x" and y: "row_at (rows_of s) h y"
  have u: "unique_field rt_cfg ''TokenHash'' (rows_of s)" using ok by (simp add: fr_inv_def)
  have "has_value rt_cfg ''TokenHash'' (rows_of s) h (RT_ID x)"
    "has_value rt_cfg ''TokenHash'' (rows_of s) h (RT_ID y)"
    using x y row_at_has_value [OF ok] by blast+
  with u have "RT_ID x = RT_ID y" unfolding unique_field_def by blast
  with x y show "x = y" by (simp add: row_at_def)
qed

lemma frt_Find_ok:
  assumes "frt_FindByTokenHash h s e = (res, s', e')" and "rows_ok s"
  shows "rows_ok s' \<and> e' = e \<and> rows_of s' = rows_of s
      \<and> (case res of Inr rt \<Rightarrow> row_at (rows_of s) h rt
         | Inl er \<Rightarrow> er = ErrNotFound \<and> (\<forall>rt. \<not> row_at (rows_of s) h rt))"
proof -
  have f: "findByFieldLocked rt_cfg ''TokenHash'' h s = (res, s')" "e' = e"
    using assms(1) by (auto simp: frt_FindByTokenHash_def fr_Find_def split: prod.splits)
  have in_F: "''TokenHash'' \<in> {''TokenHash''}" by simp
  show ?thesis
    using rcodec.find_correct [OF assms(2) in_F f(1)] f(2)
    by (cases res) (auto simp: row_at_has_value [OF assms(2)] row_at_def)
qed

lemma frt_Save_ok:
  assumes "fr_Save rt_cfg rt s e = (err, s', e')" and "rows_ok s" and "fresh_hash rt (rows_of s)"
  shows "rows_ok s' \<and> env_le e e'
      \<and> (err = None \<and> rows_of s' = (rows_of s)(RT_ID rt \<mapsto> rt)
         \<or> err = Some write_failed \<and> rows_of s' = rows_of s)"
  using rcodec.Save_cases [OF assms(1)] rcodec.Save_inv [OF assms(1,2) rt_may_store [OF assms(3)]]
  by auto

lemma frt_RevokeByTokenHash_ok:
  assumes "frt_RevokeByTokenHash h s e = (err, s', e')" and "rows_ok s"
  shows "rows_ok s' \<and> env_le e e'
      \<and> (case err of
           None \<Rightarrow> (\<exists>rt t. row_at (rows_of s) h rt \<and> RT_RevokedAt rt = None \<and> clock e \<le> RT_ExpiresAt rt
               \<and> rows_of s' = (rows_of s)(RT_ID rt \<mapsto> rt\<lparr>RT_RevokedAt := Some t\<rparr>))
         | Some er \<Rightarrow> rows_of s' = rows_of s
             \<and> (er = ErrNotFound \<and>
                 (\<forall>rt. row_at (rows_of s) h rt \<longrightarrow> RT_RevokedAt rt \<noteq> None \<or> RT_ExpiresAt rt < clock e')
                \<or> er = write_failed))"
proof -
  have in_F: "''TokenHash'' \<in> {''TokenHash''}" by simp
  from assms(1) [unfolded frt_RevokeByTokenHash_def] assms(2) in_F revoke_live_env show ?thesis
  proof (rule rcodec.UpdateByField_cases, goal_cases)
    case 1
    then show ?case by (auto simp: row_at_has_value [OF assms(2)])
  next
    case (2 x ue)
    then have "row_at (rows_of s) h x" by (simp add: row_at_def)
    then have "\<forall>rt. row_at (rows_of s) h rt \<longrightarrow> rt = x" using rows_ok_unique [OF assms(2)] by blast
    with 2 revoke_live_cases [OF 2(3)] show ?case by auto
  next
    case (3 x cp r1 e1)
    obtain t where x: "RT_RevokedAt x = None" "clock e \<le> RT_ExpiresAt x" "cp = x\<lparr>RT_RevokedAt := Some t\<rparr>"
      using revoke_live_cases [OF 3(3)] by auto
    have row: "row_at (rows_of s) h x" using 3(1,2) by (simp add: row_at_def)
    have "fresh_hash cp (rows_of r1)"
      unfolding fresh_hash_def
    proof (intro allI impI)
      fix i y assume y: "rows_of r1 i = Some y" "RT_TokenHash y = RT_TokenHash cp"
      then have "row_at (rows_of s) h y"
        using 3(2,5) x rows_ok_id [OF assms(2), of i y] by (simp add: row_at_def)
      then have "y = x" using row rows_ok_unique [OF assms(2)] by blast
      then show "i = RT_ID cp" using rows_ok_id [OF 3(6) y(1)] x by simp
    qed
    from frt_Save_ok [OF 3(7,6) this] 3(4,5) x row env_le_trans show ?case
      by (auto split: option.splits)
  qed
qed

lemma revoke_selected_rel:
  "revoke_selected sel x e = (Inr None, e1) \<Longrightarrow> revoked_as (sel x) x x \<and> env_le e e1"
  "revoke_selected sel x e = (Inr (Some cp), e1) \<Longrightarrow> revoked_as (sel x) x cp \<and> env_le e e1"
  by (auto simp: revoke_selected_def revoked_as_def Let_def split: if_splits prod.splits
      intro: now_le exI [of _ "RT_RevokedAt x"])

lemma frt_bulk_ok:
  assumes "UpdateAll rt_cfg (revoke_selected sel) s e = (err, s', e')" and "rows_ok s"
  shows "rows_ok s' \<and> env_le e e' \<and> (err = None \<and> bulk_revoked sel (rows_of s) (rows_of s')
         \<or> err = Some write_failed \<and> rows_of s' = rows_of s)"
proof -
  have total: "\<And>x e er. fst (revoke_selected sel x e) \<noteq> Inl er"
    by (auto simp: revoke_selected_def Let_def split: prod.splits)
  have same: "\<And>x y. revoked_as (sel x) x y \<Longrightarrow> getID rt_cfg y = getID rt_cfg x
      \<and> (\<forall>f \<in> {''TokenHash''}. fieldValue rt_cfg f y = fieldValue rt_cfg f x)"
    by (simp add: revoked_as_fields)
  note rel = revoke_selected_rel [of sel]
  have "env_le e e' \<and> rows_ok s' \<and>
      (err = None \<and> (\<forall>k. rel_option (\<lambda>x y. revoked_as (sel x) x y) (rows_of s k) (rows_of s' k))
       \<or> err = Some write_failed \<and> s' = s)"
    by (rule rcodec.UpdateAll_rel [OF assms(1,2)]) (fact rel total same)+
  then show ?thesis by (auto simp: bulk_revoked_def)
qed

interpretation frt: refresh_token_repository file_rt_ops rows_of rows_ok
proof (unfold_locales, goal_cases)
  case 1 then show ?case by (rule rows_ok_unique)
next
  case 2 then show ?case by (rule rows_ok_id)
next
  case (3 rt s e err s' e')
  then have "fr_Save rt_cfg rt s e = (err, s', e')" by (simp add: file_rt_ops_def frt_Save_def)
  from frt_Save_ok [OF this 3(2,3)] show ?case by auto
next
  case (4 h s e res s' e')
  then have "frt_FindByTokenHash h s e = (res, s', e')" by (simp add: file_rt_ops_def)
  from frt_Find_ok [OF this 4(2)] show ?case by (auto split: sum.splits)
next
  case (5 h s e err s' e')
  then have "frt_RevokeByTokenHash h s e = (err, s', e')" by (simp add: file_rt_ops_def)
  from frt_RevokeByTokenHash_ok [OF this 5(2)] show ?case by (auto split: option.splits)
next
  case (6 g s e err s' e')
  then have "UpdateAll rt_cfg (revoke_selected (\<lambda>rt. RT_GrantID rt = g)) s e = (err, s', e')"
    by (simp add: file_rt_ops_def frt_RevokeAllForGrant_def)
  from frt_bulk_ok [OF this 6(2)] show ?case by auto
next
  case (7 u s e err s' e')
  then have "UpdateAll rt_cfg (revoke_selected (\<lambda>rt. RT_UserID rt = u)) s e = (err, s', e')"
    by (simp add: file_rt_ops_def frt_RevokeAllForUser_def)
  from frt_bulk_ok [OF this 7(2)] show ?case by auto
qed

lemma users_okD:
  assumes "users_ok uc s" and "users_of s i = Some u"
  shows "U_ID u = i \<and> may_save_user u (users_of s)"
proof -
  have inv: "fr_inv (user_cfg uc) {''ID'', ''Email'', ''PasswordResetTokenHash''} s"
    and tn: "U_TenantID u = DefaultTenantID" using assms by (auto simp: users_ok_def)
  have keyed: "U_ID x = j" if "users_of s j = Some x" for j x
    using inv that by (auto simp: fr_inv_def)
  have "unique_field (user_cfg uc) ''Email'' (users_of s)"
    "unique_field (user_cfg uc) ''PasswordResetTokenHash'' (users_of s)" using inv by (simp_all add: fr_inv_def)
  then show ?thesis
    using tn keyed assms(2) by (simp add: may_save_user_def unique_field_def has_value_def)
qed

lemma fuser_Save_ok:
  assumes "fr_Save (user_cfg uc) u s e = (err, s', e')" and "users_ok uc s" and "may_save_user u (users_of s)"
  shows "users_ok uc s' \<and> env_le e e'
      \<and> (err = None \<and> users_of s' = (users_of s)(U_ID u \<mapsto> u) \<or> err = Some write_failed \<and> users_of s' = users_of s)"
  using ucodec.Save_cases [OF assms(1)] ucodec.Save_inv [OF assms(1) _ user_may_store [OF assms(2,3)]] assms(2,3)
  by (auto simp: users_ok_def may_save_user_def split: if_split_asm)

lemma fuser_find:
  assumes "findByFieldLocked (user_cfg uc) f v s = (res, s')" and "users_ok uc s"
    and "f \<in> {''ID'', ''Email'', ''PasswordResetTokenHash''}"
  shows "users_ok uc s' \<and> users_of s' = users_of s
      \<and> (case res of Inr u \<Rightarrow> users_of s (U_ID u) = Some u \<and> user_field f u = Inr (Some v)
         | Inl er \<Rightarrow> er = ErrNotFound \<and> (\<forall>i u. users_of s i = Some u \<longrightarrow> user_field f u \<noteq> Inr (Some v)))"
proof -
  have inv: "fr_inv (user_cfg uc) {''ID'', ''Email'', ''PasswordResetTokenHash''} s" using assms(2) by (simp add: users_ok_def)
  show ?thesis
    using ucodec.find_correct [OF inv assms(3,1)] assms(2)
    by (auto simp: users_ok_def has_value_def split: sum.splits option.splits)
qed

lemma fuser_Find_ok:
  assumes "fuser_FindByID uc i s e = (res, s', e')" and "users_ok uc s"
  shows "users_ok uc s' \<and> e' = e \<and> users_of s' = users_of s
      \<and> (case res of Inr u \<Rightarrow> users_of s i = Some u \<and> U_ID u = i
         | Inl er \<Rightarrow> er = ErrNotFound \<and> users_of s i = None)"
proof -
  have f: "findByFieldLocked (user_cfg uc) ''ID'' i s = (res, s')" "e' = e"
    using assms(1) by (auto simp: fuser_FindByID_def fr_Find_def split: prod.splits)
  have none: "users_of s i = None" if "\<forall>j u. users_of s j = Some u \<longrightarrow> U_ID u \<noteq> i"
    using that users_okD [OF assms(2)] by (cases "users_of s i") auto
  show ?thesis using fuser_find [OF f(1) assms(2)] f(2) none by (auto split: sum.splits)
qed

lemma fuser_FindByEmail_ok:
  assumes "fuser_FindByEmail uc DefaultTenantID em s e = (res, s', e')" and "users_ok uc s"
  shows "users_ok uc s' \<and> e' = e \<and> users_of s' = users_of s
      \<and> (case res of Inr u \<Rightarrow> users_of s (U_ID u) = Some u \<and> U_Email u = em
         | Inl er \<Rightarrow> er = ErrNotFound \<and> (\<forall>i u. users_of s i = Some u \<longrightarrow> U_Email u \<noteq> em))"
proof -
  obtain r s1 where f: "findByFieldLocked (user_cfg uc) ''Email'' em s = (r, s1)" by (metis surj_pair)
  have tn: "U_TenantID u = DefaultTenantID" if "users_of s j = Some u" for j u
    using assms(2) that by (simp add: users_ok_def)
  show ?thesis
    using fuser_find [OF f assms(2)] assms(1) f tn
    by (auto simp: fuser_FindByEmail_def fr_Find_def split: sum.splits if_splits)
qed

lemma fuser_Create_ok:
  assumes "fuser_CreateUser uc u s e = (err, s', e')" and "users_ok uc s"
    and "U_TenantID u = DefaultTenantID" and "U_PasswordResetTokenHash u = None"
  shows "users_ok uc s' \<and> env_le e e'
      \<and> (case err of
           None \<Rightarrow> users_of s' = (users_of s)(U_ID u \<mapsto> u) \<and> (\<forall>i x. users_of s i = Some x \<longrightarrow> U_Email x \<noteq> U_Email u)
         | Some er \<Rightarrow> users_of s' = users_of s \<and>
             (errors_Is er ErrConflict \<longrightarrow> (\<exists>i x. users_of s i = Some x \<and> U_Email x = U_Email u)))"
proof -
  obtain r s1 where f: "findByFieldLocked (user_cfg uc) ''Email'' (U_Email u) s = (r, s1)" by (metis surj_pair)
  note F = fuser_find [OF f assms(2)]
  show ?thesis
  proof (cases r)
    case (Inr x)
    with F have "users_of s (U_ID x) = Some x \<and> U_Email x = U_Email u" by simp
    then have taken: "\<exists>i x. users_of s i = Some x \<and> U_Email x = U_Email u" by (intro exI)
    have "err = Some ErrConflict" "s' = s1" "e' = e"
      using assms(1) Inr f by (simp_all add: fuser_CreateUser_def CreateIfFieldNotExists_def)
    with F taken show ?thesis by simp
  next
    case (Inl er)
    then have er: "er = ErrNotFound" and free: "\<forall>i x. users_of s i = Some x \<longrightarrow> U_Email x \<noteq> U_Email u" using F by auto
    have save: "fr_Save (user_cfg uc) u s1 e = (err, s', e')"
      using assms(1) f Inl er by (simp add: fuser_CreateUser_def CreateIfFieldNotExists_def)
    have "may_save_user u (users_of s1)" using F free assms(3,4) by (auto simp: may_save_user_def)
    from fuser_Save_ok [OF save _ this] F free show ?thesis by (auto simp: write_failed_def)
  qed
qed

lemma fuser_Create_taken:
  assumes "users_ok uc s" and "users_of s i = Some x" and "U_Email x = U_Email u"
  shows "fst (fuser_CreateUser uc u s e) = Some ErrConflict"
proof -
  obtain r s1 where f: "findByFieldLocked (user_cfg uc) ''Email'' (U_Email u) s = (r, s1)" by (metis surj_pair)
  from fuser_find [OF f assms(1)] assms(2,3) f show ?thesis
    by (cases r) (auto simp: fuser_CreateUser_def CreateIfFieldNotExists_def)
qed

lemma fuser_UpdateReset_cases:
  assumes run: "fuser_UpdateByPasswordResetTokenHash uc h upd s e = (ru, s', e')" and ok: "users_ok uc s"
  obtains (missing) "ru = Inl ErrNotFound" "users_ok uc s'" "users_of s' = users_of s" "e' = e"
      "\<And>i u. users_of s i = Some u \<Longrightarrow> U_PasswordResetTokenHash u \<noteq> Some h"
  | (refused) x ue where "users_of s (U_ID x) = Some x" "U_PasswordResetTokenHash x = Some h" "upd x e = (Inl ue, e')"
      "ru = Inl ue" "users_ok uc s'" "users_of s' = users_of s"
  | (updated) x cp s1 e1 err where "users_of s (U_ID x) = Some x" "U_PasswordResetTokenHash x = Some h"
      "upd x e = (Inr cp, e1)" "users_ok uc s1" "users_of s1 = users_of s" "fr_Save (user_cfg uc) cp s1 e1 = (err, s', e')"
      "ru = (case err of None \<Rightarrow> Inr cp | Some er \<Rightarrow> Inl er)"
proof -
  obtain r s1 where f: "findByFieldLocked (user_cfg uc) ''PasswordResetTokenHash'' h s = (r, s1)" by (metis surj_pair)
  note F = fuser_find [OF f ok]
  show ?thesis
  proof (cases r)
    case (Inl er)
    with F run f show ?thesis
      by (intro missing) (auto simp: fuser_UpdateByPasswordResetTokenHash_def UpdateByField_def)
  next
    case (Inr x)
    then have x: "users_of s (U_ID x) = Some x" "U_PasswordResetTokenHash x = Some h" "users_ok uc s1" "users_of s1 = users_of s"
      using F by simp_all
    obtain v e1 where v: "upd x e = (v, e1)" by (metis surj_pair)
    show ?thesis
    proof (cases v)
      case (Inl ue)
      with \<open>r = Inr x\<close> run f v x show ?thesis
        by (intro refused [of x ue]) (auto simp: fuser_UpdateByPasswordResetTokenHash_def UpdateByField_def)
    next
      case (Inr cp)
      obtain err s2 e2 where sv: "fr_Save (user_cfg uc) cp s1 e1 = (err, s2, e2)" by (metis surj_pair)
      with \<open>r = Inr x\<close> Inr run f v have "s2 = s'" "e2 = e'" "ru = (case err of None \<Rightarrow> Inr cp | Some er \<Rightarrow> Inl er)"
        by (auto simp: fuser_UpdateByPasswordResetTokenHash_def UpdateByField_def fr_Find_def split: option.splits)
      with x v Inr sv show ?thesis by (intro updated [of x cp e1 s1 err]) simp_all
    qed
  qed
qed

lemma fuser_UpdateReset_ok:
  assumes run: "fuser_UpdateByPasswordResetTokenHash uc h upd s e = (ru, s', e')" and ok: "users_ok uc s"
    and keep: "\<forall>x e cp e1. upd x e = (Inr cp, e1) \<longrightarrow> U_ID cp = U_ID x \<and> U_Email cp = U_Email x
         \<and> U_TenantID cp = U_TenantID x \<and> U_PasswordResetTokenHash cp = None"
    and le: "\<forall>x e. env_le e (snd (upd x e))"
  shows "users_ok uc s' \<and> env_le e e'
      \<and> (case ru of
           Inr cp \<Rightarrow> (\<exists>x e1. users_of s (U_ID x) = Some x \<and> U_PasswordResetTokenHash x = Some h
              \<and> upd x e = (Inr cp, e1) \<and> env_le e1 e' \<and> users_of s' = (users_of s)(U_ID x \<mapsto> cp))
         | Inl er \<Rightarrow> users_of s' = users_of s)"
  using run ok
proof (cases rule: fuser_UpdateReset_cases)
  case missing
  then show ?thesis by simp
next
  case (refused x ue)
  have "env_le e (snd (upd x e))" using le by blast
  with refused show ?thesis by simp
next
  case (updated x cp s1 e1 err)
  have "env_le e (snd (upd x e))" using le by blast
  then have le1: "env_le e e1" using updated(3) by simp
  have cp: "U_ID cp = U_ID x" "U_Email cp = U_Email x" "U_TenantID cp = U_TenantID x" "U_PasswordResetTokenHash cp = None"
    using keep updated(3) by blast+
  have "may_save_user cp (users_of s1)"
    using users_okD [OF ok updated(1)] cp updated(5) by (simp add: may_save_user_def)
  note S = fuser_Save_ok [OF updated(6,4) this]
  have le2: "env_le e e'" by (rule env_le_trans [OF le1]) (use S in simp)
  show ?thesis
  proof (cases err)
    case None
    with S updated cp have new: "users_of s' = (users_of s)(U_ID x \<mapsto> cp)" "users_ok uc s'" "env_le e1 e'" by simp_all
    with updated(1-3) have "\<exists>x e1. users_of s (U_ID x) = Some x \<and> U_PasswordResetTokenHash x = Some h
      \<and> upd x e = (Inr cp, e1) \<and> env_le e1 e' \<and> users_of s' = (users_of s)(U_ID x \<mapsto> cp)" by blast
    with None new le2 updated(7) show ?thesis by simp
  qed (use S updated le2 in simp)
qed

interpretation fur: user_repository "file_user_ops uc" users_of "users_ok uc" for uc
proof (unfold_locales, goal_cases)
  case 1 then show ?case by (rule users_okD)
next
  case (2 u s e err s' e')
  then have "fr_Save (user_cfg uc) u s e = (err, s', e')" by (simp add: file_user_ops_def fuser_Save_def)
  from fuser_Save_ok [OF this 2(2,3)] show ?case by auto
next
  case (3 i s e res s' e')
  then have "fuser_FindByID uc i s e = (res, s', e')" by (simp add: file_user_ops_def)
  from fuser_Find_ok [OF this 3(2)] show ?case by (auto split: sum.splits)
next
  case (4 em s e res s' e')
  then have "fuser_FindByEmail uc DefaultTenantID em s e = (res, s', e')" by (simp add: file_user_ops_def)
  from fuser_FindByEmail_ok [OF this 4(2)] show ?case by (auto split: sum.splits)
next
  case (5 u s e err s' e')
  then have "fuser_CreateUser uc u s e = (err, s', e')" by (simp add: file_user_ops_def)
  from fuser_Create_ok [OF this 5(2-4)] show ?case .
next
  case (6 h upd s e ru s' e')
  then have "fuser_UpdateByPasswordResetTokenHash uc h upd s e = (ru, s', e')" by (simp add: file_user_ops_def)
  from fuser_UpdateReset_ok [OF this 6(2-4)] show ?case .
next
  case (7 s u u0)
  then have "fr_inv (user_cfg uc) {''ID'', ''Email'', ''PasswordResetTokenHash''} (fr_alias (user_cfg uc) u s)"
    by (intro ucodec.alias_inv [of uc s u u0]) (auto simp: users_ok_def same_identity_def)
  with 7 show ?case by (auto simp: file_user_ops_def ucodec.alias_items users_ok_def same_identity_def)
qed

section \<open>Reliability\<close>

lemma fgrant_Revoke_reliable:
  assumes "fgrant_Revoke i at s e = (err, s', e')" and "grants_ok s" and "disk e = []"
  shows "disk e' = [] \<and> (\<forall>er. err = Some er \<longrightarrow> er = ErrNotFound)"
proof -
  let ?upd = "\<lambda>g e. if G_RevokedAt g \<noteq> None then (Inl ErrNotFound :: go_error + grant, e)
      else (Inr (g\<lparr>G_RevokedAt := Some at\<rparr>), e)"
  have env: "\<And>x e0. env_le e0 (snd (?upd x e0))" by simp
  have in_ID: "''ID'' \<in> {''ID''}" by simp
  from assms(1) [unfolded fgrant_Revoke_def] assms(2) in_ID env show ?thesis
  proof (rule gcodec.UpdateByField_cases, goal_cases)
    case (3 g cp r1 e1)
    then have "disk e1 = []" using assms(3) by (auto split: if_splits)
    from gcodec.Save_reliable [OF 3(7) this] show ?case by simp
  qed (use assms(3) in \<open>auto split: if_splits\<close>)
qed

interpretation fgr: reliable_grant_repository file_grant_ops grants_of grants_ok
proof (unfold_locales, goal_cases)
  case (1 g s e err s' e')
  then have "fr_Save grant_cfg g s e = (err, s', e')" by (simp add: file_grant_ops_def fgrant_Save_def)
  from gcodec.Save_reliable [OF this 1(2)] show ?case .
next
  case (2 i s e res s' e')
  then have f: "fgrant_FindByID i s e = (res, s', e')" by (simp add: file_grant_ops_def)
  then have "e' = e" by (auto simp: fgrant_FindByID_def split: prod.splits)
  with fgrant_Find_ok [OF f 2(2)] 2(3) show ?case by auto
next
  case (3 i at s e err s' e')
  then have "fgrant_Revoke i at s e = (err, s', e')" by (simp add: file_grant_ops_def)
  from fgrant_Revoke_reliable [OF this 3(2,3)] show ?case by auto
qed

lemma revoke_live_disk: "revoke_live rt e = (res, e') \<Longrightarrow> disk e' = disk e"
  by (auto simp: revoke_live_def Let_def split: if_splits prod.splits dest!: nowD)

lemma frt_Revoke_reliable:
  assumes "frt_RevokeByTokenHash h s e = (err, s', e')" and "rows_ok s" and "disk e = []"
  shows "disk e' = [] \<and> (\<forall>er. err = Some er \<longrightarrow> er = ErrNotFound)"
proof -
  have in_F: "''TokenHash'' \<in> {''TokenHash''}" by simp
  from assms(1) [unfolded frt_RevokeByTokenHash_def] assms(2) in_F revoke_live_env show ?thesis
  proof (rule rcodec.UpdateByField_cases, goal_cases)
    case 1
    then show ?case using assms(3) by simp
  next
    case (2 x ue)
    then show ?case using assms(3) revoke_live_cases [OF 2(3)] revoke_live_disk [OF 2(3)] by simp
  next
    case (3 x cp r1 e1)
    then have "disk e1 = []" using assms(3) revoke_live_disk [OF 3(3)] by simp
    from rcodec.Save_reliable [OF 3(7) this] show ?case by simp
  qed
qed

lemma frt_bulk_reliable:
  assumes "UpdateAll rt_cfg (revoke_selected sel) s e = (err, s', e')" and "disk e = []"
  shows "err = None \<and> disk e' = []"
proof (rule rcodec.UpdateAll_reliable [OF assms])
  show "fst (revoke_selected sel x e0) \<noteq> Inl er" for x e0 er
    by (auto simp: revoke_selected_def Let_def split: prod.splits)
  show "disk (snd (revoke_selected sel x e0)) = disk e0" for x e0
    by (auto simp: revoke_selected_def Let_def split: prod.splits dest!: nowD)
qed

interpretation frt: reliable_refresh_token_repository file_rt_ops rows_of rows_ok
proof (unfold_locales, goal_cases)
  case (1 rt s e err s' e')
  then have "fr_Save rt_cfg rt s e = (err, s', e')" by (simp add: file_rt_ops_def frt_Save_def)
  from rcodec.Save_reliable [OF this 1(2)] show ?case .
next
  case (2 h s e res s' e')
  then have "frt_FindByTokenHash h s e = (res, s', e')" by (simp add: file_rt_ops_def)
  from frt_Find_ok [OF this 2(2)] 2(3) show ?case by auto
next
  case (3 h s e err s' e')
  then have "frt_RevokeByTokenHash h s e = (err, s', e')" by (simp add: file_rt_ops_def)
  from frt_Revoke_reliable [OF this 3(2,3)] show ?case by auto
next
  case (4 g s e err s' e')
  then show ?case using frt_bulk_reliable by (simp add: file_rt_ops_def frt_RevokeAllForGrant_def)
next
  case (5 u s e err s' e')
  then show ?case using frt_bulk_reliable by (simp add: file_rt_ops_def frt_RevokeAllForUser_def)
qed

lemma fuser_UpdateReset_reliable:
  assumes run: "fuser_UpdateByPasswordResetTokenHash uc h upd s e = (ru, s', e')" and ok: "users_ok uc s"
    and disk: "disk e = []" and le: "\<forall>x e. env_le e (snd (upd x e)) \<and> disk (snd (upd x e)) = disk e"
    and x: "users_of s i = Some x" "U_PasswordResetTokenHash x = Some h"
  shows "disk e' = [] \<and> ru = fst (upd x e)"
proof -
  have same: "y = x" if "users_of s (U_ID y) = Some y" "U_PasswordResetTokenHash y = Some h" for y
  proof -
    have "may_save_user x (users_of s)" "U_ID x = i" using users_okD [OF ok x(1)] by simp_all
    then have "U_ID y = i" using x that unfolding may_save_user_def by blast
    with that x show ?thesis by simp
  qed
  have d: "disk e1 = []" if "upd y e = (v, e1)" for y v e1
  proof -
    have "disk (snd (upd y e)) = disk e" using le by blast
    then show ?thesis using that disk by simp
  qed
  from run ok show ?thesis
  proof (cases rule: fuser_UpdateReset_cases)
    case missing
    then show ?thesis using x by blast
  next
    case (refused y ue)
    then show ?thesis using same d by simp
  next
    case (updated y cp s1 e1 err)
    from ucodec.Save_reliable [OF updated(6) d [OF updated(3)]] updated same show ?thesis by simp
  qed
qed

interpretation fur: reliable_user_repository "file_user_ops uc" users_of "users_ok uc" for uc
proof (unfold_locales, goal_cases)
  case (1 u s e err s' e')
  then have "fr_Save (user_cfg uc) u s e = (err, s', e')" by (simp add: file_user_ops_def fuser_Save_def)
  from ucodec.Save_reliable [OF this 1(2)] show ?case .
next
  case (2 i s e res s' e')
  then have "fuser_FindByID uc i s e = (res, s', e')" by (simp add: file_user_ops_def)
  from fuser_Find_ok [OF this 2(2)] 2(3) show ?case by auto
next
  case (3 em s e res s' e')
  then have "fuser_FindByEmail uc DefaultTenantID em s e = (res, s', e')" by (simp add: file_user_ops_def)
  from fuser_FindByEmail_ok [OF this 3(2)] 3(3) show ?case by auto
next
  case (4 h upd s e ru s' e' i x)
  then have "fuser_UpdateByPasswordResetTokenHash uc h upd s e = (ru, s', e')" by (simp add: file_user_ops_def)
  from fuser_UpdateReset_reliable [OF this 4(2-6)] show ?case .
qed

end
