(* ===== verification/App.thy ===== *)
theory App
  imports Families Repos
begin

text \<open>
  The file-backed deployment: the dependencies \<open>cmd/auth/wire/auth.go\<close> builds when the repository
  type is not \<open>mongo\<close>, with the in-memory cache and the unit of work without transactions. It
  satisfies the application contract, so the theorems of the use cases hold of it.
\<close>

record app_config =
  ap_codec :: user_codec
  ap_jwt :: jwt_service
  ap_registry :: client_registry
  ap_send :: "string \<Rightarrow> string \<Rightarrow> env \<Rightarrow> go_error option"
  ap_PostLogoutRedirectAllowlist :: "string list"
  ap_ScopeAllowlist :: "string list"

type_synonym file_world = "(UserRepository, FileRefreshTokenRepository, FileGrantRepository, MemoryCache) world"
type_synonym file_deps = "(UserRepository, FileRefreshTokenRepository, FileGrantRepository, MemoryCache) deps"

definition buildAuthDeps :: "app_config \<Rightarrow> file_deps" where
  "buildAuthDeps cfg =
     \<lparr>d_prims = uc_prims (ap_codec cfg), d_cache = memory_ops, d_uow = NoopUnitOfWork_Do,
      d_tokens = jwt_adapter (ap_jwt cfg\<lparr>j_prims := uc_prims (ap_codec cfg)\<rparr>), d_users = file_user_ops (ap_codec cfg), d_send = ap_send cfg,
      d_rts = file_rt_ops, d_grants = file_grant_ops, d_registry = ap_registry cfg,
      d_PostLogoutRedirectAllowlist = ap_PostLogoutRedirectAllowlist cfg,
      d_ScopeAllowlist = ap_ScopeAllowlist cfg\<rparr>"

lemma buildAuthDeps_simps [simp]:
  "d_prims (buildAuthDeps cfg) = uc_prims (ap_codec cfg)" "d_cache (buildAuthDeps cfg) = memory_ops"
  "d_uow (buildAuthDeps cfg) = NoopUnitOfWork_Do" "d_tokens (buildAuthDeps cfg) = jwt_adapter (ap_jwt cfg\<lparr>j_prims := uc_prims (ap_codec cfg)\<rparr>)"
  "d_users (buildAuthDeps cfg) = file_user_ops (ap_codec cfg)" "d_rts (buildAuthDeps cfg) = file_rt_ops"
  "d_grants (buildAuthDeps cfg) = file_grant_ops" "d_registry (buildAuthDeps cfg) = ap_registry cfg"
  "d_send (buildAuthDeps cfg) = ap_send cfg"
  "d_PostLogoutRedirectAllowlist (buildAuthDeps cfg) = ap_PostLogoutRedirectAllowlist cfg"
  "d_ScopeAllowlist (buildAuthDeps cfg) = ap_ScopeAllowlist cfg"
  by (simp_all add: buildAuthDeps_def)

lemma jwt_same_prims: "drawing_token_port (jwt_adapter (j\<lparr>j_prims := p\<rparr>)) p"
  using jwt.drawing_token_port_axioms [of "j\<lparr>j_prims := p\<rparr>"] by simp

interpretation app: auth_app "buildAuthDeps cfg" grants_of grants_ok rows_of rows_ok users_of
  "users_ok (ap_codec cfg)" mem_live for cfg
  unfolding buildAuthDeps_simps
  by (intro auth_app.intro auth_app_axioms.intro)
    (simp_all add: fgr.reliable_grant_repository_axioms frt.reliable_refresh_token_repository_axioms
      fur.reliable_user_repository_axioms mem.reliable_ttl_cache_axioms jwt_same_prims)

text \<open>The repositories are consistent: the invariant every request keeps.\<close>

definition file_ok :: "app_config \<Rightarrow> file_world \<Rightarrow> bool" where
  "file_ok cfg w \<longleftrightarrow> grants_ok (w_grants w) \<and> rows_ok (w_rts w) \<and> users_ok (ap_codec cfg) (w_users w)"

lemma file_ok_wok: "app.wok cfg w \<longleftrightarrow> file_ok cfg w"
  by (simp add: app.wok_def file_ok_def)

text \<open>A repository that was just opened is consistent if its rows are.\<close>

lemma fr_inv_opened:
  assumes "distinct (map fst its)" and "\<forall>kv \<in> set its. getID c (snd kv) = fst kv"
    and "\<forall>f \<in> F. \<forall>x \<in> set its. \<forall>y \<in> set its. \<forall>v. fieldValue c f (snd x) = Inr (Some v) \<longrightarrow>
       fieldValue c f (snd y) = Inr (Some v) \<longrightarrow> fst x = fst y"
  shows "fr_inv c F \<lparr>items = its, indexedFields = Map.empty, store = ds\<rparr>"
proof -
  have "unique_field c f (map_of its)" if f: "f \<in> F" for f
    unfolding unique_field_def
  proof (intro allI impI)
    fix v i j assume "has_value c f (map_of its) v i" "has_value c f (map_of its) v j"
    then obtain x y where xy: "(i, x) \<in> set its" "(j, y) \<in> set its" "fieldValue c f x = Inr (Some v)"
      "fieldValue c f y = Inr (Some v)"
      by (auto simp: has_value_def split: option.splits dest: map_of_SomeD)
    show "i = j" using assms(3) [rule_format, OF f xy(1,2), of v] xy(3,4) by simp
  qed
  moreover have "getID c x = i" if "map_of its i = Some x" for i x
    using assms(2) [rule_format, OF map_of_SomeD [OF that]] by simp
  ultimately show ?thesis using assms(1) by (simp add: fr_inv_def distinct_keys_def)
qed

text \<open>A signing library that does not fail: then tokens can always be issued.\<close>

definition signs_all :: "jwt_lib \<Rightarrow> bool" where
  "signs_all L \<longleftrightarrow> (\<forall>kid cs. \<exists>s. jl_Sign L kid cs = Inr s)"

lemma signs_allE:
  assumes "signs_all L"
  obtains s where "jl_Sign L kid cs = Inr s"
  using assms unfolding signs_all_def by blast

lemma jwt_issues:
  assumes "signs_all (j_lib j)"
  shows "\<exists>tk e1. IssueTokens p (jwt_adapter j) req e = (Inr tk, e1)"
proof -
  obtain gid ng e1 where g: "issue_grant p req e = ((gid, ng), e1)" by (metis surj_pair)
  have access: "\<exists>s e'. jwt_GenAccessToken j u sc gr n e = (Inr s, e')" for u sc gr n e
    using assms unfolding jwt_GenAccessToken_def signToken_def Let_def
    by (auto simp only: case_prod_beta prod.inject intro: signs_allE)
  have ident: "\<exists>s e'. jwt_GenIDToken j a e = (Inr s, e')" for a e
    using assms unfolding jwt_GenIDToken_def signToken_def Let_def
    by (auto simp only: case_prod_beta prod.inject intro: signs_allE)
  have refresh: "\<exists>s e'. jwt_GenRefreshToken j u e = (Inr s, e')" for u e
    by (auto simp: jwt_GenRefreshToken_def random_Token_Inr)
  obtain a e2 where a: "jwt_GenAccessToken j (U_ID (is_User req)) (scope_String (is_Scope req)) gid (is_ExpireSecs req) e1 = (Inr a, e2)"
    using access by blast
  obtain r e3 where r: "jwt_GenRefreshToken j (U_ID (is_User req)) e2 = (Inr r, e3)" using refresh by blast
  obtain i e4 where "jwt_GenIDToken j \<lparr>ia_UserID = U_ID (is_User req), ia_ClientID = is_ClientID req,
      ia_Email = U_Email (is_User req), ia_Nonce = is_Nonce req, ia_GrantID = gid,
      ia_EmailVerified = U_EmailVerified (is_User req), ia_ExpireSecs = is_ExpireSecs req\<rparr> e3 = (Inr i, e4)"
    using ident by blast
  with g a r show ?thesis by (simp add: IssueTokens_def jwt_adapter_def)
qed

end
