(* ===== verification/System.thy ===== *)
theory System
  imports App
begin

text \<open>
  The running server: the file-backed deployment serving HTTP requests one after the other, with the
  cache's janitor in between. Its invariant, and what never changes back in any execution.
\<close>

section \<open>Executions\<close>

text \<open>
  Handlers run one at a time: the stores and the cache serialize their operations with a mutex, and
  executions interleaved between two operations of a handler are not covered. Which file writes fail
  and how the clock advances is decided by the environment of the first state.
\<close>

inductive runs :: "app_config \<Rightarrow> (string \<Rightarrow> bool) \<Rightarrow> web_config \<Rightarrow> file_world \<Rightarrow> file_world \<Rightarrow> bool"
  for cfg em wc where
  runs_refl: "runs cfg em wc w w"
| runs_serve: "runs cfg em wc w w1 \<Longrightarrow> serve (buildAuthDeps cfg) em wc rq w1 = (rs, w2) \<Longrightarrow> runs cfg em wc w w2"
| runs_sweep: "runs cfg em wc w w1 \<Longrightarrow> now (w_env w1) = (t, e)
    \<Longrightarrow> runs cfg em wc w (w1\<lparr>w_cache := deleteExpired t (w_cache w1), w_env := e\<rparr>)"

text \<open>The deployment on first start: no files yet.\<close>

definition first_start :: "env \<Rightarrow> file_world" where
  "first_start e =
     \<lparr>w_users = \<lparr>items = [], indexedFields = Map.empty, store = []\<rparr>,
      w_rts = \<lparr>items = [], indexedFields = Map.empty, store = []\<rparr>,
      w_grants = \<lparr>items = [], indexedFields = Map.empty, store = []\<rparr>,
      w_cache = NewMemoryCache, w_env = e, w_failed_logins = 0, w_tokens_issued = 0, w_revocations = 0, w_mail = []\<rparr>"

definition reachable :: "app_config \<Rightarrow> (string \<Rightarrow> bool) \<Rightarrow> web_config \<Rightarrow> file_world \<Rightarrow> bool" where
  "reachable cfg em wc w \<longleftrightarrow> (\<exists>e. runs cfg em wc (first_start e) w)"

section \<open>The invariant\<close>

abbreviation cfg_prims :: "app_config \<Rightarrow> prims" where
  "cfg_prims cfg \<equiv> uc_prims (ap_codec cfg)"

definition row_provenance :: "app_config \<Rightarrow> file_world \<Rightarrow> refresh_token \<Rightarrow> bool" where
  "row_provenance cfg w x \<longleftrightarrow> (\<exists>k < rand_ctr (w_env w). RT_TokenHash x = token_hash (cfg_prims cfg) k)
     \<and> (\<exists>n < uuid_ctr (w_env w). RT_GrantID x = p_uuid (cfg_prims cfg) n)
     \<and> (\<exists>n < uuid_ctr (w_env w). RT_ID x = p_uuid (cfg_prims cfg) n)
     \<and> grants_of (w_grants w) (RT_GrantID x) \<noteq> None \<and> users_of (w_users w) (RT_UserID x) \<noteq> None
     \<and> RT_AuthenticatedAt x \<le> clock (w_env w)"

definition one_live_per_grant :: "(string \<rightharpoonup> refresh_token) \<Rightarrow> bool" where
  "one_live_per_grant m \<longleftrightarrow> (\<forall>i j x y. m i = Some x \<longrightarrow> m j = Some y \<longrightarrow> RT_RevokedAt x = None \<longrightarrow>
     RT_RevokedAt y = None \<longrightarrow> RT_GrantID x = RT_GrantID y \<longrightarrow> i = j)"

definition file_inv :: "app_config \<Rightarrow> file_world \<Rightarrow> bool" where
  "file_inv cfg w \<longleftrightarrow> file_ok cfg w
     \<and> (\<forall>i x. rows_of (w_rts w) i = Some x \<longrightarrow> row_provenance cfg w x)
     \<and> (\<forall>i g. grants_of (w_grants w) i = Some g \<longrightarrow> (\<exists>n < uuid_ctr (w_env w). i = p_uuid (cfg_prims cfg) n))
     \<and> (\<forall>i u h. users_of (w_users w) i = Some u \<longrightarrow> U_PasswordResetTokenHash u = Some h \<longrightarrow>
          (\<exists>k < rand_ctr (w_env w). h = token_hash (cfg_prims cfg) k))
     \<and> one_live_per_grant (rows_of (w_rts w))"

lemma file_inv_sys: "app.sys_inv cfg w \<longleftrightarrow> file_inv cfg w"
  unfolding app.sys_inv_def file_inv_def file_ok_wok app.row_ok_def row_provenance_def one_live_per_grant_def
  by simp

lemma first_start_inv: "file_inv cfg (first_start e)"
  unfolding file_inv_def file_ok_def first_start_def users_ok_def one_live_per_grant_def
  by (auto intro!: fr_inv_opened)

text \<open>
  What an execution keeps of the past: entries are not removed, a refresh token changes by being
  revoked only, and no revocation is taken back.
\<close>

definition forward :: "file_world \<Rightarrow> file_world \<Rightarrow> bool" where
  "forward w w' \<longleftrightarrow> clock (w_env w) \<le> clock (w_env w')
     \<and> (\<forall>i x. rows_of (w_rts w) i = Some x \<longrightarrow> (\<exists>t. rows_of (w_rts w') i = Some (x\<lparr>RT_RevokedAt := t\<rparr>)
          \<and> (RT_RevokedAt x \<noteq> None \<longrightarrow> t = RT_RevokedAt x)))
     \<and> (\<forall>i g. grants_of (w_grants w) i = Some g \<longrightarrow> (\<exists>g'. grants_of (w_grants w') i = Some g' \<and> G_ID g' = G_ID g
          \<and> G_UserID g' = G_UserID g \<and> G_ClientID g' = G_ClientID g
          \<and> (G_RevokedAt g \<noteq> None \<longrightarrow> G_RevokedAt g' = G_RevokedAt g)))
     \<and> (\<forall>i u. users_of (w_users w) i = Some u \<longrightarrow> (\<exists>u'. users_of (w_users w') i = Some u'))"

lemma row_laterE: "row_later x y \<Longrightarrow> \<exists>t. y = x\<lparr>RT_RevokedAt := t\<rparr> \<and> (RT_RevokedAt x \<noteq> None \<longrightarrow> t = RT_RevokedAt x)"
  by (auto simp: row_later_def)

lemma evolves_forward:
  assumes "app.evolves w w'"
  shows "forward w w'"
proof -
  have e: "env_le (w_env w) (w_env w')" "later row_later (rows_of (w_rts w)) (rows_of (w_rts w'))"
    "later grant_later (grants_of (w_grants w)) (grants_of (w_grants w'))"
    "later user_later (users_of (w_users w)) (users_of (w_users w'))" using assms unfolding app.evolves_def by simp_all
  have "\<exists>t. rows_of (w_rts w') i = Some (x\<lparr>RT_RevokedAt := t\<rparr>) \<and> (RT_RevokedAt x \<noteq> None \<longrightarrow> t = RT_RevokedAt x)"
    if "rows_of (w_rts w) i = Some x" for i x
  proof -
    from e(2) that obtain y where "rows_of (w_rts w') i = Some y" "row_later x y" unfolding later_def by blast
    with row_laterE [OF this(2)] show ?thesis by blast
  qed
  moreover have "\<exists>g'. grants_of (w_grants w') i = Some g' \<and> G_ID g' = G_ID g \<and> G_UserID g' = G_UserID g
      \<and> G_ClientID g' = G_ClientID g \<and> (G_RevokedAt g \<noteq> None \<longrightarrow> G_RevokedAt g' = G_RevokedAt g)"
    if "grants_of (w_grants w) i = Some g" for i g
    using e(3) that unfolding later_def grant_later_def by blast
  moreover have "\<exists>u'. users_of (w_users w') i = Some u'" if "users_of (w_users w) i = Some u" for i u
    using e(4) that unfolding later_def by blast
  moreover have "clock (w_env w) \<le> clock (w_env w')" using e(1) by (simp add: env_le_def)
  ultimately show ?thesis unfolding forward_def by blast
qed

lemma runs_good:
  assumes "runs cfg em wc w w'" and "app.sys_inv cfg w" and "fresh_source (cfg_prims cfg)"
  shows "app.good cfg w w'"
  using assms
proof (induction rule: runs.induct)
  case (runs_refl w)
  then show ?case by (simp add: app.good_start)
next
  case (runs_serve w w1 rq rs w2)
  then show ?case using app.g_serve [of cfg em wc rq w1 rs w2 w] by simp
next
  case (runs_sweep w w1 t e)
  then have g: "app.good cfg w w1" by simp
  show ?case
    by (rule app.good_frame [OF g]) (use app.good_wok [OF g] now_le [OF runs_sweep(2)] in \<open>simp_all add: app.wok_def\<close>)
qed

lemma runs_inv:
  assumes "runs cfg em wc w w'" and "file_inv cfg w" and "fresh_source (cfg_prims cfg)"
  shows "file_inv cfg w'" and "forward w w'"
  using runs_good [OF assms(1) assms(2) [folded file_inv_sys] assms(3)] evolves_forward
  by (simp_all add: app.good_def file_inv_sys)

lemma reachable_inv:
  assumes "reachable cfg em wc w" and "fresh_source (cfg_prims cfg)"
  shows "file_inv cfg w"
  using assms runs_inv(1) [OF _ first_start_inv] by (auto simp: reachable_def)

end
