(* ===== verification/Sessions.thy ===== *)
theory Sessions
  imports System
begin

text \<open>
  The laws of the use cases as they read on the file-backed deployment: what a successful refresh,
  exchange or sign-in shows in a state that satisfies the invariant, and the families of its tokens.
\<close>

section \<open>The invariant\<close>

lemma inv_good: "file_inv cfg w \<Longrightarrow> app.good cfg w w"
  by (simp add: file_inv_sys app.good_start)

lemma inv_wok: "file_inv cfg w \<Longrightarrow> app.wok cfg w"
  by (simp add: file_inv_def file_ok_wok)

lemma inv_grant_nonempty:
  "file_inv cfg w \<Longrightarrow> fresh_source (cfg_prims cfg) \<Longrightarrow> rows_of (w_rts w) i = Some x \<Longrightarrow> RT_GrantID x \<noteq> []"
  using app.row_grant_nonempty [OF inv_good] by simp

lemma file_refresh_success:
  assumes run: "RefreshToken_Execute (buildAuthDeps cfg) c w = (Inr res, w')" and inv: "file_inv cfg w"
    and src: "fresh_source (cfg_prims cfg)"
  obtains client old new where "file_inv cfg w'" "AllowsGrant client GrantRefreshToken"
    "Authenticate (cfg_prims cfg) (ap_registry cfg) (refresh_credentials c) = Inr client"
    "app.rotated cfg c res client old new w w'"
proof -
  have src': "fresh_source (d_prims (buildAuthDeps cfg))" using src by simp
  have uu: "\<forall>n. p_uuid (d_prims (buildAuthDeps cfg)) n \<noteq> []" using src by (simp add: fresh_source_def)
  have "app.good cfg w w'" by (rule app.g_RefreshToken [OF run inv_good [OF inv] src'])
  then have "file_inv cfg w'" by (simp add: app.good_def file_inv_sys)
  with app.refresh_success [OF run inv_wok [OF inv] app.refresh_new_hash [OF run inv_good [OF inv] src'] uu] that
  show ?thesis by auto
qed

lemma inv_rows_unique:
  assumes "file_inv cfg w" and "rows_of (w_rts w) i = Some x" and "rows_of (w_rts w) j = Some y"
    and "RT_TokenHash x = RT_TokenHash y"
  shows "i = j"
proof -
  have ok: "rows_ok (w_rts w)" using assms(1) by (simp add: file_inv_def file_ok_def)
  from rows_ok_unique [OF ok, of "RT_TokenHash x" x y] rows_ok_id [OF ok assms(2)] rows_ok_id [OF ok assms(3)] assms(2-4)
  show ?thesis by (auto simp: row_at_def)
qed

lemma inv_family_ok:
  assumes inv: "file_inv cfg w"
  shows "family_ok (families (rows_of (w_rts w)))"
  unfolding family_ok_def
proof (intro conjI allI impI)
  let ?m = "rows_of (w_rts w)"
  note uniq = inv_rows_unique [OF inv]
  have one: "i = j" if "?m i = Some x" "?m j = Some y" "RT_RevokedAt x = None" "RT_RevokedAt y = None" "RT_GrantID x = RT_GrantID y"
    for i j x y using inv that unfolding file_inv_def one_live_per_grant_def by blast
  show "a = b" if "a \<in> live_hashes (families ?m) g" "b \<in> live_hashes (families ?m) g" for g a b
  proof -
    from that obtain i x j y where x: "?m i = Some x" "RT_GrantID x = g" "RT_RevokedAt x = None" "RT_TokenHash x = a"
      and y: "?m j = Some y" "RT_GrantID y = g" "RT_RevokedAt y = None" "RT_TokenHash y = b" unfolding live_families by blast
    have "i = j" using one x y by blast
    with x y show ?thesis by simp
  qed
  show "live_hashes (families ?m) g \<inter> spent_hashes (families ?m) j = {}" for g j
  proof (intro equals0I, elim IntE)
    fix h assume "h \<in> live_hashes (families ?m) g" "h \<in> spent_hashes (families ?m) j"
    then obtain i x k y where x: "?m i = Some x" "RT_RevokedAt x = None" "RT_TokenHash x = h"
      and y: "?m k = Some y" "RT_RevokedAt y \<noteq> None" "RT_TokenHash y = h" unfolding in_families by blast
    have "i = k" using uniq x y by blast
    with x y show False by simp
  qed
  show "g = j" if "h \<in> live_hashes (families ?m) g" "h \<in> live_hashes (families ?m) j" for g j h
  proof -
    from that obtain i x k y where x: "?m i = Some x" "RT_GrantID x = g" "RT_TokenHash x = h"
      and y: "?m k = Some y" "RT_GrantID y = j" "RT_TokenHash y = h" unfolding live_families by blast
    have "i = k" using uniq x y by blast
    with x y show ?thesis by simp
  qed
qed

lemma file_exchange_success:
  assumes run: "ExchangeCode_Execute (buildAuthDeps cfg) c w = (Inr res, w')" and inv: "file_inv cfg w"
    and src: "fresh_source (cfg_prims cfg)"
  obtains client ac g new where "file_inv cfg w'" "AllowsGrant client GrantAuthorizationCode"
    "Authenticate (cfg_prims cfg) (ap_registry cfg) (exchange_credentials c) = Inr client"
    "app.exchanged cfg c res client ac g new w w'"
proof -
  have src': "fresh_source (d_prims (buildAuthDeps cfg))" using src by simp
  have uu: "\<forall>n. p_uuid (d_prims (buildAuthDeps cfg)) n \<noteq> []" using src by (simp add: fresh_source_def)
  have "app.good cfg w w'" by (rule app.g_ExchangeCode [OF run inv_good [OF inv] src'])
  then have "file_inv cfg w'" by (simp add: app.good_def file_inv_sys)
  with app.exchange_success [OF run inv_wok [OF inv] app.exchange_new_hash [OF run inv_good [OF inv] src'] uu] that
  show ?thesis by auto
qed

text \<open>The in-memory cache drops a code whoever asks for it, whatever becomes of the request.\<close>

lemma consume_drops:
  "mem_live (w_cache (snd (consumeAuthCode (buildAuthDeps cfg) code w))) t (AuthCodeKey code) = None"
proof -
  obtain x w1 where k: "on_cache (k_GetAndDelete memory_ops (AuthCodeKey code) DCode) w = (x, w1)" by (metis surj_pair)
  have "mem_GetAndDelete (AuthCodeKey code) DCode (w_cache w) (w_env w) = (x, w_cache w1, w_env w1)"
    using on_cacheD [OF k] by (simp add: memory_ops_def)
  from mem_GetAndDelete_eq [OF this] have "mem_live (w_cache w1) t (AuthCodeKey code) = None" by blast
  moreover have "snd (consumeAuthCode (buildAuthDeps cfg) code w) = w1"
    using k by (auto simp: consumeAuthCode_def split: option.splits cval.splits)
  ultimately show ?thesis by simp
qed

text \<open>Exchanging a code of which one knows what it held at some earlier time.\<close>

lemma exchange_of:
  assumes run: "ExchangeCode_Execute (buildAuthDeps cfg) c w = (Inr res, w')" and inv: "file_inv cfg w"
    and src: "fresh_source (cfg_prims cfg)"
    and code: "mem_live (w_cache w) t (AuthCodeKey (ec_Code c)) = Some (CCode a)" and time: "t \<le> clock (w_env w)"
  shows "\<exists>client new. Authenticate (cfg_prims cfg) (ap_registry cfg) (exchange_credentials c) = Inr client
    \<and> AC_ClientID a = Some (C_ID client) \<and> AC_RedirectURI a = ec_RedirectURI c
    \<and> (\<forall>ch. AC_CodeChallenge a = Some ch \<longrightarrow> s256_challenge (cfg_prims cfg) (ec_CodeVerifier c) = ch)
    \<and> row_at (rows_of (w_rts w')) (Hash (cfg_prims cfg) (tr_RefreshToken res)) new
    \<and> RT_UserID new = AC_UserID a \<and> RT_ClientID new = C_ID client"
proof -
  from file_exchange_success [OF run inv src] obtain client ac g new where
    cl: "Authenticate (cfg_prims cfg) (ap_registry cfg) (exchange_credentials c) = Inr client"
    and E: "app.exchanged cfg c res client ac g new w w'" .
  note E' = E [unfolded app.exchanged_def buildAuthDeps_simps]
  from E' have "mem_live (w_cache w) (clock (w_env w)) (AuthCodeKey (ec_Code c)) = Some (CCode ac)" by simp
  from mem_live_expires [OF this time] code have "ac = a" by simp
  moreover have "row_at (rows_of (w_rts w')) (Hash (cfg_prims cfg) (tr_RefreshToken res)) new"
    using E' by (simp add: row_at_def)
  ultimately show ?thesis using cl E' by auto
qed

section \<open>The end of a session\<close>

text \<open>
  The session of grant \<open>g\<close> is over: the grant and its refresh tokens are revoked, its access tokens are
  denied for as long as any of them can live, and nothing of any other session changed.
\<close>

definition session_over :: "app_config \<Rightarrow> GrantID \<Rightarrow> file_world \<Rightarrow> file_world \<Rightarrow> bool" where
  "session_over cfg g w w' \<longleftrightarrow> file_ok cfg w' \<and> w_users w' = w_users w
     \<and> (\<forall>x. grants_of (w_grants w') g = Some x \<longrightarrow> G_RevokedAt x \<noteq> None)
     \<and> (\<forall>i x. rows_of (w_rts w') i = Some x \<longrightarrow> RT_GrantID x = g \<longrightarrow> RT_RevokedAt x \<noteq> None)
     \<and> (\<forall>t \<le> clock (w_env w) + MaxTokenExpirySecs * Second. mem_live (w_cache w') t (RevokedGrantKey g) = Some (CBool True))
     \<and> (\<forall>i x. rows_of (w_rts w') i = Some x \<longrightarrow> RT_GrantID x \<noteq> g \<longrightarrow> rows_of (w_rts w) i = Some x)
     \<and> (\<forall>j. j \<noteq> g \<longrightarrow> grants_of (w_grants w') j = grants_of (w_grants w) j)"

lemma session_over_app: "app.session_ended cfg g w w' \<Longrightarrow> session_over cfg g w w'"
  unfolding app.session_ended_def session_over_def app.family_dead_def file_ok_wok RevokedGrantMarkerTTL_def by blast

end
