(* ===== verification/Sample.thy ===== *)
theory Sample
  imports Sessions
begin

text \<open>
  A small concrete deployment with toy primitives, on which the witnesses evaluate the model: one
  public client, one user, one grant with one live and one rotated refresh token. The toy random source
  never repeats itself.
\<close>

definition sample_prims :: prims where
  "sample_prims =
     \<lparr>p_uuid = (\<lambda>n. CHR ''u'' # replicate n CHR ''x''), p_valid_uuid = (\<lambda>_. True),
      p_rand = (\<lambda>k n. if n = TokenBytes then CHR ''R'' # replicate k CHR ''x'' else replicate n CHR ''n''), p_sha256 = (\<lambda>s. s),
      p_bcrypt_Generate = (\<lambda>_ _ pw. Inr pw), p_bcrypt_Compare = (\<lambda>h pw. h = pw), p_bcrypt_Cost = (\<lambda>_. Some 12),
      p_IsUpper = (\<lambda>r. 65 \<le> r \<and> r \<le> 90), p_IsLower = (\<lambda>r. 97 \<le> r \<and> r \<le> 122), p_IsDigit = (\<lambda>r. 48 \<le> r \<and> r \<le> 57),
      p_IsPunctOrSymbol = (\<lambda>r. 33 \<le> r \<and> r \<le> 47), p_ToLower = (\<lambda>s. s),
      p_url_Parse = (\<lambda>s. Some \<lparr>u_Scheme = ''https'', u_Host = ''app'', u_Rest = s, u_RawQuery = [], u_Fragment = []\<rparr>),
      p_url_String = (\<lambda>u. u_Rest u @ ''?'' @ u_RawQuery u), p_ParseQuery = (\<lambda>_. []),
      p_QueryEncode = (\<lambda>q. concat (map (\<lambda>(k, v). k @ ''='' @ concat v @ ''&'') q))\<rparr>"

definition sample_aead :: aead where
  "sample_aead = \<lparr>NonceSize = 2, Seal = (\<lambda>_ s. s), Open = (\<lambda>_ s. Some s)\<rparr>"

definition sample_codec :: user_codec where
  "sample_codec = \<lparr>uc_prims = sample_prims,
     uc_crypto = \<lparr>cp_NewGCM = (\<lambda>_. sample_aead), cp_hmac_sha256 = (\<lambda>_ s. s)\<rparr>,
     uc_cipher = \<lparr>ci_aead = sample_aead, ci_blindIndexKey = ''k''\<rparr>\<rparr>"

definition sample_jwt :: jwt_service where
  "sample_jwt = \<lparr>j_lib = \<lparr>jl_Sign = (\<lambda>_ _. Inr ''jwt''), jl_Parse = (\<lambda>_ s _. if s = ''jwt'' then
       Inr [(''iss'', JStr ''https://iss''), (''sub'', JStr ''alice''), (''aud'', JStr ''APP_ID''), (''exp'', JNum 4500),
            (''iat'', JNum 3000), (''jti'', JStr ''j1''), (''scope'', JStr ''openid''), (''token_use'', JStr ''access''),
            (''sid'', JStr ''u'')]
       else Inl (ErrText ''bad token''))\<rparr>,
     j_prims = sample_prims,
     j_jwk = \<lparr>k_Kty = ''RSA'', k_E = ''AQAB'', k_N = ''n'', k_Alg = ''RS256'', k_Use = ''sig'', k_Kid = ''kid''\<rparr>,
     j_Issuer = ''https://iss'', j_kid = ''kid''\<rparr>"

definition sample_client :: client where
  "sample_client = \<lparr>C_ID = ''web'', C_TenantID = DefaultTenantID, C_AuthMethod = ClientAuthNone, C_SecretHash = None,
     C_RedirectURIs = [''cb?''], C_AllowedGrants = [GrantAuthorizationCode, GrantRefreshToken]\<rparr>"

definition sample_cfg :: app_config where
  "sample_cfg = \<lparr>ap_codec = sample_codec, ap_jwt = sample_jwt,
     ap_registry = NewConfigClientRegistry [sample_client], ap_send = (\<lambda>_ _ _. None),
     ap_PostLogoutRedirectAllowlist = [''https://app/bye''], ap_ScopeAllowlist = [''openid'']\<rparr>"

definition sample_user :: user where
  "sample_user = \<lparr>U_ID = ''alice'', U_TenantID = DefaultTenantID, U_Username = ''alice'', U_Nickname = ''al'',
     U_Password = ''Secret1!'', U_Email = ''a@b'', U_EmailVerified = True, U_PasswordResetTokenHash = None,
     U_PasswordResetExpiresAt = None, U_SessionsInvalidatedAt = None, U_FailedLoginAttempts = 0,
     U_LockedUntil = None, U_CreatedAt = 0, U_UpdatedAt = 0\<rparr>"

definition sample_grant :: grant where
  "sample_grant = \<lparr>G_ID = ''u'', G_UserID = ''alice'', G_ClientID = ''web'', G_DeviceID = [], G_AuthenticatedAt = 10,
     G_CreatedAt = 10, G_ExpiresAt = 40 * 24 * Hour, G_RevokedAt = None\<rparr>"

definition sample_rt :: "string \<Rightarrow> string \<Rightarrow> time option \<Rightarrow> refresh_token" where
  "sample_rt i raw revoked = \<lparr>RT_ID = i, RT_UserID = ''alice'', RT_ClientID = ''web'', RT_GrantID = ''u'',
     RT_TokenHash = Hash sample_prims raw, RT_Scope = Scope [''openid''], RT_DeviceID = [], RT_AuthenticatedAt = 10,
     RT_CreatedAt = 10, RT_ExpiresAt = 30 * 24 * Hour, RT_RevokedAt = revoked\<rparr>"

definition sample_env :: env where
  "sample_env = \<lparr>clock = Hour, ticks = [], uuid_ctr = 3, rand_ctr = 2, disk = []\<rparr>"

definition sample_world :: file_world where
  "sample_world = \<lparr>
     w_users = \<lparr>items = [(''alice'', sample_user)], indexedFields = Map.empty, store = []\<rparr>,
     w_rts = \<lparr>items = [(''ux'', sample_rt ''ux'' ''Ug'' (Some 20)), (''uxx'', sample_rt ''uxx'' ''Ung'' None)],
        indexedFields = Map.empty, store = []\<rparr>,
     w_grants = \<lparr>items = [(''u'', sample_grant)], indexedFields = Map.empty, store = []\<rparr>,
     w_cache = Map.empty, w_env = sample_env,
     w_failed_logins = 0, w_tokens_issued = 0, w_revocations = 0, w_mail = []\<rparr>"

lemmas sample_defs = sample_prims_def sample_codec_def sample_jwt_def sample_client_def sample_cfg_def
  sample_user_def sample_grant_def sample_rt_def sample_env_def sample_world_def sample_aead_def

lemma sample_hashes: "Hash sample_prims ''Ug'' \<noteq> Hash sample_prims ''Ung''"
  by code_simp

lemma sample_ok: "file_ok sample_cfg sample_world"
  unfolding file_ok_def sample_world_def users_ok_def
  by (auto intro!: fr_inv_opened simp: sample_cfg_def sample_grant_def sample_rt_def sample_user_def
      sample_hashes sample_hashes [symmetric])

definition sample_refresh :: "string \<Rightarrow> refresh_cmd" where
  "sample_refresh tok = \<lparr>rc_GrantType = ''refresh_token'', rc_ClientID = ''web'', rc_ClientSecret = [], rc_BasicClientID = [], rc_BasicClientSecret = [],
     rc_RefreshToken = tok, rc_ExpireSecs = None\<rparr>"

definition sample_refreshed :: token_response where
  "sample_refreshed = \<lparr>tr_Scope = ''openid'', tr_TokenType = ''Bearer'', tr_AccessToken = ''jwt'', tr_IDToken = ''jwt'',
     tr_RefreshToken = ''Unh4'', tr_ExpiresIn = 900\<rparr>"

lemma sample_refresh_runs:
  obtains w' where "RefreshToken_Execute (buildAuthDeps sample_cfg) (sample_refresh ''Ung'') sample_world
      = (Inr sample_refreshed, w')"
proof -
  have "fst (RefreshToken_Execute (buildAuthDeps sample_cfg) (sample_refresh ''Ung'') sample_world) = Inr sample_refreshed"
    by code_simp
  with that show ?thesis by (metis prod.collapse)
qed

lemma sample_refreshed_hash:
  "Hash sample_prims ''Ug'' \<noteq> Hash sample_prims (tr_RefreshToken sample_refreshed)"
  "Hash sample_prims ''Ung'' \<noteq> Hash sample_prims (tr_RefreshToken sample_refreshed)"
  by code_simp+

lemma sample_codec_prims: "uc_prims (ap_codec sample_cfg) = sample_prims"
  by (simp add: sample_cfg_def sample_codec_def)

lemma sample_refreshed_fresh:
  "\<forall>i x. rows_of (w_rts sample_world) i = Some x \<longrightarrow>
     RT_TokenHash x \<noteq> Hash (uc_prims (ap_codec sample_cfg)) (tr_RefreshToken sample_refreshed)"
  using sample_refreshed_hash by (auto simp: sample_world_def sample_rt_def sample_codec_prims split: if_splits)

lemma sample_uuid: "\<forall>n. p_uuid (uc_prims (ap_codec sample_cfg)) n \<noteq> []"
  by (simp add: sample_codec_prims sample_prims_def)

lemma replicate_inj: "inj (\<lambda>n. c # replicate n d)"
  by (rule injI) (simp add: replicate_eq_replicate)

lemma sample_fresh_source: "fresh_source (uc_prims (ap_codec sample_cfg))"
proof -
  have "inj (\<lambda>k. hex_EncodeToString (RawURLEncoding_EncodeToString (CHR ''R'' # replicate k CHR ''x'')))"
    by (rule injI) (auto dest!: hex_inj RawURLEncoding_inj)
  moreover have "inj (\<lambda>n. CHR ''u'' # replicate n CHR ''x'')" by (rule replicate_inj)
  ultimately show ?thesis
    by (simp add: fresh_source_def token_hash_def [abs_def] Hash_def sample_codec_prims sample_prims_def)
qed

lemma sample_inv: "file_inv sample_cfg sample_world"
  unfolding file_inv_def
proof (intro conjI)
  show "file_ok sample_cfg sample_world" by (rule sample_ok)
  show "one_live_per_grant (rows_of (w_rts sample_world))"
    by (auto simp: one_live_per_grant_def sample_world_def sample_rt_def split: if_splits)
  have "row_provenance sample_cfg sample_world (sample_rt ''ux'' ''Ug'' (Some 20))"
    "row_provenance sample_cfg sample_world (sample_rt ''uxx'' ''Ung'' None)" by code_simp+
  then show "\<forall>i x. rows_of (w_rts sample_world) i = Some x \<longrightarrow> row_provenance sample_cfg sample_world x"
    by (auto simp: sample_world_def split: if_splits)
  have "\<exists>n < uuid_ctr (w_env sample_world). ''u'' = p_uuid (cfg_prims sample_cfg) n" by code_simp
  then show "\<forall>i g. grants_of (w_grants sample_world) i = Some g \<longrightarrow>
      (\<exists>n < uuid_ctr (w_env sample_world). i = p_uuid (cfg_prims sample_cfg) n)"
    by (auto simp: sample_world_def split: if_splits)
  show "\<forall>i u h. users_of (w_users sample_world) i = Some u \<longrightarrow> U_PasswordResetTokenHash u = Some h \<longrightarrow>
      (\<exists>k < rand_ctr (w_env sample_world). h = token_hash (cfg_prims sample_cfg) k)"
    by (auto simp: sample_world_def sample_user_def split: if_splits)
qed

lemma sample_row_grant:
  "row_at (rows_of (w_rts sample_world)) h x \<Longrightarrow> RT_GrantID x = ''u''"
  by (auto simp: row_at_def sample_world_def sample_rt_def split: if_splits)

lemma sample_disk: "disk (w_env sample_world) = []"
  by (simp add: sample_world_def sample_env_def)

lemma sample_auth:
  "Authenticate (uc_prims (ap_codec sample_cfg)) (ap_registry sample_cfg) (refresh_credentials (sample_refresh tok))
     = Inr sample_client"
  by (simp add: Authenticate_def resolveCredentialChannel_def sample_refresh_def sample_cfg_def
      NewConfigClientRegistry_def registry_FindByID_def sample_client_def)

lemma sample_allows: "AllowsGrant sample_client GrantRefreshToken"
  by (simp add: AllowsGrant_def sample_client_def)

lemma sample_old_row:
  "row_at (rows_of (w_rts sample_world)) (Hash (uc_prims (ap_codec sample_cfg)) (rc_RefreshToken (sample_refresh ''Ug'')))
     (sample_rt ''ux'' ''Ug'' (Some 20))"
  by (simp add: row_at_def sample_world_def sample_rt_def sample_codec_prims sample_refresh_def)

lemma sample_old_dead: "RT_RevokedAt (sample_rt ''ux'' ''Ug'' (Some 20)) \<noteq> None"
  by (simp add: sample_rt_def)

lemma sample_old_grant: "RT_GrantID (sample_rt ''ux'' ''Ug'' (Some 20)) \<noteq> []"
  by (simp add: sample_rt_def)

text \<open>A web configuration without CORS and rate limit, and a request without parameters.\<close>

definition sample_web :: web_config where
  "sample_web = \<lparr>wc_CookieSecure = True, wc_RateLimitPerMin = 0, wc_RateLimitWindow = Minute, wc_cors = (\<lambda>_. ([], None))\<rparr>"

definition sample_rq :: "string \<Rightarrow> string \<Rightarrow> http_request" where
  "sample_rq m path = \<lparr>hr_method = m, hr_path = path, hr_remote_ip = ''10.0.0.1'', hr_request_id = ''q1'', hr_authorization = [],
     hr_basic = None, hr_form_grant_type = [], hr_json_grant_type = None, hr_bind_error = None, hr_bound = (\<lambda>_. None),
     hr_int = (\<lambda>_. None), hr_cookie = (\<lambda>_. None)\<rparr>"

text \<open>The sample deployment with an authorization code and a sign-in session in its cache.\<close>

definition sample_code :: auth_code where
  "sample_code = \<lparr>AC_Code = ''cd'', AC_UserID = ''alice'', AC_ClientID = Some ''web'', AC_RedirectURI = ''cb?'', AC_Scope = Scope [''openid''],
     AC_Nonce = None, AC_CodeChallenge = Some ''dg'', AC_CodeChallengeMethod = None,
     AC_ExpiresAt = 2 * Hour\<rparr>"

definition sample_session :: authorize_request where
  "sample_session = \<lparr>AR_ID = ''s1'', AR_CreatedAt = 1, AR_CSRFToken = ''csrf'', AR_ClientID = ''web'', AR_RedirectURI = ''cb?'',
     AR_Scope = Scope [''openid''], AR_State = Some ''st'', AR_Nonce = None, AR_CodeChallenge = None, AR_CodeChallengeMethod = None,
     AR_FailedAttempts = 1\<rparr>"

definition sample_cached :: file_world where
  "sample_cached = sample_world\<lparr>w_cache := [AuthCodeKey ''cd'' \<mapsto> \<lparr>ci_value = CCode sample_code, ci_expiresAt = Some (2 * Hour)\<rparr>,
     AuthorizeRequestKey ''s1'' \<mapsto> \<lparr>ci_value = CSession sample_session, ci_expiresAt = Some (2 * Hour)\<rparr>]\<rparr>"

definition sample_exchange :: exchange_cmd where
  "sample_exchange = \<lparr>ec_Code = ''cd'', ec_ClientID = ''web'', ec_ClientSecret = [], ec_BasicClientID = [], ec_BasicClientSecret = [],
     ec_RedirectURI = ''cb?'', ec_ExpireSecs = None, ec_CodeVerifier = ''v''\<rparr>"

definition sample_signin :: "string \<Rightarrow> auth_code_cmd" where
  "sample_signin pw = \<lparr>cac_Email = ''a@b'', cac_Password = pw, cac_CSRFToken = ''csrf'', cac_SessionID = ''s1''\<rparr>"

lemma file_inv_cache: "file_inv cfg (w\<lparr>w_cache := c\<rparr>) = file_inv cfg w"
  by (simp add: file_inv_def file_ok_def row_provenance_def)

lemma sample_cached_inv: "file_inv sample_cfg sample_cached"
  by (simp add: sample_cached_def file_inv_cache sample_inv)

lemma sample_exchange_auth:
  "Authenticate (cfg_prims sample_cfg) (ap_registry sample_cfg) (exchange_credentials sample_exchange) = Inr sample_client"
  by (simp add: Authenticate_def resolveCredentialChannel_def sample_exchange_def sample_cfg_def
      NewConfigClientRegistry_def registry_FindByID_def sample_client_def)

lemma sample_exchange_allowed: "AllowsGrant sample_client GrantAuthorizationCode"
  by (simp add: AllowsGrant_def sample_client_def)

lemma run_result:
  assumes "fst (f w) = r"
  obtains w' where "f w = (r, w')"
  using assms by (metis prod.collapse)

text \<open>The steps that read the cache, done by hand; the rest of a request evaluates.\<close>

lemma sample_code_ok:
  "scope_UnmarshalJSON (scope_MarshalJSON (AC_Scope sample_code)) = Inr (AC_Scope sample_code)" "auth_code_Validate sample_code = None"
  by (rule scope_json_round_trip, code_simp) code_simp

lemma sample_session_ok:
  "scope_UnmarshalJSON (scope_MarshalJSON (AR_Scope sample_session)) = Inr (AR_Scope sample_session)"
  "authorize_request_Validate sample_prims sample_session = None"
  by (rule scope_json_round_trip, code_simp) code_simp

lemmas sample_cache_simps = on_cache_def memory_ops_def mem_GetAndDelete_def now_def sample_cached_def sample_world_def sample_env_def
  cache_keys_disjoint cache_keys_disjoint [symmetric] Let_def

lemma sample_consume:
  "consumeAuthCode (buildAuthDeps sample_cfg) ''cd'' sample_cached =
     (Inr sample_code, sample_cached\<lparr>w_cache := (w_cache sample_cached)(AuthCodeKey ''cd'' := None)\<rparr>)"
  by (simp add: consumeAuthCode_def sample_cache_simps sample_code_ok)

lemma sample_take_session:
  "on_cache (k_GetAndDelete memory_ops (AuthorizeRequestKey ''s1'') DSession) sample_cached =
     (Some (CSession sample_session), sample_cached\<lparr>w_cache := (w_cache sample_cached)(AuthorizeRequestKey ''s1'' := None)\<rparr>)"
  by (simp add: sample_cache_simps sample_session_ok)

lemma sample_exchange_runs:
  obtains res w' where "ExchangeCode_Execute (buildAuthDeps sample_cfg) sample_exchange sample_cached = (Inr res, w')"
proof -
  have c: "ec_Code sample_exchange = ''cd''" by (simp add: sample_exchange_def)
  have "\<not> isl (fst (ExchangeCode_Execute (buildAuthDeps sample_cfg) sample_exchange sample_cached))"
    unfolding ExchangeCode_Execute_def buildAuthDeps_simps sample_exchange_auth sum.case c sample_consume prod.case by code_simp
  with that show ?thesis by (metis isl_def prod.collapse sum.collapse(2))
qed

lemma sample_signin_runs:
  obtains uri w' where "CreateAuthCode_Execute (buildAuthDeps sample_cfg) (sample_signin ''Secret1!'') sample_cached = (Inr uri, w')"
proof -
  have c: "cac_SessionID (sample_signin pw) = ''s1''" for pw by (simp add: sample_signin_def)
  have "\<not> isl (fst (CreateAuthCode_Execute (buildAuthDeps sample_cfg) (sample_signin ''Secret1!'') sample_cached))"
    unfolding CreateAuthCode_Execute_def buildAuthDeps_simps c sample_take_session prod.case option.case cval.case by code_simp
  with that show ?thesis by (metis isl_def prod.collapse sum.collapse(2))
qed

text \<open>The sample deployment with another state of its one account.\<close>

definition with_user :: "user \<Rightarrow> file_world \<Rightarrow> file_world" where
  "with_user u w = w\<lparr>w_users := \<lparr>items = [(''alice'', u)], indexedFields = Map.empty, store = []\<rparr>\<rparr>"

lemma file_inv_users:
  assumes "file_inv cfg w" and "users_ok (ap_codec cfg) us" and "\<forall>i. users_of (w_users w) i \<noteq> None \<longrightarrow> users_of us i \<noteq> None"
    and "\<forall>i u h. users_of us i = Some u \<longrightarrow> U_PasswordResetTokenHash u = Some h \<longrightarrow> (\<exists>k < rand_ctr (w_env w). h = token_hash (cfg_prims cfg) k)"
  shows "file_inv cfg (w\<lparr>w_users := us\<rparr>)"
  using assms unfolding file_inv_def file_ok_def row_provenance_def by simp

lemma with_user_inv:
  assumes "file_inv sample_cfg w" and "w_users w = w_users sample_world" and "U_ID u = ''alice''" and "U_TenantID u = DefaultTenantID"
    and "\<forall>h. U_PasswordResetTokenHash u = Some h \<longrightarrow> (\<exists>k < rand_ctr (w_env w). h = token_hash sample_prims k)"
  shows "file_inv sample_cfg (with_user u w)"
  unfolding with_user_def
proof (rule file_inv_users [OF assms(1)])
  show "users_ok (ap_codec sample_cfg) \<lparr>items = [(''alice'', u)], indexedFields = Map.empty, store = []\<rparr>"
    unfolding users_ok_def by (auto intro!: fr_inv_opened simp: assms)
qed (use assms in \<open>auto simp: sample_world_def sample_codec_prims split: if_splits\<close>)

lemma with_user_of: "users_of (w_users (with_user u w)) ''alice'' = Some u"
  by (simp add: with_user_def)

end
