(* ===== verification/Flow_Sample.thy ===== *)
theory Flow_Sample
  imports Sample
begin

text \<open>
  Concrete requests of the authorization-code flow on the deployment of \<open>Sample\<close>: one the authorization endpoint refuses,
  one that starts a session, and the sign-in that follows it.
\<close>

definition sample_authorize :: authorize_query where
  "sample_authorize = \<lparr>aq_ResponseType = ''token'', aq_ClientID = ''web'', aq_RedirectURI = ''cb'', aq_Scope = ''openid'',
     aq_State = Some ''st'', aq_Nonce = None, aq_CodeChallenge = None, aq_CodeChallengeMethod = None\<rparr>"

definition flow_query :: authorize_query where
  "flow_query = \<lparr>aq_ResponseType = ''code'', aq_ClientID = ''web'', aq_RedirectURI = ''cb'', aq_Scope = ''openid'',
     aq_State = None, aq_Nonce = None, aq_CodeChallenge = Some (replicate 43 CHR ''c''), aq_CodeChallengeMethod = Some ''S256''\<rparr>"

definition flow_session :: authorize_request where
  "flow_session = \<lparr>AR_ID = ''uxxx'', AR_CreatedAt = Hour, AR_CSRFToken = ''Unh4'', AR_ClientID = ''web'', AR_RedirectURI = ''cb'',
     AR_Scope = Scope [''openid''], AR_State = None, AR_Nonce = None, AR_CodeChallenge = Some (replicate 43 CHR ''c''),
     AR_CodeChallengeMethod = Some ''S256'', AR_FailedAttempts = 0\<rparr>"

definition flow_world :: file_world where
  "flow_world = sample_world\<lparr>w_cache := [AuthorizeRequestKey ''uxxx'' \<mapsto>
     \<lparr>ci_value = CSession flow_session, ci_expiresAt = Some (Hour + AuthorizeRequestTTL)\<rparr>],
     w_env := sample_env\<lparr>uuid_ctr := 4, rand_ctr := 3\<rparr>\<rparr>"

lemma flow_session_ok:
  "scope_UnmarshalJSON (scope_MarshalJSON (AR_Scope flow_session)) = Inr (AR_Scope flow_session)"
  by (rule scope_json_round_trip) code_simp

lemma flow_valid: "authorize_request_Validate sample_prims flow_session = None" by code_simp

lemma flow_scope: "NewScope (Fields ''openid'') = Inr (Scope [''openid''])"
proof -
  have "scope_ok (Scope [''openid''])" "scope_String (Scope [''openid'']) = ''openid''" by code_simp+
  then show ?thesis using scope_round_trip by metis
qed

lemma flow_draws: "RawURLEncoding_EncodeToString (p_rand sample_prims 2 TokenBytes) = ''Unh4''" "p_uuid sample_prims 3 = ''uxxx''"
  by code_simp+

lemma flow_new: "NewAuthorizeRequest sample_prims
   \<lparr>ARA_ClientID = ''web'', ARA_RedirectURI = ''cb'', ARA_Scope = ''openid'', ARA_State = None, ARA_Nonce = None,
    ARA_CodeChallenge = Some (replicate 43 CHR ''c''), ARA_CodeChallengeMethod = Some ''S256''\<rparr> sample_env
   = (Inr flow_session, sample_env\<lparr>uuid_ctr := 4, rand_ctr := 3\<rparr>)"
  using flow_valid
  by (simp add: NewAuthorizeRequest_def flow_scope random_Token_Inr NewSessionID_def uuid_NewString_def now_def sample_env_def
      flow_draws NewClientID_def flow_session_def)

lemma flow_checks: "registry_FindByID (ap_registry sample_cfg) DefaultTenantID ''web'' = Inr (Some sample_client)"
  "AllowsRedirectURI sample_prims sample_client ''cb''"
  by code_simp+

lemma flow_protocol: "protocolError flow_query sample_client = []"
  by (simp add: protocolError_def flow_query_def flow_scope validPKCE_def tooLong_def client_IsPublic_def sample_client_def
     codeChallengeLength_def scope_Contains_def)

lemma flow_authorize: "GetAuthorize_Execute (buildAuthDeps sample_cfg) flow_query sample_world = (Inr (GetAuthorizeResponse ''uxxx''), flow_world)"
proof -
  have e: "w_env sample_world = sample_env" by (simp add: sample_world_def)
  have i: "AR_ID flow_session = ''uxxx''" by (simp add: flow_session_def)
  have q: "aq_ClientID flow_query = ''web''" "aq_RedirectURI flow_query = ''cb''" "aq_Scope flow_query = ''openid''"
    "aq_State flow_query = None" "aq_Nonce flow_query = None" "aq_CodeChallenge flow_query = Some (replicate 43 CHR ''c'')"
    "aq_CodeChallengeMethod flow_query = Some ''S256''" by (simp_all add: flow_query_def)
  show ?thesis
    unfolding GetAuthorize_Execute_def buildAuthDeps_simps q flow_checks sample_codec_prims on_env_def e flow_protocol Let_def flow_new
    by (simp add: flow_checks flow_new flow_protocol i on_cache_def memory_ops_def mem_Set_def now_def flow_world_def sample_env_def sample_world_def
        AuthorizeRequestTTL_def)
qed

lemma flow_take:
  "on_cache (k_GetAndDelete memory_ops (AuthorizeRequestKey ''uxxx'') DSession) flow_world =
     (Some (CSession flow_session), flow_world\<lparr>w_cache := (w_cache flow_world)(AuthorizeRequestKey ''uxxx'' := None)\<rparr>)"
  by (simp add: on_cache_def memory_ops_def mem_GetAndDelete_def now_def sample_env_def Let_def flow_world_def sample_world_def flow_session_ok AuthorizeRequestTTL_def)

definition flow_signin :: auth_code_cmd where
  "flow_signin = \<lparr>cac_Email = ''a@b'', cac_Password = ''Secret1!'', cac_CSRFToken = ''Unh4'', cac_SessionID = ''uxxx''\<rparr>"

lemma flow_signin_runs:
  obtains uri w' where "CreateAuthCode_Execute (buildAuthDeps sample_cfg) flow_signin flow_world = (Inr uri, w')"
proof -
  have c: "cac_SessionID flow_signin = ''uxxx''" by (simp add: flow_signin_def)
  have "\<not> isl (fst (CreateAuthCode_Execute (buildAuthDeps sample_cfg) flow_signin flow_world))"
    unfolding CreateAuthCode_Execute_def buildAuthDeps_simps c flow_take prod.case option.case cval.case sample_codec_prims flow_valid
    by code_simp
  with that show ?thesis by (metis isl_def prod.collapse sum.collapse(2))
qed

end
