(* ===== verification/Access_Guarantees.thy ===== *)
theory Access_Guarantees
  imports Flow_Sample
begin

text \<open>
  What ends a session and who honours it: token revocation, logout, the bearer middleware and introspection, on the
  file-backed deployment.
\<close>

section \<open>Revocation\<close>







section \<open>Logout\<close>

text \<open>
  C17. Logging out with an access token that carries a grant ends that session, on working storage; and until it expires the token
  itself is on the blacklist. Nothing of any other session changes.
\<close>

theorem logout_ends:
  assumes "lc_AccessToken c = Some tok" and "jwt_ParseJWT (ap_jwt cfg\<lparr>j_prims := cfg_prims cfg\<rparr>) tok (w_env w) = (Inr cl, e1)"
    and "cl_GrantID cl \<noteq> []" and "file_inv cfg w" and "disk (w_env w) = []"
  shows "\<exists>uri w'. Logout_Execute (buildAuthDeps cfg) c w = (uri, w') \<and> session_over cfg (cl_GrantID cl) w w'
    \<and> (\<forall>x. cl_ID cl \<noteq> [] \<longrightarrow> cl_ExpiresAt cl = Some x \<longrightarrow> fst (now e1) \<le> x \<longrightarrow>
         (\<forall>t \<le> x. mem_live (w_cache w') t (BlacklistKey (cl_ID cl)) = Some (CBool True)))"
proof -
  have "ts_ParseJWT (d_tokens (buildAuthDeps cfg)) tok (w_env w) = (Inr cl, e1)" using assms(2) by (simp add: jwt_adapter_def)
  from app.logout_ends_session [OF assms(1) this assms(3) inv_wok [OF assms(4)] assms(5)]
  show ?thesis using session_over_app by blast
qed

definition sample_logout :: "string option \<Rightarrow> string option \<Rightarrow> logout_cmd" where
  "sample_logout tok uri = \<lparr>lc_AccessToken = tok, lc_PostLogoutRedirectURI = uri\<rparr>"

definition sample_claims :: claims where
  "sample_claims = \<lparr>cl_Subject = ''alice'', cl_Scope = ''openid'', cl_Issuer = ''https://iss'', cl_Audience = [''APP_ID''],
     cl_ID = ''j1'', cl_ExpiresAt = Some (4500 * Second), cl_IssuedAt = Some (3000 * Second), cl_GrantID = ''u''\<rparr>"

lemma sample_parse: "jwt_ParseJWT (ap_jwt sample_cfg\<lparr>j_prims := cfg_prims sample_cfg\<rparr>) ''jwt'' sample_env = (Inr sample_claims, sample_env)"
  by code_simp

theorem logout_ends_witness:
  "\<exists>uri w'. Logout_Execute (buildAuthDeps sample_cfg) (sample_logout (Some ''jwt'') None) sample_world = (uri, w')
     \<and> session_over sample_cfg ''u'' sample_world w' \<and> mem_live (w_cache w') (4000 * Second) (BlacklistKey ''j1'') = Some (CBool True)"
proof -
  let ?c = "sample_logout (Some ''jwt'') None"
  have c: "lc_AccessToken ?c = Some ''jwt''" by (simp add: sample_logout_def)
  have e: "w_env sample_world = sample_env" by (simp add: sample_world_def)
  have cl: "cl_GrantID sample_claims = ''u''" "cl_ID sample_claims = ''j1''" "cl_ExpiresAt sample_claims = Some (4500 * Second)"
    by (simp_all add: sample_claims_def)
  have t: "fst (now sample_env) \<le> 4500 * Second" "(4000 :: int) * Second \<le> 4500 * Second" by (simp_all add: now_def sample_env_def)
  obtain uri w' where "Logout_Execute (buildAuthDeps sample_cfg) ?c sample_world = (uri, w')" "session_over sample_cfg ''u'' sample_world w'"
    "\<forall>t \<le> 4500 * Second. mem_live (w_cache w') t (BlacklistKey ''j1'') = Some (CBool True)"
    using logout_ends [OF c sample_parse [folded e] _ sample_inv sample_disk] t(1) unfolding cl e by auto
  with t(2) show ?thesis by blast
qed

text \<open>
  C18. Logout is safe to call by anybody: without a token that parses it changes no user, token, grant or marker, and it sends the
  browser only to an address on the allow list, or nowhere.
\<close>

theorem logout_harmless:
  assumes "Logout_Execute (buildAuthDeps cfg) c w = (uri, w')"
  shows "(uri = [] \<or> uri \<in> set (ap_PostLogoutRedirectAllowlist cfg) \<and> lc_PostLogoutRedirectURI c = Some uri)
    \<and> ((\<forall>tok. lc_AccessToken c = Some tok \<longrightarrow> isl (fst (jwt_ParseJWT (ap_jwt cfg\<lparr>j_prims := cfg_prims cfg\<rparr>) tok (w_env w)))) \<longrightarrow>
         w_users w' = w_users w \<and> w_rts w' = w_rts w \<and> w_grants w' = w_grants w \<and> w_cache w' = w_cache w)"
proof (intro conjI impI)
  show "uri = [] \<or> uri \<in> set (ap_PostLogoutRedirectAllowlist cfg) \<and> lc_PostLogoutRedirectURI c = Some uri"
    using assms by (auto simp: Logout_Execute_def Let_def split: option.splits if_splits)
  assume none: "\<forall>tok. lc_AccessToken c = Some tok \<longrightarrow> isl (fst (jwt_ParseJWT (ap_jwt cfg\<lparr>j_prims := cfg_prims cfg\<rparr>) tok (w_env w)))"
  have "ts_ParseJWT (d_tokens (buildAuthDeps cfg)) tok (w_env w) \<noteq> (Inr cl, e)" if "lc_AccessToken c = Some tok" for tok cl e
    using none that by (auto simp: jwt_adapter_def)
  from app.logout_unauthenticated [OF assms this]
  show "w_users w' = w_users w" "w_rts w' = w_rts w" "w_grants w' = w_grants w" "w_cache w' = w_cache w" by blast+
qed

theorem logout_harmless_witness:
  "w_rts (snd (Logout_Execute (buildAuthDeps sample_cfg) (sample_logout (Some ''junk'') (Some ''https://evil'')) sample_world)) = w_rts sample_world
   \<and> fst (Logout_Execute (buildAuthDeps sample_cfg) (sample_logout (Some ''junk'') (Some ''https://evil'')) sample_world) = []"
proof -
  let ?c = "sample_logout (Some ''junk'') (Some ''https://evil'')"
  obtain uri w' where run: "Logout_Execute (buildAuthDeps sample_cfg) ?c sample_world = (uri, w')" by (metis surj_pair)
  have "isl (fst (jwt_ParseJWT (ap_jwt sample_cfg\<lparr>j_prims := cfg_prims sample_cfg\<rparr>) ''junk'' (w_env sample_world)))" by code_simp
  moreover have "ap_PostLogoutRedirectAllowlist sample_cfg = [''https://app/bye'']" by (simp add: sample_cfg_def)
  ultimately show ?thesis using logout_harmless [OF run] run by (auto simp: sample_logout_def)
qed

section \<open>Verification\<close>

text \<open>
  C19. A denied access token is honoured nowhere while its denial lasts: if it is blacklisted, or its grant is marked as revoked, or its user's
  sessions were invalidated no earlier than the second in which it was issued, then the bearer middleware answers 401, the optional middleware
  treats the request as anonymous, and introspection never reports the token as active.
\<close>

theorem denied_token_refused:
  assumes "extractBearerToken header = Some tok" and "jwt_ParseJWT (ap_jwt cfg\<lparr>j_prims := cfg_prims cfg\<rparr>) tok (w_env w) = (Inr cl, e1)"
    and "cl_ID cl \<noteq> []"
    and "(\<forall>t \<le> until. mem_live (w_cache w) t (BlacklistKey (cl_ID cl)) = Some (CBool True))
      \<or> cl_GrantID cl \<noteq> [] \<and> (\<forall>t \<le> until. mem_live (w_cache w) t (RevokedGrantKey (cl_GrantID cl)) = Some (CBool True))
      \<or> (\<exists>ia n. cl_IssuedAt cl = Some ia \<and> unix ia \<le> n
           \<and> (\<forall>t \<le> until. mem_live (w_cache w) t (SessionsInvalidatedKey (cl_Subject cl)) = Some (CInt n)))"
    and "clock (w_env (snd (verifyBearer (buildAuthDeps cfg) header w))) \<le> until"
  shows "(\<exists>w'. mw_Authenticate (buildAuthDeps cfg) header w = (Inl (New Unauthorized 401 ''invalid token''), w'))
    \<and> fst (mw_AuthenticateOptional (buildAuthDeps cfg) header w) = None
    \<and> (\<forall>q res w'. iq_Token q = tok \<longrightarrow> IntrospectToken_Execute (buildAuthDeps cfg) q w = (Inr res, w') \<longrightarrow> res = inactive_response)"
proof -
  let ?D = "buildAuthDeps cfg"
  have p: "on_env (ts_ParseJWT (d_tokens ?D) tok) w = (Inr cl, w\<lparr>w_env := e1\<rparr>)"
    using assms(2) by (simp add: on_env_def jwt_adapter_def)
  obtain r w2 where v: "IsRevoked ?D cl (w\<lparr>w_env := e1\<rparr>) = (r, w2)" by (metis surj_pair)
  have "snd (verifyBearer ?D header w) = w2"
    using assms(1,3) p v by (cases r) (simp_all add: verifyBearer_def)
  then have time: "clock (w_env w2) \<le> until" using assms(5) by simp
  have r: "r \<noteq> Inr False"
    using assms(4) app.blacklisted_refused [OF v _ time] app.revoked_grant_refused [OF v _ _ time] app.invalidated_session_refused [OF v _ _ _ time]
    by auto
  have none: "fst (verifyBearer ?D header w) = None"
    using assms(1,3) p v r by (cases r) (simp_all add: verifyBearer_def)
  then obtain w' where vb: "verifyBearer ?D header w = (None, w')" by (metis prod.collapse)
  have "res = inactive_response" if "iq_Token q = tok" "IntrospectToken_Execute ?D q w = (Inr res, w')" for q res w'
    using that p v r introspect_active_IsRevoked [OF assms(3), of ?D "w\<lparr>w_env := e1\<rparr>"]
    by (auto simp: IntrospectToken_Execute_def split: option.splits)
  with vb show ?thesis by (simp add: mw_Authenticate_def mw_AuthenticateOptional_def)
qed

lemma sample_header: "extractBearerToken ''Bearer jwt'' = Some ''jwt''"
proof -
  have "TrimSpace ''jwt'' = ''jwt''" by (rule TrimSpace_visible) (simp_all add: IsSpace_def)
  moreover have "map ascii_lower (take 7 ''Bearer jwt'') = ''bearer ''" by code_simp
  ultimately show ?thesis by (simp add: extractBearerToken_def Let_def)
qed

lemma GetErr_still:
  "on_cache (k_GetErr memory_ops k d) v = (r, w2) \<Longrightarrow> ticks (w_env v) = [] \<Longrightarrow> w_env w2 = w_env v"
  by (auto simp: on_cache_def memory_ops_def mem_GetErr_def getLiveItem_def now_def Let_def split: option.split_asm sum.split_asm if_split_asm)

lemma IsRevoked_still:
  assumes "IsRevoked (buildAuthDeps cfg) cl w = (r, w')" and "ticks (w_env w) = []"
  shows "w_env w' = w_env w"
proof -
  let ?D = "buildAuthDeps cfg"
  have s: "w_env w2 = w_env v" if "sessions_check ?D cl v = (x, w2)" "ticks (w_env v) = []" for v x w2
    using that by (auto simp: sessions_check_def split: option.split_asm prod.split_asm sum.split_asm cval.split_asm dest!: GetErr_still)
  have g: "w_env w2 = w_env v" if "grant_check ?D cl v = (x, w2)" "ticks (w_env v) = []" for v x w2
    using that by (auto simp: grant_check_def split: prod.split_asm sum.split_asm if_split_asm dest!: GetErr_still)
  obtain f w1 where a: "on_cache (k_GetErr (d_cache ?D) (BlacklistKey (cl_ID cl)) DNil) w = (f, w1)" by (metis surj_pair)
  obtain h w2 where b: "grant_check ?D cl w1 = (h, w2)" by (metis surj_pair)
  have e: "w_env w1 = w_env w" using GetErr_still [OF a [unfolded buildAuthDeps_simps] assms(2)] .
  with g [OF b] assms(2) have "w_env w2 = w_env w" by simp
  with assms(1) e s [of w2] assms(2) show ?thesis
    unfolding IsRevoked_def a by (auto simp: b split: sum.split_asm if_split_asm)
qed

lemma verifyBearer_still:
  assumes "ticks (w_env w) = []"
  shows "w_env (snd (verifyBearer (buildAuthDeps cfg) header w)) = w_env w"
proof -
  have "w_env w1 = w_env w" if "on_env (ts_ParseJWT (d_tokens (buildAuthDeps cfg)) tok) w = (x, w1)" for tok x w1
    using that assms by (auto simp: on_env_def jwt_adapter_def jwt_ParseJWT_def now_def)
  with assms IsRevoked_still show ?thesis
    by (force simp: verifyBearer_def split: option.split prod.split sum.split)
qed

theorem denied_token_refused_witness:
  "fst (mw_AuthenticateOptional (buildAuthDeps sample_cfg) ''Bearer jwt''
     (sample_world\<lparr>w_cache := [RevokedGrantKey ''u'' \<mapsto> \<lparr>ci_value = CBool True, ci_expiresAt = Some (3 * Hour)\<rparr>]\<rparr>)) = None"
proof -
  let ?w = "sample_world\<lparr>w_cache := [RevokedGrantKey ''u'' \<mapsto> \<lparr>ci_value = CBool True, ci_expiresAt = Some (3 * Hour)\<rparr>]\<rparr>"
  have e: "w_env ?w = sample_env" by (simp add: sample_world_def)
  have cl: "cl_ID sample_claims \<noteq> []" "cl_GrantID sample_claims = ''u''" by (simp_all add: sample_claims_def)
  have m: "\<forall>t \<le> 2 * Hour. mem_live (w_cache ?w) t (RevokedGrantKey (cl_GrantID sample_claims)) = Some (CBool True)"
    by (simp add: mem_live_def cl)
  have "ticks (w_env ?w) = []" "clock (w_env ?w) = Hour" by (simp_all add: sample_world_def sample_env_def)
  then have "clock (w_env (snd (verifyBearer (buildAuthDeps sample_cfg) ''Bearer jwt'' ?w))) \<le> 2 * Hour" by (simp add: verifyBearer_still)
  from denied_token_refused [OF sample_header sample_parse [folded e] cl(1) _ this] m cl(2) show ?thesis by auto
qed

text \<open>
  C20. Introspection and the bearer middleware reach the same verdict: for an authenticated confidential client and a token that carries an
  identifier or does not parse, the token is reported active exactly if the middleware accepts it, with the same reads of the revocation markers and
  so the same state afterwards; an active answer repeats subject, issuer, scope and times of the token's claims.
\<close>

theorem introspection_agrees:
  assumes "authorizeCaller (buildAuthDeps cfg) q = None" and "extractBearerToken header = Some (iq_Token q)"
    and "\<forall>cl e. jwt_ParseJWT (ap_jwt cfg\<lparr>j_prims := cfg_prims cfg\<rparr>) (iq_Token q) (w_env w) = (Inr cl, e) \<longrightarrow> cl_ID cl \<noteq> []"
  shows "IntrospectToken_Execute (buildAuthDeps cfg) q w =
    (case verifyBearer (buildAuthDeps cfg) header w of
       (None, w') \<Rightarrow> (Inr inactive_response, w')
     | (Some (cl, tok), w') \<Rightarrow> (Inr (active_response cl), w'))"
proof -
  let ?D = "buildAuthDeps cfg"
  obtain r w1 where p: "on_env (ts_ParseJWT (d_tokens ?D) (iq_Token q)) w = (r, w1)" by (metis surj_pair)
  show ?thesis
  proof (cases r)
    case (Inl er)
    with assms(1,2) p show ?thesis by (simp add: IntrospectToken_Execute_def verifyBearer_def)
  next
    case (Inr cl)
    have "jwt_ParseJWT (ap_jwt cfg\<lparr>j_prims := cfg_prims cfg\<rparr>) (iq_Token q) (w_env w) = (Inr cl, w_env w1)"
      using on_envD [OF p] Inr by (simp add: jwt_adapter_def)
    then have ne: "cl_ID cl \<noteq> []" using assms(3) by blast
    obtain v w2 where "IsRevoked ?D cl w1 = (v, w2)" by (metis surj_pair)
    with assms(1,2) p Inr ne introspect_active_IsRevoked [OF ne, of ?D w1] show ?thesis
      by (cases v) (simp_all add: IntrospectToken_Execute_def verifyBearer_def)
  qed
qed

text \<open>A deployment whose only client is confidential, and a request for introspection by it.\<close>

definition sample_api_cfg :: app_config where
  "sample_api_cfg = sample_cfg\<lparr>ap_registry := NewConfigClientRegistry
     [sample_client\<lparr>C_ID := ''api'', C_AuthMethod := ClientAuthSecretBasic, C_SecretHash := Some ''pw''\<rparr>]\<rparr>"

definition sample_introspect :: "string \<Rightarrow> introspect_query" where
  "sample_introspect tok = \<lparr>iq_ClientID = [], iq_ClientSecret = [], iq_BasicClientID = ''api'', iq_BasicClientSecret = ''pw'',
     iq_Token = tok, iq_TokenTypeHint = None\<rparr>"

lemma sample_introspect_caller: "authorizeCaller (buildAuthDeps sample_api_cfg) (sample_introspect tok) = None"
  by (simp add: authorizeCaller_def sample_introspect_def sample_api_cfg_def Authenticate_def resolveCredentialChannel_def sample_cfg_def
      NewConfigClientRegistry_def registry_FindByID_def sample_client_def VerifySecret_def client_IsPublic_def sample_codec_def sample_prims_def)

theorem introspection_agrees_witness:
  "IntrospectToken_Execute (buildAuthDeps sample_api_cfg) (sample_introspect ''jwt'') sample_world =
    (case verifyBearer (buildAuthDeps sample_api_cfg) ''Bearer jwt'' sample_world of
       (None, w') \<Rightarrow> (Inr inactive_response, w')
     | (Some (cl, tok), w') \<Rightarrow> (Inr (active_response cl), w'))"
proof -
  have tok: "iq_Token (sample_introspect ''jwt'') = ''jwt''" by (simp add: sample_introspect_def)
  have e: "w_env sample_world = sample_env" by (simp add: sample_world_def)
  have "jwt_ParseJWT (ap_jwt sample_api_cfg\<lparr>j_prims := cfg_prims sample_api_cfg\<rparr>) ''jwt'' sample_env = (Inr sample_claims, sample_env)"
    using sample_parse by (simp add: sample_api_cfg_def)
  then have "\<forall>cl e. jwt_ParseJWT (ap_jwt sample_api_cfg\<lparr>j_prims := cfg_prims sample_api_cfg\<rparr>) ''jwt'' (w_env sample_world) = (Inr cl, e)
      \<longrightarrow> cl_ID cl \<noteq> []" unfolding e by (simp add: sample_claims_def)
  from introspection_agrees [OF sample_introspect_caller, of _ "''jwt''", unfolded tok, OF sample_header this] show ?thesis .
qed

text \<open>
  The one exception: a token without an identifier, which this server never issues, is refused by the middleware but reported as active, although
  the comment in \<open>introspect_token.go\<close> says both reach the same verdict.
\<close>

lemma introspection_empty_jti:
  assumes "authorizeCaller (buildAuthDeps cfg) q = None" and "extractBearerToken header = Some (iq_Token q)"
    and "jwt_ParseJWT (ap_jwt cfg\<lparr>j_prims := cfg_prims cfg\<rparr>) (iq_Token q) (w_env w) = (Inr cl, e1)"
    and "cl_ID cl = []" and "cl_GrantID cl = []" and "cl_IssuedAt cl = None"
  shows "fst (IntrospectToken_Execute (buildAuthDeps cfg) q w) = Inr (active_response cl)
    \<and> fst (mw_Authenticate (buildAuthDeps cfg) header w) = Inl (New Unauthorized 401 ''invalid token'')"
  using assms by (simp add: IntrospectToken_Execute_def introspect_active_def mw_Authenticate_def verifyBearer_def on_env_def jwt_adapter_def)

end
