(* ===== verification/Account_Guarantees.thy ===== *)
theory Account_Guarantees
  imports Flow_Sample
begin

text \<open>
  What the operations on accounts guarantee on the file-backed deployment: password recovery, registration, profile changes
  and the lock after failed logins.
\<close>

section \<open>Password reset\<close>


definition sample_reset :: "string \<Rightarrow> string \<Rightarrow> reset_password_cmd" where
  "sample_reset tok pw = \<lparr>rp_Token = tok, rp_Password = pw\<rparr>"

text \<open>The sample deployment while a reset token is out: the draw with number 1.\<close>

definition sample_reset_world :: file_world where
  "sample_reset_world = with_user (sample_user\<lparr>U_PasswordResetTokenHash := Some (Hash sample_prims ''Ung''),
     U_PasswordResetExpiresAt := Some (2 * Hour)\<rparr>) sample_world"

lemma sample_reset_inv: "file_inv sample_cfg sample_reset_world"
  unfolding sample_reset_world_def
proof (rule with_user_inv [OF sample_inv])
  have "Hash sample_prims ''Ung'' = token_hash sample_prims 1" by code_simp
  then show "\<forall>h. U_PasswordResetTokenHash (sample_user\<lparr>U_PasswordResetTokenHash := Some (Hash sample_prims ''Ung''),
     U_PasswordResetExpiresAt := Some (2 * Hour)\<rparr>) = Some h \<longrightarrow> (\<exists>k < rand_ctr (w_env sample_world). h = token_hash sample_prims k)"
    by (auto simp: sample_world_def sample_env_def intro!: exI [of _ 1])
qed (simp_all add: sample_user_def)



text \<open>
  C22. A refused password reset changes nothing: no account, token, grant or marker. In particular it leaves the reset token in place
  for another try, and a token no account carries is always refused.
\<close>

theorem reset_refused:
  assumes "file_inv cfg w"
  shows "(case ResetPassword_Execute (buildAuthDeps cfg) c w of
      (None, w') \<Rightarrow> \<exists>i u. users_of (w_users w) i = Some u \<and> U_PasswordResetTokenHash u = Some (Hash (cfg_prims cfg) (rp_Token c))
    | (Some err, w') \<Rightarrow> users_of (w_users w') = users_of (w_users w) \<and> w_rts w' = w_rts w \<and> w_grants w' = w_grants w
        \<and> w_cache w' = w_cache w)"
proof -
  obtain r w' where run: "ResetPassword_Execute (buildAuthDeps cfg) c w = (r, w')" by (metis surj_pair)
  have "\<exists>i u. users_of (w_users w) i = Some u \<and> U_PasswordResetTokenHash u = Some (Hash (cfg_prims cfg) (rp_Token c))" if "r = None"
    using app.reset_needs_token [OF inv_wok [OF assms], of c] run that by auto
  moreover have "users_of (w_users w') = users_of (w_users w) \<and> w_rts w' = w_rts w \<and> w_grants w' = w_grants w \<and> w_cache w' = w_cache w"
    if "r = Some err" for err
    using app.reset_failure [OF run [unfolded that] inv_wok [OF assms]] by blast
  ultimately show ?thesis using run by (auto split: option.split)
qed

theorem reset_refused_witness:
  "case ResetPassword_Execute (buildAuthDeps sample_cfg) (sample_reset ''Ung'' ''weak'') sample_reset_world of
      (None, w') \<Rightarrow> False | (Some err, w') \<Rightarrow> users_of (w_users w') = users_of (w_users sample_reset_world)"
proof -
  have "fst (ResetPassword_Execute (buildAuthDeps sample_cfg) (sample_reset ''Ung'' ''weak'') sample_reset_world) \<noteq> None" by code_simp
  with reset_refused [OF sample_reset_inv, of "sample_reset ''Ung'' ''weak''"] show ?thesis by (auto split: prod.splits option.splits)
qed

section \<open>Password recovery\<close>

text \<open>
  C23. Asking for a recovery mail is answered the same whether or not the address is known, and cannot flood anybody: in any series of requests that
  ends within an hour after a moment at which no counter ran for an address, at most three messages go to the addresses that share its counter.
\<close>

theorem recovery_mail_capped:
  assumes "file_inv cfg w" and "fresh_source (cfg_prims cfg)" and "mem_live (w_cache w) (clock (w_env w)) (forgotPasswordRateKey (cfg_prims cfg) a) = None"
    and "clock (w_env (forgot_run (buildAuthDeps cfg) ems w)) \<le> clock (w_env w) + forgotPasswordWindow"
  shows "mails_for (cfg_prims cfg) (forgotPasswordRateKey (cfg_prims cfg) a) (forgot_run (buildAuthDeps cfg) ems w)
      \<le> mails_for (cfg_prims cfg) (forgotPasswordRateKey (cfg_prims cfg) a) w + 3
    \<and> (\<forall>em v. fst (ForgotPassword_Execute (buildAuthDeps cfg) em v) = None)"
proof
  have "app.sys_inv cfg w" using assms(1) by (simp add: file_inv_sys)
  from app.forgot_run_capped [OF this, unfolded buildAuthDeps_simps, OF assms(2,3) order_refl assms(4)]
  show "mails_for (cfg_prims cfg) (forgotPasswordRateKey (cfg_prims cfg) a) (forgot_run (buildAuthDeps cfg) ems w)
      \<le> mails_for (cfg_prims cfg) (forgotPasswordRateKey (cfg_prims cfg) a) w + 3" .
  show "\<forall>em v. fst (ForgotPassword_Execute (buildAuthDeps cfg) em v) = None"
  proof (intro allI)
    fix em v
    obtain r v' where run: "ForgotPassword_Execute (buildAuthDeps cfg) em v = (r, v')" by (metis surj_pair)
    obtain b v1 where "rateLimited (buildAuthDeps cfg) em v = (b, v1)" by (metis surj_pair)
    from app.forgot_step [OF run this] run show "fst (ForgotPassword_Execute (buildAuthDeps cfg) em v) = None" by simp
  qed
qed

theorem recovery_mail_capped_witness:
  "mails_for (cfg_prims sample_cfg) (forgotPasswordRateKey (cfg_prims sample_cfg) ''a@b'') (forgot_run (buildAuthDeps sample_cfg) [''a@b''] sample_world) \<le> 3"
proof -
  have none: "mem_live (w_cache sample_world) (clock (w_env sample_world)) (forgotPasswordRateKey (cfg_prims sample_cfg) ''a@b'') = None"
    by (simp add: sample_world_def mem_live_def)
  have "TrimSpace ''a@b'' = ''a@b''" by (rule TrimSpace_visible) (simp_all add: IsSpace_def)
  then have k: "forgotPasswordRateKey sample_prims ''a@b'' = ForgotPasswordRateKey (hex_EncodeToString ''a@b'')"
    by (simp add: forgotPasswordRateKey_def sample_prims_def)
  have "clock (w_env (forgot_run (buildAuthDeps sample_cfg) [''a@b''] sample_world)) = Hour"
    unfolding forgot_run.simps ForgotPassword_Execute_def rateLimited_def buildAuthDeps_simps sample_codec_prims k by code_simp
  then have "clock (w_env (forgot_run (buildAuthDeps sample_cfg) [''a@b''] sample_world)) \<le> clock (w_env sample_world) + forgotPasswordWindow"
    by (simp add: sample_world_def sample_env_def forgotPasswordWindow_def)
  from recovery_mail_capped [OF sample_inv sample_fresh_source none this] show ?thesis by (simp add: mails_for_def sample_world_def)
qed

section \<open>Registration and profile\<close>

text \<open>
  C24. A successful registration adds exactly one account, under an identifier nobody has: with the given address, which no account had, not verified, with the hash of
  a password that satisfies the policy. For an address that is taken, registration fails, and with the error that says so when storage works and the arguments are in order; it never changes an account.
\<close>

theorem registration_adds_account:
  assumes "CreateUser_Execute (buildAuthDeps cfg) c w = (r, w')" and "file_inv cfg w"
  shows "(case r of
      Inr res \<Rightarrow> \<exists>u. users_of (w_users w') = (users_of (w_users w))(U_ID u \<mapsto> u) \<and> U_Email u = cu_Email c
        \<and> (\<forall>i x. users_of (w_users w) i = Some x \<longrightarrow> U_Email x \<noteq> cu_Email c) \<and> validatePassword (cfg_prims cfg) (cu_Password c) = None
        \<and> \<not> U_EmailVerified u \<and> (\<exists>salt. p_bcrypt_Generate (cfg_prims cfg) passwordHashCost salt (cu_Password c) = Inr (U_Password u))
        \<and> (\<exists>n \<ge> uuid_ctr (w_env w). U_ID u = p_uuid (cfg_prims cfg) n \<and> n < uuid_ctr (w_env w'))
    | Inl er \<Rightarrow> users_of (w_users w') = users_of (w_users w)
        \<and> ((\<exists>i x. users_of (w_users w) i = Some x \<and> U_Email x = cu_Email c)
            \<and> validatePassword (cfg_prims cfg) (cu_Password c) = None \<and> er \<noteq> NewErrEmailDuplicated \<longrightarrow>
            (\<exists>salt e. p_bcrypt_Generate (cfg_prims cfg) passwordHashCost salt (cu_Password c) = Inl e)))
    \<and> w_rts w' = w_rts w \<and> w_grants w' = w_grants w \<and> w_cache w' = w_cache w"
proof (cases r)
  case (Inr res)
  with app.create_user_success [OF assms(1) [unfolded Inr] inv_wok [OF assms(2)]] show ?thesis by simp
next
  case (Inl er)
  let ?a = "\<lparr>UA_TenantID = [], UA_Username = cu_Username c, UA_Nickname = cu_Nickname c,
              UA_Password = cu_Password c, UA_Email = cu_Email c, UA_EmailVerified = False\<rparr>"
  have uok: "users_ok (ap_codec cfg) (w_users w)" using inv_wok [OF assms(2)] by (simp add: app.wok_def)
  obtain n w1 where a: "on_env (NewUser (cfg_prims cfg) ?a) w = (n, w1)" by (metis surj_pair)
  note A = on_envD [OF a]
  show ?thesis
  proof (cases n)
    case (Inl e1)
    then have "w' = w1" using assms(1) a by (simp add: CreateUser_Execute_def)
    moreover have "\<exists>salt e. p_bcrypt_Generate (cfg_prims cfg) passwordHashCost salt (cu_Password c) = Inl e"
      if "validatePassword (cfg_prims cfg) (cu_Password c) = None"
      using A Inl that by (auto simp: NewUser_def hashPassword_def Let_def split: sum.splits prod.splits)
    ultimately show ?thesis using A \<open>r = Inl er\<close> by simp
  next
    case (Inr u)
    have n: "NewUser (cfg_prims cfg) ?a (w_env w) = (Inr u, w_env w1)" using A Inr by simp
    have u: "U_Email u = cu_Email c" "U_TenantID u = DefaultTenantID" "U_PasswordResetTokenHash u = None"
      using app.NewUser_Inr [OF n] by simp_all
    obtain ce w2 where b: "on_users (fuser_CreateUser (ap_codec cfg) u) w1 = (ce, w2)" by (metis surj_pair)
    note B = on_usersD [OF b]
    have cr: "fuser_CreateUser (ap_codec cfg) u (w_users w) (w_env w1) = (ce, w_users w2, w_env w2)" using A B by simp
    have run: "(r, w') = (case ce of Some err \<Rightarrow> (Inl (if errors_Is err ErrConflict then NewErrEmailDuplicated else NewErrCreateUser err), w2)
        | None \<Rightarrow> (Inr (CreateUserResponse_FromEntity u), w2))"
      using assms(1) a Inr b by (auto simp: CreateUser_Execute_def file_user_ops_def split: option.splits)
    then obtain err where ce: "ce = Some err" "w' = w2" "er = (if errors_Is err ErrConflict then NewErrEmailDuplicated else NewErrCreateUser err)"
      using Inl by (cases ce) auto
    have "er = NewErrEmailDuplicated" if "users_of (w_users w) i = Some x" "U_Email x = cu_Email c" for i x
      using fuser_Create_taken [OF uok that(1), of u "w_env w1"] that(2) u(1) cr ce by simp
    then have dup: "(\<exists>i x. users_of (w_users w) i = Some x \<and> U_Email x = cu_Email c) \<longrightarrow> er = NewErrEmailDuplicated" by blast
    have "users_of (w_users w') = users_of (w_users w)" "w_rts w' = w_rts w" "w_grants w' = w_grants w" "w_cache w' = w_cache w"
      using fuser_Create_ok [OF cr uok u(2,3)] ce(1,2) A B by simp_all
    with dup show ?thesis unfolding Inl sum.case by blast
  qed
qed

definition sample_registration :: "string \<Rightarrow> create_user_cmd" where
  "sample_registration em = \<lparr>cu_Username = ''bob'', cu_Nickname = ''bo'', cu_Email = em, cu_Password = ''Secret1!''\<rparr>"

theorem registration_adds_account_witness:
  "fst (CreateUser_Execute (buildAuthDeps sample_cfg) (sample_registration ''a@b'') sample_world) = Inl NewErrEmailDuplicated"
proof -
  let ?c = "sample_registration ''a@b''"
  obtain r w' where run: "CreateUser_Execute (buildAuthDeps sample_cfg) ?c sample_world = (r, w')" by (metis surj_pair)
  have "users_of (w_users sample_world) ''alice'' = Some sample_user" "U_Email sample_user = cu_Email ?c"
    by (simp_all add: sample_world_def sample_user_def sample_registration_def)
  moreover have "validatePassword (cfg_prims sample_cfg) (cu_Password ?c) = None" by code_simp
  moreover have "p_bcrypt_Generate (cfg_prims sample_cfg) passwordHashCost salt (cu_Password ?c) \<noteq> Inl e" for salt e
    by (simp add: sample_codec_prims sample_prims_def)
  ultimately have "r = Inl NewErrEmailDuplicated"
    using registration_adds_account [OF run sample_inv] by (cases r) auto
  with run show ?thesis by simp
qed

text \<open>
  C25. In every reachable state no two accounts share an e-mail address or a pending reset token, every account is stored under its own identifier and belongs to the
  default tenant, and every pending reset token comes from the server's own random source.
\<close>

theorem reachable_accounts_sound:
  assumes "reachable cfg em wc w" and "fresh_source (cfg_prims cfg)" and "users_of (w_users w) i = Some u"
  shows "U_ID u = i \<and> U_TenantID u = DefaultTenantID
    \<and> (\<forall>j v. users_of (w_users w) j = Some v \<longrightarrow> U_Email v = U_Email u
         \<or> (U_PasswordResetTokenHash v \<noteq> None \<and> U_PasswordResetTokenHash v = U_PasswordResetTokenHash u) \<longrightarrow> j = i)
    \<and> (\<forall>h. U_PasswordResetTokenHash u = Some h \<longrightarrow> (\<exists>k < rand_ctr (w_env w). h = token_hash (cfg_prims cfg) k))"
proof -
  have inv: "file_inv cfg w" by (rule reachable_inv [OF assms(1,2)])
  then have "users_ok (ap_codec cfg) (w_users w)" by (simp add: file_inv_def file_ok_def)
  from users_okD [OF this assms(3)] have u: "U_ID u = i" "may_save_user u (users_of (w_users w))" by simp_all
  then have "j = i" if "users_of (w_users w) j = Some v"
    "U_Email v = U_Email u \<or> (U_PasswordResetTokenHash v \<noteq> None \<and> U_PasswordResetTokenHash v = U_PasswordResetTokenHash u)" for j v
    using that unfolding may_save_user_def by (metis option.exhaust)
  moreover have "\<exists>k < rand_ctr (w_env w). h = token_hash (cfg_prims cfg) k" if "U_PasswordResetTokenHash u = Some h" for h
    using inv assms(3) that unfolding file_inv_def by blast
  ultimately show ?thesis using u by (auto simp: may_save_user_def)
qed

definition sample_signup :: http_request where
  "sample_signup = (sample_rq ''POST'' ''/sign-up'')\<lparr>hr_bound := [''Username'' \<mapsto> ''bob'', ''Nickname'' \<mapsto> ''bo'',
     ''Email'' \<mapsto> ''b@c'', ''Password'' \<mapsto> ''Secret1!'']\<rparr>"

theorem reachable_accounts_sound_witness:
  "\<exists>i u. users_of (w_users (snd (serve (buildAuthDeps sample_cfg) (\<lambda>_. True) sample_web sample_signup (first_start sample_env)))) i = Some u
     \<and> U_ID u = i \<and> U_TenantID u = DefaultTenantID"
proof -
  let ?s = "serve (buildAuthDeps sample_cfg) (\<lambda>_. True) sample_web sample_signup (first_start sample_env)"
  have "map fst (items (w_users (snd ?s))) \<noteq> []" by code_simp
  then obtain i where "i \<in> set (map fst (items (w_users (snd ?s))))" by (metis list.set_sel(1))
  then obtain u where u: "users_of (w_users (snd ?s)) i = Some u" by (metis (no_types) list.set_map map_of_eq_None_iff option.exhaust)
  have "reachable sample_cfg (\<lambda>_. True) sample_web (snd ?s)"
    unfolding reachable_def by (intro exI [of _ sample_env] runs_serve [OF runs_refl, of _ _ _ _ _ "fst ?s"]) simp
  from reachable_accounts_sound [OF this sample_fresh_source u] u show ?thesis by blast
qed

text \<open>
  C26. A profile change touches the caller's own account only. It keeps identifier, password and reset token, takes over a new address only if no
  other account has it, and a changed address counts as unverified.
\<close>

theorem profile_change:
  assumes "UpdateProfile_Execute (buildAuthDeps cfg) c w = (Inr res, w')" and "file_inv cfg w"
  shows "\<exists>u u'. users_of (w_users w) (up_UserID c) = Some u \<and> users_of (w_users w') = (users_of (w_users w))(up_UserID c \<mapsto> u')
    \<and> U_ID u' = up_UserID c \<and> U_Password u' = U_Password u \<and> U_PasswordResetTokenHash u' = U_PasswordResetTokenHash u
    \<and> U_Email u' = (case up_Email c of None \<Rightarrow> U_Email u | Some v \<Rightarrow> v)
    \<and> (U_EmailVerified u' \<longrightarrow> U_Email u' = U_Email u \<and> U_EmailVerified u)
    \<and> (\<forall>j x. users_of (w_users w) j = Some x \<longrightarrow> U_Email x = U_Email u' \<longrightarrow> j = up_UserID c)"
  using app.update_profile_success [OF assms(1) inv_wok [OF assms(2)]] by (elim conjE)

definition sample_profile :: update_profile_cmd where
  "sample_profile = \<lparr>up_UserID = ''alice'', up_Username = None, up_Nickname = Some ''ali'', up_Email = Some ''new@b''\<rparr>"

theorem profile_change_witness:
  "\<exists>u'. users_of (w_users (snd (UpdateProfile_Execute (buildAuthDeps sample_cfg) sample_profile sample_world))) ''alice'' = Some u'
     \<and> U_Email u' = ''new@b'' \<and> \<not> U_EmailVerified u'"
proof -
  have "\<not> isl (fst (UpdateProfile_Execute (buildAuthDeps sample_cfg) sample_profile sample_world))" by code_simp
  then obtain res w' where run: "UpdateProfile_Execute (buildAuthDeps sample_cfg) sample_profile sample_world = (Inr res, w')"
    by (metis isl_def prod.collapse sum.collapse(2))
  have c: "up_UserID sample_profile = ''alice''" "up_Email sample_profile = Some ''new@b''" by (simp_all add: sample_profile_def)
  obtain u u' where u: "users_of (w_users sample_world) ''alice'' = Some u" "users_of (w_users w') = (users_of (w_users sample_world))(''alice'' \<mapsto> u')"
    "U_Email u' = ''new@b''" "U_EmailVerified u' \<longrightarrow> U_Email u' = U_Email u \<and> U_EmailVerified u"
    using profile_change [OF run sample_inv, unfolded c option.case] by (elim exE conjE) (rule that, assumption+)
  have "U_Email u = ''a@b''" using u(1) by (auto simp: sample_world_def sample_user_def)
  with u(2-4) run show ?thesis by simp
qed

section \<open>Locked accounts\<close>



end
