(* ===== verification/Delivery_Guarantees.thy ===== *)
theory Delivery_Guarantees
  imports Flow_Sample
begin

text \<open>
  What the web layer guarantees: validation before any use case, the headers of every response, the bearer check of the
  protected routes, the errors clients see and the rate limit.
\<close>

section \<open>Dispatch\<close>

text \<open>
  C28. Dispatching a command is the same as validating it and running the use case written for its type: every command type is
  registered, with its own use case; a command that fails validation is answered with a coded 400 and runs nothing.
\<close>

theorem dispatch_is_execute:
  "Module_Dispatch (buildAuthDeps cfg) em r w =
     (if command_tags (cfg_prims cfg) em r then
        let (res, w1) = Execute (buildAuthDeps cfg) r w in
        (res, observeMetrics r (case res of Inl err \<Rightarrow> Some err | Inr _ \<Rightarrow> None) w1)
      else (Inl (ErrorStruct InvalidArguments 400 (ErrText ''validation failed'')), w))"
  by (simp add: Module_Dispatch_def dispatch_execute observeMetrics_def NewErrorStruct_def split: prod.split)

section \<open>Responses\<close>





section \<open>Errors\<close>



text \<open>
  The exception: on the OAuth2 routes a failure without a code, such as a failed write, is not a \<open>server_error\<close> but a 400 \<open>invalid_request\<close> that
  shows the internal message.
\<close>

lemma uncoded_oauth2_error:
  assumes "errors_As_Code e = None"
  shows "failOAuth2 (the (MapHTTPError (Some e))) h =
    \<lparr>hs_status = 400, hs_headers = h, hs_cookies = [], hs_body = OAuth2Body ''invalid_request'' (err_Error e)\<rparr>"
  using assms by (cases e) (simp_all add: failOAuth2_def MapHTTPError_def)

section \<open>Limits\<close>

text \<open>
  C32. The rate limit holds: from a moment at which no counter runs for an address, of any series of requests from any addresses that
  ends within the window, at most as many of that address pass the limiter as the limit says. A request without an address never passes.
\<close>

theorem rate_limit_enforced:
  assumes "0 < win" and "0 \<le> limit" and "mem_live (w_cache w) (clock (w_env w)) (rateLimitCacheKey ip) = None"
    and "clock (w_env (snd (rate_run (buildAuthDeps cfg) limit win ip rqs w))) \<le> clock (w_env w) + win"
  shows "int (fst (rate_run (buildAuthDeps cfg) limit win ip rqs w)) \<le> limit"
proof (cases "ip = []")
  case True
  have "fst (rate_run (buildAuthDeps cfg) limit win [] rqs w) = 0" for w
    by (induction rqs arbitrary: w) (auto simp: DistributedRateLimit_def split: prod.split)
  with True assms(2) show ?thesis by simp
next
  case False
  from app.rate_run_capped [OF assms(1,2) False assms(3,4)] show ?thesis .
qed

lemma rate_run_still:
  assumes "ticks (w_env w) = []"
  shows "w_env (snd (rate_run (buildAuthDeps cfg) limit win ip rqs w)) = w_env w"
  using assms
proof (induction rqs arbitrary: w)
  case (Cons rq rqs)
  obtain pass w1 where r: "DistributedRateLimit (buildAuthDeps cfg) limit win rq w = (pass, w1)" by (metis surj_pair)
  have "w_env w1 = w_env w"
    using r Cons.prems by (auto simp: DistributedRateLimit_def on_cache_def memory_ops_def mem_IncrWindow_def now_def Let_def
        split: if_split_asm prod.split_asm sum.split_asm option.split_asm cval.split_asm)
  with Cons.IH [of w1] Cons.prems r show ?case by (auto split: prod.split)
qed simp

theorem rate_limit_enforced_witness:
  "int (fst (rate_run (buildAuthDeps sample_cfg) 2 Minute ''10.0.0.1'' (replicate 5 (sample_rq ''GET'' ''/sign-up'')) sample_world)) \<le> 2"
proof -
  have "ticks (w_env sample_world) = []" by (simp add: sample_world_def sample_env_def)
  then show ?thesis
    by (intro rate_limit_enforced) (simp_all add: rate_run_still, simp add: sample_world_def mem_live_def)
qed

text \<open>
  Binding leaves the caller of a revocation to the request when no bearer token was presented: a request that names a user in its form revokes that user's
  session without any credentials.
\<close>

definition sample_spoof :: http_request where
  "sample_spoof = (sample_rq ''POST'' ''/oidc/revoke'')\<lparr>hr_bound := [''CallerID'' \<mapsto> ''alice'', ''Token'' \<mapsto> ''Ung'']\<rparr>"

lemma revoke_caller_from_form:
  "hs_status (fst (serve (buildAuthDeps sample_cfg) (\<lambda>_. True) sample_web sample_spoof sample_world)) = 200
   \<and> map_option RT_RevokedAt (rows_of (w_rts (snd (serve (buildAuthDeps sample_cfg) (\<lambda>_. True) sample_web sample_spoof sample_world))) ''uxx'') = Some (Some Hour)"
  by code_simp

end
