(* ===== verification/Store_Guarantees.thy ===== *)
theory Store_Guarantees
  imports Flow_Sample
begin

text \<open>
  What the stores, tokens and clients of the file-backed deployment guarantee: indexed lookups, restarts, the round trip of access tokens,
  the markers that outlive them, and the clients of the registry.
\<close>

section \<open>The stores\<close>

text \<open>
  C33. The lazily built indexes are invisible: in every state that satisfies the invariant a lookup through an index finds exactly what a scan of
  the stored items finds, for refresh tokens by hash, grants by identifier and users by identifier, address and reset token.
\<close>

theorem indexed_lookup_is_scan:
  assumes "file_inv cfg w"
  shows "fst (findByFieldLocked rt_cfg ''TokenHash'' v (w_rts w)) = scanByField rt_cfg (items (w_rts w)) ''TokenHash'' v
    \<and> fst (findByFieldLocked grant_cfg ''ID'' v (w_grants w)) = scanByField grant_cfg (items (w_grants w)) ''ID'' v
    \<and> (\<forall>f \<in> {''ID'', ''Email'', ''PasswordResetTokenHash''}.
         fst (findByFieldLocked (user_cfg (ap_codec cfg)) f v (w_users w)) = scanByField (user_cfg (ap_codec cfg)) (items (w_users w)) f v)"
proof -
  have "fr_inv rt_cfg {''TokenHash''} (w_rts w)" "fr_inv grant_cfg {''ID''} (w_grants w)"
    "fr_inv (user_cfg (ap_codec cfg)) {''ID'', ''Email'', ''PasswordResetTokenHash''} (w_users w)"
    using assms by (simp_all add: file_inv_def file_ok_def users_ok_def)
  then show ?thesis using rcodec.find_eq_scan gcodec.find_eq_scan ucodec.find_eq_scan by simp
qed

theorem indexed_lookup_is_scan_witness:
  "fst (findByFieldLocked (user_cfg sample_codec) ''Email'' ''a@b'' (w_users sample_world)) = Inr sample_user"
proof -
  have c: "ap_codec sample_cfg = sample_codec" by (simp add: sample_cfg_def)
  have "scanByField (user_cfg sample_codec) (items (w_users sample_world)) ''Email'' ''a@b'' = Inr sample_user"
    by (simp add: sample_world_def user_cfg_def user_field_def sample_user_def)
  with indexed_lookup_is_scan [OF sample_inv, of "''a@b''", unfolded c] show ?thesis by simp
qed





section \<open>Access tokens\<close>







section \<open>Clients\<close>



end
