(* ===== verification/Demo_Client.thy ===== *)
theory Demo_Client
  imports Env Decimal
begin

text \<open>
  The demo client (\<open>cmd/backend/main.go\<close>): a small web application that signs users in at the auth server with the authorization-code flow, keeps
  their tokens in server-side sessions and refreshes them. The auth server as the client sees it is a parameter: a function from requests to replies with a
  state of its own. JSON decoding and printing are parameters too; the static parts of the pages are left out.
\<close>

section \<open>Data\<close>

record tokenResponse =
  tk_AccessToken :: string
  tk_RefreshToken :: string
  tk_IDToken :: string
  tk_TokenType :: string
  tk_ExpiresIn :: int

record sessionData =
  sd_token :: tokenResponse
  sd_ExpiresAt :: time
  sd_LastResponse :: string
  sd_CSRFToken :: string

record pendingAuth =
  pa_State :: string
  pa_Nonce :: string
  pa_Verifier :: string

definition no_pending :: pendingAuth where
  "no_pending = \<lparr>pa_State = [], pa_Nonce = [], pa_Verifier = []\<rparr>"

text \<open>Requests to the auth server, and its replies.\<close>

type_synonym form_values = "(string \<times> string) list"

datatype idp_request =
    PostForm string form_values
  | PostWithBearer string string form_values
  | PostLogout string "string option"
  | GetWithBearer string string

record idp_reply =
  ry_StatusCode :: int
  ry_body :: string

record client_lib =
  bl_prims :: prims
  bl_AuthServerURL :: string
  bl_json_token :: "string \<Rightarrow> go_error + tokenResponse"   \<comment> \<open>\<open>json.Unmarshal\<close> into a \<open>tokenResponse\<close>\<close>
  bl_json_nonce :: "string \<Rightarrow> go_error + string"           \<comment> \<open>the \<open>nonce\<close> member of a JSON object\<close>
  bl_prettyJSON :: "tokenResponse \<Rightarrow> string"

type_synonym 's idp = "idp_request \<Rightarrow> 's \<Rightarrow> (go_error + idp_reply) \<times> 's"

text \<open>The state of the client, with the cookies set on the response under way.\<close>

record 's bff =
  bf_sessions :: "string \<rightharpoonup> sessionData"
  bf_pending :: pendingAuth
  bf_env :: env
  bf_idp :: 's
  bf_cookies :: "(string \<times> int) list"   \<comment> \<open>values and \<open>MaxAge\<close> of the session cookies set\<close>

record br_request =
  br_Method :: string
  br_path :: string
  br_cookie :: "string option"
  br_form :: "string \<Rightarrow> string"          \<comment> \<open>\<open>r.FormValue\<close>\<close>
  br_form_invalid :: bool                 \<comment> \<open>\<open>r.ParseForm\<close> fails\<close>
  br_query :: "string \<Rightarrow> string"         \<comment> \<open>\<open>r.URL.Query().Get\<close>\<close>

datatype login_status = LoggedIn string | LoggedOut
datatype home_buttons = LoginButtons | ActionButtons string string string
datatype client_form = UpdateProfileForm | ForgotPasswordForm | ResetPasswordForm string
datatype client_body = NoPage | ErrorText string | HomePage login_status home_buttons "string option" | FormPage string client_form

record br_response =
  bs_status :: int
  bs_Location :: "string option"
  bs_body :: client_body

definition Redirect :: "string \<Rightarrow> br_response" where
  "Redirect uri = \<lparr>bs_status = 302, bs_Location = Some uri, bs_body = NoPage\<rparr>"

definition http_Error :: "string \<Rightarrow> int \<Rightarrow> br_response" where
  "http_Error msg status = \<lparr>bs_status = status, bs_Location = None, bs_body = ErrorText msg\<rparr>"

section \<open>Constants\<close>

definition client_ClientID :: string where "client_ClientID = ''my_client2''"
definition client_RedirectURI :: string where "client_RedirectURI = ''http://localhost:3000/callback''"
definition client_Scope :: string where "client_Scope = ''openid profile email''"
definition csrfTokenField :: string where "csrfTokenField = ''csrf_token''"
definition sessionMaxAge :: int where "sessionMaxAge = 86400"
definition refreshThreshold :: duration where "refreshThreshold = Minute"

text \<open>\<open>envOr\<close> on the value of the variable; \<open>None\<close> is the exit of the program.\<close>

definition envOr :: "prims \<Rightarrow> string \<Rightarrow> string \<Rightarrow> string option" where
  "envOr p value fallback =
     (let v = TrimRightSlash value in
      if v = [] then Some fallback
      else case p_url_Parse p v of
          None \<Rightarrow> None
        | Some u \<Rightarrow> if u_Scheme u = [] \<or> u_Host u = [] then None else Some v)"

definition TokenEndpoint :: "client_lib \<Rightarrow> string" where "TokenEndpoint L = bl_AuthServerURL L @ ''/token''"
definition AuthorizeEndpoint :: "client_lib \<Rightarrow> string" where "AuthorizeEndpoint L = bl_AuthServerURL L @ ''/authorize''"
definition UserinfoEndpoint :: "client_lib \<Rightarrow> string" where "UserinfoEndpoint L = bl_AuthServerURL L @ ''/userinfo''"
definition RevokeEndpoint :: "client_lib \<Rightarrow> string" where "RevokeEndpoint L = bl_AuthServerURL L @ ''/oidc/revoke''"
definition IntrospectEndpoint :: "client_lib \<Rightarrow> string" where "IntrospectEndpoint L = bl_AuthServerURL L @ ''/oidc/introspect''"
definition LogoutEndpoint :: "client_lib \<Rightarrow> string" where "LogoutEndpoint L = bl_AuthServerURL L @ ''/oidc/logout''"
definition UpdateProfileEndpoint :: "client_lib \<Rightarrow> string" where "UpdateProfileEndpoint L = bl_AuthServerURL L @ ''/api/v3/update-profile''"
definition ForgotPasswordEndpoint :: "client_lib \<Rightarrow> string" where "ForgotPasswordEndpoint L = bl_AuthServerURL L @ ''/forgot-password''"
definition ResetPasswordEndpoint :: "client_lib \<Rightarrow> string" where "ResetPasswordEndpoint L = bl_AuthServerURL L @ ''/reset-password''"

section \<open>Text\<close>

text \<open>\<open>html.EscapeString\<close>.\<close>

definition escape_char :: "char \<Rightarrow> string" where
  "escape_char c =
     (if c = CHR ''&'' then ''&amp;'' else if c = CHR 0x27 then ''&#39;'' else if c = CHR ''<'' then ''&lt;''
      else if c = CHR ''>'' then ''&gt;'' else if c = CHR 0x22 then ''&#34;'' else [c])"

definition EscapeString :: "string \<Rightarrow> string" where
  "EscapeString s = concat (map escape_char s)"

section \<open>Talking to the auth server\<close>

definition send :: "'s idp \<Rightarrow> idp_request \<Rightarrow> 's bff \<Rightarrow> (go_error + idp_reply) \<times> 's bff" where
  "send idp rq b = (let (r, s) = idp rq (bf_idp b) in (r, b\<lparr>bf_idp := s\<rparr>))"

definition postForm :: "'s idp \<Rightarrow> string \<Rightarrow> form_values \<Rightarrow> 's bff \<Rightarrow> (go_error + string \<times> int) \<times> 's bff" where
  "postForm idp endpoint data b =
     (case send idp (PostForm endpoint data) b of
        (Inl err, b1) \<Rightarrow> (Inl err, b1)
      | (Inr resp, b1) \<Rightarrow> (Inr (ry_body resp, ry_StatusCode resp), b1))"

definition postToken :: "client_lib \<Rightarrow> 's idp \<Rightarrow> form_values \<Rightarrow> 's bff \<Rightarrow> (go_error + tokenResponse) \<times> 's bff" where
  "postToken L idp data b =
     (case send idp (PostForm (TokenEndpoint L) data) b of
        (Inl err, b1) \<Rightarrow> (Inl err, b1)
      | (Inr resp, b1) \<Rightarrow>
          if ry_StatusCode resp \<noteq> 200 then (Inl (ErrText (''token endpoint returned '' @ Itoa (ry_StatusCode resp) @ '': '' @ ry_body resp)), b1)
          else case bl_json_token L (ry_body resp) of
              Inl err \<Rightarrow> (Inl (ErrText (''failed to parse token response: '' @ err_Error err)), b1)
            | Inr tok \<Rightarrow>
                if tk_AccessToken tok = [] then (Inl (ErrText (''no access_token in response: '' @ ry_body resp)), b1)
                else (Inr tok, b1))"

definition postWithBearer ::
  "'s idp \<Rightarrow> string \<Rightarrow> string \<Rightarrow> form_values \<Rightarrow> 's bff \<Rightarrow> (go_error + string \<times> int) \<times> 's bff" where
  "postWithBearer idp endpoint token data b =
     (case send idp (PostWithBearer endpoint token data) b of
        (Inl err, b1) \<Rightarrow> (Inl err, b1)
      | (Inr resp, b1) \<Rightarrow> (Inr (ry_body resp, ry_StatusCode resp), b1))"

definition fetchUserInfo :: "client_lib \<Rightarrow> 's idp \<Rightarrow> string \<Rightarrow> 's bff \<Rightarrow> (go_error + string) \<times> 's bff" where
  "fetchUserInfo L idp token b =
     (case send idp (GetWithBearer (UserinfoEndpoint L) token) b of
        (Inl err, b1) \<Rightarrow> (Inl err, b1)
      | (Inr resp, b1) \<Rightarrow>
          if ry_StatusCode resp \<noteq> 200 then (Inl (ErrText (''userinfo endpoint returned '' @ Itoa (ry_StatusCode resp) @ '': '' @ ry_body resp)), b1)
          else (Inr (TrimSpace (ry_body resp)), b1))"

definition s256Challenge :: "prims \<Rightarrow> string \<Rightarrow> string" where
  "s256Challenge p verifier = RawURLEncoding_EncodeToString (p_sha256 p verifier)"

definition extractNonce :: "client_lib \<Rightarrow> string \<Rightarrow> go_error + string" where
  "extractNonce L idToken =
     (case Split idToken CHR ''.'' of
        [_, payload64, _] \<Rightarrow>
          (case RawURLEncoding_DecodeString payload64 of
             None \<Rightarrow> Inl (ErrText ''illegal base64 data'')
           | Some payload \<Rightarrow> bl_json_nonce L payload)
      | _ \<Rightarrow> Inl (ErrText ''invalid id_token''))"

definition client_now :: "'s bff \<Rightarrow> time \<times> 's bff" where
  "client_now b = (let (t, e) = now (bf_env b) in (t, b\<lparr>bf_env := e\<rparr>))"

definition generateRandom :: "client_lib \<Rightarrow> 's bff \<Rightarrow> (go_error + string) \<times> 's bff" where
  "generateRandom L b = (let (r, e) = random_Token (bl_prims L) (bf_env b) in (r, b\<lparr>bf_env := e\<rparr>))"

section \<open>Sessions\<close>

definition getSession :: "br_request \<Rightarrow> 's bff \<Rightarrow> tokenResponse option" where
  "getSession rq b = (case br_cookie rq of None \<Rightarrow> None | Some i \<Rightarrow> map_option sd_token (bf_sessions b i))"

text \<open>\<open>time.Duration(tok.ExpiresIn) * time.Second\<close>: a product of 64-bit integers, which wraps.\<close>

definition expiry_duration :: "int \<Rightarrow> duration" where
  "expiry_duration n = signed_take_bit 63 (n * Second)"

lemma expiry_duration_exact: "0 \<le> n \<Longrightarrow> n \<le> 9223372036 \<Longrightarrow> expiry_duration n = n * Second"
  by (simp add: expiry_duration_def signed_take_bit_int_eq_self)

definition setSession :: "string \<Rightarrow> tokenResponse \<Rightarrow> 's bff \<Rightarrow> 's bff" where
  "setSession i tok b =
     (let (t, b1) = client_now b;
          data = \<lparr>sd_token = tok, sd_ExpiresAt = t + expiry_duration (tk_ExpiresIn tok), sd_LastResponse = [], sd_CSRFToken = []\<rparr>;
          data1 = (case bf_sessions b1 i of
              None \<Rightarrow> data
            | Some current \<Rightarrow> data\<lparr>sd_LastResponse := sd_LastResponse current, sd_CSRFToken := sd_CSRFToken current\<rparr>)
      in b1\<lparr>bf_sessions := (bf_sessions b1)(i \<mapsto> data1), bf_cookies := bf_cookies b1 @ [(i, sessionMaxAge)]\<rparr>)"

definition getSessionWithRefresh :: "client_lib \<Rightarrow> 's idp \<Rightarrow> br_request \<Rightarrow> 's bff \<Rightarrow> tokenResponse option \<times> 's bff" where
  "getSessionWithRefresh L idp rq b =
     (case br_cookie rq of
        None \<Rightarrow> (None, b)
      | Some i \<Rightarrow>
          (case bf_sessions b i of
             None \<Rightarrow> (None, b)
           | Some data \<Rightarrow>
               let (t, b1) = client_now b in
               if sd_ExpiresAt data - t > refreshThreshold then (Some (sd_token data), b1)
               else if tk_RefreshToken (sd_token data) = [] then (None, b1)
               else case postToken L idp [(''grant_type'', ''refresh_token''), (''client_id'', client_ClientID),
                      (''refresh_token'', tk_RefreshToken (sd_token data))] b1 of
                   (Inl err, b2) \<Rightarrow> (None, b2)
                 | (Inr newTok, b2) \<Rightarrow> (Some newTok, setSession i newTok b2)))"

definition getLastResponse :: "br_request \<Rightarrow> 's bff \<Rightarrow> string" where
  "getLastResponse rq b =
     (case br_cookie rq of None \<Rightarrow> [] | Some i \<Rightarrow> (case bf_sessions b i of None \<Rightarrow> [] | Some d \<Rightarrow> sd_LastResponse d))"

definition setLastResponse :: "string \<Rightarrow> string \<Rightarrow> 's bff \<Rightarrow> 's bff" where
  "setLastResponse i response b =
     (case bf_sessions b i of
        None \<Rightarrow> b
      | Some data \<Rightarrow> b\<lparr>bf_sessions := (bf_sessions b)(i \<mapsto> data\<lparr>sd_LastResponse := response\<rparr>)\<rparr>)"

definition setCurrentLastResponse :: "br_request \<Rightarrow> string \<Rightarrow> 's bff \<Rightarrow> 's bff" where
  "setCurrentLastResponse rq response b = (case br_cookie rq of None \<Rightarrow> b | Some i \<Rightarrow> setLastResponse i response b)"

text \<open>The checks answer with the token, or with the response that was already written.\<close>

definition requireSessionToken :: "client_lib \<Rightarrow> 's idp \<Rightarrow> br_request \<Rightarrow> 's bff \<Rightarrow> (br_response + tokenResponse) \<times> 's bff" where
  "requireSessionToken L idp rq b =
     (case getSessionWithRefresh L idp rq b of
        (None, b1) \<Rightarrow> (Inl (Redirect ''/''), b1)
      | (Some tok, b1) \<Rightarrow> if tk_AccessToken tok = [] then (Inl (Redirect ''/''), b1) else (Inr tok, b1))"

definition requireLogoutToken :: "br_request \<Rightarrow> 's bff \<Rightarrow> br_response + tokenResponse" where
  "requireLogoutToken rq b =
     (case getSession rq b of
        None \<Rightarrow> Inl (Redirect ''/'')
      | Some tok \<Rightarrow> if tk_AccessToken tok = [] \<and> tk_RefreshToken tok = [] then Inl (Redirect ''/'') else Inr tok)"

definition requireRefreshToken :: "br_request \<Rightarrow> 's bff \<Rightarrow> br_response + tokenResponse \<times> string" where
  "requireRefreshToken rq b =
     (case br_cookie rq of
        None \<Rightarrow> Inl (Redirect ''/'')
      | Some i \<Rightarrow>
          (case getSession rq b of
             None \<Rightarrow> Inl (Redirect ''/'')
           | Some tok \<Rightarrow> if tk_RefreshToken tok = [] then Inl (Redirect ''/'') else Inr (tok, i)))"

definition setCSRFToken :: "string \<Rightarrow> string \<Rightarrow> 's bff \<Rightarrow> 's bff" where
  "setCSRFToken i token b =
     (case bf_sessions b i of
        None \<Rightarrow> b
      | Some data \<Rightarrow> b\<lparr>bf_sessions := (bf_sessions b)(i \<mapsto> data\<lparr>sd_CSRFToken := token\<rparr>)\<rparr>)"

definition csrfToken :: "br_request \<Rightarrow> 's bff \<Rightarrow> string" where
  "csrfToken rq b =
     (case br_cookie rq of None \<Rightarrow> [] | Some i \<Rightarrow> (case bf_sessions b i of None \<Rightarrow> [] | Some d \<Rightarrow> sd_CSRFToken d))"

text \<open>\<open>None\<close>: the request may go on.\<close>

definition requirePOSTWithCSRF :: "br_request \<Rightarrow> 's bff \<Rightarrow> br_response option" where
  "requirePOSTWithCSRF rq b =
     (if br_Method rq \<noteq> ''POST'' then Some (http_Error ''method not allowed'' 405)
      else if csrfToken rq b = [] \<or> br_form rq csrfTokenField \<noteq> csrfToken rq b then Some (http_Error ''invalid csrf token'' 403)
      else None)"

definition clearSession :: "br_request \<Rightarrow> 's bff \<Rightarrow> 's bff" where
  "clearSession rq b =
     (let b1 = (case br_cookie rq of None \<Rightarrow> b | Some i \<Rightarrow> b\<lparr>bf_sessions := (bf_sessions b)(i := None)\<rparr>) in
      b1\<lparr>bf_cookies := bf_cookies b1 @ [([], -1)]\<rparr>)"

section \<open>Handlers\<close>

definition statusText :: "tokenResponse option \<Rightarrow> login_status" where
  "statusText tok = (case tok of Some t \<Rightarrow> LoggedIn (take 10 (tk_AccessToken t)) | None \<Rightarrow> LoggedOut)"

definition actionForm :: "string \<Rightarrow> string \<Rightarrow> string \<Rightarrow> string \<Rightarrow> string" where
  "actionForm action label btnClass csrf =
     ''<form method=\"POST\" action=\"'' @ action @ ''\" class=\"inline\"><input type=\"hidden\" name=\"'' @ csrfTokenField @ ''\" value=\"'' @ csrf
     @ ''\"><button type=\"submit\" class=\"btn '' @ btnClass @ ''\">'' @ label @ ''</button></form>''"

definition handleHome :: "client_lib \<Rightarrow> 's idp \<Rightarrow> br_request \<Rightarrow> 's bff \<Rightarrow> br_response \<times> 's bff" where
  "handleHome L idp rq b =
     (let (tok, b1) = getSessionWithRefresh L idp rq b;
          buttons = (case tok of
              None \<Rightarrow> LoginButtons
            | Some _ \<Rightarrow>
                let csrf = EscapeString (csrfToken rq b1) in
                ActionButtons (actionForm ''/refresh'' ''Refresh Token'' ''btn-secondary'' csrf)
                  (actionForm ''/revoke'' ''Revoke Token'' ''btn-warning'' csrf)
                  (actionForm ''/logout'' ''Logout'' ''btn-danger'' csrf));
          lastResponse = getLastResponse rq b1 in
      (\<lparr>bs_status = 200, bs_Location = None,
        bs_body = HomePage (statusText tok) buttons (if lastResponse \<noteq> [] then Some (EscapeString lastResponse) else None)\<rparr>, b1))"

definition login_params :: "client_lib \<Rightarrow> pendingAuth \<Rightarrow> url_values" where
  "login_params L pa =
     [(''client_id'', [client_ClientID]), (''redirect_uri'', [client_RedirectURI]), (''response_type'', [''code'']),
      (''scope'', [client_Scope]), (''state'', [pa_State pa]), (''nonce'', [pa_Nonce pa]),
      (''code_challenge'', [s256Challenge (bl_prims L) (pa_Verifier pa)]), (''code_challenge_method'', [''S256''])]"

definition handleLogin :: "client_lib \<Rightarrow> 's idp \<Rightarrow> br_request \<Rightarrow> 's bff \<Rightarrow> br_response \<times> 's bff" where
  "handleLogin L idp rq b =
     (let (tok, b1) = getSessionWithRefresh L idp rq b in
      if (case tok of None \<Rightarrow> False | Some t \<Rightarrow> tk_AccessToken t \<noteq> []) then (Redirect ''/'', b1)
      else case generateRandom L b1 of
          (Inl err, b2) \<Rightarrow> (http_Error ''failed to generate state'' 500, b2)
        | (Inr state, b2) \<Rightarrow>
            (case generateRandom L b2 of
               (Inl err, b3) \<Rightarrow> (http_Error ''failed to generate nonce'' 500, b3)
             | (Inr nonce, b3) \<Rightarrow>
                 (case generateRandom L b3 of
                    (Inl err, b4) \<Rightarrow> (http_Error ''failed to generate code verifier'' 500, b4)
                  | (Inr verifier, b4) \<Rightarrow>
                      let pa = \<lparr>pa_State = state, pa_Nonce = nonce, pa_Verifier = verifier\<rparr>;
                          b5 = setCurrentLastResponse rq [] (b4\<lparr>bf_pending := pa\<rparr>) in
                      (Redirect (AuthorizeEndpoint L @ ''?'' @ p_QueryEncode (bl_prims L) (login_params L pa)), b5))))"

definition exchange_values :: "string \<Rightarrow> string \<Rightarrow> form_values" where
  "exchange_values code verifier =
     [(''grant_type'', ''authorization_code''), (''code'', code), (''client_id'', client_ClientID), (''redirect_uri'', client_RedirectURI),
      (''code_verifier'', verifier), (''expire_secs'', Itoa 120)]"

definition handleCallback :: "client_lib \<Rightarrow> 's idp \<Rightarrow> br_request \<Rightarrow> 's bff \<Rightarrow> br_response \<times> 's bff" where
  "handleCallback L idp rq b =
     (let code = br_query rq ''code''; state = br_query rq ''state''; pa = bf_pending b in
      if code = [] then (http_Error ''no code in request'' 400, b)
      else if pa_State pa = [] \<or> state \<noteq> pa_State pa then (http_Error ''state mismatch'' 400, b)
      else case postToken L idp (exchange_values code (pa_Verifier pa)) b of
          (Inl err, b1) \<Rightarrow> (http_Error ''token exchange failed'' 500, b1)
        | (Inr tok, b1) \<Rightarrow>
            if extractNonce L (tk_IDToken tok) \<noteq> Inr (pa_Nonce (bf_pending b1)) then (http_Error ''nonce mismatch'' 400, b1)
            else case generateRandom L (b1\<lparr>bf_pending := no_pending\<rparr>) of
                (Inl err, b2) \<Rightarrow> (http_Error ''failed to generate session'' 500, b2)
              | (Inr sid, b2) \<Rightarrow>
                  (case generateRandom L b2 of
                     (Inl err, b3) \<Rightarrow> (http_Error ''failed to generate csrf token'' 500, b3)
                   | (Inr csrf, b3) \<Rightarrow>
                       (Redirect ''/'', setLastResponse sid (bl_prettyJSON L tok) (setCSRFToken sid csrf (setSession sid tok b3)))))"

definition handleRefresh :: "client_lib \<Rightarrow> 's idp \<Rightarrow> br_request \<Rightarrow> 's bff \<Rightarrow> br_response \<times> 's bff" where
  "handleRefresh L idp rq b =
     (case requirePOSTWithCSRF rq b of
        Some rs \<Rightarrow> (rs, b)
      | None \<Rightarrow>
          (case requireRefreshToken rq b of
             Inl rs \<Rightarrow> (rs, b)
           | Inr (tok, sid) \<Rightarrow>
               (case postToken L idp [(''grant_type'', ''refresh_token''), (''client_id'', client_ClientID),
                        (''refresh_token'', tk_RefreshToken tok)] b of
                  (Inl err, b1) \<Rightarrow> (http_Error ''refresh failed'' 500, b1)
                | (Inr newTok, b1) \<Rightarrow>
                    (Redirect ''/'', setLastResponse sid (bl_prettyJSON L newTok) (setSession sid newTok b1)))))"

definition handleRevoke :: "client_lib \<Rightarrow> 's idp \<Rightarrow> br_request \<Rightarrow> 's bff \<Rightarrow> br_response \<times> 's bff" where
  "handleRevoke L idp rq b =
     (case requirePOSTWithCSRF rq b of
        Some rs \<Rightarrow> (rs, b)
      | None \<Rightarrow>
          (case requireSessionToken L idp rq b of
             (Inl rs, b1) \<Rightarrow> (rs, b1)
           | (Inr tok, b1) \<Rightarrow>
               (case postWithBearer idp (RevokeEndpoint L) (tk_AccessToken tok)
                        [(''token'', tk_AccessToken tok), (''token_type_hint'', ''access_token'')] b1 of
                  (Inl err, b2) \<Rightarrow> (http_Error ''revoke failed'' 500, b2)
                | (Inr (body, status), b2) \<Rightarrow>
                    (Redirect ''/'', clearSession rq (setCurrentLastResponse rq (''HTTP '' @ Itoa status @ [CHR 0x0A] @ body) b2)))))"

definition handleIntrospect :: "client_lib \<Rightarrow> 's idp \<Rightarrow> br_request \<Rightarrow> 's bff \<Rightarrow> br_response \<times> 's bff" where
  "handleIntrospect L idp rq b =
     (case requireSessionToken L idp rq b of
        (Inl rs, b1) \<Rightarrow> (rs, b1)
      | (Inr tok, b1) \<Rightarrow>
          (case postWithBearer idp (IntrospectEndpoint L) (tk_AccessToken tok)
                   [(''token'', tk_AccessToken tok), (''token_type_hint'', ''access_token'')] b1 of
             (Inl err, b2) \<Rightarrow> (http_Error ''introspect failed'' 500, b2)
           | (Inr (body, status), b2) \<Rightarrow> (Redirect ''/'', setCurrentLastResponse rq body b2)))"

definition handleUserInfo :: "client_lib \<Rightarrow> 's idp \<Rightarrow> br_request \<Rightarrow> 's bff \<Rightarrow> br_response \<times> 's bff" where
  "handleUserInfo L idp rq b =
     (case requireSessionToken L idp rq b of
        (Inl rs, b1) \<Rightarrow> (rs, b1)
      | (Inr tok, b1) \<Rightarrow>
          (case fetchUserInfo L idp (tk_AccessToken tok) b1 of
             (Inl err, b2) \<Rightarrow> (http_Error ''userinfo failed'' 500, b2)
           | (Inr body, b2) \<Rightarrow> (Redirect ''/'', setCurrentLastResponse rq body b2)))"

text \<open>The text shown after a logout ends in an em dash and two words, whose UTF-8 bytes are spelled out.\<close>

definition logged_out_text :: "int \<Rightarrow> string" where
  "logged_out_text status = ''HTTP '' @ Itoa status @ '' '' @ [CHR 0xE2, CHR 0x80, CHR 0x94] @ '' logged out''"

definition handleLogout :: "client_lib \<Rightarrow> 's idp \<Rightarrow> br_request \<Rightarrow> 's bff \<Rightarrow> br_response \<times> 's bff" where
  "handleLogout L idp rq b =
     (case requirePOSTWithCSRF rq b of
        Some rs \<Rightarrow> (rs, b)
      | None \<Rightarrow>
          (case requireLogoutToken rq b of
             Inl rs \<Rightarrow> (rs, b)
           | Inr tok \<Rightarrow>
               (case send idp (PostLogout (LogoutEndpoint L) (if tk_AccessToken tok \<noteq> [] then Some (tk_AccessToken tok) else None)) b of
                  (Inl err, b1) \<Rightarrow> (http_Error ''logout failed'' 500, b1)
                | (Inr resp, b1) \<Rightarrow>
                    (Redirect ''/'', clearSession rq (setCurrentLastResponse rq (logged_out_text (ry_StatusCode resp)) b1)))))"

definition filled :: "br_request \<Rightarrow> string \<Rightarrow> form_values" where
  "filled rq k = (if br_form rq k \<noteq> [] then [(k, br_form rq k)] else [])"

definition handleUpdateProfile :: "client_lib \<Rightarrow> 's idp \<Rightarrow> br_request \<Rightarrow> 's bff \<Rightarrow> br_response \<times> 's bff" where
  "handleUpdateProfile L idp rq b =
     (case requireSessionToken L idp rq b of
        (Inl rs, b1) \<Rightarrow> (rs, b1)
      | (Inr tok, b1) \<Rightarrow>
          if br_Method rq = ''POST'' then
            if br_form_invalid rq then (http_Error ''invalid form'' 400, b1)
            else case postWithBearer idp (UpdateProfileEndpoint L) (tk_AccessToken tok)
                   (filled rq ''username'' @ filled rq ''nickname'' @ filled rq ''email'') b1 of
                (Inl err, b2) \<Rightarrow> (http_Error ''update profile failed'' 500, b2)
              | (Inr (body, status), b2) \<Rightarrow> (Redirect ''/'', setCurrentLastResponse rq body b2)
          else (\<lparr>bs_status = 200, bs_Location = None, bs_body = FormPage ''Update Profile'' UpdateProfileForm\<rparr>, b1))"

definition handleForgotPassword :: "client_lib \<Rightarrow> 's idp \<Rightarrow> br_request \<Rightarrow> 's bff \<Rightarrow> br_response \<times> 's bff" where
  "handleForgotPassword L idp rq b =
     (if br_Method rq = ''POST'' then
        if br_form_invalid rq then (http_Error ''invalid form'' 400, b)
        else case postForm idp (ForgotPasswordEndpoint L) [(''email'', br_form rq ''email'')] b of
            (Inl err, b1) \<Rightarrow> (http_Error ''request failed'' 500, b1)
          | (Inr _, b1) \<Rightarrow> (Redirect ''/'', b1)
      else (\<lparr>bs_status = 200, bs_Location = None, bs_body = FormPage ''Forgot Password'' ForgotPasswordForm\<rparr>, b))"

definition handleResetPassword :: "client_lib \<Rightarrow> 's idp \<Rightarrow> br_request \<Rightarrow> 's bff \<Rightarrow> br_response \<times> 's bff" where
  "handleResetPassword L idp rq b =
     (if br_Method rq = ''POST'' then
        if br_form_invalid rq then (http_Error ''invalid form'' 400, b)
        else case postForm idp (ResetPasswordEndpoint L) [(''token'', br_form rq ''token''), (''password'', br_form rq ''password'')] b of
            (Inl err, b1) \<Rightarrow> (http_Error ''request failed'' 500, b1)
          | (Inr _, b1) \<Rightarrow> (Redirect ''/'', b1)
      else (\<lparr>bs_status = 200, bs_Location = None,
             bs_body = FormPage ''Reset Password'' (ResetPasswordForm (EscapeString (br_query rq ''token'')))\<rparr>, b))"

text \<open>The multiplexer: \<open>"/"\<close> matches every path no other pattern matches.\<close>

definition client_routes :: "(string \<times> (client_lib \<Rightarrow> 's idp \<Rightarrow> br_request \<Rightarrow> 's bff \<Rightarrow> br_response \<times> 's bff)) list" where
  "client_routes =
     [(''/login'', handleLogin), (''/callback'', handleCallback), (''/refresh'', handleRefresh), (''/revoke'', handleRevoke),
      (''/introspect'', handleIntrospect), (''/userinfo'', handleUserInfo), (''/logout'', handleLogout),
      (''/update-profile'', handleUpdateProfile), (''/forgot-password'', handleForgotPassword), (''/reset-password'', handleResetPassword)]"

definition client_serve :: "client_lib \<Rightarrow> 's idp \<Rightarrow> br_request \<Rightarrow> 's bff \<Rightarrow> br_response \<times> 's bff" where
  "client_serve L idp rq b =
     (case map_of client_routes (br_path rq) of Some h \<Rightarrow> h | None \<Rightarrow> handleHome) L idp rq (b\<lparr>bf_cookies := []\<rparr>)"

definition client_start :: "env \<Rightarrow> 's \<Rightarrow> 's bff" where
  "client_start e s = \<lparr>bf_sessions = Map.empty, bf_pending = no_pending, bf_env = e, bf_idp = s, bf_cookies = []\<rparr>"

end
