(* ===== verification/Client_Guarantees.thy ===== *)
theory Client_Guarantees
  imports Demo_Client
begin

text \<open>
  What the demo client guarantees whatever the auth server answers: how a login completes, that state-changing actions need the session's CSRF
  token, and what every stored session has.
\<close>

section \<open>Frames\<close>

text \<open>Requests to the auth server touch nothing but its state.\<close>

lemma send_frame: "send idp rq b = (r, b') \<Longrightarrow> b' = b\<lparr>bf_idp := bf_idp b'\<rparr>"
  by (auto simp: send_def split: prod.splits)

lemma postToken_frame: "postToken L idp data b = (r, b') \<Longrightarrow> b' = b\<lparr>bf_idp := bf_idp b'\<rparr>"
  by (auto simp: postToken_def split: prod.splits sum.splits if_splits dest!: send_frame)

lemma postToken_access: "postToken L idp data b = (Inr tok, b') \<Longrightarrow> tk_AccessToken tok \<noteq> []"
  by (auto simp: postToken_def split: prod.splits sum.splits if_splits)

lemma frame_fields:
  assumes "b' = b\<lparr>bf_idp := s\<rparr>"
  shows "bf_sessions b' = bf_sessions b" "bf_pending b' = bf_pending b" "bf_env b' = bf_env b" "bf_cookies b' = bf_cookies b"
  using assms by simp_all

lemmas postToken_fields = frame_fields [OF postToken_frame]

lemma postWithBearer_fields:
  assumes "postWithBearer idp ep t d b = (r, b')"
  shows "bf_sessions b' = bf_sessions b" "bf_pending b' = bf_pending b"
proof -
  obtain x where "send idp (PostWithBearer ep t d) b = (x, b')"
    using assms by (auto simp: postWithBearer_def split: prod.splits sum.splits)
  from frame_fields [OF send_frame [OF this]] show "bf_sessions b' = bf_sessions b" "bf_pending b' = bf_pending b" by simp_all
qed

lemma postForm_fields:
  assumes "postForm idp ep d b = (r, b')"
  shows "bf_sessions b' = bf_sessions b"
proof -
  obtain x where "send idp (PostForm ep d) b = (x, b')"
    using assms by (auto simp: postForm_def split: prod.splits sum.splits)
  from frame_fields [OF send_frame [OF this]] show ?thesis by simp
qed

lemma fetchUserInfo_fields:
  assumes "fetchUserInfo L idp t b = (r, b')"
  shows "bf_sessions b' = bf_sessions b"
proof -
  obtain x where "send idp (GetWithBearer (UserinfoEndpoint L) t) b = (x, b')"
    using assms by (auto simp: fetchUserInfo_def split: prod.splits sum.splits if_splits)
  from frame_fields [OF send_frame [OF this]] show ?thesis by simp
qed

lemma client_now_fields:
  "client_now b = (t, b') \<Longrightarrow> bf_sessions b' = bf_sessions b \<and> bf_pending b' = bf_pending b \<and> bf_idp b' = bf_idp b"
  by (auto simp: client_now_def split: prod.splits)

lemma generateRandom_Inr:
  "generateRandom L b = (Inr (RawURLEncoding_EncodeToString (p_rand (bl_prims L) (rand_ctr (bf_env b)) TokenBytes)),
     b\<lparr>bf_env := (bf_env b)\<lparr>rand_ctr := Suc (rand_ctr (bf_env b))\<rparr>\<rparr>)"
  by (simp add: generateRandom_def random_Token_Inr)

lemma setSession_fields:
  "\<exists>d. bf_sessions (setSession i tok b) = (bf_sessions b)(i \<mapsto> d) \<and> sd_token d = tok
     \<and> sd_CSRFToken d = (case bf_sessions b i of None \<Rightarrow> [] | Some c \<Rightarrow> sd_CSRFToken c)"
  "bf_pending (setSession i tok b) = bf_pending b"
  by (auto simp: setSession_def Let_def split: prod.splits option.splits dest!: client_now_fields)

section \<open>Login\<close>

text \<open>The only way a callback changes the sessions.\<close>

lemma callback_session:
  assumes "handleCallback L idp rq b = (rs, b')" and "bf_sessions b' \<noteq> bf_sessions b"
  obtains tok b1 d where "br_query rq ''state'' = pa_State (bf_pending b)" "pa_State (bf_pending b) \<noteq> []"
    "postToken L idp (exchange_values (br_query rq ''code'') (pa_Verifier (bf_pending b))) b = (Inr tok, b1)"
    "extractNonce L (tk_IDToken tok) = Inr (pa_Nonce (bf_pending b))"
    "bf_sessions b' = (bf_sessions b)(RawURLEncoding_EncodeToString (p_rand (bl_prims L) (rand_ctr (bf_env b)) TokenBytes) \<mapsto> d)"
    "sd_token d = tok" "sd_CSRFToken d = RawURLEncoding_EncodeToString (p_rand (bl_prims L) (Suc (rand_ctr (bf_env b))) TokenBytes)"
    "bf_pending b' = no_pending"
proof -
  let ?pa = "bf_pending b"
  let ?sid = "RawURLEncoding_EncodeToString (p_rand (bl_prims L) (rand_ctr (bf_env b)) TokenBytes)"
  let ?csrf = "RawURLEncoding_EncodeToString (p_rand (bl_prims L) (Suc (rand_ctr (bf_env b))) TokenBytes)"
  obtain r b1 where p: "postToken L idp (exchange_values (br_query rq ''code'') (pa_Verifier ?pa)) b = (r, b1)" by (metis surj_pair)
  note F = postToken_fields [OF p]
  have st: "br_query rq ''state'' = pa_State ?pa" "pa_State ?pa \<noteq> []"
    using assms by (auto simp: handleCallback_def Let_def split: if_splits)
  obtain tok where tok: "r = Inr tok" "extractNonce L (tk_IDToken tok) = Inr (pa_Nonce ?pa)"
    using assms p F by (cases r) (auto simp: handleCallback_def Let_def split: if_splits)
  define b3 where "b3 = b1\<lparr>bf_pending := no_pending, bf_env := (bf_env b)\<lparr>rand_ctr := Suc (Suc (rand_ctr (bf_env b)))\<rparr>\<rparr>"
  have b': "b' = setLastResponse ?sid (bl_prettyJSON L tok) (setCSRFToken ?sid ?csrf (setSession ?sid tok b3))"
    using assms p F tok st by (auto simp: handleCallback_def Let_def generateRandom_Inr b3_def split: if_splits)
  obtain d0 where d0: "bf_sessions (setSession ?sid tok b3) = (bf_sessions b)(?sid \<mapsto> d0)" "sd_token d0 = tok"
    using setSession_fields(1) [of ?sid tok b3] F(1) by (auto simp: b3_def)
  have "bf_sessions b' = (bf_sessions b)(?sid \<mapsto> d0\<lparr>sd_CSRFToken := ?csrf, sd_LastResponse := bl_prettyJSON L tok\<rparr>)"
    unfolding b' by (simp add: setLastResponse_def setCSRFToken_def d0(1))
  moreover have "bf_pending b' = no_pending"
    unfolding b' using setSession_fields(2) [of ?sid tok b3]
    by (simp add: b3_def setLastResponse_def setCSRFToken_def split: option.split)
  ultimately show ?thesis
    using that [OF st p [unfolded tok(1)] tok(2)] d0(2) by simp
qed

text \<open>
  C38. A login completes only as it was started: whenever a callback changes the sessions, it carried the state of the pending login, the code was exchanged with that
  login's verifier, and the ID token that came back carries its nonce. Exactly one session is added or replaced, under a fresh random identifier, with the tokens of that
  exchange and a random CSRF token. The pending login is used up: every later callback is refused until a new login starts.
\<close>

theorem callback_completes_login:
  assumes "handleCallback L idp rq b = (rs, b')" and "bf_sessions b' \<noteq> bf_sessions b"
  shows "\<exists>tok b1 d. br_query rq ''state'' = pa_State (bf_pending b) \<and> pa_State (bf_pending b) \<noteq> []
    \<and> postToken L idp (exchange_values (br_query rq ''code'') (pa_Verifier (bf_pending b))) b = (Inr tok, b1)
    \<and> extractNonce L (tk_IDToken tok) = Inr (pa_Nonce (bf_pending b))
    \<and> bf_sessions b' = (bf_sessions b)(RawURLEncoding_EncodeToString (p_rand (bl_prims L) (rand_ctr (bf_env b)) TokenBytes) \<mapsto> d)
    \<and> sd_token d = tok \<and> sd_CSRFToken d = RawURLEncoding_EncodeToString (p_rand (bl_prims L) (Suc (rand_ctr (bf_env b))) TokenBytes)
    \<and> (\<forall>rq2. bs_status (fst (handleCallback L idp rq2 b')) = 400 \<and> snd (handleCallback L idp rq2 b') = b')"
proof -
  from callback_session [OF assms] obtain tok b1 d where c: "br_query rq ''state'' = pa_State (bf_pending b)" "pa_State (bf_pending b) \<noteq> []"
    "postToken L idp (exchange_values (br_query rq ''code'') (pa_Verifier (bf_pending b))) b = (Inr tok, b1)"
    "extractNonce L (tk_IDToken tok) = Inr (pa_Nonce (bf_pending b))"
    "bf_sessions b' = (bf_sessions b)(RawURLEncoding_EncodeToString (p_rand (bl_prims L) (rand_ctr (bf_env b)) TokenBytes) \<mapsto> d)"
    "sd_token d = tok" "sd_CSRFToken d = RawURLEncoding_EncodeToString (p_rand (bl_prims L) (Suc (rand_ctr (bf_env b))) TokenBytes)"
    and spent: "bf_pending b' = no_pending" .
  have "\<forall>rq2. bs_status (fst (handleCallback L idp rq2 b')) = 400 \<and> snd (handleCallback L idp rq2 b') = b'"
    using spent by (simp add: handleCallback_def Let_def no_pending_def http_Error_def)
  with c show ?thesis by (intro exI [of _ tok] exI [of _ b1] exI [of _ d] conjI)
qed

text \<open>
  A server that answers every token request with the same tokens, for a pending login with nonce \<open>n\<close>.
\<close>

definition sample_tokens :: tokenResponse where
  "sample_tokens = \<lparr>tk_AccessToken = ''at'', tk_RefreshToken = ''rt'', tk_IDToken = ''h.bm9u.s'', tk_TokenType = ''Bearer'', tk_ExpiresIn = 120\<rparr>"

definition toy_prims :: prims where
  "toy_prims =
     \<lparr>p_uuid = (\<lambda>n. CHR ''u'' # replicate n CHR ''x''), p_valid_uuid = (\<lambda>_. True),
      p_rand = (\<lambda>k n. CHR ''R'' # replicate k CHR ''x''), p_sha256 = (\<lambda>s. s),
      p_bcrypt_Generate = (\<lambda>_ _ pw. Inr pw), p_bcrypt_Compare = (\<lambda>h pw. h = pw), p_bcrypt_Cost = (\<lambda>_. None),
      p_IsUpper = (\<lambda>r. False), p_IsLower = (\<lambda>r. False), p_IsDigit = (\<lambda>r. False),
      p_IsPunctOrSymbol = (\<lambda>r. False), p_ToLower = (\<lambda>s. s),
      p_url_Parse = (\<lambda>s. None), p_url_String = u_Rest, p_ParseQuery = (\<lambda>_. []), p_QueryEncode = (\<lambda>_. [])\<rparr>"

definition sample_lib :: client_lib where
  "sample_lib = \<lparr>bl_prims = toy_prims, bl_AuthServerURL = ''http://idp'', bl_json_token = (\<lambda>_. Inr sample_tokens),
     bl_json_nonce = Inr, bl_prettyJSON = (\<lambda>_. [])\<rparr>"

definition sample_idp :: "idp_request list idp" where
  "sample_idp rq sent = (Inr \<lparr>ry_StatusCode = 200, ry_body = []\<rparr>, sent @ [rq])"

definition sample_bff :: "idp_request list bff" where
  "sample_bff = (client_start \<lparr>clock = 0, ticks = [], uuid_ctr = 0, rand_ctr = 0, disk = []\<rparr> [])
     \<lparr>bf_pending := \<lparr>pa_State = ''st'', pa_Nonce = ''non'', pa_Verifier = ''v''\<rparr>\<rparr>"

definition browser :: "string \<Rightarrow> string \<Rightarrow> (string \<rightharpoonup> string) \<Rightarrow> br_request" where
  "browser m path q = \<lparr>br_Method = m, br_path = path, br_cookie = None, br_form = (\<lambda>_. []), br_form_invalid = False,
     br_query = (\<lambda>k. case q k of None \<Rightarrow> [] | Some v \<Rightarrow> v)\<rparr>"

definition sample_callback :: br_request where
  "sample_callback = browser ''GET'' ''/callback'' [''code'' \<mapsto> ''cd'', ''state'' \<mapsto> ''st'']"

theorem callback_completes_login_witness:
  "\<exists>i d. bf_sessions (snd (handleCallback sample_lib sample_idp sample_callback sample_bff)) i = Some d \<and> sd_token d = sample_tokens
     \<and> bs_status (fst (handleCallback sample_lib sample_idp sample_callback
          (snd (handleCallback sample_lib sample_idp sample_callback sample_bff)))) = 400"
proof -
  obtain rs b' where run: "handleCallback sample_lib sample_idp sample_callback sample_bff = (rs, b')" by (metis surj_pair)
  have "bf_sessions (snd (handleCallback sample_lib sample_idp sample_callback sample_bff)) ''Ug'' \<noteq> None" by code_simp
  then have "bf_sessions b' \<noteq> bf_sessions sample_bff" using run by (auto simp: sample_bff_def client_start_def)
  from callback_completes_login [OF run this] obtain tok b1 d where
    "postToken sample_lib sample_idp (exchange_values (br_query sample_callback ''code'') (pa_Verifier (bf_pending sample_bff))) sample_bff = (Inr tok, b1)"
    and d: "bf_sessions b' = (bf_sessions sample_bff)(RawURLEncoding_EncodeToString (p_rand (bl_prims sample_lib) (rand_ctr (bf_env sample_bff)) TokenBytes) \<mapsto> d)"
      "sd_token d = tok" "bs_status (fst (handleCallback sample_lib sample_idp sample_callback b')) = 400" by blast
  then have "tok = sample_tokens" by (simp add: postToken_def send_def sample_idp_def sample_lib_def sample_tokens_def)
  with d run show ?thesis by auto
qed

section \<open>Forged requests\<close>

text \<open>
  A forged request does nothing: refreshing, revoking and logging out are refused, with 405 or 403, unless the request is a POST that carries the CSRF token of its session;
  a refused request sends nothing to the auth server and changes no session and no pending login.
\<close>

lemma forged_action_refused:
  assumes "br_path rq \<in> {''/refresh'', ''/revoke'', ''/logout''}"
    and "\<not> (br_Method rq = ''POST'' \<and> (\<exists>i d. br_cookie rq = Some i \<and> bf_sessions b i = Some d \<and> sd_CSRFToken d \<noteq> []
              \<and> br_form rq csrfTokenField = sd_CSRFToken d))"
    and "client_serve L idp rq b = (rs, b')"
  shows "bs_status rs \<in> {405, 403} \<and> bf_idp b' = bf_idp b \<and> bf_sessions b' = bf_sessions b \<and> bf_pending b' = bf_pending b \<and> bf_cookies b' = []"
proof -
  let ?b = "b\<lparr>bf_cookies := []\<rparr>"
  have "br_Method rq \<noteq> ''POST'' \<or> csrfToken rq ?b = [] \<or> br_form rq csrfTokenField \<noteq> csrfToken rq ?b"
    using assms(2) by (auto simp: csrfToken_def split: option.splits)
  then obtain rs0 where "requirePOSTWithCSRF rq ?b = Some rs0" "bs_status rs0 \<in> {405, 403}"
    by (cases "br_Method rq = ''POST''") (auto simp: requirePOSTWithCSRF_def http_Error_def)
  moreover have "client_serve L idp rq b = (rs0, ?b)"
    using assms(1) calculation(1)
    by (auto simp: client_serve_def client_routes_def handleRefresh_def handleRevoke_def handleLogout_def)
  ultimately show ?thesis using assms(3) by simp
qed

section \<open>Stored sessions\<close>

definition sessions_ok :: "'s bff \<Rightarrow> bool" where
  "sessions_ok b \<longleftrightarrow> (\<forall>i d. bf_sessions b i = Some d \<longrightarrow> tk_AccessToken (sd_token d) \<noteq> [] \<and> sd_CSRFToken d \<noteq> [])"

lemma sessions_ok_same: "sessions_ok b \<Longrightarrow> bf_sessions b' = bf_sessions b \<Longrightarrow> sessions_ok b'"
  by (simp add: sessions_ok_def)

lemma setLastResponse_ok: "sessions_ok b \<Longrightarrow> sessions_ok (setLastResponse i r b)"
  by (auto simp: sessions_ok_def setLastResponse_def split: option.splits)

lemma setCurrent_ok: "sessions_ok b \<Longrightarrow> sessions_ok (setCurrentLastResponse rq r b)"
  by (auto simp: setCurrentLastResponse_def setLastResponse_ok split: option.splits)

lemma clearSession_ok: "sessions_ok b \<Longrightarrow> sessions_ok (clearSession rq b)"
  by (auto simp: sessions_ok_def clearSession_def Let_def split: option.splits if_splits)

lemma setSession_ok:
  assumes "sessions_ok b" and "bf_sessions b i \<noteq> None" and "tk_AccessToken tok \<noteq> []"
  shows "sessions_ok (setSession i tok b)"
proof -
  obtain c where c: "bf_sessions b i = Some c" using assms(2) by blast
  obtain d where d: "bf_sessions (setSession i tok b) = (bf_sessions b)(i \<mapsto> d)" "sd_token d = tok" "sd_CSRFToken d = sd_CSRFToken c"
    using setSession_fields(1) [of i tok b] c by auto
  have "sd_CSRFToken c \<noteq> []" using assms(1) c by (auto simp: sessions_ok_def)
  with d assms(1,3) show ?thesis unfolding sessions_ok_def d(1) by auto
qed

lemma refresh_ok:
  assumes "getSessionWithRefresh L idp rq b = (r, b')" and "sessions_ok b"
  shows "sessions_ok b'"
proof (cases "br_cookie rq")
  case None
  with assms show ?thesis by (simp add: getSessionWithRefresh_def)
next
  case (Some i)
  show ?thesis
  proof (cases "bf_sessions b i")
    case None
    with assms Some show ?thesis by (simp add: getSessionWithRefresh_def)
  next
    case data: (Some d)
    obtain t b1 where n: "client_now b = (t, b1)" by (metis surj_pair)
    have s1: "bf_sessions b1 = bf_sessions b" using client_now_fields [OF n] by simp
    obtain x b2 where p: "postToken L idp [(''grant_type'', ''refresh_token''), (''client_id'', client_ClientID),
        (''refresh_token'', tk_RefreshToken (sd_token d))] b1 = (x, b2)" by (metis surj_pair)
    have s2: "bf_sessions b2 = bf_sessions b" using postToken_fields(1) [OF p] s1 by simp
    have ok: "sessions_ok b1" "sessions_ok b2" using assms(2) s1 s2 by (simp_all add: sessions_ok_def)
    have "sessions_ok (setSession i tok b2)" if "x = Inr tok" for tok
      using setSession_ok [OF ok(2), of i tok] s2 data postToken_access [OF p [unfolded that]] by simp
    with assms(1) Some data n p ok show ?thesis by (auto simp: getSessionWithRefresh_def split: if_splits sum.splits)
  qed
qed

lemma require_ok: "requireSessionToken L idp rq b = (r, b') \<Longrightarrow> sessions_ok b \<Longrightarrow> sessions_ok b'"
  by (auto simp: requireSessionToken_def split: prod.splits option.splits if_splits dest: refresh_ok)

lemma callback_ok:
  assumes "handleCallback L idp rq b = (rs, b')" and "sessions_ok b" and "\<forall>k. p_rand (bl_prims L) k TokenBytes \<noteq> []"
  shows "sessions_ok b'"
proof (cases "bf_sessions b' = bf_sessions b")
  case True
  with assms(2) show ?thesis by (simp add: sessions_ok_def)
next
  case False
  from callback_session [OF assms(1) False] obtain tok b1 d where
    p: "postToken L idp (exchange_values (br_query rq ''code'') (pa_Verifier (bf_pending b))) b = (Inr tok, b1)"
    and d: "bf_sessions b' = (bf_sessions b)(RawURLEncoding_EncodeToString (p_rand (bl_prims L) (rand_ctr (bf_env b)) TokenBytes) \<mapsto> d)"
    "sd_token d = tok" "sd_CSRFToken d = RawURLEncoding_EncodeToString (p_rand (bl_prims L) (Suc (rand_ctr (bf_env b))) TokenBytes)" .
  have "0 < length (p_rand (bl_prims L) (Suc (rand_ctr (bf_env b))) TokenBytes)" using assms(3) by simp
  then have "0 < length (sd_CSRFToken d)" unfolding d(3) length_RawURLEncoding by linarith
  with d(1,2) postToken_access [OF p] assms(2) show ?thesis unfolding sessions_ok_def d(1) by auto
qed

lemmas session_steps = setLastResponse_ok setCurrent_ok clearSession_ok sessions_ok_same

lemma handleRefresh_ok:
  assumes "handleRefresh L idp rq b = (rs, b')" and "sessions_ok b"
  shows "sessions_ok b'"
proof (cases "\<exists>tok i. requirePOSTWithCSRF rq b = None \<and> requireRefreshToken rq b = Inr (tok, i)")
  case False
  with assms show ?thesis by (auto simp: handleRefresh_def split: option.splits sum.splits)
next
  case True
  then obtain tok i where g: "requirePOSTWithCSRF rq b = None" "requireRefreshToken rq b = Inr (tok, i)" by blast
  then have i: "bf_sessions b i \<noteq> None" by (auto simp: requireRefreshToken_def getSession_def split: option.splits if_splits)
  obtain x b1 where p: "postToken L idp [(''grant_type'', ''refresh_token''), (''client_id'', client_ClientID),
      (''refresh_token'', tk_RefreshToken tok)] b = (x, b1)" by (metis surj_pair)
  note F = postToken_fields(1) [OF p]
  have ok1: "sessions_ok b1" by (rule sessions_ok_same [OF assms(2) F])
  show ?thesis
  proof (cases x)
    case (Inl er)
    with assms(1) g p ok1 show ?thesis by (simp add: handleRefresh_def)
  next
    case (Inr t)
    have "sessions_ok (setSession i t b1)" using setSession_ok [OF ok1 _ postToken_access [OF p [unfolded Inr]]] i F by simp
    from setLastResponse_ok [OF this] assms(1) g p Inr show ?thesis by (auto simp: handleRefresh_def)
  qed
qed

lemma handler_ok:
  assumes "sessions_ok b"
  shows "handleHome L idp rq b = (rs, b') \<Longrightarrow> sessions_ok b'" "handleRevoke L idp rq b = (rs, b') \<Longrightarrow> sessions_ok b'"
    "handleIntrospect L idp rq b = (rs, b') \<Longrightarrow> sessions_ok b'" "handleUserInfo L idp rq b = (rs, b') \<Longrightarrow> sessions_ok b'"
    "handleLogout L idp rq b = (rs, b') \<Longrightarrow> sessions_ok b'" "handleUpdateProfile L idp rq b = (rs, b') \<Longrightarrow> sessions_ok b'"
    "handleForgotPassword L idp rq b = (rs, b') \<Longrightarrow> sessions_ok b'" "handleResetPassword L idp rq b = (rs, b') \<Longrightarrow> sessions_ok b'"
  using assms
  by (auto simp: handleHome_def handleRevoke_def handleIntrospect_def handleUserInfo_def handleLogout_def handleUpdateProfile_def
        handleForgotPassword_def handleResetPassword_def Let_def
      split: prod.split_asm sum.split_asm option.split_asm if_split_asm
      intro: session_steps dest: refresh_ok require_ok postWithBearer_fields(1) postForm_fields fetchUserInfo_fields
        frame_fields(1) [OF send_frame])

lemma handleLogin_ok:
  assumes "handleLogin L idp rq b = (rs, b')" and "sessions_ok b"
  shows "sessions_ok b'"
proof -
  obtain t b1 where g: "getSessionWithRefresh L idp rq b = (t, b1)" by (metis surj_pair)
  have "sessions_ok b1" by (rule refresh_ok [OF g assms(2)])
  then have "sessions_ok (setCurrentLastResponse rq [] (b1\<lparr>bf_env := e, bf_pending := pa\<rparr>))" for e pa
    by (intro setCurrent_ok) (simp add: sessions_ok_def)
  with assms(1) g \<open>sessions_ok b1\<close> show ?thesis by (auto simp: handleLogin_def Let_def generateRandom_Inr split: if_splits)
qed

text \<open>The client from its start, request by request.\<close>

inductive client_runs :: "client_lib \<Rightarrow> 's idp \<Rightarrow> 's bff \<Rightarrow> bool" for L idp where
  client_runs_start: "client_runs L idp (client_start e s)"
| client_runs_serve: "client_runs L idp b \<Longrightarrow> client_serve L idp rq b = (rs, b') \<Longrightarrow> client_runs L idp b'"

lemma client_serve_ok:
  assumes "client_serve L idp rq b = (rs, b')" and "sessions_ok b" and "\<forall>k. p_rand (bl_prims L) k TokenBytes \<noteq> []"
  shows "sessions_ok b'"
proof -
  have ok: "sessions_ok (b\<lparr>bf_cookies := []\<rparr>)" using assms(2) by (simp add: sessions_ok_def)
  show ?thesis
    using assms(1) unfolding client_serve_def client_routes_def
    by (auto split: if_split_asm dest: handler_ok [OF ok] handleLogin_ok [OF _ ok] handleRefresh_ok [OF _ ok] callback_ok [OF _ ok assms(3)])
qed

text \<open>
  In every state the client reaches, whatever browsers request and the auth server answers, every stored session has an access token and a CSRF token of its own,
  so the check of the CSRF token never compares with an empty one for a live session.
\<close>

lemma client_sessions_protected:
  assumes "client_runs L idp b" and "\<forall>k. p_rand (bl_prims L) k TokenBytes \<noteq> []" and "bf_sessions b i = Some d"
  shows "tk_AccessToken (sd_token d) \<noteq> [] \<and> sd_CSRFToken d \<noteq> []"
proof -
  have "sessions_ok b" using assms(1)
  proof (induction rule: client_runs.induct)
    case (client_runs_start e s)
    show ?case by (simp add: sessions_ok_def client_start_def)
  next
    case (client_runs_serve b rq rs b')
    then show ?case using client_serve_ok assms(2) by blast
  qed
  with assms(3) show ?thesis by (simp add: sessions_ok_def)
qed

end
