(* ===== verification/Mail.thy ===== *)
theory Mail
  imports Errors
begin

text \<open>
  The mail transport (\<open>infrastructure/smtp\<close>) and the senders of recovery mails (\<open>adapter/out/email_sender.go\<close>). The relay, the network below it and the
  protocol library are one parameter: what each call answers, over a state of its own. The client keeps one connection and reconnects once when a send
  fails before the message body was transmitted.
\<close>

section \<open>Calls to the relay\<close>

datatype smtp_call =
    DialTCP string | NewSmtp string | ExtensionStartTLS | StartTLS string
  | MailFrom string | RcptTo string | DataCmd | WriteBody string | EndData | ResetCmd
  | CloseSmtp | CloseRaw | SetDeadline | ClearDeadline

text \<open>Errors of a send: a wrapped cause, or one that carries \<open>errDataSent\<close>.\<close>

datatype mail_error = WrapErr string go_error | DataSentErr string go_error

definition errDataSent_text :: string where
  "errDataSent_text = ''smtp: message body already sent '' @ [CHR 0xE2, CHR 0x80, CHR 0x94] @ '' retry would risk duplicate delivery''"

fun mail_err_Error :: "mail_error \<Rightarrow> string" where
  "mail_err_Error (WrapErr what e) = what @ '': '' @ err_Error e"
| "mail_err_Error (DataSentErr what e) = errDataSent_text @ '': '' @ what @ '': '' @ err_Error e"

fun Is_errDataSent :: "mail_error \<Rightarrow> bool" where
  "Is_errDataSent (DataSentErr what e) = True"
| "Is_errDataSent (WrapErr what e) = False"

text \<open>
  \<open>mn_call\<close> answers \<open>None\<close> when a call succeeds; for \<open>ExtensionStartTLS\<close> this means that the relay offers it.
  \<open>mn_host\<close> is the host part of \<open>net.SplitHostPort\<close>.
\<close>

record 's mail_net =
  mn_call :: "smtp_call \<Rightarrow> 's \<Rightarrow> go_error option \<times> 's"
  mn_host :: "string \<Rightarrow> string"

record smtp_config =
  sc_Host :: string
  sc_Port :: string
  sc_From :: string

definition smtp_Addr :: "smtp_config \<Rightarrow> string" where
  "smtp_Addr c = sc_Host c @ '':'' @ sc_Port c"

text \<open>The client; \<open>mc_calls\<close> records the calls made, for the specification only.\<close>

record 's mail_client =
  mc_From :: string
  mc_addr :: string
  mc_conn :: bool          \<comment> \<open>\<open>conn\<close> and \<open>raw\<close> are set\<close>
  mc_net :: 's
  mc_calls :: "smtp_call list"

definition smtp_NewClient :: "string \<Rightarrow> string \<Rightarrow> 's \<Rightarrow> 's mail_client" where
  "smtp_NewClient addr from s = \<lparr>mc_From = from, mc_addr = addr, mc_conn = False, mc_net = s, mc_calls = []\<rparr>"

definition call :: "'s mail_net \<Rightarrow> smtp_call \<Rightarrow> 's mail_client \<Rightarrow> go_error option \<times> 's mail_client" where
  "call N c m = (let (r, s) = mn_call N c (mc_net m) in (r, m\<lparr>mc_net := s, mc_calls := mc_calls m @ [c]\<rparr>))"

text \<open>A call whose result is dropped.\<close>

definition call_ignored :: "'s mail_net \<Rightarrow> smtp_call \<Rightarrow> 's mail_client \<Rightarrow> 's mail_client" where
  "call_ignored N c m = snd (call N c m)"

section \<open>Connection\<close>

definition dial :: "'s mail_net \<Rightarrow> 's mail_client \<Rightarrow> mail_error option \<times> 's mail_client" where
  "dial N m =
     (let host = mn_host N (mc_addr m) in
      case call N (DialTCP (mc_addr m)) m of
        (Some err, m1) \<Rightarrow> (Some (WrapErr (''smtp dial '' @ mc_addr m) err), m1)
      | (None, m1) \<Rightarrow>
          (case call N (NewSmtp host) m1 of
             (Some err, m2) \<Rightarrow> (Some (WrapErr ''smtp handshake'' err), call_ignored N CloseRaw m2)
           | (None, m2) \<Rightarrow>
               (case call N ExtensionStartTLS m2 of
                  (Some _, m3) \<Rightarrow> (None, m3\<lparr>mc_conn := True\<rparr>)
                | (None, m3) \<Rightarrow>
                    (case call N (StartTLS host) m3 of
                       (Some err, m4) \<Rightarrow> (Some (WrapErr ''STARTTLS'' err), call_ignored N CloseRaw (call_ignored N CloseSmtp m4))
                     | (None, m4) \<Rightarrow> (None, m4\<lparr>mc_conn := True\<rparr>)))))"

definition closeConn :: "'s mail_net \<Rightarrow> 's mail_client \<Rightarrow> 's mail_client" where
  "closeConn N m = (if mc_conn m then (call_ignored N CloseSmtp m)\<lparr>mc_conn := False\<rparr> else m)"

definition mail_Close :: "'s mail_net \<Rightarrow> 's mail_client \<Rightarrow> 's mail_client" where
  "mail_Close N m = closeConn N m"

section \<open>Sending\<close>

fun rcpt_loop :: "'s mail_net \<Rightarrow> string list \<Rightarrow> 's mail_client \<Rightarrow> mail_error option \<times> 's mail_client" where
  "rcpt_loop N [] m = (None, m)"
| "rcpt_loop N (r # rs) m =
     (case call N (RcptTo r) m of
        (Some err, m1) \<Rightarrow> (Some (WrapErr (''RCPT TO '' @ r) err), m1)
      | (None, m1) \<Rightarrow> rcpt_loop N rs m1)"

definition transmit :: "'s mail_net \<Rightarrow> string \<Rightarrow> 's mail_client \<Rightarrow> mail_error option \<times> 's mail_client" where
  "transmit N rawMsg m =
     (case call N DataCmd m of
        (Some err, m1) \<Rightarrow> (Some (WrapErr ''DATA'' err), m1)
      | (None, m1) \<Rightarrow>
          (case call N (WriteBody rawMsg) m1 of
             (Some err, m2) \<Rightarrow> (Some (DataSentErr ''write body'' err), call_ignored N EndData m2)
           | (None, m2) \<Rightarrow>
               (case call N EndData m2 of
                  (Some err, m3) \<Rightarrow> (Some (DataSentErr ''end DATA'' err), m3)
                | (None, m3) \<Rightarrow> (None, call_ignored N ResetCmd m3))))"

definition doSend :: "'s mail_net \<Rightarrow> string list \<Rightarrow> string \<Rightarrow> 's mail_client \<Rightarrow> mail_error option \<times> 's mail_client" where
  "doSend N to rawMsg m =
     (let m0 = call_ignored N SetDeadline m;
          (r, m') = (case call N (MailFrom (mc_From m)) m0 of
              (Some err, m1) \<Rightarrow> (Some (WrapErr ''MAIL FROM'' err), m1)
            | (None, m1) \<Rightarrow>
                (case rcpt_loop N to m1 of
                   (Some err, m2) \<Rightarrow> (Some err, m2)
                 | (None, m2) \<Rightarrow> transmit N rawMsg m2))
      in (r, call_ignored N ClearDeadline m'))"

definition mail_Send :: "'s mail_net \<Rightarrow> string list \<Rightarrow> string \<Rightarrow> 's mail_client \<Rightarrow> mail_error option \<times> 's mail_client" where
  "mail_Send N to rawMsg m =
     (case (if mc_conn m then (None, m) else dial N m) of
        (Some err, m1) \<Rightarrow> (Some err, m1)
      | (None, m1) \<Rightarrow>
          (case doSend N to rawMsg m1 of
             (None, m2) \<Rightarrow> (None, m2)
           | (Some err, m2) \<Rightarrow>
               let m3 = closeConn N m2 in
               if Is_errDataSent err then (Some err, m3)
               else case dial N m3 of
                   (Some dialErr, m4) \<Rightarrow> (Some dialErr, m4)
                 | (None, m4) \<Rightarrow> doSend N to rawMsg m4))"

section \<open>Messages\<close>

definition crlf :: string where
  "crlf = [CHR 0x0D, CHR 0x0A]"

definition TrimRightCRLF :: "string \<Rightarrow> string" where
  "TrimRightCRLF s = rev (dropWhile (\<lambda>c. c \<in> {CHR 0x0D, CHR 0x0A}) (rev s))"

definition BuildMessage :: "string \<Rightarrow> string \<Rightarrow> string \<Rightarrow> string \<Rightarrow> string" where
  "BuildMessage from to subject body =
     ''To: '' @ to @ crlf @ ''From: '' @ from @ crlf @ ''Subject: '' @ subject @ crlf @ crlf @ TrimRightCRLF body @ crlf"

text \<open>The two senders. Without a relay only a masked address and the beginning of the token reach the log.\<close>

definition maskEmail :: "string \<Rightarrow> string" where
  "maskEmail email =
     (let at = length (takeWhile (\<lambda>c. c \<noteq> CHR ''@'') email) in
      if at = length email \<or> at = 0 then ''***'' else take 1 email @ ''***'' @ drop at email)"

definition tokenHint :: "string \<Rightarrow> string" where
  "tokenHint token = (if length token \<le> 8 then token else take 8 token @ ''...'')"

definition LogEmailSender_Send :: "string \<Rightarrow> string \<Rightarrow> string \<times> string" where
  "LogEmailSender_Send toEmail rawToken = (maskEmail toEmail, tokenHint rawToken)"

definition reset_mail_body :: "string \<Rightarrow> string \<Rightarrow> string" where
  "reset_mail_body appBaseURL rawToken =
     ''Click the link below to reset your password:'' @ crlf @ crlf @ (appBaseURL @ ''/reset-password?token='' @ rawToken) @ crlf @ crlf
     @ ''This link expires in 15 minutes.''"

definition SmtpEmailSender_Send ::
  "'s mail_net \<Rightarrow> string \<Rightarrow> string \<Rightarrow> string \<Rightarrow> 's mail_client \<Rightarrow> mail_error option \<times> 's mail_client" where
  "SmtpEmailSender_Send N appBaseURL toEmail rawToken m =
     (let msg = BuildMessage (mc_From m) toEmail ''Reset your password'' (reset_mail_body appBaseURL rawToken) in
      mail_Send N [toEmail] msg m)"

section \<open>What a send does on the wire\<close>

text \<open>The message bodies among some calls, and how often they dial.\<close>

definition bodies :: "smtp_call list \<Rightarrow> string list" where
  "bodies cs = concat (map (\<lambda>c. case c of WriteBody b \<Rightarrow> [b] | _ \<Rightarrow> []) cs)"

definition dials :: "smtp_call list \<Rightarrow> nat" where
  "dials cs = length (filter (\<lambda>c. case c of DialTCP _ \<Rightarrow> True | _ \<Rightarrow> False) cs)"

lemma dials_append [simp]: "dials (xs @ ys) = dials xs + dials ys" "dials [] = 0"
  "dials (c # cs) = (case c of DialTCP _ \<Rightarrow> 1 | _ \<Rightarrow> 0) + dials cs"
  by (simp_all add: dials_def split: smtp_call.split)

lemma bodies_append [simp]: "bodies (xs @ ys) = bodies xs @ bodies ys" "bodies [] = []"
  "bodies (c # cs) = (case c of WriteBody b \<Rightarrow> [b] | _ \<Rightarrow> []) @ bodies cs"
  by (simp_all add: bodies_def)

lemma rcpts_wire [simp]: "bodies (map RcptTo rs) = []" "dials (map RcptTo rs) = 0"
  by (induction rs) simp_all

text \<open>The calls one operation added, with the fields it leaves alone.\<close>

definition extends :: "'s mail_client \<Rightarrow> smtp_call list \<Rightarrow> 's mail_client \<Rightarrow> bool" where
  "extends m cs m' \<longleftrightarrow> mc_calls m' = mc_calls m @ cs \<and> mc_From m' = mc_From m \<and> mc_addr m' = mc_addr m"

lemma extends_refl: "extends m [] m"
  by (simp add: extends_def)

lemma extends_trans: "extends m cs m1 \<Longrightarrow> extends m1 ds m2 \<Longrightarrow> extends m (cs @ ds) m2"
  by (simp add: extends_def)

lemma extends_conn [simp]: "extends m cs (m'\<lparr>mc_conn := b\<rparr>) = extends m cs m'"
  by (simp add: extends_def)

lemma call_extends: "call N c m = (r, m') \<Longrightarrow> extends m [c] m'"
  by (auto simp: call_def extends_def split: prod.splits)

lemma call_ignored_extends: "extends m [c] (call_ignored N c m)"
  using call_extends [of N c m "fst (call N c m)" "snd (call N c m)"] by (simp add: call_ignored_def)

lemma dial_wire:
  assumes "dial N m = (r, m')"
  shows "\<exists>cs. extends m cs m' \<and> bodies cs = [] \<and> dials cs = 1 \<and> (\<forall>e. r = Some e \<longrightarrow> \<not> Is_errDataSent e)"
  using assms unfolding dial_def Let_def
  by (auto split: prod.split_asm option.split_asm
      dest!: call_extends simp: extends_def call_ignored_extends [unfolded extends_def])

lemma closeConn_wire: "\<exists>cs. extends m cs (closeConn N m) \<and> bodies cs = [] \<and> dials cs = 0"
  using call_ignored_extends [of m CloseSmtp N] extends_refl [of m]
  by (auto simp: closeConn_def intro!: exI [of _ "if mc_conn m then [CloseSmtp] else []"])

lemma rcpt_loop_wire:
  "rcpt_loop N rs m = (r, m') \<Longrightarrow> \<exists>cs. extends m cs m' \<and> bodies cs = [] \<and> dials cs = 0 \<and> (r = None \<longrightarrow> cs = map RcptTo rs)
     \<and> (\<forall>e. r = Some e \<longrightarrow> \<not> Is_errDataSent e)"
proof (induction rs arbitrary: m)
  case Nil
  then show ?case using extends_refl by auto
next
  case (Cons x xs)
  obtain a m1 where c: "call N (RcptTo x) m = (a, m1)" by (metis surj_pair)
  note e = call_extends [OF c]
  show ?case
  proof (cases a)
    case None
    with Cons c obtain cs where "extends m1 cs m'" "bodies cs = []" "dials cs = 0" "r = None \<longrightarrow> cs = map RcptTo xs" "\<forall>e. r = Some e \<longrightarrow> \<not> Is_errDataSent e"
      by auto
    with extends_trans [OF e] show ?thesis by (intro exI [of _ "[RcptTo x] @ cs"]) auto
  next
    case (Some err)
    with Cons.prems c e show ?thesis by (intro exI [of _ "[RcptTo x]"]) auto
  qed
qed

lemma transmit_wire:
  assumes "transmit N msg m = (r, m')"
  shows "\<exists>cs. extends m cs m' \<and> dials cs = 0 \<and> (r = None \<longrightarrow> cs = [DataCmd, WriteBody msg, EndData, ResetCmd])
     \<and> (\<forall>e. r = Some e \<longrightarrow> bodies cs = (if Is_errDataSent e then [msg] else []))"
  using assms unfolding transmit_def
  by (auto split: prod.split_asm option.split_asm dest!: call_extends simp: extends_def call_ignored_extends [unfolded extends_def])

definition envelope :: "string \<Rightarrow> string list \<Rightarrow> string \<Rightarrow> smtp_call list" where
  "envelope from to msg = [MailFrom from] @ map RcptTo to @ [DataCmd, WriteBody msg, EndData, ResetCmd]"

lemma doSend_wire:
  assumes "doSend N to msg m = (r, m')"
  shows "\<exists>cs. extends m cs m' \<and> dials cs = 0 \<and> (r = None \<longrightarrow> cs = [SetDeadline] @ envelope (mc_From m) to msg @ [ClearDeadline])
     \<and> (\<forall>e. r = Some e \<longrightarrow> bodies cs = (if Is_errDataSent e then [msg] else []))"
proof -
  let ?m0 = "call_ignored N SetDeadline m"
  obtain a m1 where c: "call N (MailFrom (mc_From m)) ?m0 = (a, m1)" by (metis surj_pair)
  obtain b m2 where l: "rcpt_loop N to m1 = (b, m2)" by (metis surj_pair)
  obtain d m3 where t: "transmit N msg m2 = (d, m3)" by (metis surj_pair)
  note e1 = extends_trans [OF call_ignored_extends call_extends [OF c]]
  obtain ls where e2: "extends m1 ls m2" "bodies ls = []" "dials ls = 0" "b = None \<longrightarrow> ls = map RcptTo to" "\<forall>e. b = Some e \<longrightarrow> \<not> Is_errDataSent e"
    using rcpt_loop_wire [OF l] by blast
  obtain ts where e3: "extends m2 ts m3" "dials ts = 0" "d = None \<longrightarrow> ts = [DataCmd, WriteBody msg, EndData, ResetCmd]"
    "\<forall>e. d = Some e \<longrightarrow> bodies ts = (if Is_errDataSent e then [msg] else [])"
    using transmit_wire [OF t] by blast
  note fin = extends_trans [OF _ call_ignored_extends [of _ ClearDeadline N]]
  consider (mail) err where "a = Some err" | (rcpt) err where "a = None" "b = Some err" | (sent) "a = None" "b = None" by (cases a; cases b) auto
  then show ?thesis
  proof cases
    case mail
    with assms c fin [OF e1] show ?thesis by (intro exI) (auto simp: doSend_def)
  next
    case rcpt
    with assms c l e2 fin [OF extends_trans [OF e1 e2(1)]] show ?thesis by (intro exI) (auto simp: doSend_def)
  next
    case sent
    with assms c l t e2 e3 fin [OF extends_trans [OF extends_trans [OF e1 e2(1)] e3(1)]] show ?thesis
      by (intro exI) (auto simp: doSend_def envelope_def)
  qed
qed

text \<open>What the calls of a send amount to, given its outcome.\<close>

definition sends :: "'s mail_client \<Rightarrow> string list \<Rightarrow> string \<Rightarrow> mail_error option \<Rightarrow> smtp_call list \<Rightarrow> 's mail_client \<Rightarrow> bool" where
  "sends m to msg r cs m' \<longleftrightarrow> extends m cs m'
     \<and> bodies cs = (case r of None \<Rightarrow> [msg] | Some e \<Rightarrow> if Is_errDataSent e then [msg] else [])
     \<and> (r = None \<longrightarrow> (\<exists>pre. cs = pre @ [SetDeadline] @ envelope (mc_From m) to msg @ [ClearDeadline]))"

lemma sends_after:
  assumes "extends m ps m1" and "bodies ps = []" and "sends m1 to msg r cs m'"
  shows "sends m to msg r (ps @ cs) m'"
  using assms by (auto simp: sends_def extends_def)

lemma sends_before:
  assumes "sends m to msg r cs m1" and "extends m1 ps m'" and "bodies ps = []" and "r \<noteq> None"
  shows "sends m to msg r (cs @ ps) m'"
  using assms by (auto simp: sends_def extends_def)

lemma doSend_sends:
  assumes "doSend N to msg m = (r, m')"
  obtains cs where "sends m to msg r cs m'" "dials cs = 0"
proof -
  from doSend_wire [OF assms] obtain cs where "extends m cs m'" "dials cs = 0"
    "r = None \<longrightarrow> cs = [SetDeadline] @ envelope (mc_From m) to msg @ [ClearDeadline]"
    "\<forall>e. r = Some e \<longrightarrow> bodies cs = (if Is_errDataSent e then [msg] else [])" by blast
  then have "sends m to msg r cs m'" by (cases r) (auto simp: sends_def envelope_def)
  from that [OF this \<open>dials cs = 0\<close>] show ?thesis .
qed

text \<open>Connecting and then sending.\<close>

lemma dial_doSend_sends:
  assumes "(case dial N m of (Some err, m1) \<Rightarrow> (Some err, m1) | (None, m1) \<Rightarrow> doSend N to msg m1) = (r, m')"
  obtains cs where "sends m to msg r cs m'" "dials cs = 1"
proof -
  obtain a m1 where d: "dial N m = (a, m1)" by (metis surj_pair)
  from dial_wire [OF d] obtain ps where ps: "extends m ps m1" "bodies ps = []" "dials ps = 1" "\<forall>e. a = Some e \<longrightarrow> \<not> Is_errDataSent e" by blast
  show ?thesis
  proof (cases a)
    case None
    with assms d have "doSend N to msg m1 = (r, m')" by simp
    then obtain cs where "sends m1 to msg r cs m'" "dials cs = 0" by (rule doSend_sends)
    with sends_after [OF ps(1,2)] ps(3) that show ?thesis by fastforce
  next
    case (Some e)
    with assms d ps that [of ps] show ?thesis by (auto simp: sends_def)
  qed
qed

text \<open>What follows once there is a connection.\<close>

lemma connected_sends:
  assumes "(case doSend N to msg m of (None, m2) \<Rightarrow> (None, m2)
     | (Some err, m2) \<Rightarrow> let m3 = closeConn N m2 in if Is_errDataSent err then (Some err, m3)
         else case dial N m3 of (Some dialErr, m4) \<Rightarrow> (Some dialErr, m4) | (None, m4) \<Rightarrow> doSend N to msg m4) = (r, m')"
  obtains cs where "sends m to msg r cs m'" "dials cs \<le> 1"
proof -
  obtain b m2 where q: "doSend N to msg m = (b, m2)" by (metis surj_pair)
  then obtain qs where qs: "sends m to msg b qs m2" "dials qs = 0" by (rule doSend_sends)
  obtain xs where xs: "extends m2 xs (closeConn N m2)" "bodies xs = []" "dials xs = 0" using closeConn_wire by blast
  consider "b = None" | e where "b = Some e" "Is_errDataSent e" | e where "b = Some e" "\<not> Is_errDataSent e" by (cases b) auto
  then show ?thesis
  proof cases
    case 1
    with assms q qs that [of qs] show ?thesis by simp
  next
    case 2
    then have "sends m to msg b (qs @ xs) (closeConn N m2)" using sends_before [OF qs(1) xs(1,2)] by simp
    moreover have "r = b" "m' = closeConn N m2" using assms q 2 by simp_all
    ultimately show ?thesis using that [of "qs @ xs"] qs(2) xs(3) by simp
  next
    case 3
    with assms q have "(case dial N (closeConn N m2) of (Some err, m1) \<Rightarrow> (Some err, m1) | (None, m1) \<Rightarrow> doSend N to msg m1) = (r, m')"
      by simp
    then obtain cs where cs: "sends (closeConn N m2) to msg r cs m'" "dials cs = 1" by (rule dial_doSend_sends)
    have "extends m (qs @ xs) (closeConn N m2)" "bodies (qs @ xs) = []" using qs(1) xs 3 by (auto simp: sends_def extends_def)
    from sends_after [OF this cs(1)] qs(2) xs(3) cs(2) that [of "(qs @ xs) @ cs"] show ?thesis by simp
  qed
qed

text \<open>
  C40. One send transmits the message at most once, whatever the relay answers and whenever the connection breaks: the body goes over the wire exactly once if the send succeeds
  or fails with the marker for a transmitted body, and not at all if it fails otherwise; a successful send ends with the complete envelope and message. It dials at most twice.
\<close>

theorem mail_sent_once:
  assumes "mail_Send N to msg m = (r, m')"
  shows "\<exists>cs. mc_calls m' = mc_calls m @ cs \<and> dials cs \<le> 2
    \<and> bodies cs = (case r of None \<Rightarrow> [msg] | Some e \<Rightarrow> if Is_errDataSent e then [msg] else [])
    \<and> (r = None \<longrightarrow> (\<exists>pre. cs = pre @ [SetDeadline] @ envelope (mc_From m) to msg @ [ClearDeadline]))"
proof -
  obtain a m1 where p: "(if mc_conn m then (None, m) else dial N m) = (a, m1)" by (metis surj_pair)
  obtain ps where ps: "extends m ps m1" "bodies ps = []" "dials ps \<le> 1" "\<forall>e. a = Some e \<longrightarrow> \<not> Is_errDataSent e"
    using dial_wire [of N m a m1] extends_refl [of m] p by (auto split: if_splits)
  have "\<exists>cs. sends m to msg r cs m' \<and> dials cs \<le> 2"
  proof (cases a)
    case (Some e)
    with assms p ps show ?thesis by (intro exI [of _ ps]) (auto simp: mail_Send_def sends_def)
  next
    case None
    with assms p obtain cs where "sends m1 to msg r cs m'" "dials cs \<le> 1"
      unfolding mail_Send_def by (auto elim: connected_sends)
    with sends_after [OF ps(1,2)] ps(3) show ?thesis by (intro exI [of _ "ps @ cs"]) simp
  qed
  then show ?thesis by (auto simp: sends_def extends_def)
qed

text \<open>A relay that has dropped the idle connection: the second call fails, every other one succeeds.\<close>

definition sample_relay :: "nat mail_net" where
  "sample_relay = \<lparr>mn_call = (\<lambda>c n. (if n = 1 then Some (ErrText ''EOF'') else None, Suc n)), mn_host = (\<lambda>a. a)\<rparr>"

definition sample_connection :: "nat mail_client" where
  "sample_connection = (smtp_NewClient ''relay:25'' ''auth@host'' 0)\<lparr>mc_conn := True\<rparr>"

theorem mail_sent_once_witness:
  "fst (mail_Send sample_relay [''a@b''] ''hello'' sample_connection) = None
   \<and> (\<exists>cs. mc_calls (snd (mail_Send sample_relay [''a@b''] ''hello'' sample_connection)) = cs \<and> bodies cs = [''hello''] \<and> dials cs = 1)"
proof -
  have ok: "fst (mail_Send sample_relay [''a@b''] ''hello'' sample_connection) = None"
    "dials (mc_calls (snd (mail_Send sample_relay [''a@b''] ''hello'' sample_connection))) = 1" by code_simp+
  obtain r m' where run: "mail_Send sample_relay [''a@b''] ''hello'' sample_connection = (r, m')" by (metis surj_pair)
  from mail_sent_once [OF run] ok run show ?thesis by (auto simp: sample_connection_def smtp_NewClient_def)
qed

end
