(* ===== verification/Startup.thy ===== *)
theory Startup
  imports App Mail Decimal
begin

text \<open>
  Starting the server: the settings \<open>cmd/auth/config/config.go\<close> reads from the environment, the dependencies \<open>cmd/auth/dependencies\<close> opens, loading the signing keys
  (\<open>infrastructure/jwt\<close>) and what \<open>cmd/auth/wire\<close> makes of the configured clients. A panic ends the start and is an error value. Files, keys, the reader of
  \<open>.env\<close> files, the syntax of durations and the \<open>url\<close> tag of the validator are parameters.
\<close>

section \<open>Parameters\<close>

type_synonym environ = "(string \<times> string) list"

definition Getenv :: "environ \<Rightarrow> string \<Rightarrow> string" where
  "Getenv env k = (case map_of env k of None \<Rightarrow> [] | Some v \<Rightarrow> v)"

record rsa_public =
  pk_E :: nat
  pk_N :: nat

record 'priv startup_lib =
  su_prims :: prims
  su_crypto :: crypto_prims
  su_LoadEnv :: "string \<Rightarrow> environ \<Rightarrow> bool + environ"   \<comment> \<open>\<open>godotenv.Load\<close>; \<open>Inl\<close>: failed, and whether the file does not exist\<close>
  su_JoinPath :: "string \<Rightarrow> string \<Rightarrow> string"
  su_ParseDuration :: "string \<Rightarrow> duration option"
  su_url_tag :: "string \<Rightarrow> bool"
  su_ReadFile :: "string \<Rightarrow> go_error + string"
  su_ParsePrivate :: "string \<Rightarrow> go_error + 'priv"
  su_ParsePublic :: "string \<Rightarrow> go_error + rsa_public"
  su_jwt :: "'priv \<Rightarrow> rsa_public \<Rightarrow> jwt_lib"             \<comment> \<open>signing and verifying with these keys\<close>
  su_Stat :: "string \<Rightarrow> bool"
  su_MkdirAll :: "string \<Rightarrow> go_error option"
  su_Create :: "string \<Rightarrow> go_error option"
  su_EncodeEmpty :: "string \<Rightarrow> go_error option"
  su_NewRedis :: "go_error option"
  su_cors :: "string list \<Rightarrow> http_request \<Rightarrow> headers \<times> int option"
  su_smtp :: "string \<Rightarrow> string \<Rightarrow> string \<Rightarrow> string \<Rightarrow> string \<Rightarrow> env \<Rightarrow> go_error option"

section \<open>Settings\<close>

record server_config =
  sv_Port :: string
  sv_CorsOrigins :: "string list"
  sv_CookieSecure :: bool
  sv_MetricsAddr :: string
  sv_RateLimitPerMin :: int
  sv_RateLimitWindow :: duration

record jwt_config =
  jc_PrivateKeyPath :: string
  jc_PublicKeyPath :: string
  jc_Issuer :: string
  jc_Kid :: string

record RedisOptions =
  ro_Addr :: string
  ro_Password :: string
  ro_DB :: int

record CryptoConfig =
  cy_EmailEncryptionKey :: string
  cy_EmailBlindIndexKey :: string

record FileRepositoryConfig =
  fc_Dir :: string
  fc_UserFileName :: string
  fc_RefreshTokenFileName :: string
  fc_GrantFileName :: string

record mongo_config =
  mo_Host :: string
  mo_Username :: string
  mo_Password :: string
  mo_AuthSource :: string
  mo_Database :: string
  mo_Direct :: bool

record ClientConfig =
  ct_ID :: string
  ct_AuthMethod :: string
  ct_Secret :: string
  ct_RedirectURIs :: "string list"
  ct_AllowedGrants :: "string list"

record OAuthConfig =
  oc_Clients :: "ClientConfig list"
  oc_PostLogoutRedirectAllowlist :: "string list"
  oc_ScopeAllowlist :: "string list"

record Settings =
  st_Server :: server_config
  st_JWT :: jwt_config
  st_RepositoryType :: string
  st_FileRepository :: "FileRepositoryConfig option"
  st_Mongo :: "mongo_config option"
  st_Redis :: RedisOptions
  st_OAuth :: OAuthConfig
  st_SMTP :: "smtp_config option"
  st_AppBaseURL :: string
  st_Crypto :: CryptoConfig

section \<open>Parsing the variables\<close>

definition parseRedisDB :: "string \<Rightarrow> go_error + int" where
  "parseRedisDB raw =
     (if raw = [] then Inr 0
      else case Atoi raw of
          None \<Rightarrow> Inl (ErrPanic ''invalid REDIS_DB configuration'')
        | Some db \<Rightarrow> if db < 0 then Inl (ErrPanic ''invalid REDIS_DB configuration'') else Inr db)"

definition defaultClientID :: string where "defaultClientID = ''client-123''"
definition defaultClientAuthMethod :: string where "defaultClientAuthMethod = ''none''"
definition defaultRateLimitPerMin :: int where "defaultRateLimitPerMin = 1000"
definition defaultRateLimitWindow :: duration where "defaultRateLimitWindow = Minute"

definition defaultClientRedirectURIs :: "string list" where
  "defaultClientRedirectURIs = [''https://app.example.com/callback'', ''http://localhost:3000/callback'']"

definition defaultClientAllowedGrants :: "string list" where
  "defaultClientAllowedGrants = [''authorization_code'', ''refresh_token'', ''password'', ''client_credentials'']"

definition parseRateLimitPerMin :: "string \<Rightarrow> go_error + int" where
  "parseRateLimitPerMin raw =
     (if raw = [] then Inr defaultRateLimitPerMin
      else case ParseInt raw of
          None \<Rightarrow> Inl (ErrPanic ''invalid RATE_LIMIT_PER_MIN configuration'')
        | Some limit \<Rightarrow> if limit < 0 then Inl (ErrPanic ''invalid RATE_LIMIT_PER_MIN configuration'') else Inr limit)"

definition parseRateLimitWindow :: "(string \<Rightarrow> duration option) \<Rightarrow> string \<Rightarrow> go_error + duration" where
  "parseRateLimitWindow ParseDuration raw =
     (if raw = [] then Inr defaultRateLimitWindow
      else case ParseDuration raw of
          None \<Rightarrow> Inl (ErrPanic ''invalid RATE_LIMIT_WINDOW configuration'')
        | Some window \<Rightarrow> if window \<le> 0 then Inl (ErrPanic ''invalid RATE_LIMIT_WINDOW configuration'') else Inr window)"

definition parseFileRepositoryConfig :: "environ \<Rightarrow> FileRepositoryConfig" where
  "parseFileRepositoryConfig env =
     \<lparr>fc_Dir = Getenv env ''FILE_DIR'', fc_UserFileName = Getenv env ''USER_FILE_PATH'',
      fc_RefreshTokenFileName = ''refresh_tokens.json'', fc_GrantFileName = ''grants.json''\<rparr>"

definition parseMongoConfig :: "environ \<Rightarrow> mongo_config" where
  "parseMongoConfig env =
     \<lparr>mo_Host = Getenv env ''MONGO_HOST'', mo_Username = Getenv env ''MONGO_USER'', mo_Password = Getenv env ''MONGO_PASSWORD'',
      mo_AuthSource = Getenv env ''MONGO_AUTH_SOURCE'', mo_Database = Getenv env ''MONGO_DATABASE'', mo_Direct = True\<rparr>"

definition parseCommaSeparated :: "string \<Rightarrow> string list" where
  "parseCommaSeparated raw = filter (\<lambda>t. t \<noteq> []) (map TrimSpace (Split raw CHR '',''))"

definition parseScopeAllowlist :: "string \<Rightarrow> string list" where
  "parseScopeAllowlist raw =
     (if raw = [] then [''openid'', ''email'', ''profile'', ''phone''] else parseCommaSeparated raw)"

definition parseCorsOrigins :: "string \<Rightarrow> string list" where
  "parseCorsOrigins raw =
     (if raw = [] then [''*''] else filter (\<lambda>t. t \<noteq> []) (map TrimSpace (Split raw CHR '','')))"

definition normalizePort :: "string \<Rightarrow> string" where
  "normalizePort raw = (if raw = [] then [] else if CHR '':'' \<in> set raw then raw else CHR '':'' # raw)"

definition envFilePath :: "(string \<Rightarrow> string \<Rightarrow> string) \<Rightarrow> environ \<Rightarrow> string \<Rightarrow> string \<times> bool" where
  "envFilePath JoinPath env entryPath =
     (if Getenv env ''ENV_PATH'' \<noteq> [] then (Getenv env ''ENV_PATH'', True) else (JoinPath entryPath ''.env'', False))"

section \<open>Configured clients\<close>

definition parseClientConfigFields :: "environ \<Rightarrow> string \<Rightarrow> string \<Rightarrow> ClientConfig" where
  "parseClientConfigFields env prefix i =
     (let m = Getenv env (prefix @ ''AUTH_METHOD'');
          authMethod = (if m = [] then defaultClientAuthMethod else m);
          g = parseCommaSeparated (Getenv env (prefix @ ''ALLOWED_GRANTS''));
          grants = (if g = [] then defaultClientAllowedGrants else g) in
      \<lparr>ct_ID = i, ct_AuthMethod = authMethod, ct_Secret = Getenv env (prefix @ ''SECRET''),
       ct_RedirectURIs = parseCommaSeparated (Getenv env (prefix @ ''REDIRECT_URIS'')), ct_AllowedGrants = grants\<rparr>)"

definition parsePrimaryClientConfig :: "environ \<Rightarrow> go_error + ClientConfig" where
  "parsePrimaryClientConfig env =
     (let i = Getenv env ''OAUTH_CLIENT_ID'' in
      if i = [] then
        if Getenv env ''DEV_SEED'' \<noteq> ''true'' then
          Inl (ErrPanic ''no OAuth client configured: set OAUTH_CLIENT_ID (and related OAUTH_CLIENT_* vars), or DEV_SEED=true for local development'')
        else Inr \<lparr>ct_ID = defaultClientID, ct_AuthMethod = defaultClientAuthMethod, ct_Secret = [],
                  ct_RedirectURIs = defaultClientRedirectURIs, ct_AllowedGrants = defaultClientAllowedGrants\<rparr>
      else Inr (parseClientConfigFields env ''OAUTH_CLIENT_'' i))"

definition client_prefix :: "nat \<Rightarrow> string" where
  "client_prefix n = ''OAUTH_CLIENT_'' @ Itoa (int n) @ ''_''"

text \<open>
  The loop over further clients stops at the first number without a client. It ends because an environment has finitely many variables and each number has a
  variable of its own.
\<close>

lemma client_prefix_inject [simp]: "client_prefix m = client_prefix n \<longleftrightarrow> m = n"
  using Itoa_inject [of "int m" "int n"] by (auto simp: client_prefix_def)

lemma finite_clients: "finite {m. Getenv env (client_prefix m @ ''ID'') \<noteq> []}" (is "finite ?S")
proof -
  have "(\<lambda>m. client_prefix m @ ''ID'') ` ?S \<subseteq> fst ` set env"
    by (force simp: Getenv_def split: option.splits dest: map_of_SomeD)
  moreover have "inj_on (\<lambda>m. client_prefix m @ ''ID'') ?S" by (rule inj_onI) simp
  ultimately show ?thesis by (meson finite_imageD finite_imageI finite_set finite_subset)
qed

function parseMoreClients :: "environ \<Rightarrow> nat \<Rightarrow> ClientConfig list" where
  "parseMoreClients env n =
     (let prefix = client_prefix n; i = Getenv env (prefix @ ''ID'') in
      if i = [] then [] else parseClientConfigFields env prefix i # parseMoreClients env (n + 1))"
  by pat_completeness auto

termination
proof (relation "measure (\<lambda>(env, n). card {m. n \<le> m \<and> Getenv env (client_prefix m @ ''ID'') \<noteq> []})")
  fix env :: environ and n prefix i
  assume "prefix = client_prefix n" "i = Getenv env (prefix @ ''ID'')" "i \<noteq> []"
  then have "{m. n + 1 \<le> m \<and> Getenv env (client_prefix m @ ''ID'') \<noteq> []} \<subset> {m. n \<le> m \<and> Getenv env (client_prefix m @ ''ID'') \<noteq> []}"
    by (intro psubsetI subsetI notI) (auto dest: equalityD2 [THEN subsetD, of _ _ n])
  moreover have "finite {m. n \<le> m \<and> Getenv env (client_prefix m @ ''ID'') \<noteq> []}" by (rule finite_subset [OF _ finite_clients]) auto
  ultimately show "((env, n + 1), env, n) \<in> measure (\<lambda>(env, n). card {m. n \<le> m \<and> Getenv env (client_prefix m @ ''ID'') \<noteq> []})"
    by (simp add: psubset_card_mono)
qed simp

declare parseMoreClients.simps [simp del]

definition parseClientConfigs :: "environ \<Rightarrow> go_error + ClientConfig list" where
  "parseClientConfigs env =
     (case parsePrimaryClientConfig env of Inl err \<Rightarrow> Inl err | Inr c \<Rightarrow> Inr (c # parseMoreClients env 2))"

section \<open>Loading\<close>

text \<open>The tags of the settings, with the structures they contain.\<close>

definition file_config_valid :: "FileRepositoryConfig \<Rightarrow> bool" where
  "file_config_valid c \<longleftrightarrow> fc_Dir c \<noteq> [] \<and> fc_UserFileName c \<noteq> [] \<and> fc_RefreshTokenFileName c \<noteq> [] \<and> fc_GrantFileName c \<noteq> []"

definition mongo_config_valid :: "mongo_config \<Rightarrow> bool" where
  "mongo_config_valid c \<longleftrightarrow> mo_Host c \<noteq> [] \<and> mo_Username c \<noteq> [] \<and> mo_Password c \<noteq> [] \<and> mo_AuthSource c \<noteq> [] \<and> mo_Database c \<noteq> []"

definition jwt_config_valid :: "(string \<Rightarrow> bool) \<Rightarrow> jwt_config \<Rightarrow> bool" where
  "jwt_config_valid url_tag c \<longleftrightarrow> jc_PrivateKeyPath c \<noteq> [] \<and> jc_PublicKeyPath c \<noteq> [] \<and> jc_Issuer c \<noteq> [] \<and> url_tag (jc_Issuer c) \<and> jc_Kid c \<noteq> []"

definition smtp_config_valid :: "smtp_config \<Rightarrow> bool" where
  "smtp_config_valid c \<longleftrightarrow> sc_Host c \<noteq> [] \<and> sc_Port c \<noteq> [] \<and> sc_From c \<noteq> []"

definition settings_valid :: "(string \<Rightarrow> bool) \<Rightarrow> Settings \<Rightarrow> bool" where
  "settings_valid url_tag s \<longleftrightarrow>
     sv_Port (st_Server s) \<noteq> [] \<and> jwt_config_valid url_tag (st_JWT s)
     \<and> st_RepositoryType s \<in> set [[], ''file'', ''mongo'']
     \<and> (case st_FileRepository s of None \<Rightarrow> st_RepositoryType s \<noteq> ''file'' | Some c \<Rightarrow> file_config_valid c)
     \<and> (case st_Mongo s of None \<Rightarrow> st_RepositoryType s \<noteq> ''mongo'' | Some c \<Rightarrow> mongo_config_valid c)
     \<and> (case st_SMTP s of None \<Rightarrow> True | Some c \<Rightarrow> smtp_config_valid c \<and> st_AppBaseURL s \<noteq> [])"

definition smtp_settings :: "environ \<Rightarrow> smtp_config option" where
  "smtp_settings env =
     (if Getenv env ''SMTP_HOST'' \<noteq> []
      then Some \<lparr>sc_Host = Getenv env ''SMTP_HOST'', sc_Port = Getenv env ''SMTP_PORT'', sc_From = Getenv env ''SMTP_FROM''\<rparr> else None)"

definition read_settings :: "'priv startup_lib \<Rightarrow> environ \<Rightarrow> go_error + Settings" where
  "read_settings L env =
     (case parseRateLimitPerMin (Getenv env ''RATE_LIMIT_PER_MIN'') of
        Inl err \<Rightarrow> Inl err
      | Inr limit \<Rightarrow>
     (case parseRateLimitWindow (su_ParseDuration L) (Getenv env ''RATE_LIMIT_WINDOW'') of
        Inl err \<Rightarrow> Inl err
      | Inr window \<Rightarrow>
     (case parseRedisDB (Getenv env ''REDIS_DB'') of
        Inl err \<Rightarrow> Inl err
      | Inr db \<Rightarrow>
     (case parseClientConfigs env of
        Inl err \<Rightarrow> Inl err
      | Inr clients \<Rightarrow> Inr
          \<lparr>st_Server = \<lparr>sv_Port = normalizePort (Getenv env ''PORT''), sv_CorsOrigins = parseCorsOrigins (Getenv env ''CORS_ORIGINS''),
             sv_CookieSecure = (Getenv env ''COOKIE_SECURE'' = ''true''), sv_MetricsAddr = Getenv env ''METRICS_ADDR'',
             sv_RateLimitPerMin = limit, sv_RateLimitWindow = window\<rparr>,
           st_JWT = \<lparr>jc_PrivateKeyPath = Getenv env ''PRIVATE_KEY_PATH'', jc_PublicKeyPath = Getenv env ''PUBLIC_KEY_PATH'',
             jc_Issuer = Getenv env ''JWT_ISSUER'', jc_Kid = Getenv env ''JWT_KID''\<rparr>,
           st_RepositoryType = Getenv env ''REPOSITORY_USED'',
           st_FileRepository = (if Getenv env ''REPOSITORY_USED'' = ''mongo'' then None else Some (parseFileRepositoryConfig env)),
           st_Mongo = (if Getenv env ''REPOSITORY_USED'' = ''mongo'' then Some (parseMongoConfig env) else None),
           st_Redis = \<lparr>ro_Addr = Getenv env ''REDIS_ADDR'', ro_Password = Getenv env ''REDIS_PASSWORD'', ro_DB = db\<rparr>,
           st_OAuth = \<lparr>oc_Clients = clients,
             oc_PostLogoutRedirectAllowlist = parseCommaSeparated (Getenv env ''OAUTH_POST_LOGOUT_REDIRECT_ALLOWLIST''),
             oc_ScopeAllowlist = parseScopeAllowlist (Getenv env ''OAUTH_SCOPE_ALLOWLIST'')\<rparr>,
           st_SMTP = smtp_settings env,
           st_AppBaseURL = Getenv env ''APP_BASE_URL'',
           st_Crypto = \<lparr>cy_EmailEncryptionKey = Getenv env ''EMAIL_ENCRYPTION_KEY'',
             cy_EmailBlindIndexKey = Getenv env ''EMAIL_BLIND_INDEX_KEY''\<rparr>\<rparr>))))"

text \<open>A missing \<open>.env\<close> file is fatal only when its path was given explicitly.\<close>

definition load_environ :: "'priv startup_lib \<Rightarrow> string \<Rightarrow> environ \<Rightarrow> go_error + environ" where
  "load_environ L entryPath env =
     (let (envPath, explicit) = envFilePath (su_JoinPath L) env entryPath in
      case su_LoadEnv L envPath env of
        Inl notExist \<Rightarrow> if explicit \<or> \<not> notExist then Inl (ErrPanic ''Error loading environment variables'') else Inr env
      | Inr env1 \<Rightarrow> Inr env1)"

definition Load :: "'priv startup_lib \<Rightarrow> string \<Rightarrow> environ \<Rightarrow> go_error + Settings" where
  "Load L entryPath env =
     (case load_environ L entryPath env of
        Inl err \<Rightarrow> Inl err
      | Inr env1 \<Rightarrow>
          (case read_settings L env1 of
             Inl err \<Rightarrow> Inl err
           | Inr cfg \<Rightarrow> if settings_valid (su_url_tag L) cfg then Inr cfg else Inl (ErrPanic ''Failed to validate configuration'')))"

section \<open>Signing keys\<close>

text \<open>\<open>big.Int.Bytes\<close>: big-endian, without leading zeros.\<close>

fun big_Bytes :: "nat \<Rightarrow> string" where
  "big_Bytes n = (if n = 0 then [] else big_Bytes (n div 256) @ [char_of (n mod 256)])"

declare big_Bytes.simps [simp del]

definition loadPrivateKey :: "'priv startup_lib \<Rightarrow> string \<Rightarrow> go_error + 'priv" where
  "loadPrivateKey L path =
     (case su_ReadFile L path of
        Inl err \<Rightarrow> Inl (ErrText (''read private key failed at '' @ path @ '': '' @ err_Error err))
      | Inr b \<Rightarrow> (case su_ParsePrivate L b of
            Inl err \<Rightarrow> Inl (ErrText (''parse private key failed at '' @ path @ '': '' @ err_Error err))
          | Inr key \<Rightarrow> Inr key))"

definition loadPublicKeyAndJWK :: "'priv startup_lib \<Rightarrow> string \<Rightarrow> string \<Rightarrow> go_error + rsa_public \<times> jwk" where
  "loadPublicKeyAndJWK L path kid =
     (case su_ReadFile L path of
        Inl err \<Rightarrow> Inl (ErrText (''read public key failed at '' @ path @ '': '' @ err_Error err))
      | Inr b \<Rightarrow> (case su_ParsePublic L b of
            Inl err \<Rightarrow> Inl (ErrText (''parse public key failed at '' @ path @ '': '' @ err_Error err))
          | Inr key \<Rightarrow> Inr (key,
              \<lparr>k_Kty = ''RSA'', k_E = RawURLEncoding_EncodeToString (big_Bytes (pk_E key)), k_N = RawURLEncoding_EncodeToString (big_Bytes (pk_N key)),
               k_Alg = ''RS256'', k_Use = ''sig'', k_Kid = kid\<rparr>)))"

definition NewJWTService :: "'priv startup_lib \<Rightarrow> jwt_config \<Rightarrow> go_error + jwt_service" where
  "NewJWTService L cfg =
     (case loadPrivateKey L (jc_PrivateKeyPath cfg) of
        Inl err \<Rightarrow> Inl err
      | Inr privateKey \<Rightarrow>
          (case loadPublicKeyAndJWK L (jc_PublicKeyPath cfg) (jc_Kid cfg) of
             Inl err \<Rightarrow> Inl err
           | Inr (publicKey, jwk) \<Rightarrow>
               Inr \<lparr>j_lib = su_jwt L privateKey publicKey, j_prims = su_prims L, j_jwk = jwk, j_Issuer = jc_Issuer cfg, j_kid = jc_Kid cfg\<rparr>))"

section \<open>Dependencies\<close>

definition NewFileStore :: "'priv startup_lib \<Rightarrow> string \<Rightarrow> string \<Rightarrow> go_error + string" where
  "NewFileStore L dbDir fileName =
     (let filePath = su_JoinPath L dbDir fileName in
      if su_Stat L filePath then Inr filePath
      else case su_MkdirAll L dbDir of
          Some err \<Rightarrow> Inl (ErrInitFailed err)
        | None \<Rightarrow> (case su_Create L filePath of
              Some err \<Rightarrow> Inl (ErrInitFailed err)
            | None \<Rightarrow> (case su_EncodeEmpty L filePath of
                  Some err \<Rightarrow> Inl (ErrInitFailed err)
                | None \<Rightarrow> Inr filePath)))"

datatype cache_kind = MemoryKind | RedisKind

definition selectCache :: "string \<Rightarrow> go_error option \<Rightarrow> go_error + cache_kind" where
  "selectCache redisAddr newRedis =
     (if redisAddr = [] then Inr MemoryKind
      else case newRedis of
          Some err \<Rightarrow> Inl (ErrText (''redis configured at '' @ redisAddr @ '' but unreachable: '' @ err_Error err))
        | None \<Rightarrow> Inr RedisKind)"

datatype stores = FileStores string string string | MongoStores

record Deps =
  dp_JWTService :: jwt_service
  dp_Cache :: cache_kind
  dp_SMTPClient :: "(string \<times> string) option"   \<comment> \<open>address and sender\<close>
  dp_EmailCipher :: cipher
  dp_stores :: stores

text \<open>The stores of the two kinds of repository; connecting to MongoDB is outside the model and its outcome an argument.\<close>

definition open_stores :: "'priv startup_lib \<Rightarrow> go_error option \<Rightarrow> Settings \<Rightarrow> go_error + stores" where
  "open_stores L mongoErr cfg =
     (if st_RepositoryType cfg = ''mongo'' then (case mongoErr of Some err \<Rightarrow> Inl err | None \<Rightarrow> Inr MongoStores)
      else case st_FileRepository cfg of
        None \<Rightarrow> Inl (ErrPanic ''nil pointer dereference'')
      | Some fc \<Rightarrow>
          (case NewFileStore L (fc_Dir fc) (fc_UserFileName fc) of
             Inl err \<Rightarrow> Inl err
           | Inr users \<Rightarrow>
               (case NewFileStore L (fc_Dir fc) (fc_RefreshTokenFileName fc) of
                  Inl err \<Rightarrow> Inl err
                | Inr rts \<Rightarrow>
                    (case NewFileStore L (fc_Dir fc) (fc_GrantFileName fc) of
                       Inl err \<Rightarrow> Inl err
                     | Inr grants \<Rightarrow> Inr (FileStores users rts grants)))))"

definition NewDeps :: "'priv startup_lib \<Rightarrow> go_error option \<Rightarrow> Settings \<Rightarrow> go_error + Deps" where
  "NewDeps L mongoErr cfg =
     (case NewJWTService L (st_JWT cfg) of
        Inl err \<Rightarrow> Inl err
      | Inr jwtSvc \<Rightarrow>
          (case selectCache (ro_Addr (st_Redis cfg)) (su_NewRedis L) of
             Inl err \<Rightarrow> Inl err
           | Inr c \<Rightarrow>
               (case NewCipherFromBase64 (su_crypto L) (cy_EmailEncryptionKey (st_Crypto cfg)) (cy_EmailBlindIndexKey (st_Crypto cfg)) of
                  Inl err \<Rightarrow> Inl err
                | Inr cipher \<Rightarrow>
                    (case open_stores L mongoErr cfg of
                       Inl err \<Rightarrow> Inl err
                     | Inr s \<Rightarrow> Inr \<lparr>dp_JWTService = jwtSvc, dp_Cache = c,
                         dp_SMTPClient = map_option (\<lambda>sc. (smtp_Addr sc, sc_From sc)) (st_SMTP cfg), dp_EmailCipher = cipher, dp_stores = s\<rparr>))))"

section \<open>Wiring\<close>

primrec parse_grants :: "string list \<Rightarrow> go_error + grant_type list" where
  "parse_grants [] = Inr []"
| "parse_grants (raw # rs) =
     (case ParseGrantType raw of
        Inl err \<Rightarrow> Inl (ErrPanic (''invalid client configuration: '' @ err_Error err))
      | Inr g \<Rightarrow> (case parse_grants rs of Inl err \<Rightarrow> Inl err | Inr gs \<Rightarrow> Inr (g # gs)))"

definition buildClient :: "prims \<Rightarrow> ClientConfig \<Rightarrow> env \<Rightarrow> (go_error + client) \<times> env" where
  "buildClient p c e =
     (case ParseClientAuthMethod (ct_AuthMethod c) of
        Inl err \<Rightarrow> (Inl (ErrPanic (''invalid client configuration: '' @ err_Error err)), e)
      | Inr authMethod \<Rightarrow>
          (case parse_grants (ct_AllowedGrants c) of
             Inl err \<Rightarrow> (Inl err, e)
           | Inr grants \<Rightarrow>
               (case NewClient p \<lparr>CA_ID = ct_ID c, CA_TenantID = [], CA_AuthMethod = authMethod, CA_Secret = ct_Secret c,
                       CA_RedirectURIs = ct_RedirectURIs c, CA_AllowedGrants = grants\<rparr> e of
                  (Inl err, e1) \<Rightarrow> (Inl (ErrPanic (''invalid client configuration: '' @ err_Error err)), e1)
                | (Inr client, e1) \<Rightarrow> (Inr client, e1))))"

primrec build_clients :: "prims \<Rightarrow> ClientConfig list \<Rightarrow> env \<Rightarrow> (go_error + client list) \<times> env" where
  "build_clients p [] e = (Inr [], e)"
| "build_clients p (c # cs) e =
     (case buildClient p c e of
        (Inl err, e1) \<Rightarrow> (Inl err, e1)
      | (Inr client, e1) \<Rightarrow>
          (case build_clients p cs e1 of
             (Inl err, e2) \<Rightarrow> (Inl err, e2)
           | (Inr clients, e2) \<Rightarrow> (Inr (client # clients), e2)))"

definition buildClientRegistry :: "prims \<Rightarrow> ClientConfig list \<Rightarrow> env \<Rightarrow> (go_error + client_registry) \<times> env" where
  "buildClientRegistry p cs e =
     (case build_clients p cs e of (Inl err, e1) \<Rightarrow> (Inl err, e1) | (Inr clients, e1) \<Rightarrow> (Inr (NewConfigClientRegistry clients), e1))"

definition buildEmailSender :: "'priv startup_lib \<Rightarrow> string \<Rightarrow> Deps \<Rightarrow> string \<Rightarrow> string \<Rightarrow> env \<Rightarrow> go_error option" where
  "buildEmailSender L appBaseURL deps =
     (case dp_SMTPClient deps of Some (addr, from) \<Rightarrow> su_smtp L addr from appBaseURL | None \<Rightarrow> (\<lambda>_ _ _. None))"

definition wire_Auth :: "'priv startup_lib \<Rightarrow> Settings \<Rightarrow> Deps \<Rightarrow> env \<Rightarrow> (go_error + app_config) \<times> env" where
  "wire_Auth L cfg deps e =
     (case buildClientRegistry (su_prims L) (oc_Clients (st_OAuth cfg)) e of
        (Inl err, e1) \<Rightarrow> (Inl err, e1)
      | (Inr registry, e1) \<Rightarrow>
          (Inr \<lparr>ap_codec = \<lparr>uc_prims = su_prims L, uc_crypto = su_crypto L, uc_cipher = dp_EmailCipher deps\<rparr>,
                ap_jwt = dp_JWTService deps, ap_registry = registry, ap_send = buildEmailSender L (st_AppBaseURL cfg) deps,
                ap_PostLogoutRedirectAllowlist = oc_PostLogoutRedirectAllowlist (st_OAuth cfg),
                ap_ScopeAllowlist = oc_ScopeAllowlist (st_OAuth cfg)\<rparr>, e1))"

definition server_settings :: "'priv startup_lib \<Rightarrow> server_config \<Rightarrow> web_config" where
  "server_settings L sv =
     \<lparr>wc_CookieSecure = sv_CookieSecure sv, wc_RateLimitPerMin = sv_RateLimitPerMin sv, wc_RateLimitWindow = sv_RateLimitWindow sv,
      wc_cors = su_cors L (sv_CorsOrigins sv)\<rparr>"

text \<open>The start of the program up to the listener; an error is a start that panics and exits with failure.\<close>

definition main :: "'priv startup_lib \<Rightarrow> go_error option \<Rightarrow> string \<Rightarrow> environ \<Rightarrow> env \<Rightarrow> (go_error + app_config \<times> web_config) \<times> env" where
  "main L mongoErr entryPath environ e =
     (case Load L entryPath environ of
        Inl err \<Rightarrow> (Inl err, e)
      | Inr cfg \<Rightarrow>
          (case NewDeps L mongoErr cfg of
             Inl err \<Rightarrow> (Inl err, e)
           | Inr deps \<Rightarrow>
               (case wire_Auth L cfg deps e of
                  (Inl err, e1) \<Rightarrow> (Inl err, e1)
                | (Inr app, e1) \<Rightarrow> (Inr (app, server_settings L (st_Server cfg)), e1))))"

section \<open>What a started server has\<close>

text \<open>A client that is what its configuration says.\<close>

definition client_of :: "prims \<Rightarrow> ClientConfig \<Rightarrow> client \<Rightarrow> bool" where
  "client_of p cc c \<longleftrightarrow> client_ok c \<and> C_TenantID c = DefaultTenantID \<and> C_ID c = ct_ID cc
     \<and> ParseClientAuthMethod (ct_AuthMethod cc) = Inr (C_AuthMethod c)
     \<and> (\<forall>h. C_SecretHash c = Some h \<longrightarrow> (\<exists>salt. p_bcrypt_Generate p bcrypt_DefaultCost salt (ct_Secret cc) = Inr h))
     \<and> (\<forall>g. AllowsGrant c g \<longleftrightarrow> (\<exists>raw \<in> set (ct_AllowedGrants cc). ParseGrantType raw = Inr g))
     \<and> (\<forall>uri. AllowsRedirectURI p c uri \<longleftrightarrow> (\<exists>u \<in> set (ct_RedirectURIs cc). normalizeRedirectURI p uri = normalizeRedirectURI p u))"

lemma parse_grants_set: "parse_grants rs = Inr gs \<Longrightarrow> g \<in> set gs \<longleftrightarrow> (\<exists>raw \<in> set rs. ParseGrantType raw = Inr g)"
  by (induction rs arbitrary: gs) (auto split: sum.splits)

lemma buildClient_client_of:
  assumes "buildClient p cc e = (Inr c, e')"
  shows "client_of p cc c"
proof -
  obtain m gs where b: "ParseClientAuthMethod (ct_AuthMethod cc) = Inr m" "parse_grants (ct_AllowedGrants cc) = Inr gs"
    "NewClient p \<lparr>CA_ID = ct_ID cc, CA_TenantID = [], CA_AuthMethod = m, CA_Secret = ct_Secret cc,
       CA_RedirectURIs = ct_RedirectURIs cc, CA_AllowedGrants = gs\<rparr> e = (Inr c, e')"
    using assms by (auto simp: buildClient_def split: sum.splits prod.splits)
  have "\<exists>salt. p_bcrypt_Generate p bcrypt_DefaultCost salt (ct_Secret cc) = Inr h" if "C_SecretHash c = Some h" for h
    using b(3) that by (auto simp: NewClient_def clientArgs_hashSecret_def Let_def split: sum.splits option.splits if_splits prod.splits)
  moreover have "C_TenantID c = DefaultTenantID"
    using b(3) by (auto simp: NewClient_def split: sum.splits option.splits prod.splits)
  ultimately show ?thesis
    using NewClient_Inr [OF b(3)] b(1) parse_grants_set [OF b(2)]
    by (auto simp: client_of_def AllowsGrant_def AllowsRedirectURI_def image_iff intro: sym)
qed

lemma list_all2_memberD:
  "list_all2 P xs ys \<Longrightarrow> x \<in> set xs \<Longrightarrow> \<exists>y \<in> set ys. P x y" "list_all2 P xs ys \<Longrightarrow> y \<in> set ys \<Longrightarrow> \<exists>x \<in> set xs. P x y"
  by (induction rule: list_all2_induct) auto

lemma build_clients_all: "build_clients p cs e = (Inr clients, e') \<Longrightarrow> list_all2 (client_of p) cs clients"
  by (induction cs arbitrary: e clients) (auto split: sum.splits prod.splits dest: buildClient_client_of)

lemma parseMoreClients_upto_gap:
  "\<exists>k \<ge> n. Getenv env (client_prefix k @ ''ID'') = [] \<and> (\<forall>m \<in> {n..<k}. Getenv env (client_prefix m @ ''ID'') \<noteq> [])
     \<and> parseMoreClients env n = map (\<lambda>m. parseClientConfigFields env (client_prefix m) (Getenv env (client_prefix m @ ''ID''))) [n..<k]"
proof (induction env n rule: parseMoreClients.induct)
  case (1 env n)
  show ?case
  proof (cases "Getenv env (client_prefix n @ ''ID'') = []")
    case True
    then show ?thesis by (intro exI [of _ n]) (simp add: parseMoreClients.simps)
  next
    case False
    with 1 obtain k where k: "n + 1 \<le> k" "Getenv env (client_prefix k @ ''ID'') = []" "\<forall>m \<in> {n + 1..<k}. Getenv env (client_prefix m @ ''ID'') \<noteq> []"
      "parseMoreClients env (n + 1) = map (\<lambda>m. parseClientConfigFields env (client_prefix m) (Getenv env (client_prefix m @ ''ID''))) [n + 1..<k]"
      by blast
    have "\<forall>m \<in> {n..<k}. Getenv env (client_prefix m @ ''ID'') \<noteq> []"
    proof
      fix m assume "m \<in> {n..<k}"
      with k(3) False show "Getenv env (client_prefix m @ ''ID'') \<noteq> []" by (cases "m = n") auto
    qed
    moreover have "[n..<k] = n # [n + 1..<k]" using k(1) by (simp add: upt_conv_Cons)
    ultimately show ?thesis using k False by (intro exI [of _ k]) (simp add: parseMoreClients.simps [of env n] Let_def)
  qed
qed

text \<open>The numbers of further clients have variables of their own.\<close>

lemma numbered_clients_bounded:
  assumes "\<forall>m \<in> {n..<k}. Getenv env (client_prefix m @ ''ID'') \<noteq> []"
  shows "k - n \<le> length env"
proof -
  have "(\<lambda>m. client_prefix m @ ''ID'') ` {n..<k} \<subseteq> fst ` set env"
    using assms by (force simp: Getenv_def split: option.splits dest: map_of_SomeD)
  then have "card ((\<lambda>m. client_prefix m @ ''ID'') ` {n..<k}) \<le> card (fst ` set env)" by (simp add: card_mono)
  moreover have "inj_on (\<lambda>m. client_prefix m @ ''ID'') {n..<k}" by (rule inj_onI) simp
  moreover have "card (fst ` set env) \<le> length env" by (metis card_image_le card_length finite_set le_trans)
  ultimately show ?thesis by (simp add: card_image)
qed

lemma read_settings_limits:
  assumes "read_settings L env = Inr cfg"
  shows "0 \<le> sv_RateLimitPerMin (st_Server cfg)" "0 < sv_RateLimitWindow (st_Server cfg)" "parseClientConfigs env = Inr (oc_Clients (st_OAuth cfg))"
proof -
  obtain limit window db clients where r: "parseRateLimitPerMin (Getenv env ''RATE_LIMIT_PER_MIN'') = Inr limit"
    "parseRateLimitWindow (su_ParseDuration L) (Getenv env ''RATE_LIMIT_WINDOW'') = Inr window" "parseClientConfigs env = Inr clients"
    "sv_RateLimitPerMin (st_Server cfg) = limit" "sv_RateLimitWindow (st_Server cfg) = window" "oc_Clients (st_OAuth cfg) = clients"
    using assms by (auto simp: read_settings_def split: sum.splits)
  then show "0 \<le> sv_RateLimitPerMin (st_Server cfg)" "0 < sv_RateLimitWindow (st_Server cfg)" "parseClientConfigs env = Inr (oc_Clients (st_OAuth cfg))"
    by (auto simp: parseRateLimitPerMin_def parseRateLimitWindow_def defaultRateLimitPerMin_def defaultRateLimitWindow_def
        split: if_splits option.splits)
qed

text \<open>
  C36. A server that starts knows exactly the clients its environment configures: every configured client is registered, and every registered client is well-formed, belongs to the
  default tenant and has the authentication method, the secret, the grants and the redirect URIs of a configuration with its identifier. Without a configured client it starts only when
  the development seed was asked for. Its rate limit is not negative and the window positive.
\<close>

theorem startup_clients_as_configured:
  assumes "main L mongoErr entryPath environ e = (Inr (cfg, wc), e')"
  shows "\<exists>env clients. load_environ L entryPath environ = Inr env \<and> parseClientConfigs env = Inr clients
    \<and> (\<forall>cc \<in> set clients. \<exists>c. registry_FindByID (ap_registry cfg) DefaultTenantID (ct_ID cc) = Inr (Some c))
    \<and> (\<forall>t i c. registry_FindByID (ap_registry cfg) t i = Inr (Some c) \<longrightarrow>
         t = DefaultTenantID \<and> C_ID c = i \<and> (\<exists>cc \<in> set clients. client_of (su_prims L) cc c))
    \<and> (Getenv env ''OAUTH_CLIENT_ID'' = [] \<longrightarrow> Getenv env ''DEV_SEED'' = ''true'')
    \<and> 0 \<le> wc_RateLimitPerMin wc \<and> 0 < wc_RateLimitWindow wc"
proof -
  obtain env st deps clients where m: "load_environ L entryPath environ = Inr env" "read_settings L env = Inr st"
    "build_clients (su_prims L) (oc_Clients (st_OAuth st)) e = (Inr clients, e')" "ap_registry cfg = NewConfigClientRegistry clients"
    "wc = server_settings L (st_Server st)"
    using assms by (auto simp: main_def Load_def wire_Auth_def buildClientRegistry_def split: sum.splits prod.splits if_splits)
  note limits = read_settings_limits [OF m(2)]
  from build_clients_all [OF m(3)] have all: "list_all2 (client_of (su_prims L)) (oc_Clients (st_OAuth st)) clients" .
  have "\<exists>c. registry_FindByID (ap_registry cfg) DefaultTenantID (ct_ID cc) = Inr (Some c)" if "cc \<in> set (oc_Clients (st_OAuth st))" for cc
  proof -
    from list_all2_memberD(1) [OF all that] obtain c where c: "c \<in> set clients" "client_of (su_prims L) cc c" ..
    with registry_finds [OF c(1)] m(4) show ?thesis by (auto simp: client_of_def registry_FindByID_def)
  qed
  moreover have "t = DefaultTenantID \<and> C_ID c = i \<and> (\<exists>cc \<in> set (oc_Clients (st_OAuth st)). client_of (su_prims L) cc c)"
    if f: "registry_FindByID (ap_registry cfg) t i = Inr (Some c)" for t i c
  proof -
    have "c \<in> set clients" using f registry_members m(4) by (auto simp: registry_FindByID_def)
    from list_all2_memberD(2) [OF all this] obtain cc where "cc \<in> set (oc_Clients (st_OAuth st))" "client_of (su_prims L) cc c" ..
    with registry_FindByID_ID [OF NewConfigClientRegistry_ok f [unfolded m(4)]] show ?thesis by (auto simp: client_of_def)
  qed
  moreover have "Getenv env ''OAUTH_CLIENT_ID'' = [] \<longrightarrow> Getenv env ''DEV_SEED'' = ''true''"
    using limits(3) by (auto simp: parseClientConfigs_def parsePrimaryClientConfig_def Let_def split: sum.splits if_splits)
  ultimately show ?thesis using m(1,5) limits by (auto simp: server_settings_def)
qed

text \<open>A start in development mode.\<close>

definition sample_environ :: environ where
  "sample_environ =
     [(''PORT'', ''80''), (''PRIVATE_KEY_PATH'', ''k''), (''PUBLIC_KEY_PATH'', ''p''), (''JWT_ISSUER'', ''i''), (''JWT_KID'', ''1''),
      (''FILE_DIR'', ''d''), (''USER_FILE_PATH'', ''u''), (''EMAIL_ENCRYPTION_KEY'', ''QUFBQUFBQUFBQUFBQUFBQUFBQUFBQUFBQUFBQUFBQUE=''),
      (''EMAIL_BLIND_INDEX_KEY'', ''QUFB''), (''DEV_SEED'', ''true'')]"

definition sample_start_env :: env where
  "sample_start_env = \<lparr>clock = 0, ticks = [], uuid_ctr = 0, rand_ctr = 0, disk = []\<rparr>"

definition start_prims :: prims where
  "start_prims =
     \<lparr>p_uuid = (\<lambda>n. CHR ''u'' # replicate n CHR ''x''), p_valid_uuid = (\<lambda>_. True),
      p_rand = (\<lambda>k n. CHR ''R'' # replicate k CHR ''x''), p_sha256 = (\<lambda>s. s),
      p_bcrypt_Generate = (\<lambda>_ _ pw. Inr pw), p_bcrypt_Compare = (\<lambda>h pw. h = pw), p_bcrypt_Cost = (\<lambda>_. None),
      p_IsUpper = (\<lambda>r. False), p_IsLower = (\<lambda>r. False), p_IsDigit = (\<lambda>r. False),
      p_IsPunctOrSymbol = (\<lambda>r. False), p_ToLower = (\<lambda>s. s),
      p_url_Parse = (\<lambda>s. None), p_url_String = u_Rest, p_ParseQuery = (\<lambda>_. []), p_QueryEncode = (\<lambda>_. [])\<rparr>"

definition sample_startup :: "unit startup_lib" where
  "sample_startup =
     \<lparr>su_prims = start_prims,
      su_crypto = \<lparr>cp_NewGCM = (\<lambda>_. \<lparr>NonceSize = 2, Seal = (\<lambda>_ s. s), Open = (\<lambda>_ s. Some s)\<rparr>), cp_hmac_sha256 = (\<lambda>_ s. s)\<rparr>,
      su_LoadEnv = (\<lambda>_ _. Inl True), su_JoinPath = (@), su_ParseDuration = (\<lambda>_. None), su_url_tag = (\<lambda>_. True),
      su_ReadFile = Inr, su_ParsePrivate = (\<lambda>_. Inr ()), su_ParsePublic = (\<lambda>_. Inr \<lparr>pk_E = 3, pk_N = 15\<rparr>),
      su_jwt = (\<lambda>_ _. \<lparr>jl_Sign = (\<lambda>_ _. Inr ''jwt''), jl_Parse = (\<lambda>_ _ _. Inl (ErrText ''bad token''))\<rparr>),
      su_Stat = (\<lambda>_. True), su_MkdirAll = (\<lambda>_. None), su_Create = (\<lambda>_. None), su_EncodeEmpty = (\<lambda>_. None), su_NewRedis = None,
      su_cors = (\<lambda>_ _. ([], None)), su_smtp = (\<lambda>_ _ _ _ _ _. None)\<rparr>"

theorem startup_clients_as_configured_witness:
  "\<exists>cfg wc c. fst (main sample_startup None [] sample_environ sample_start_env) = Inr (cfg, wc)
     \<and> registry_FindByID (ap_registry cfg) DefaultTenantID defaultClientID = Inr (Some c) \<and> client_ok c \<and> 0 < wc_RateLimitWindow wc"
proof -
  have "\<not> isl (fst (main sample_startup None [] sample_environ sample_start_env))" by code_simp
  then obtain cfg wc e' where run: "main sample_startup None [] sample_environ sample_start_env = (Inr (cfg, wc), e')"
    by (metis isl_def prod.collapse sum.collapse(2))
  have cc: "\<exists>cc cs. parseClientConfigs sample_environ = Inr (cc # cs) \<and> ct_ID cc = defaultClientID"
    by (simp add: parseClientConfigs_def parsePrimaryClientConfig_def Getenv_def sample_environ_def)
  have "load_environ sample_startup [] sample_environ = Inr sample_environ"
    by (simp add: load_environ_def envFilePath_def Getenv_def sample_startup_def sample_environ_def)
  with startup_clients_as_configured [OF run] cc obtain c where
    c: "registry_FindByID (ap_registry cfg) DefaultTenantID defaultClientID = Inr (Some c)" "0 < wc_RateLimitWindow wc"
    and "\<forall>t i c. registry_FindByID (ap_registry cfg) t i = Inr (Some c) \<longrightarrow> (\<exists>cc. client_of (su_prims sample_startup) cc c)" by fastforce
  then have "client_ok c" by (auto simp: client_of_def)
  with c run show ?thesis by auto
qed

text \<open>
  C39. Reading the numbered clients ends for every environment, after at most one round per variable: the loop yields, in order, the clients numbered from two up to the first number without
  an identifier, and nothing beyond that gap.
\<close>

theorem numbered_clients_end_at_gap:
  "\<exists>k \<ge> 2. Getenv env (client_prefix k @ ''ID'') = [] \<and> (\<forall>m \<in> {2..<k}. Getenv env (client_prefix m @ ''ID'') \<noteq> []) \<and> k \<le> length env + 2
     \<and> parseMoreClients env 2 = map (\<lambda>m. parseClientConfigFields env (client_prefix m) (Getenv env (client_prefix m @ ''ID''))) [2..<k]"
proof -
  obtain k where k: "2 \<le> k" "Getenv env (client_prefix k @ ''ID'') = []" "\<forall>m \<in> {2..<k}. Getenv env (client_prefix m @ ''ID'') \<noteq> []"
    "parseMoreClients env 2 = map (\<lambda>m. parseClientConfigFields env (client_prefix m) (Getenv env (client_prefix m @ ''ID''))) [2..<k]"
    using parseMoreClients_upto_gap by blast
  with numbered_clients_bounded [OF k(3)] show ?thesis by (intro exI [of _ k]) auto
qed

theorem numbered_clients_end_at_gap_witness:
  "map ct_ID (parseMoreClients [(''OAUTH_CLIENT_2_ID'', ''b''), (''OAUTH_CLIENT_4_ID'', ''d'')] 2) = [''b'']"
proof -
  let ?env = "[(''OAUTH_CLIENT_2_ID'', ''b''), (''OAUTH_CLIENT_4_ID'', ''d'')]"
  have v: "Getenv ?env (client_prefix 2 @ ''ID'') = ''b''" "Getenv ?env (client_prefix 3 @ ''ID'') = []" by code_simp+
  obtain k where k: "2 \<le> k" "Getenv ?env (client_prefix k @ ''ID'') = []" "\<forall>m \<in> {2..<k}. Getenv ?env (client_prefix m @ ''ID'') \<noteq> []"
    "parseMoreClients ?env 2 = map (\<lambda>m. parseClientConfigFields ?env (client_prefix m) (Getenv ?env (client_prefix m @ ''ID''))) [2..<k]"
    using numbered_clients_end_at_gap [of ?env] by blast
  have "k \<noteq> 2" using k(2) v(1) by auto
  moreover have "\<not> 3 < k"
  proof
    assume "3 < k"
    then have "(3 :: nat) \<in> {2..<k}" by simp
    with k(3) v(2) show False by blast
  qed
  ultimately have "k = 3" using k(1) by simp
  then have "[2..<k] = [2]" by (simp add: upt_conv_Cons)
  with k(4) v(1) show ?thesis by (simp add: parseClientConfigFields_def Let_def)
qed

end
