(* ===== verification/Mongo.thy ===== *)
theory Mongo
  imports Repos
begin

text \<open>
  The MongoDB adapters (\<open>adapter/out/mongo_*.go\<close>, \<open>infrastructure/repository/mongo\<close>). The server and its driver are a parameter: what each command of a collection
  answers, over a state of its own. The filters and updates the adapters send are data, so that what they ask for can be stated.
\<close>

section \<open>Commands of a collection\<close>

datatype filter_value = FStr string | FNull | FGt time

type_synonym mongo_filter = "(string \<times> filter_value) list"

text \<open>
  \<open>$set\<close> with a document and \<open>$unset\<close> with field names, or \<open>$set\<close> with one instant.
\<close>

datatype 'd mongo_update = SetDoc 'd "string list" | SetTime string time

record index_model =
  ix_keys :: "string list"
  ix_unique :: bool
  ix_expireAfterSeconds :: "int option"

datatype insert_error = DuplicateKey | InsertFailed go_error

text \<open>\<open>co_FindOne\<close> answers \<open>Inr None\<close> for \<open>mongo.ErrNoDocuments\<close>; updates answer with \<open>MatchedCount\<close>, and their flag is \<open>SetUpsert\<close>.\<close>

record ('d, 's) collection =
  co_CreateIndexes :: "index_model list \<Rightarrow> 's \<Rightarrow> go_error option \<times> 's"
  co_FindOne :: "mongo_filter \<Rightarrow> 's \<Rightarrow> go_error + 'd option"
  co_InsertOne :: "'d \<Rightarrow> 's \<Rightarrow> insert_error option \<times> 's"
  co_UpdateOne :: "mongo_filter \<Rightarrow> 'd mongo_update \<Rightarrow> bool \<Rightarrow> 's \<Rightarrow> (go_error + nat) \<times> 's"
  co_UpdateMany :: "mongo_filter \<Rightarrow> 'd mongo_update \<Rightarrow> 's \<Rightarrow> (go_error + nat) \<times> 's"

text \<open>The error of an update whose count is not looked at, and of one that must match.\<close>

definition update_err :: "(go_error + nat) \<times> 's \<Rightarrow> go_error option \<times> 's" where
  "update_err r = (case r of (Inl err, s) \<Rightarrow> (Some err, s) | (Inr n, s) \<Rightarrow> (None, s))"

definition matched_err :: "(go_error + nat) \<times> 's \<Rightarrow> go_error option \<times> 's" where
  "matched_err r = (case r of
       (Inl err, s) \<Rightarrow> (Some err, s)
     | (Inr n, s) \<Rightarrow> if n = 0 then (Some ErrNotFound, s) else (None, s))"

definition find_doc :: "('d, 's) collection \<Rightarrow> ('d \<Rightarrow> go_error + 't) \<Rightarrow> mongo_filter \<Rightarrow> 's \<Rightarrow> go_error + 't" where
  "find_doc C toEnt f s =
     (case co_FindOne C f s of
        Inl err \<Rightarrow> Inl err
      | Inr None \<Rightarrow> Inl ErrNotFound
      | Inr (Some doc) \<Rightarrow> toEnt doc)"

section \<open>Connection\<close>

record mongo_settings =
  ms_MaxPoolSize :: nat
  ms_ServerSelectionTimeout :: duration

definition mongo_defaults :: "mongo_settings \<Rightarrow> mongo_settings" where
  "mongo_defaults c =
     (let c1 = (if ms_MaxPoolSize c = 0 then c\<lparr>ms_MaxPoolSize := 100\<rparr> else c) in
      if ms_ServerSelectionTimeout c1 = 0 then c1\<lparr>ms_ServerSelectionTimeout := 10 * Second\<rparr> else c1)"

text \<open>Connecting and the ping that follows are outcomes of the driver.\<close>

definition NewMongoClient :: "(mongo_settings \<Rightarrow> go_error option) \<Rightarrow> go_error option \<Rightarrow> mongo_settings \<Rightarrow> go_error + mongo_settings" where
  "NewMongoClient Connect ping cfg =
     (let opts = mongo_defaults cfg in
      case Connect opts of
        Some err \<Rightarrow> Inl (ErrText (''failed to connect to MongoDB: '' @ err_Error err))
      | None \<Rightarrow> (case ping of
            Some err \<Rightarrow> Inl (ErrText (''MongoDB ping failed: '' @ err_Error err))
          | None \<Rightarrow> Inr opts))"

section \<open>Grants\<close>

definition NewMongoGrantRepository :: "(grantDoc, 's) collection \<Rightarrow> 's \<Rightarrow> go_error option \<times> 's" where
  "NewMongoGrantRepository C s =
     (case co_CreateIndexes C [\<lparr>ix_keys = [''expires_at''], ix_unique = False, ix_expireAfterSeconds = Some 0\<rparr>] s of
        (Some err, s1) \<Rightarrow> (Some (ErrText (''failed to create grant indexes: '' @ err_Error err)), s1)
      | (None, s1) \<Rightarrow> (None, s1))"

definition mgrant_Save :: "(grantDoc, 's) collection \<Rightarrow> grant \<Rightarrow> 's \<Rightarrow> env \<Rightarrow> go_error option \<times> 's \<times> env" where
  "mgrant_Save C g s e =
     (let doc = grantToDoc g; (r, s1) = update_err (co_UpdateOne C [(''_id'', FStr (gd_ID doc))] (SetDoc doc []) True s) in (r, s1, e))"

definition mgrant_FindByID :: "(grantDoc, 's) collection \<Rightarrow> GrantID \<Rightarrow> 's \<Rightarrow> env \<Rightarrow> (go_error + grant) \<times> 's \<times> env" where
  "mgrant_FindByID C i s e = (find_doc C grantToEntity [(''_id'', FStr i)] s, s, e)"

definition mgrant_Revoke :: "(grantDoc, 's) collection \<Rightarrow> GrantID \<Rightarrow> time \<Rightarrow> 's \<Rightarrow> env \<Rightarrow> go_error option \<times> 's \<times> env" where
  "mgrant_Revoke C i at s e =
     (let (r, s1) = matched_err (co_UpdateOne C [(''_id'', FStr i), (''revoked_at'', FNull)] (SetTime ''revoked_at'' at) False s) in (r, s1, e))"

definition mongo_grant_ops :: "(grantDoc, 's) collection \<Rightarrow> 's grant_ops" where
  "mongo_grant_ops C = \<lparr>gr_Save = mgrant_Save C, gr_FindByID = mgrant_FindByID C, gr_Revoke = mgrant_Revoke C, gr_alias = (\<lambda>g s. s)\<rparr>"

section \<open>Refresh tokens\<close>

definition rt_indexes :: "index_model list" where
  "rt_indexes =
     [\<lparr>ix_keys = [''token_hash''], ix_unique = True, ix_expireAfterSeconds = None\<rparr>,
      \<lparr>ix_keys = [''user_id'', ''revoked_at''], ix_unique = False, ix_expireAfterSeconds = None\<rparr>,
      \<lparr>ix_keys = [''grant_id'', ''revoked_at''], ix_unique = False, ix_expireAfterSeconds = None\<rparr>,
      \<lparr>ix_keys = [''expires_at''], ix_unique = False, ix_expireAfterSeconds = Some 0\<rparr>]"

definition NewMongoRefreshTokenRepository :: "(refreshTokenDoc, 's) collection \<Rightarrow> 's \<Rightarrow> go_error option \<times> 's" where
  "NewMongoRefreshTokenRepository C s =
     (case co_CreateIndexes C rt_indexes s of
        (Some err, s1) \<Rightarrow> (Some (ErrText (''failed to create refresh token indexes: '' @ err_Error err)), s1)
      | (None, s1) \<Rightarrow> (None, s1))"

definition mrt_Save :: "(refreshTokenDoc, 's) collection \<Rightarrow> refresh_token \<Rightarrow> 's \<Rightarrow> env \<Rightarrow> go_error option \<times> 's \<times> env" where
  "mrt_Save C rt s e =
     (let doc = rtToDoc rt; (r, s1) = update_err (co_UpdateOne C [(''_id'', FStr (rd_ID doc))] (SetDoc doc []) True s) in (r, s1, e))"

definition mrt_FindByTokenHash :: "(refreshTokenDoc, 's) collection \<Rightarrow> string \<Rightarrow> 's \<Rightarrow> env \<Rightarrow> (go_error + refresh_token) \<times> 's \<times> env" where
  "mrt_FindByTokenHash C h s e = (find_doc C rtToEntity [(''token_hash'', FStr h)] s, s, e)"

definition live_token_filter :: "string \<Rightarrow> time \<Rightarrow> mongo_filter" where
  "live_token_filter h t = [(''token_hash'', FStr h), (''revoked_at'', FNull), (''expires_at'', FGt t)]"

definition mrt_RevokeByTokenHash :: "(refreshTokenDoc, 's) collection \<Rightarrow> string \<Rightarrow> 's \<Rightarrow> env \<Rightarrow> go_error option \<times> 's \<times> env" where
  "mrt_RevokeByTokenHash C h s e =
     (let (t, e1) = now e; (r, s1) = matched_err (co_UpdateOne C (live_token_filter h t) (SetTime ''revoked_at'' t) False s) in (r, s1, e1))"

definition mrt_RevokeAllForUser :: "(refreshTokenDoc, 's) collection \<Rightarrow> UserID \<Rightarrow> 's \<Rightarrow> env \<Rightarrow> go_error option \<times> 's \<times> env" where
  "mrt_RevokeAllForUser C u s e =
     (let (t, e1) = now e;
          (r, s1) = update_err (co_UpdateMany C [(''user_id'', FStr u), (''revoked_at'', FNull)] (SetTime ''revoked_at'' t) s) in (r, s1, e1))"

definition mrt_RevokeAllForGrant :: "(refreshTokenDoc, 's) collection \<Rightarrow> GrantID \<Rightarrow> 's \<Rightarrow> env \<Rightarrow> go_error option \<times> 's \<times> env" where
  "mrt_RevokeAllForGrant C g s e =
     (let (t, e1) = now e;
          (r, s1) = update_err (co_UpdateMany C [(''grant_id'', FStr g), (''revoked_at'', FNull)] (SetTime ''revoked_at'' t) s) in (r, s1, e1))"

definition mongo_rt_ops :: "(refreshTokenDoc, 's) collection \<Rightarrow> 's rt_ops" where
  "mongo_rt_ops C = \<lparr>rt_Save = mrt_Save C, rt_FindByTokenHash = mrt_FindByTokenHash C, rt_RevokeByTokenHash = mrt_RevokeByTokenHash C,
     rt_RevokeAllForUser = mrt_RevokeAllForUser C, rt_RevokeAllForGrant = mrt_RevokeAllForGrant C\<rparr>"

section \<open>Users\<close>

definition NewMongoUserRepository :: "(userDoc, 's) collection \<Rightarrow> 's \<Rightarrow> go_error option \<times> 's" where
  "NewMongoUserRepository C s =
     (case co_CreateIndexes C [\<lparr>ix_keys = [''tenant_id'', ''email_blind_index''], ix_unique = True, ix_expireAfterSeconds = None\<rparr>] s of
        (Some err, s1) \<Rightarrow> (Some (ErrText (''failed to create user indexes: '' @ err_Error err)), s1)
      | (None, s1) \<Rightarrow> (None, s1))"

definition muser_CreateUser :: "(userDoc, 's) collection \<Rightarrow> user_codec \<Rightarrow> user \<Rightarrow> 's \<Rightarrow> env \<Rightarrow> go_error option \<times> 's \<times> env" where
  "muser_CreateUser C uc u s e =
     (let (doc, e1) = userToDoc uc u e in
      case co_InsertOne C doc s of
        (Some DuplicateKey, s1) \<Rightarrow> (Some ErrConflict, s1, e1)
      | (Some (InsertFailed err), s1) \<Rightarrow> (Some err, s1, e1)
      | (None, s1) \<Rightarrow> (None, s1, e1))"

definition muser_findOne :: "(userDoc, 's) collection \<Rightarrow> user_codec \<Rightarrow> mongo_filter \<Rightarrow> 's \<Rightarrow> go_error + user" where
  "muser_findOne C uc f s = find_doc C (userToEntity uc) f s"

definition muser_FindByEmail :: "(userDoc, 's) collection \<Rightarrow> user_codec \<Rightarrow> TenantID \<Rightarrow> string \<Rightarrow> 's \<Rightarrow> env \<Rightarrow> (go_error + user) \<times> 's \<times> env" where
  "muser_FindByEmail C uc tenantID email s e =
     (let bi = BlindIndex (uc_crypto uc) (uc_cipher uc) email in
      (muser_findOne C uc [(''tenant_id'', FStr tenantID), (''email_blind_index'', FStr bi)] s, s, e))"

definition muser_FindByID :: "(userDoc, 's) collection \<Rightarrow> user_codec \<Rightarrow> UserID \<Rightarrow> 's \<Rightarrow> env \<Rightarrow> (go_error + user) \<times> 's \<times> env" where
  "muser_FindByID C uc i s e = (muser_findOne C uc [(''_id'', FStr i)] s, s, e)"

definition muser_FindByPasswordResetTokenHash ::
  "(userDoc, 's) collection \<Rightarrow> user_codec \<Rightarrow> string \<Rightarrow> 's \<Rightarrow> env \<Rightarrow> (go_error + user) \<times> 's \<times> env" where
  "muser_FindByPasswordResetTokenHash C uc h s e = (muser_findOne C uc [(''password_reset_token_hash'', FStr h)] s, s, e)"

definition buildUserUpdate :: "userDoc \<Rightarrow> userDoc mongo_update" where
  "buildUserUpdate doc = SetDoc doc
     ((if ud_PasswordResetTokenHash doc = None then [''password_reset_token_hash''] else [])
      @ (if ud_PasswordResetExpiresAt doc = None then [''password_reset_expires_at''] else [])
      @ (if ud_SessionsInvalidatedAt doc = None then [''sessions_invalidated_at''] else [])
      @ (if ud_LockedUntil doc = None then [''locked_until''] else []))"

definition muser_Save :: "(userDoc, 's) collection \<Rightarrow> user_codec \<Rightarrow> user \<Rightarrow> 's \<Rightarrow> env \<Rightarrow> go_error option \<times> 's \<times> env" where
  "muser_Save C uc u s e =
     (let (doc, e1) = userToDoc uc u e;
          (r, s1) = update_err (co_UpdateOne C [(''_id'', FStr (ud_ID doc))] (buildUserUpdate doc) True s) in (r, s1, e1))"

definition reset_filter :: "UserID \<Rightarrow> string \<Rightarrow> mongo_filter" where
  "reset_filter i h = [(''_id'', FStr i), (''password_reset_token_hash'', FStr h)]"

text \<open>As at the port, the updated copy is returned for the variables the callback captures.\<close>

definition muser_UpdateByPasswordResetTokenHash ::
  "(userDoc, 's) collection \<Rightarrow> user_codec \<Rightarrow> string \<Rightarrow> (user \<Rightarrow> env \<Rightarrow> (go_error + user) \<times> env) \<Rightarrow> 's \<Rightarrow> env
     \<Rightarrow> (go_error + user) \<times> 's \<times> env" where
  "muser_UpdateByPasswordResetTokenHash C uc h update s e =
     (case muser_findOne C uc [(''password_reset_token_hash'', FStr h)] s of
        Inl err \<Rightarrow> (Inl err, s, e)
      | Inr found \<Rightarrow>
          (case update found e of
             (Inl err, e1) \<Rightarrow> (Inl err, s, e1)
           | (Inr u, e1) \<Rightarrow>
               let (doc, e2) = userToDoc uc u e1 in
               (case matched_err (co_UpdateOne C (reset_filter (U_ID u) h) (buildUserUpdate doc) False s) of
                  (Some err, s1) \<Rightarrow> (Inl err, s1, e2)
                | (None, s1) \<Rightarrow> (Inr u, s1, e2))))"

definition mongo_user_ops :: "(userDoc, 's) collection \<Rightarrow> user_codec \<Rightarrow> 's user_ops" where
  "mongo_user_ops C uc = \<lparr>ur_CreateUser = muser_CreateUser C uc, ur_FindByEmail = muser_FindByEmail C uc, ur_FindByID = muser_FindByID C uc,
     ur_FindByPasswordResetTokenHash = muser_FindByPasswordResetTokenHash C uc, ur_Save = muser_Save C uc,
     ur_UpdateByPasswordResetTokenHash = muser_UpdateByPasswordResetTokenHash C uc, ur_alias = (\<lambda>u s. s)\<rparr>"

section \<open>Compare and set\<close>

text \<open>
  What makes concurrent callers safe on a store without locks: a conditional update reports a match only if a document satisfies the filter, and an update that
  falsifies its own filter leaves none that does. \<open>sat f s\<close>: some document of the collection in state \<open>s\<close> satisfies \<open>f\<close>.
\<close>

definition matches_only :: "('d, 's) collection \<Rightarrow> (mongo_filter \<Rightarrow> 's \<Rightarrow> bool) \<Rightarrow> bool" where
  "matches_only C sat \<longleftrightarrow> (\<forall>f upd s n s'. co_UpdateOne C f upd False s = (Inr n, s') \<longrightarrow> n \<noteq> 0 \<longrightarrow> sat f s)"

definition falsifies :: "('d, 's) collection \<Rightarrow> (mongo_filter \<Rightarrow> 's \<Rightarrow> bool) \<Rightarrow> mongo_filter \<Rightarrow> 'd mongo_update \<Rightarrow> bool" where
  "falsifies C sat f upd \<longleftrightarrow> (\<forall>s n s'. co_UpdateOne C f upd False s = (Inr n, s') \<longrightarrow> n \<noteq> 0 \<longrightarrow> \<not> sat f s')"

lemma matched_errD: "matched_err r = (None, s) \<Longrightarrow> \<exists>n. r = (Inr n, s) \<and> n \<noteq> 0"
  by (auto simp: matched_err_def split: prod.splits sum.splits if_splits)

lemma update_wins_once:
  assumes "matches_only C sat" and "falsifies C sat f upd"
    and "matched_err (co_UpdateOne C f upd False s) = (None, s1)" and "sat f s2 \<longrightarrow> sat f s1"
  shows "fst (matched_err (co_UpdateOne C f upd2 False s2)) \<noteq> None"
proof
  assume "fst (matched_err (co_UpdateOne C f upd2 False s2)) = None"
  then have "matched_err (co_UpdateOne C f upd2 False s2) = (None, snd (matched_err (co_UpdateOne C f upd2 False s2)))" by (simp add: prod_eq_iff)
  from matched_errD [OF this] obtain n s3 where "co_UpdateOne C f upd2 False s2 = (Inr n, s3)" "n \<noteq> 0" by blast
  then have "sat f s2" using assms(1) unfolding matches_only_def by blast
  moreover have "\<not> sat f s1" using matched_errD [OF assms(3)] assms(2) unfolding falsifies_def by blast
  ultimately show False using assms(4) by blast
qed

text \<open>
  A password reset that clears the token is applied once, also for two callers that both read the user before.
\<close>

lemma buildUserUpdate_clears: "ud_PasswordResetTokenHash doc = None \<Longrightarrow> \<exists>un. buildUserUpdate doc = SetDoc doc un \<and> ''password_reset_token_hash'' \<in> set un"
  by (simp add: buildUserUpdate_def)

lemma mongo_reset_once:
  assumes "matches_only C sat" and "\<forall>d un. ''password_reset_token_hash'' \<in> set un \<longrightarrow> falsifies C sat (reset_filter i h) (SetDoc d un)"
    and "ud_PasswordResetTokenHash doc = None"
    and "matched_err (co_UpdateOne C (reset_filter i h) (buildUserUpdate doc) False s) = (None, s1)"
  shows "fst (matched_err (co_UpdateOne C (reset_filter i h) upd False s1)) \<noteq> None"
proof -
  obtain un where "buildUserUpdate doc = SetDoc doc un" "''password_reset_token_hash'' \<in> set un" using buildUserUpdate_clears [OF assms(3)] by blast
  then have "falsifies C sat (reset_filter i h) (buildUserUpdate doc)" using assms(2) by simp
  from update_wins_once [OF assms(1) this assms(4)] show ?thesis by simp
qed

end
