(* ===== verification/Redis.thy ===== *)
theory Redis
  imports Cache
begin

text \<open>
  The Redis cache (\<open>infrastructure/cache/redis.go\<close>). The server and its client library are a parameter: what each command answers, over a state of its own.
  Values are marshalled to JSON when they are written and unmarshalled into the destination when they are read, as in the in-memory cache. Time is the server's.
\<close>

section \<open>Commands\<close>

text \<open>A reply \<open>Inr None\<close> is \<open>redis.Nil\<close>; times to live are in milliseconds.\<close>

record 's redis_server =
  rs_Ping :: "'s \<Rightarrow> go_error option"
  rs_SET :: "string \<Rightarrow> cval \<Rightarrow> duration \<Rightarrow> 's \<Rightarrow> go_error option \<times> 's"
  rs_GET :: "string \<Rightarrow> 's \<Rightarrow> (go_error + cval option) \<times> 's"
  rs_GETDEL :: "string \<Rightarrow> 's \<Rightarrow> (go_error + cval option) \<times> 's"
  rs_DEL :: "string \<Rightarrow> 's \<Rightarrow> 's"
  rs_INCR :: "string \<Rightarrow> 's \<Rightarrow> (go_error + int) \<times> 's"
  rs_PTTL :: "string \<Rightarrow> 's \<Rightarrow> int \<times> 's"
  rs_PEXPIRE :: "string \<Rightarrow> int \<Rightarrow> 's \<Rightarrow> 's"
  rs_EVAL :: "('s \<Rightarrow> (go_error + int) \<times> 's) \<Rightarrow> 's \<Rightarrow> (go_error + int) \<times> 's"   \<comment> \<open>runs a script, or fails\<close>

section \<open>Operations\<close>

definition NewRedisCache :: "'s redis_server \<Rightarrow> 's \<Rightarrow> go_error + 's" where
  "NewRedisCache S s = (case rs_Ping S s of Some err \<Rightarrow> Inl err | None \<Rightarrow> Inr s)"

text \<open>\<open>json.Marshal\<close> does not fail on the cached types; an expiration of zero is none.\<close>

definition redis_Set :: "'s redis_server \<Rightarrow> string \<Rightarrow> cval \<Rightarrow> duration option \<Rightarrow> 's \<Rightarrow> env \<Rightarrow> go_error option \<times> 's \<times> env" where
  "redis_Set S key v ttl s e =
     (let expiration = (case ttl of None \<Rightarrow> 0 | Some d \<Rightarrow> d);
          (r, s1) = rs_SET S key v expiration s in (r, s1, e))"

definition redis_Get :: "'s redis_server \<Rightarrow> string \<Rightarrow> dest \<Rightarrow> 's \<Rightarrow> env \<Rightarrow> cval option \<times> 's \<times> env" where
  "redis_Get S key d s e =
     (case rs_GET S key s of
        (Inl err, s1) \<Rightarrow> (None, s1, e)
      | (Inr None, s1) \<Rightarrow> (None, s1, e)
      | (Inr (Some v), s1) \<Rightarrow> (case json_decode d v of Inl err \<Rightarrow> (None, s1, e) | Inr x \<Rightarrow> (Some x, s1, e)))"

definition redis_GetErr :: "'s redis_server \<Rightarrow> string \<Rightarrow> dest \<Rightarrow> 's \<Rightarrow> env \<Rightarrow> (go_error + cval option) \<times> 's \<times> env" where
  "redis_GetErr S key d s e =
     (case rs_GET S key s of
        (Inl err, s1) \<Rightarrow> (Inl err, s1, e)
      | (Inr None, s1) \<Rightarrow> (Inr None, s1, e)
      | (Inr (Some v), s1) \<Rightarrow> (case json_decode d v of Inl err \<Rightarrow> (Inl err, s1, e) | Inr x \<Rightarrow> (Inr (Some x), s1, e)))"

definition redis_GetAndDelete :: "'s redis_server \<Rightarrow> string \<Rightarrow> dest \<Rightarrow> 's \<Rightarrow> env \<Rightarrow> cval option \<times> 's \<times> env" where
  "redis_GetAndDelete S key d s e =
     (case rs_GETDEL S key s of
        (Inl err, s1) \<Rightarrow> (None, s1, e)
      | (Inr None, s1) \<Rightarrow> (None, s1, e)
      | (Inr (Some v), s1) \<Rightarrow> (case json_decode d v of Inl err \<Rightarrow> (None, s1, e) | Inr x \<Rightarrow> (Some x, s1, e)))"

definition redis_Delete :: "'s redis_server \<Rightarrow> string \<Rightarrow> 's \<Rightarrow> env \<Rightarrow> 's \<times> env" where
  "redis_Delete S key s e = (rs_DEL S key s, e)"

definition incrWindowScript :: "'s redis_server \<Rightarrow> string \<Rightarrow> int \<Rightarrow> 's \<Rightarrow> (go_error + int) \<times> 's" where
  "incrWindowScript S key ms s =
     (case rs_INCR S key s of
        (Inl err, s1) \<Rightarrow> (Inl err, s1)
      | (Inr v, s1) \<Rightarrow>
          let (ttl, s2) = rs_PTTL S key s1;
              s3 = (if ttl < 0 then rs_PEXPIRE S key ms s2 else s2)
          in (Inr v, s3))"

text \<open>\<open>window.Milliseconds()\<close> truncates.\<close>

definition Milliseconds :: "duration \<Rightarrow> int" where
  "Milliseconds d = (if d < 0 then - ((- d) div 1000000) else d div 1000000)"

definition redis_IncrWindow :: "'s redis_server \<Rightarrow> string \<Rightarrow> duration \<Rightarrow> 's \<Rightarrow> env \<Rightarrow> (go_error + int) \<times> 's \<times> env" where
  "redis_IncrWindow S key window s e =
     (let (r, s1) = rs_EVAL S (incrWindowScript S key (Milliseconds window)) s in (r, s1, e))"

definition redis_ops :: "'s redis_server \<Rightarrow> 's cache_ops" where
  "redis_ops S = \<lparr>k_Set = redis_Set S, k_Get = redis_Get S, k_GetErr = redis_GetErr S, k_GetAndDelete = redis_GetAndDelete S,
     k_Delete = redis_Delete S, k_IncrWindow = redis_IncrWindow S\<rparr>"

section \<open>What the operations add to the commands\<close>

text \<open>\<open>Get\<close> is \<open>GetErr\<close> with every failure turned into a miss; on a healthy connection they agree.\<close>

lemma redis_Get_is_GetErr:
  "redis_Get S key d s e = (case redis_GetErr S key d s e of (r, s1, e1) \<Rightarrow> (case r of Inl err \<Rightarrow> None | Inr v \<Rightarrow> v, s1, e1))"
  by (simp add: redis_Get_def redis_GetErr_def split: prod.split sum.split option.split)

text \<open>
  One-time values: when the server's \<open>GETDEL\<close> removes the key it returns, as documented, whoever obtains a value is the last to do so until the key is written again.
  \<open>has S s key\<close>: a read of the key finds a value.
\<close>

definition GETDEL_removes :: "'s redis_server \<Rightarrow> ('s \<Rightarrow> string \<Rightarrow> bool) \<Rightarrow> bool" where
  "GETDEL_removes S has \<longleftrightarrow> (\<forall>key s v s'. rs_GETDEL S key s = (Inr (Some v), s') \<longrightarrow> has s key \<and> \<not> has s' key)"

lemma redis_consumed_once:
  assumes "GETDEL_removes S has" and "redis_GetAndDelete S key d s e = (Some v, s1, e1)" and "has s2 key \<longrightarrow> has s1 key"
  shows "fst (redis_GetAndDelete S key d s2 e2) = None"
proof (rule ccontr)
  assume "fst (redis_GetAndDelete S key d s2 e2) \<noteq> None"
  then obtain w s3 where "rs_GETDEL S key s2 = (Inr (Some w), s3)"
    by (auto simp: redis_GetAndDelete_def split: prod.splits sum.splits option.splits)
  then have "has s2 key" using assms(1) unfolding GETDEL_removes_def by blast
  moreover obtain u where "rs_GETDEL S key s = (Inr (Some u), s1)"
    using assms(2) by (auto simp: redis_GetAndDelete_def split: prod.splits sum.splits option.splits)
  then have "\<not> has s1 key" using assms(1) unfolding GETDEL_removes_def by blast
  ultimately show False using assms(3) by blast
qed

text \<open>
  A counter never persists for ever: after the script the key has a time to live, whether it is new or had lost it, when \<open>PEXPIRE\<close> with a positive
  time sets one and \<open>PTTL\<close> reports it.
\<close>

definition expiry_laws :: "'s redis_server \<Rightarrow> ('s \<Rightarrow> string \<Rightarrow> int) \<Rightarrow> bool" where
  "expiry_laws S pttl \<longleftrightarrow> (\<forall>key s. rs_PTTL S key s = (pttl s key, s))
     \<and> (\<forall>key ms s. 0 < ms \<longrightarrow> 0 \<le> pttl (rs_PEXPIRE S key ms s) key)"

lemma incrWindow_expires:
  assumes "expiry_laws S pttl" and "0 < ms" and "incrWindowScript S key ms s = (Inr n, s')"
  shows "0 \<le> pttl s' key"
proof -
  obtain s1 where i: "rs_INCR S key s = (Inr n, s1)" "s' = (if pttl s1 key < 0 then rs_PEXPIRE S key ms s1 else s1)"
    using assms(1,3) by (auto simp: incrWindowScript_def expiry_laws_def Let_def split: prod.splits sum.splits)
  then show ?thesis using assms(1,2) by (auto simp: expiry_laws_def)
qed

end
