(* ===== verification/Deployments.thy ===== *)
theory Deployments
  imports Startup Mongo Redis
begin

text \<open>
  The other deployments \<open>cmd/auth/wire/auth.go\<close> builds: MongoDB repositories with the transactional unit of work of \<open>infrastructure/repository/mongo\<close>, and either kind of
  repository over either cache. Sessions and transactions of the driver are parameters.
\<close>

section \<open>The unit of work\<close>

type_synonym ('u, 'r, 'g, 'c) work = "('u, 'r, 'g, 'c) world \<Rightarrow> go_error option \<times> ('u, 'r, 'g, 'c) world"

definition WithTransaction ::
  "go_error option \<Rightarrow> (('u, 'r, 'g, 'c) work \<Rightarrow> ('u, 'r, 'g, 'c) work) \<Rightarrow> ('u, 'r, 'g, 'c) work \<Rightarrow> ('u, 'r, 'g, 'c) work" where
  "WithTransaction startErr tx fn w =
     (case startErr of
        Some err \<Rightarrow> (Some (ErrText (''failed to start session: '' @ err_Error err)), w)
      | None \<Rightarrow> tx fn w)"

definition MongoUnitOfWork_Do ::
  "go_error option \<Rightarrow> (('u, 'r, 'g, 'c) work \<Rightarrow> ('u, 'r, 'g, 'c) work) \<Rightarrow> ('u, 'r, 'g, 'c) work \<Rightarrow> ('u, 'r, 'g, 'c) work" where
  "MongoUnitOfWork_Do startErr tx fn w = WithTransaction startErr tx (\<lambda>sessCtx. fn sessCtx) w"

section \<open>Dependencies\<close>

definition build_deps ::
  "app_config \<Rightarrow> 'c cache_ops \<Rightarrow> (('u, 'r, 'g, 'c) work \<Rightarrow> ('u, 'r, 'g, 'c) work) \<Rightarrow> 'u user_ops \<Rightarrow> 'r rt_ops \<Rightarrow> 'g grant_ops \<Rightarrow> ('u, 'r, 'g, 'c) deps" where
  "build_deps cfg cache uow users rts grants =
     \<lparr>d_prims = uc_prims (ap_codec cfg), d_cache = cache, d_uow = uow,
      d_tokens = jwt_adapter (ap_jwt cfg\<lparr>j_prims := uc_prims (ap_codec cfg)\<rparr>), d_users = users, d_send = ap_send cfg,
      d_rts = rts, d_grants = grants, d_registry = ap_registry cfg,
      d_PostLogoutRedirectAllowlist = ap_PostLogoutRedirectAllowlist cfg, d_ScopeAllowlist = ap_ScopeAllowlist cfg\<rparr>"

definition buildMongoDeps ::
  "app_config \<Rightarrow> 'c cache_ops \<Rightarrow> go_error option \<Rightarrow> (('s, 's, 's, 'c) work \<Rightarrow> ('s, 's, 's, 'c) work)
     \<Rightarrow> (userDoc, 's) collection \<Rightarrow> (refreshTokenDoc, 's) collection \<Rightarrow> (grantDoc, 's) collection \<Rightarrow> ('s, 's, 's, 'c) deps" where
  "buildMongoDeps cfg cache startErr tx users rts grants =
     build_deps cfg cache (MongoUnitOfWork_Do startErr tx) (mongo_user_ops users (ap_codec cfg)) (mongo_rt_ops rts) (mongo_grant_ops grants)"

definition buildRedisDeps :: "app_config \<Rightarrow> 's redis_server \<Rightarrow> (UserRepository, FileRefreshTokenRepository, FileGrantRepository, 's) deps" where
  "buildRedisDeps cfg S = build_deps cfg (redis_ops S) NoopUnitOfWork_Do (file_user_ops (ap_codec cfg)) file_rt_ops file_grant_ops"

text \<open>The deployment the guarantees are proved for is the case without external services.\<close>

lemma file_deployment: "buildAuthDeps cfg = build_deps cfg memory_ops NoopUnitOfWork_Do (file_user_ops (ap_codec cfg)) file_rt_ops file_grant_ops"
  by (simp add: buildAuthDeps_def build_deps_def)

section \<open>Atomic rotation\<close>

text \<open>
  With a transaction that leaves the repositories as they were when it reports an error, a rotation that fails changes neither tokens nor grants: the presented token stays
  usable instead of being spent without a successor.
\<close>

definition rolls_back :: "(('u, 'r, 'g, 'c) work \<Rightarrow> ('u, 'r, 'g, 'c) work) \<Rightarrow> bool" where
  "rolls_back tx \<longleftrightarrow> (\<forall>f w err w'. tx f w = (Some err, w') \<longrightarrow> w_rts w' = w_rts w \<and> w_grants w' = w_grants w \<and> w_users w' = w_users w)"

lemma mongo_rotation_atomic:
  assumes "rolls_back tx" and "updateRefreshToken (buildMongoDeps cfg cache startErr tx us rts gs) oldRT newRT w = (Some err, w')"
  shows "w_rts w' = w_rts w \<and> w_grants w' = w_grants w"
  using assms unfolding updateRefreshToken_def buildMongoDeps_def build_deps_def rolls_back_def
  by (fastforce simp: MongoUnitOfWork_Do_def WithTransaction_def split: option.split_asm prod.split_asm if_split_asm)

end
