(* ===== verification/Spec2Isabelle.thy ===== *)
theory Spec2Isabelle
  imports Access_Guarantees Account_Guarantees Delivery_Guarantees Store_Guarantees Client_Guarantees Deployments
begin

text \<open>
  Verification of the OAuth2 and OpenID Connect server in \<open>src/\<close> and of the demo client that signs in at it.

  \<^bold>\<open>The program.\<close> \<open>cmd/auth\<close> starts an HTTP server. A request passes the middleware chain of \<open>handler/web\<close>, is bound to a command, validated and dispatched
  by the auth module (\<open>modules/auth/module.go\<close>, \<open>core/usecase\<close>) to one of its use cases. These work on domain entities and, through ports, on three repositories (users,
  refresh tokens, grants), a cache with expiry, a signing service and a mail sender. The modelled deployment is the one without external services: file repositories, in-memory
  cache, no transactions. \<open>cmd/backend\<close> is a web application that uses the server as its identity provider.

  \<^bold>\<open>Layers\<close>, in the order of the imports:
  \<^item> \<open>Prelude\<close>, \<open>Decimal\<close>, \<open>Encoding\<close>, \<open>Env\<close>: what the code uses of the Go library (UTF-8, string functions, numbers, base64, hex), time, and the record \<open>env\<close> that threads
    clock, random bytes, UUIDs and the outcomes of file writes. \<open>prims\<close> holds the parameters: bcrypt, SHA-256, random source, URL parsing, character classes.
  \<^item> \<open>Errors\<close>: \<open>core/error\<close>, \<open>modules/auth/errors\<close>. \<open>Scope\<close>, \<open>Users\<close>, \<open>Clients\<close>, \<open>Tokens\<close>, \<open>Authz\<close>: \<open>domain/entity\<close>, one record per struct and one definition per method.
  \<^item> \<open>Ports\<close>: the interfaces as records of operations, with locales for what each promises; a law of a locale speaks about an abstract map and an invariant of the state.
  \<^item> \<open>Cache\<close> (\<open>infrastructure/cache/memory.go\<close>), \<open>FileRepo\<close> (\<open>infrastructure/repository/file\<close>, with lazily built indexes and failing writes), \<open>Crypto\<close>, \<open>Jwt\<close>,
    \<open>Repos\<close> (\<open>adapter/out\<close>): the providers, each an interpretation of the locale of its port.
  \<^item> \<open>Services\<close> and \<open>UC_Refresh\<close>, \<open>UC_Code\<close>, \<open>UC_Revoke\<close>, \<open>UC_Account\<close>, \<open>UC_Verify\<close>: \<open>application/service\<close>, \<open>application/command\<close>, \<open>application/query\<close>, the
    revocation checker and the bearer middleware. Every use case is one definition over \<open>deps\<close> (the ports) and \<open>world\<close> (their states), with every early return.
  \<^item> \<open>Invariant\<close>, \<open>Preserve\<close>: the application locale \<open>auth_app\<close>, its invariant, and that every use case keeps it. \<open>Module\<close>: registry, validation, dispatch, metrics.
    \<open>Web\<close>: binding, responder, middleware, routes and \<open>serve\<close>, the whole way of a request. \<open>Limits\<close>, \<open>SignIn\<close>, \<open>Families\<close>: guarantees proved inside the locale.
  \<^item> \<open>App\<close>: \<open>buildAuthDeps\<close> of \<open>cmd/auth/wire\<close> and the interpretation of \<open>auth_app\<close> on it. \<open>System\<close>: executions of the server as an inductive relation. \<open>Sessions\<close>:
    what ends a session. \<open>Sample\<close>, \<open>Flow_Sample\<close>: a concrete deployment for the witnesses.
  \<^item> \<open>Mail\<close> (\<open>infrastructure/smtp\<close>, \<open>email_sender.go\<close>), \<open>Startup\<close> (\<open>cmd/auth/config\<close>, \<open>dependencies\<close>, \<open>wire\<close>, \<open>main.go\<close>, key loading), \<open>Demo_Client\<close> (\<open>cmd/backend/main.go\<close>).
  \<^item> \<open>Redis\<close> (\<open>infrastructure/cache/redis.go\<close>), \<open>Mongo\<close> (\<open>adapter/out/mongo_*.go\<close>, \<open>infrastructure/repository/mongo\<close>), \<open>Deployments\<close>: the adapters to external services as the
    commands they send, with the servers as parameters, and the deployments built from them.

  \<^bold>\<open>What is shown.\<close> Here: refresh tokens rotate, are bound to their grant, and a replay ends the whole family (C1 to C5, with a refinement of an abstract specification of token families);
  what holds in all reachable states (C6, C7); the authorization-code flow (C8 to C14). \<open>Access_Guarantees\<close>: revocation, logout, denied tokens, introspection (C15 to C20).
  \<open>Account_Guarantees\<close>: password reset and recovery, registration, profiles, lockout (C21 to C27). \<open>Delivery_Guarantees\<close>: dispatch, headers, protected routes, error answers,
  rate limit (C28 to C32). \<open>Store_Guarantees\<close>: indexes, restarts, token round trip, client authentication (C33 to C35, C37). \<open>Startup\<close>: configured clients (C36, C39).
  \<open>Client_Guarantees\<close>: login at the demo client (C38), with the protection of its actions and sessions as further lemmas. \<open>Mail\<close>: no duplicate delivery (C40). \<open>Redis\<close>, \<open>Mongo\<close>, \<open>Deployments\<close>: one-time values, expiring counters, conditional updates and atomic
  rotation, each under the documented behaviour of the commands it uses, as lemmas.

  \<^bold>\<open>Bounds.\<close> No fuel is used: every loop is structural or has a termination measure. Times and durations are integers of nanoseconds; where the code multiplies or shifts 64-bit values
  that may exceed the width, the wrap-around is written out.

  \<^bold>\<open>Assumptions.\<close> Properties name what they need of a parameter: that the random source and UUIDs do not repeat (\<open>fresh_source\<close>), that the AEAD opens what it sealed, that the
  signing library signs and parses what it signed, that file writes succeed where success is claimed. A handler runs as one step; interleaving of two handlers between their operations is not covered.

  \<^bold>\<open>Not modelled.\<close> How the MongoDB and Redis servers evaluate commands, so that the contracts of the ports are proved for the file repositories and the in-memory cache only; TLS, sockets and the HTTP engine's own parsing (what it binds from query, form and body
  is a field of the request); the CORS library; request logging and exported counters; static HTML of the pages; shutdown.
\<close>

section \<open>Refresh tokens\<close>

text \<open>
  C1. A refresh request succeeds only for an authenticated client that may use the refresh grant,
  presenting a stored token that is live, unexpired and issued to it. The request then revokes
  exactly that row and adds exactly one new live row, which carries the new token's hash and the
  user, client, scope, device, authentication time and grant of the old one; the invariant of the
  deployment is kept.
\<close>

theorem refresh_rotates:
  assumes "RefreshToken_Execute (buildAuthDeps cfg) c w = (Inr res, w')" and "file_inv cfg w"
    and "fresh_source (cfg_prims cfg)"
  shows "file_inv cfg w' \<and> (\<exists>client old new t.
      Authenticate (cfg_prims cfg) (ap_registry cfg) (refresh_credentials c) = Inr client
    \<and> AllowsGrant client GrantRefreshToken
    \<and> row_at (rows_of (w_rts w)) (Hash (cfg_prims cfg) (rc_RefreshToken c)) old
    \<and> RT_RevokedAt old = None \<and> clock (w_env w) < RT_ExpiresAt old \<and> IssuedTo old (C_ID client)
    \<and> rows_of (w_rts w') = (rows_of (w_rts w))(RT_ID old \<mapsto> old\<lparr>RT_RevokedAt := Some t\<rparr>, RT_ID new \<mapsto> new)
    \<and> RT_TokenHash new = Hash (cfg_prims cfg) (tr_RefreshToken res) \<and> RT_RevokedAt new = None
    \<and> RT_UserID new = RT_UserID old \<and> RT_ClientID new = RT_ClientID old \<and> RT_Scope new = RT_Scope old
    \<and> RT_AuthenticatedAt new = RT_AuthenticatedAt old \<and> RT_DeviceID new = RT_DeviceID old
    \<and> RT_GrantID new = RT_GrantID old
    \<and> RT_ExpiresAt new = RT_CreatedAt new + RefreshTokenTTL)"
proof -
  from file_refresh_success [OF assms] obtain client old new where R: "file_inv cfg w'" "AllowsGrant client GrantRefreshToken"
    "Authenticate (cfg_prims cfg) (ap_registry cfg) (refresh_credentials c) = Inr client"
    "app.rotated cfg c res client old new w w'" .
  then have "rows_of (w_rts w) (RT_ID old) = Some old" by (simp add: app.rotated_def row_at_def)
  with inv_grant_nonempty [OF assms(2,3)] have "RT_GrantID old \<noteq> []" by blast
  with R show ?thesis unfolding app.rotated_def by auto
qed

theorem refresh_rotates_witness:
  "\<exists>w' old new t. snd (RefreshToken_Execute (buildAuthDeps sample_cfg) (sample_refresh ''Ung'') sample_world) = w'
     \<and> rows_of (w_rts w') = (rows_of (w_rts sample_world))(RT_ID old \<mapsto> old\<lparr>RT_RevokedAt := Some t\<rparr>, RT_ID new \<mapsto> new)
     \<and> RT_RevokedAt old = None \<and> RT_UserID new = RT_UserID old"
proof -
  obtain w' where run: "RefreshToken_Execute (buildAuthDeps sample_cfg) (sample_refresh ''Ung'') sample_world
      = (Inr sample_refreshed, w')"
    by (rule sample_refresh_runs)
  from refresh_rotates [OF run sample_inv sample_fresh_source] obtain old new t where
    "rows_of (w_rts w') = (rows_of (w_rts sample_world))(RT_ID old \<mapsto> old\<lparr>RT_RevokedAt := Some t\<rparr>, RT_ID new \<mapsto> new)"
    "RT_RevokedAt old = None" "RT_UserID new = RT_UserID old" by blast
  with run show ?thesis by auto
qed

text \<open>
  C2. A refresh token rotates only while its grant is neither revoked nor expired, and only for a
  user whose sessions were not invalidated since the sign-in; afterwards the grant outlives the new
  token by the safety margin.
\<close>

theorem refresh_respects_grant:
  assumes "RefreshToken_Execute (buildAuthDeps cfg) c w = (Inr res, w')" and "file_inv cfg w"
    and "fresh_source (cfg_prims cfg)"
  shows "\<exists>old new u g g'. row_at (rows_of (w_rts w)) (Hash (cfg_prims cfg) (rc_RefreshToken c)) old
    \<and> row_at (rows_of (w_rts w')) (Hash (cfg_prims cfg) (tr_RefreshToken res)) new
    \<and> users_of (w_users w) (RT_UserID old) = Some u
    \<and> (\<forall>t. U_SessionsInvalidatedAt u = Some t \<longrightarrow> t < RT_AuthenticatedAt old)
    \<and> grants_of (w_grants w) (RT_GrantID old) = Some g \<and> G_RevokedAt g = None \<and> clock (w_env w) < G_ExpiresAt g
    \<and> grants_of (w_grants w') (RT_GrantID new) = Some g' \<and> G_RevokedAt g' = None
    \<and> G_ExpiresAt g' = RT_ExpiresAt new + grantExpiryMargin"
proof -
  from file_refresh_success [OF assms] obtain client old new where r: "app.rotated cfg c res client old new w w'" .
  then obtain t where "rows_of (w_rts w') = (rows_of (w_rts w))(RT_ID old \<mapsto> old\<lparr>RT_RevokedAt := Some t\<rparr>, RT_ID new \<mapsto> new)"
    "RT_TokenHash new = Hash (cfg_prims cfg) (tr_RefreshToken res)"
    unfolding app.rotated_def by auto
  then have new: "row_at (rows_of (w_rts w')) (Hash (cfg_prims cfg) (tr_RefreshToken res)) new"
    by (simp add: row_at_def)
  have old: "rows_of (w_rts w) (RT_ID old) = Some old" using r by (simp add: app.rotated_def row_at_def)
  with assms(2) have "row_provenance cfg w old" by (simp add: file_inv_def)
  then obtain g where g: "grants_of (w_grants w) (RT_GrantID old) = Some g" by (auto simp: row_provenance_def)
  have ne: "RT_GrantID old \<noteq> []" by (rule inv_grant_nonempty [OF assms(2,3) old])
  from r g ne have "\<exists>g'. grants_of (w_grants w') (RT_GrantID new) = Some g' \<and> G_RevokedAt g' = None
      \<and> G_ExpiresAt g' = RT_ExpiresAt new + grantExpiryMargin" "G_RevokedAt g = None" "clock (w_env w) < G_ExpiresAt g"
    unfolding app.rotated_def by auto
  with r g new show ?thesis unfolding app.rotated_def buildAuthDeps_simps by blast
qed

theorem refresh_respects_grant_witness:
  "\<exists>w' (new :: refresh_token) g. snd (RefreshToken_Execute (buildAuthDeps sample_cfg) (sample_refresh ''Ung'') sample_world) = w'
     \<and> grants_of (w_grants w') (RT_GrantID new) = Some g \<and> G_ExpiresAt g = RT_ExpiresAt new + grantExpiryMargin"
proof -
  obtain w' where run: "RefreshToken_Execute (buildAuthDeps sample_cfg) (sample_refresh ''Ung'') sample_world
      = (Inr sample_refreshed, w')"
    by (rule sample_refresh_runs)
  from refresh_respects_grant [OF run sample_inv sample_fresh_source] run show ?thesis by auto
qed



text \<open>
  C4. The refresh grant refines the specification of token families. While storage works, presenting
  a token does one of three things to the sets of live and spent hashes of the grants: a live token
  is exchanged for one nobody holds yet and becomes spent; a spent one empties the live set of its
  grant; or nothing changes. The answer carries a token in the first case only.
\<close>

theorem refresh_refines_families:
  assumes "RefreshToken_Execute (buildAuthDeps cfg) c w = (r, w')" and "file_inv cfg w"
    and "fresh_source (cfg_prims cfg)" and "disk (w_env w) = []"
  shows "family_step (Hash (cfg_prims cfg) (rc_RefreshToken c))
      (case r of Inl _ \<Rightarrow> None | Inr res \<Rightarrow> Some (Hash (cfg_prims cfg) (tr_RefreshToken res)))
      (families (rows_of (w_rts w))) (families (rows_of (w_rts w')))
    \<and> family_ok (families (rows_of (w_rts w)))"
  using app.refresh_refines [OF assms(1) inv_good [OF assms(2)], unfolded buildAuthDeps_simps, OF assms(3,4)]
    inv_family_ok [OF assms(2)] by (rule conjI)

theorem refresh_refines_families_witness:
  "family_step (Hash sample_prims ''Ug'') None (families (rows_of (w_rts sample_world)))
     (families (rows_of (w_rts (snd (RefreshToken_Execute (buildAuthDeps sample_cfg) (sample_refresh ''Ug'') sample_world)))))"
proof -
  obtain r w' where run: "RefreshToken_Execute (buildAuthDeps sample_cfg) (sample_refresh ''Ug'') sample_world = (r, w')"
    by (metis surj_pair)
  have "isl (fst (RefreshToken_Execute (buildAuthDeps sample_cfg) (sample_refresh ''Ug'') sample_world))" by code_simp
  then obtain er where "r = Inl er" using run by (cases r) auto
  with refresh_refines_families [OF run sample_inv sample_fresh_source sample_disk] run show ?thesis
    by (simp add: sample_codec_prims sample_refresh_def)
qed

text \<open>
  C5. Progress: a refresh request is answered with tokens whenever the client authenticates and may
  refresh, the token is its own, live and unexpired when the request ends, the user exists and was not
  signed out since, the grant is in force, storage works and the library signs.
\<close>

theorem refresh_progress:
  assumes "RefreshToken_Execute (buildAuthDeps cfg) c w = (r, w')" and "file_inv cfg w"
    and "fresh_source (cfg_prims cfg)" and "disk (w_env w) = []" and "signs_all (j_lib (ap_jwt cfg))"
    and "Authenticate (cfg_prims cfg) (ap_registry cfg) (refresh_credentials c) = Inr client"
    and "AllowsGrant client GrantRefreshToken" and "IssuedTo x (C_ID client)"
    and "row_at (rows_of (w_rts w)) (Hash (cfg_prims cfg) (rc_RefreshToken c)) x" and "RT_RevokedAt x = None"
    and "clock (w_env w') < RT_ExpiresAt x"
    and "\<forall>u t. users_of (w_users w) (RT_UserID x) = Some u \<longrightarrow> U_SessionsInvalidatedAt u = Some t \<longrightarrow> t < RT_AuthenticatedAt x"
    and "\<forall>g. grants_of (w_grants w) (RT_GrantID x) = Some g \<longrightarrow> G_RevokedAt g = None \<and> clock (w_env w') < G_ExpiresAt g"
  shows "\<exists>res. r = Inr res"
proof -
  have x: "rows_of (w_rts w) (RT_ID x) = Some x" using assms(9) by (simp add: row_at_def)
  then have "row_provenance cfg w x" using assms(2) by (simp add: file_inv_def)
  then obtain u where "users_of (w_users w) (RT_UserID x) = Some u" by (auto simp: row_provenance_def)
  with assms inv_grant_nonempty [OF assms(2,3) x] have fair: "app.refreshable cfg c client x w (clock (w_env w'))"
    by (simp add: app.refreshable_def)
  have issue: "\<exists>tk e1. IssueTokens (d_prims (buildAuthDeps cfg)) (d_tokens (buildAuthDeps cfg)) req e = (Inr tk, e1)" for req e
    using jwt_issues [of "ap_jwt cfg\<lparr>j_prims := cfg_prims cfg\<rparr>"] assms(5) by simp
  show ?thesis
    using app.refresh_answers [OF assms(1) inv_wok [OF assms(2)] assms(4) _ issue fair] inv_grant_nonempty [OF assms(2,3)] by blast
qed

theorem refresh_progress_witness:
  "\<exists>res. fst (RefreshToken_Execute (buildAuthDeps sample_cfg) (sample_refresh ''Ung'') sample_world) = Inr res"
proof -
  obtain r w' where run: "RefreshToken_Execute (buildAuthDeps sample_cfg) (sample_refresh ''Ung'') sample_world = (r, w')"
    by (metis surj_pair)
  have "clock (w_env (snd (RefreshToken_Execute (buildAuthDeps sample_cfg) (sample_refresh ''Ung'') sample_world))) = Hour"
    by code_simp
  then have t: "clock (w_env w') = Hour" using run by simp
  let ?x = "sample_rt ''uxx'' ''Ung'' None"
  have "row_at (rows_of (w_rts sample_world)) (Hash (cfg_prims sample_cfg) (rc_RefreshToken (sample_refresh ''Ung''))) ?x"
    by (simp add: row_at_def sample_world_def sample_rt_def sample_codec_prims sample_refresh_def)
  moreover have "IssuedTo ?x (C_ID sample_client)" by code_simp
  moreover have "signs_all (j_lib (ap_jwt sample_cfg))" by (simp add: signs_all_def sample_cfg_def sample_jwt_def)
  ultimately have "\<exists>res. r = Inr res"
    by (intro refresh_progress [OF run sample_inv sample_fresh_source sample_disk _ sample_auth sample_allows, of ?x])
      (auto simp: t sample_rt_def sample_world_def sample_user_def sample_grant_def)
  with run show ?thesis by auto
qed

text \<open>
  C6. In every state the deployment reaches from its first start, whatever requests it served, which
  of its file writes failed and when the cache was swept: no two stored tokens share a hash, a grant
  has at most one live refresh token, and every token belongs to a recorded grant and a recorded user.
\<close>

theorem reachable_tokens_sound:
  assumes "reachable cfg em wc w" and "fresh_source (cfg_prims cfg)"
  shows "file_inv cfg w \<and> family_ok (families (rows_of (w_rts w)))
    \<and> (\<forall>i j x y. rows_of (w_rts w) i = Some x \<longrightarrow> rows_of (w_rts w) j = Some y \<longrightarrow>
         RT_TokenHash x = RT_TokenHash y \<or> RT_GrantID x = RT_GrantID y \<and> RT_RevokedAt x = None \<and> RT_RevokedAt y = None \<longrightarrow> i = j)
    \<and> (\<forall>i x. rows_of (w_rts w) i = Some x \<longrightarrow> grants_of (w_grants w) (RT_GrantID x) \<noteq> None \<and> users_of (w_users w) (RT_UserID x) \<noteq> None)"
proof -
  have inv: "file_inv cfg w" by (rule reachable_inv [OF assms])
  then have "one_live_per_grant (rows_of (w_rts w))" "\<forall>i x. rows_of (w_rts w) i = Some x \<longrightarrow> row_provenance cfg w x"
    by (simp_all add: file_inv_def)
  with inv inv_family_ok [OF inv] inv_rows_unique [OF inv] show ?thesis
    unfolding one_live_per_grant_def row_provenance_def by blast
qed

theorem reachable_tokens_sound_witness:
  "file_inv sample_cfg (snd (serve (buildAuthDeps sample_cfg) (\<lambda>_. True) sample_web (sample_rq ''GET'' ''/sign-up'') (first_start sample_env)))"
proof -
  obtain rs w' where s: "serve (buildAuthDeps sample_cfg) (\<lambda>_. True) sample_web (sample_rq ''GET'' ''/sign-up'') (first_start sample_env) = (rs, w')"
    by (metis surj_pair)
  have "reachable sample_cfg (\<lambda>_. True) sample_web w'"
    unfolding reachable_def by (intro exI [of _ sample_env] runs_serve [OF runs_refl s])
  from reachable_tokens_sound [OF this sample_fresh_source] s show ?thesis by simp
qed

text \<open>
  C7. Revocation is permanent: once a refresh token is revoked, no execution of the deployment brings
  it back. Whatever happens in between, a later request that presents it gets no tokens.
\<close>

theorem revoked_stays_revoked:
  assumes "runs cfg em wc w w1" and "file_inv cfg w" and "fresh_source (cfg_prims cfg)"
    and "row_at (rows_of (w_rts w)) (Hash (cfg_prims cfg) (rc_RefreshToken c)) x" and "RT_RevokedAt x \<noteq> None"
  shows "rows_of (w_rts w1) (RT_ID x) = Some x
    \<and> (\<exists>er. fst (RefreshToken_Execute (buildAuthDeps cfg) c w1) = Inl er)"
proof -
  note R = runs_inv [OF assms(1-3)]
  have x: "rows_of (w_rts w1) (RT_ID x) = Some x"
    using R(2) assms(4,5) unfolding forward_def row_at_def by fastforce
  obtain r w2 where run: "RefreshToken_Execute (buildAuthDeps cfg) c w1 = (r, w2)" by (metis surj_pair)
  have "r \<noteq> Inr res" for res
  proof
    assume r: "r = Inr res"
    from file_refresh_success [OF run [unfolded r] R(1) assms(3)] obtain client old new where
      "app.rotated cfg c res client old new w1 w2" .
    then have old: "rows_of (w_rts w1) (RT_ID old) = Some old" "RT_RevokedAt old = None"
      "RT_TokenHash old = Hash (cfg_prims cfg) (rc_RefreshToken c)" by (simp_all add: app.rotated_def row_at_def)
    have "RT_ID old = RT_ID x"
      by (rule inv_rows_unique [OF R(1) old(1) x]) (use old(3) assms(4) in \<open>simp add: row_at_def\<close>)
    then have "Some old = Some x" using old(1) x by (metis)
    with old(2) assms(5) show False by simp
  qed
  then have "\<exists>er. r = Inl er" by (cases r) auto
  with x run show ?thesis by simp
qed

theorem revoked_stays_revoked_witness:
  "\<exists>er. fst (RefreshToken_Execute (buildAuthDeps sample_cfg) (sample_refresh ''Ug'')
     (snd (serve (buildAuthDeps sample_cfg) (\<lambda>_. True) sample_web (sample_rq ''GET'' ''/sign-up'') sample_world))) = Inl er"
proof -
  obtain rs w' where s: "serve (buildAuthDeps sample_cfg) (\<lambda>_. True) sample_web (sample_rq ''GET'' ''/sign-up'') sample_world = (rs, w')"
    by (metis surj_pair)
  from revoked_stays_revoked [OF runs_serve [OF runs_refl s] sample_inv sample_fresh_source sample_old_row sample_old_dead] s
  show ?thesis by simp
qed

section \<open>Authorization codes and sign-in\<close>

text \<open>
  C8. A code is exchanged for tokens only by the authenticated client it was issued to, with the redirect
  URI it was issued for, before it expires and, if a challenge was recorded (always for a public client),
  with the verifier that hashes to it. The exchange drops the code, opens exactly one new grant and
  stores exactly one live refresh token, both for the user and client of the code.
\<close>

theorem exchange_issues:
  assumes "ExchangeCode_Execute (buildAuthDeps cfg) c w = (Inr res, w')" and "file_inv cfg w"
    and "fresh_source (cfg_prims cfg)"
  shows "file_inv cfg w' \<and> (\<exists>client ac g new.
      Authenticate (cfg_prims cfg) (ap_registry cfg) (exchange_credentials c) = Inr client
    \<and> AllowsGrant client GrantAuthorizationCode
    \<and> mem_live (w_cache w) (clock (w_env w)) (AuthCodeKey (ec_Code c)) = Some (CCode ac)
    \<and> AC_ClientID ac = Some (C_ID client) \<and> AC_RedirectURI ac = ec_RedirectURI c \<and> clock (w_env w) \<le> AC_ExpiresAt ac
    \<and> (client_IsPublic client \<longrightarrow> AC_CodeChallenge ac \<noteq> None)
    \<and> (\<forall>ch. AC_CodeChallenge ac = Some ch \<longrightarrow> s256_challenge (cfg_prims cfg) (ec_CodeVerifier c) = ch)
    \<and> (\<forall>t. mem_live (w_cache w') t (AuthCodeKey (ec_Code c)) = None)
    \<and> G_UserID g = AC_UserID ac \<and> G_ClientID g = C_ID client \<and> G_RevokedAt g = None
    \<and> grants_of (w_grants w) (G_ID g) = None
    \<and> grants_of (w_grants w') = (grants_of (w_grants w))(G_ID g \<mapsto> ExtendToCover g (RT_ExpiresAt new))
    \<and> rows_of (w_rts w') = (rows_of (w_rts w))(RT_ID new \<mapsto> new)
    \<and> RT_UserID new = AC_UserID ac \<and> RT_ClientID new = C_ID client \<and> RT_GrantID new = G_ID g
    \<and> RT_RevokedAt new = None \<and> RT_TokenHash new = Hash (cfg_prims cfg) (tr_RefreshToken res))"
proof -
  from file_exchange_success [OF assms] obtain client ac g new where X: "file_inv cfg w'" "AllowsGrant client GrantAuthorizationCode"
    "Authenticate (cfg_prims cfg) (ap_registry cfg) (exchange_credentials c) = Inr client"
    "app.exchanged cfg c res client ac g new w w'" .
  then obtain n where n: "uuid_ctr (w_env w) \<le> n" "G_ID g = p_uuid (cfg_prims cfg) n" unfolding app.exchanged_def by auto
  have none: "grants_of (w_grants w) (G_ID g) = None"
    using app.uuid_fresh(2) [OF inv_good [OF assms(2)], of n] assms(3) n by simp
  note E = X(4) [unfolded app.exchanged_def buildAuthDeps_simps]
  have ch: "\<forall>ch. AC_CodeChallenge ac = Some ch \<longrightarrow> s256_challenge (cfg_prims cfg) (ec_CodeVerifier c) = ch"
    using X(4) by (simp add: app.exchanged_def)
  show ?thesis
    using X(1-3) none ch E
    by (elim conjE, intro conjI exI [of _ client] exI [of _ ac] exI [of _ g] exI [of _ new]) assumption+
qed

theorem exchange_issues_witness:
  "\<exists>w' (new :: refresh_token). snd (ExchangeCode_Execute (buildAuthDeps sample_cfg) sample_exchange sample_cached) = w'
     \<and> rows_of (w_rts w') = (rows_of (w_rts sample_cached))(RT_ID new \<mapsto> new) \<and> RT_UserID new = ''alice''
     \<and> mem_live (w_cache w') Hour (AuthCodeKey ''cd'') = None"
proof -
  obtain res w' where run: "ExchangeCode_Execute (buildAuthDeps sample_cfg) sample_exchange sample_cached = (Inr res, w')"
    by (rule sample_exchange_runs)
  have code: "mem_live (w_cache sample_cached) (clock (w_env sample_cached)) (AuthCodeKey (ec_Code sample_exchange)) = Some (CCode sample_code)"
    by (simp add: sample_cached_def mem_live_def sample_exchange_def sample_world_def sample_env_def cache_keys_disjoint cache_keys_disjoint [symmetric])
  obtain ac and new :: refresh_token where
    "mem_live (w_cache sample_cached) (clock (w_env sample_cached)) (AuthCodeKey (ec_Code sample_exchange)) = Some (CCode ac)"
    "rows_of (w_rts w') = (rows_of (w_rts sample_cached))(RT_ID new \<mapsto> new)" "RT_UserID new = AC_UserID ac"
    "\<forall>t. mem_live (w_cache w') t (AuthCodeKey (ec_Code sample_exchange)) = None"
    using exchange_issues [OF run sample_cached_inv sample_fresh_source]
    by (elim conjE exE) (rule that, assumption+)
  with code run show ?thesis by (auto simp: sample_code_def sample_exchange_def)
qed

text \<open>
  C9. An authorization code works at most once, and a failed attempt spends it too: once an authenticated
  client that may use the grant has presented a code, no entry for it remains, whatever the answer was;
  and an exchange without an entry is refused and changes no user, grant or token.
\<close>

theorem code_single_use:
  assumes "ExchangeCode_Execute (buildAuthDeps cfg) c w = (r, w')"
    and "Authenticate (cfg_prims cfg) (ap_registry cfg) (exchange_credentials c) = Inr client"
    and "AllowsGrant client GrantAuthorizationCode"
  shows "(\<forall>t. mem_live (w_cache w') t (AuthCodeKey (ec_Code c)) = None)
    \<and> (\<forall>c2 w2. ec_Code c2 = ec_Code c \<longrightarrow> (\<forall>t. mem_live (w_cache w2) t (AuthCodeKey (ec_Code c)) = None) \<longrightarrow>
         (case ExchangeCode_Execute (buildAuthDeps cfg) c2 w2 of (r2, w3) \<Rightarrow>
            isl r2 \<and> w_rts w3 = w_rts w2 \<and> w_grants w3 = w_grants w2 \<and> w_users w3 = w_users w2))"
proof -
  have "w_cache w' = w_cache (snd (consumeAuthCode (buildAuthDeps cfg) (ec_Code c) w))"
    using app.exchange_cache [OF assms(1)] assms(2,3) by simp
  then have "\<forall>t. mem_live (w_cache w') t (AuthCodeKey (ec_Code c)) = None" by (simp add: consume_drops)
  moreover have "case ExchangeCode_Execute (buildAuthDeps cfg) c2 w2 of (r2, w3) \<Rightarrow>
      isl r2 \<and> w_rts w3 = w_rts w2 \<and> w_grants w3 = w_grants w2 \<and> w_users w3 = w_users w2"
    if "ec_Code c2 = ec_Code c" "\<forall>t. mem_live (w_cache w2) t (AuthCodeKey (ec_Code c)) = None" for c2 w2
  proof -
    obtain r2 w3 where x: "ExchangeCode_Execute (buildAuthDeps cfg) c2 w2 = (r2, w3)" by (metis surj_pair)
    from app.exchange_no_code [OF x] that show ?thesis by (auto simp: x)
  qed
  ultimately show ?thesis by blast
qed

theorem code_single_use_witness:
  "isl (fst (ExchangeCode_Execute (buildAuthDeps sample_cfg) sample_exchange
     (snd (ExchangeCode_Execute (buildAuthDeps sample_cfg) (sample_exchange\<lparr>ec_CodeVerifier := ''guess''\<rparr>) sample_cached))))"
proof -
  let ?bad = "sample_exchange\<lparr>ec_CodeVerifier := ''guess''\<rparr>"
  obtain r w' where run: "ExchangeCode_Execute (buildAuthDeps sample_cfg) ?bad sample_cached = (r, w')" by (metis surj_pair)
  have "Authenticate (cfg_prims sample_cfg) (ap_registry sample_cfg) (exchange_credentials ?bad) = Inr sample_client"
    using sample_exchange_auth by simp
  note S = code_single_use [OF run this sample_exchange_allowed]
  from conjunct2 [OF S, rule_format, of sample_exchange w'] conjunct1 [OF S] run show ?thesis by (simp split: prod.splits)
qed

text \<open>
  C10. A sign-in yields a code only for a live session whose CSRF token was presented, and for an existing
  account that is not locked and whose password matches. The code is a fresh random draw, is bound to the
  user and to the client, redirect URI, scope, nonce and PKCE challenge of the session, and waits in the cache for
  its whole lifetime; the session is spent, and no grant or token is touched.
\<close>

theorem signin_issues_code:
  assumes "CreateAuthCode_Execute (buildAuthDeps cfg) c w = (Inr uri, w')" and "file_inv cfg w"
  shows "\<exists>s s0 u a k. mem_live (w_cache w) (clock (w_env w)) (AuthorizeRequestKey (cac_SessionID c)) = Some (CSession s0)
    \<and> s = s0\<lparr>AR_Scope := AR_Scope s\<rparr> \<and> authorize_request_Validate (cfg_prims cfg) s = None \<and> cac_CSRFToken c = AR_CSRFToken s
    \<and> users_of (w_users w) (U_ID u) = Some u \<and> U_Email u = cac_Email c \<and> ValidatePassword (cfg_prims cfg) u (cac_Password c)
    \<and> (\<forall>l. U_LockedUntil u = Some l \<longrightarrow> l \<le> clock (w_env w'))
    \<and> AC_UserID a = U_ID u \<and> AC_ClientID a = Some (AR_ClientID s) \<and> AC_RedirectURI a = AR_RedirectURI s
    \<and> AC_Scope a = AR_Scope s \<and> AC_Nonce a = AR_Nonce s \<and> AC_CodeChallenge a = AR_CodeChallenge s
    \<and> rand_ctr (w_env w) \<le> k \<and> AC_Code a = RawURLEncoding_EncodeToString (p_rand (cfg_prims cfg) k TokenBytes)
    \<and> BuildRedirectURI (cfg_prims cfg) s (AC_Code a) = Inr uri
    \<and> (\<forall>t \<le> clock (w_env w) + AuthCodeTTL. mem_live (w_cache w') t (AuthCodeKey (AC_Code a)) = Some (CCode a))
    \<and> (\<forall>t. mem_live (w_cache w') t (AuthorizeRequestKey (cac_SessionID c)) = None)
    \<and> w_rts w' = w_rts w \<and> w_grants w' = w_grants w"
proof -
  from app.signin_success [OF assms(1) inv_good [OF assms(2)]] obtain s u a where S: "app.signed_in cfg c uri s u a w w'" by blast
  then obtain s0 k where x: "mem_live (w_cache w) (clock (w_env w)) (AuthorizeRequestKey (cac_SessionID c)) = Some (CSession s0)"
    "s = s0\<lparr>AR_Scope := AR_Scope s\<rparr>" "rand_ctr (w_env w) \<le> k"
    "AC_Code a = RawURLEncoding_EncodeToString (p_rand (cfg_prims cfg) k TokenBytes)"
    unfolding app.signed_in_def buildAuthDeps_simps by blast
  show ?thesis
    using S [unfolded app.signed_in_def buildAuthDeps_simps] x
    by (elim conjE, intro conjI exI [of _ s] exI [of _ s0] exI [of _ u] exI [of _ a] exI [of _ k]) assumption+
qed

theorem signin_issues_code_witness:
  "\<exists>a. AC_UserID a = ''alice'' \<and> mem_live (w_cache (snd (CreateAuthCode_Execute (buildAuthDeps sample_cfg) (sample_signin ''Secret1!'') sample_cached)))
     Hour (AuthCodeKey (AC_Code a)) = Some (CCode a)"
proof -
  obtain uri w' where run: "CreateAuthCode_Execute (buildAuthDeps sample_cfg) (sample_signin ''Secret1!'') sample_cached = (Inr uri, w')"
    by (rule sample_signin_runs)
  obtain u a where u: "users_of (w_users sample_cached) (U_ID u) = Some u" "AC_UserID a = U_ID u"
    "\<forall>t \<le> clock (w_env sample_cached) + AuthCodeTTL. mem_live (w_cache w') t (AuthCodeKey (AC_Code a)) = Some (CCode a)"
    using signin_issues_code [OF run sample_cached_inv] by (elim exE conjE) (rule that, assumption+)
  have "Hour \<le> clock (w_env sample_cached) + AuthCodeTTL" by code_simp
  moreover have "U_ID u = ''alice''" using u(1) by (auto simp: sample_cached_def sample_world_def split: if_splits)
  ultimately show ?thesis using u run by auto
qed

text \<open>
  C11. Guessing is bounded: if a session has n tries left, then of any series of sign-in requests made
  for it, whatever credentials and CSRF tokens they carry, at most n get past the answer that there is no such session.
\<close>

theorem signin_guesses_bounded:
  assumes "\<forall>c \<in> set cs. cac_SessionID c = sid"
    and "\<forall>t v. mem_live (w_cache w) t (AuthorizeRequestKey sid) = Some v \<longrightarrow>
      (\<exists>s. v = CSession s \<and> AR_FailedAttempts s < maxFailedAttempts \<and> maxFailedAttempts - AR_FailedAttempts s \<le> int n)"
  shows "signin_run (buildAuthDeps cfg) cs w \<le> n"
  by (rule app.signin_budget [OF assms])

theorem signin_guesses_bounded_witness:
  "signin_run (buildAuthDeps sample_cfg) [sample_signin ''a'', sample_signin ''b'', sample_signin ''c'', sample_signin ''Secret1!''] sample_cached \<le> 2"
  by (rule signin_guesses_bounded [where sid = "''s1''"])
    (auto simp: sample_signin_def sample_cached_def mem_live_def sample_session_def maxFailedAttempts_def split: if_splits)

text \<open>
  C12. A locked account reveals nothing: while the lock lasts, a sign-in is refused, and its answer and everything
  it does are the same whatever password it carries.
\<close>

theorem locked_account_silent:
  assumes "CreateAuthCode_Execute (buildAuthDeps cfg) c w = (r, w')" and "file_inv cfg w"
    and "users_of (w_users w) i = Some u" and "U_Email u = cac_Email c" and "U_LockedUntil u = Some l" and "clock (w_env w') < l"
  shows "isl r \<and> (\<forall>pw. CreateAuthCode_Execute (buildAuthDeps cfg) (c\<lparr>cac_Password := pw\<rparr>) w = (r, w'))"
proof -
  note L = app.locked_signin [OF assms(1) inv_good [OF assms(2)] assms(3-6)]
  from L obtain er where "r = Inl er" by blast
  with L show ?thesis by simp
qed

theorem locked_account_silent_witness:
  "CreateAuthCode_Execute (buildAuthDeps sample_cfg) (sample_signin ''Secret1!'') (with_user (sample_user\<lparr>U_LockedUntil := Some (5 * Hour)\<rparr>) sample_cached)
   = CreateAuthCode_Execute (buildAuthDeps sample_cfg) (sample_signin ''guess'') (with_user (sample_user\<lparr>U_LockedUntil := Some (5 * Hour)\<rparr>) sample_cached)"
proof -
  let ?u = "sample_user\<lparr>U_LockedUntil := Some (5 * Hour)\<rparr>"
  let ?w = "with_user ?u sample_cached"
  obtain r w' where run: "CreateAuthCode_Execute (buildAuthDeps sample_cfg) (sample_signin ''guess'') ?w = (r, w')" by (metis surj_pair)
  have inv: "file_inv sample_cfg ?w"
    by (rule with_user_inv [OF sample_cached_inv]) (simp_all add: sample_user_def sample_cached_def)
  have sess: "on_cache (k_GetAndDelete memory_ops (AuthorizeRequestKey ''s1'') DSession) ?w
      = (Some (CSession sample_session), ?w\<lparr>w_cache := (w_cache ?w)(AuthorizeRequestKey ''s1'' := None)\<rparr>)"
    by (simp add: sample_cache_simps sample_session_ok with_user_def)
  have c: "cac_SessionID (sample_signin pw) = ''s1''" for pw by (simp add: sample_signin_def)
  have "clock (w_env (snd (CreateAuthCode_Execute (buildAuthDeps sample_cfg) (sample_signin ''guess'') ?w))) = Hour"
    unfolding CreateAuthCode_Execute_def buildAuthDeps_simps c sess prod.case option.case cval.case by code_simp
  then have time: "clock (w_env w') < 5 * Hour" using run by simp
  have e: "U_Email ?u = cac_Email (sample_signin ''guess'')" "U_LockedUntil ?u = Some (5 * Hour)"
    by (simp_all add: sample_user_def sample_signin_def)
  have "sample_signin ''Secret1!'' = sample_signin ''guess''\<lparr>cac_Password := ''Secret1!''\<rparr>" by (simp add: sample_signin_def)
  then show ?thesis
    using locked_account_silent [OF run inv with_user_of e time] run by simp
qed





end
